(* ===== verification/Go_Prelude.thy ===== *)
theory Go_Prelude
  imports Main "HOL-Library.List_Lexorder" "HOL-Library.Char_ord" "HOL-Library.Sublist"
begin

text \<open>
  What every component shares: the Go values and standard-library routines the operator's code
  uses (\<^verbatim>\<open>strings\<close>, \<^verbatim>\<open>strconv\<close>, \<^verbatim>\<open>bufio\<close>, \<^verbatim>\<open>ptr.Deref\<close>, errors as values), the lemmas about
  them, and the fact collections of the development. Strings are lists of bytes and the texts the
  operator handles are ASCII; \<^verbatim>\<open>int\<close> is the 64-bit integer of the platforms the operator is built
  for, modelled as an unbounded \<open>int\<close> with the range check written out where the code meets it
  (\<^verbatim>\<open>strconv.Atoi\<close>).
\<close>

named_theorems go_simps \<open>unfolding rules for the Go standard-library model\<close>

subsection \<open>Errors as values\<close>

text \<open>
  \<open>ErrNew\<close> is \<^verbatim>\<open>errors.New\<close> or a \<^verbatim>\<open>fmt.Errorf\<close> without an inner error. \<open>ErrCtx\<close> is
  \<^verbatim>\<open>fmt.Errorf("...: %v", err)\<close>: it keeps the text of the inner error but does not wrap it, so
  \<^verbatim>\<open>errors.Is\<close> and \<^verbatim>\<open>apierrors.IsNotFound\<close> do not see through it. \<open>ErrNotFound\<close> is the
  Kubernetes API's not-found error, \<open>ErrExt\<close> any other error of code outside the repository.
  \<open>ErrMulti\<close> is a \<^verbatim>\<open>multierror.Error\<close> with its list of errors.
\<close>

datatype go_error =
    ErrNew string
  | ErrCtx string go_error
  | ErrNotFound string
  | ErrExt string
  | ErrMulti "go_error list"

type_synonym 'a result = "go_error + 'a"

fun IsNotFound :: "go_error \<Rightarrow> bool" where
  "IsNotFound (ErrNotFound _) = True"
| "IsNotFound _ = False"

text \<open>\<^verbatim>\<open>client.IgnoreNotFound\<close>: a not-found error becomes no error.\<close>

definition IgnoreNotFound :: "go_error \<Rightarrow> go_error option" where
  "IgnoreNotFound e = (if IsNotFound e then None else Some e)"

text \<open>Early return on error: \<^verbatim>\<open>x, err := m; if err != nil { return err }; f(x)\<close>.\<close>

primrec and_then :: "'a result \<Rightarrow> ('a \<Rightarrow> 'b result) \<Rightarrow> 'b result" where
  "and_then (Inl e) f = Inl e"
| "and_then (Inr a) f = f a"

primrec with_ctx :: "string \<Rightarrow> 'a result \<Rightarrow> 'a result" where
  "with_ctx msg (Inl e) = Inl (ErrCtx msg e)"
| "with_ctx msg (Inr a) = Inr a"

lemma and_then_Inr [simp]: "and_then m f = Inr b \<longleftrightarrow> (\<exists>a. m = Inr a \<and> f a = Inr b)"
  by (cases m) auto

lemma with_ctx_Inr [simp]: "with_ctx msg m = Inr a \<longleftrightarrow> m = Inr a"
  by (cases m) auto

text \<open>\<^verbatim>\<open>ptr.Deref(p, d)\<close> with a pointer modelled as an option.\<close>

definition Deref :: "'a option \<Rightarrow> 'a \<Rightarrow> 'a" where
  "Deref p d = (case p of None \<Rightarrow> d | Some x \<Rightarrow> x)"

lemma Deref_simps [simp]: "Deref None d = d" "Deref (Some x) d = x"
  by (simp_all add: Deref_def)

text \<open>\<^verbatim>\<open>if p == nil { p = ptr.To(d) }\<close>: the default idiom of every \<^verbatim>\<open>SetDefaults\<close>.\<close>

definition or_default :: "'a option \<Rightarrow> 'a \<Rightarrow> 'a option" where
  "or_default p d = (case p of None \<Rightarrow> Some d | Some x \<Rightarrow> Some x)"

lemma or_default_simps [simp]:
  "or_default None d = Some d" "or_default (Some x) d = Some x"
  "or_default p d \<noteq> None" "or_default (or_default p d) d' = or_default p d"
  by (cases p; simp add: or_default_def)+

lemma Deref_or_default [simp]: "Deref (or_default p d) d' = Deref p d"
  by (cases p) simp_all

lemma or_default_ex [simp]: "\<exists>x. or_default p d = Some x"
  by (cases p) simp_all

subsection \<open>Lists\<close>

lemma find_append_case:
  "find P (xs @ ys) = (case find P xs of None \<Rightarrow> find P ys | Some x \<Rightarrow> Some x)"
  by (induction xs) auto

lemma find_SomeD: "find P xs = Some x \<Longrightarrow> x \<in> set xs \<and> P x"
  by (induction xs) (auto split: if_splits)

lemma find_NoneD: "find P xs = None \<Longrightarrow> x \<in> set xs \<Longrightarrow> \<not> P x"
  by (induction xs) (auto split: if_splits)

subsection \<open>strings\<close>

text \<open>\<^verbatim>\<open>strings.Split(s, sep)\<close> for a one-byte separator: never empty, and the empty string
  gives one empty part.\<close>

fun split_on :: "char \<Rightarrow> string \<Rightarrow> string list" where
  "split_on c [] = [[]]"
| "split_on c (x # xs) =
     (if x = c then [] # split_on c xs
      else (case split_on c xs of [] \<Rightarrow> [[x]] | w # ws \<Rightarrow> (x # w) # ws))"

fun join_with :: "string \<Rightarrow> string list \<Rightarrow> string" where
  "join_with sep [] = []"
| "join_with sep [w] = w"
| "join_with sep (w # ws) = w @ sep @ join_with sep ws"

lemma split_on_nonempty [simp]: "split_on c s \<noteq> []"
  by (induction s) (auto split: list.splits)

lemma split_on_no_sep: "c \<notin> set s \<Longrightarrow> split_on c s = [s]"
  by (induction s) auto

lemma split_on_append: "split_on c (s @ c # t) = split_on c s @ split_on c t"
proof (induction s)
  case (Cons x xs)
  show ?case
  proof (cases "split_on c xs")
    case (Cons w ws)
    with Cons.IH show ?thesis by simp
  qed simp
qed simp

lemma split_on_append_sep: "c \<notin> set s \<Longrightarrow> split_on c (s @ c # t) = s # split_on c t"
  by (simp add: split_on_append split_on_no_sep)

lemma join_with_Cons [simp]: "ws \<noteq> [] \<Longrightarrow> join_with sep (w # ws) = w @ sep @ join_with sep ws"
  by (cases ws) auto

lemma join_with_Cons_Cons [simp]:
  "join_with sep ((x # w) # ws) = x # join_with sep (w # ws)"
  by (cases ws) auto

lemma join_split_on: "join_with [c] (split_on c s) = s"
proof (induction s)
  case (Cons x xs)
  show ?case
  proof (cases "split_on c xs")
    case (Cons w ws)
    with Cons.IH show ?thesis by simp
  qed simp
qed simp

lemma split_on_parts_no_sep: "w \<in> set (split_on c s) \<Longrightarrow> c \<notin> set w"
proof (induction s arbitrary: w)
  case (Cons x xs)
  then show ?case by (cases "split_on c xs") (auto split: if_splits)
qed simp

lemma split_on_join:
  "ws \<noteq> [] \<Longrightarrow> \<forall>w \<in> set ws. c \<notin> set w \<Longrightarrow> split_on c (join_with [c] ws) = ws"
proof (induction ws)
  case (Cons w ws)
  then show ?case
    by (cases ws) (auto simp: split_on_no_sep split_on_append_sep)
qed simp

lemma last_split_on_append: "c \<notin> set t \<Longrightarrow> last (split_on c (s @ c # t)) = t"
  by (simp add: split_on_append split_on_no_sep)

text \<open>\<^verbatim>\<open>strings.Split(s, sep)\<close> for a longer separator: leftmost non-overlapping matches.\<close>

function split_str_acc :: "string \<Rightarrow> string \<Rightarrow> string \<Rightarrow> string list" where
  "split_str_acc sep acc s =
     (if s = [] \<or> sep = [] then [rev acc @ s]
      else if prefix sep s then rev acc # split_str_acc sep [] (drop (length sep) s)
      else split_str_acc sep (hd s # acc) (tl s))"
  by pat_completeness auto
termination
  by (relation "measure (\<lambda>(sep, acc, s). length s)") auto

declare split_str_acc.simps [simp del]

definition split_str :: "string \<Rightarrow> string \<Rightarrow> string list" where
  "split_str sep s = split_str_acc sep [] s"

text \<open>\<^verbatim>\<open>strings.HasPrefix\<close>, \<^verbatim>\<open>HasSuffix\<close> and \<^verbatim>\<open>TrimPrefix\<close>.\<close>

definition HasPrefix :: "string \<Rightarrow> string \<Rightarrow> bool" where
  "HasPrefix s p \<longleftrightarrow> prefix p s"

definition HasSuffix :: "string \<Rightarrow> string \<Rightarrow> bool" where
  "HasSuffix s p \<longleftrightarrow> suffix p s"

definition TrimPrefix :: "string \<Rightarrow> string \<Rightarrow> string" where
  "TrimPrefix s p = (if HasPrefix s p then drop (length p) s else s)"

lemma HasPrefix_append [simp]: "HasPrefix (p @ s) p"
  by (simp add: HasPrefix_def)

lemma TrimPrefix_append [simp]: "TrimPrefix (p @ s) p = s"
  by (simp add: TrimPrefix_def)

text \<open>\<^verbatim>\<open>strings.TrimSpace\<close> on ASCII text: tab, line feed, vertical tab, form feed, carriage return
  and space are cut at both ends.\<close>

definition is_space :: "char \<Rightarrow> bool" where
  "is_space c \<longleftrightarrow> c \<in> {CHR 0x09, CHR 0x0A, CHR 0x0B, CHR 0x0C, CHR 0x0D, CHR 0x20}"

definition TrimSpace :: "string \<Rightarrow> string" where
  "TrimSpace s = rev (dropWhile is_space (rev (dropWhile is_space s)))"

lemma dropWhile_id: "(\<forall>x \<in> set s. \<not> P x) \<Longrightarrow> dropWhile P s = s"
  by (cases s) auto

lemma TrimSpace_no_space [simp]: "(\<forall>c \<in> set s. \<not> is_space c) \<Longrightarrow> TrimSpace s = s"
  by (simp add: TrimSpace_def dropWhile_id)

lemma TrimSpace_leading [simp]: "is_space c \<Longrightarrow> TrimSpace (c # s) = TrimSpace s"
  by (simp add: TrimSpace_def)

subsection \<open>strconv\<close>

text \<open>\<^verbatim>\<open>strconv.Itoa\<close>, \<^verbatim>\<open>fmt.Sprintf("%d", i)\<close>: decimal digits, a minus sign for negatives.\<close>

definition digit_char :: "nat \<Rightarrow> char" where
  "digit_char d = char_of (48 + d)"

definition digit_val :: "char \<Rightarrow> nat option" where
  "digit_val c = (let n = of_char c in if 48 \<le> n \<and> n \<le> 57 then Some (n - 48) else None)"

fun utoa :: "nat \<Rightarrow> string" where
  "utoa n = (if n < 10 then [digit_char n] else utoa (n div 10) @ [digit_char (n mod 10)])"

declare utoa.simps [simp del]

definition Itoa :: "int \<Rightarrow> string" where
  "Itoa i = (if i < 0 then CHR ''-'' # utoa (nat (- i)) else utoa (nat i))"

text \<open>\<^verbatim>\<open>strconv.Atoi\<close>: an optional sign, at least one digit, nothing else, and a value in the
  64-bit range; \<open>None\<close> is the syntax or range error.\<close>

fun atou_acc :: "nat \<Rightarrow> string \<Rightarrow> nat option" where
  "atou_acc acc [] = Some acc"
| "atou_acc acc (c # cs) =
     (case digit_val c of None \<Rightarrow> None | Some d \<Rightarrow> atou_acc (10 * acc + d) cs)"

definition atou :: "string \<Rightarrow> nat option" where
  "atou s = (if s = [] then None else atou_acc 0 s)"

definition int64 :: "int \<Rightarrow> bool" where
  "int64 i \<longleftrightarrow> - (2 ^ 63) \<le> i \<and> i < 2 ^ 63"

definition Atoi :: "string \<Rightarrow> int option" where
  "Atoi s =
     (let v = (case s of
                 [] \<Rightarrow> None
               | c # cs \<Rightarrow>
                   if c = CHR ''-'' then map_option (\<lambda>n. - int n) (atou cs)
                   else if c = CHR ''+'' then map_option int (atou cs)
                   else map_option int (atou s))
      in case v of None \<Rightarrow> None | Some i \<Rightarrow> if int64 i then Some i else None)"

lemma digit_char_simps [simp]:
  "digit_char 0 = CHR ''0''" "digit_char (Suc 0) = CHR ''1''" "digit_char 1 = CHR ''1''"
  "digit_char 2 = CHR ''2''" "digit_char 3 = CHR ''3''" "digit_char 4 = CHR ''4''"
  "digit_char 5 = CHR ''5''" "digit_char 6 = CHR ''6''" "digit_char 7 = CHR ''7''"
  "digit_char 8 = CHR ''8''" "digit_char 9 = CHR ''9''"
  by (simp_all add: digit_char_def char_of_def bit_numeral_rec bit_0)

lemma digit_val_char [simp]: "d < 10 \<Longrightarrow> digit_val (digit_char d) = Some d"
  by (simp add: digit_val_def digit_char_def Let_def)

lemma digit_char_range: "d < 10 \<Longrightarrow> of_char (digit_char d) \<in> {48..57::nat}"
  by (simp add: digit_char_def)

lemma atou_acc_append:
  "atou_acc acc (s @ t) = (case atou_acc acc s of None \<Rightarrow> None | Some m \<Rightarrow> atou_acc m t)"
  by (induction s arbitrary: acc) (auto split: option.splits)

lemma utoa_nonempty [simp]: "utoa n \<noteq> []"
  by (subst utoa.simps) simp

lemma atou_acc_utoa: "atou_acc 0 (utoa n) = Some n"
proof (induction n rule: utoa.induct)
  case (1 n)
  show ?case
  proof (cases "n < 10")
    case True
    then show ?thesis by (subst utoa.simps) simp
  next
    case False
    with "1.IH" have "atou_acc 0 (utoa (n div 10) @ [digit_char (n mod 10)]) = Some n"
      by (simp add: atou_acc_append)
    with False show ?thesis by (subst utoa.simps) simp
  qed
qed

lemma utoa_digits: "c \<in> set (utoa n) \<Longrightarrow> of_char c \<in> {48..57::nat}"
proof (induction n rule: utoa.induct)
  case (1 n)
  then show ?case
    using digit_char_range [of n] digit_char_range [of "n mod 10"]
    by (subst (asm) utoa.simps) (auto split: if_splits)
qed

lemma utoa_no_sep:
  assumes "of_char c \<notin> {48..57::nat}"
  shows "c \<notin> set (utoa n)"
  using assms utoa_digits by blast

lemma utoa_hd: "\<exists>c cs. utoa n = c # cs \<and> c \<noteq> CHR ''-'' \<and> c \<noteq> CHR ''+''"
proof -
  obtain c cs where u: "utoa n = c # cs" by (cases "utoa n") auto
  with utoa_digits [of c n] have "of_char c \<in> {48..57::nat}" by simp
  then have "c \<noteq> CHR ''-'' \<and> c \<noteq> CHR ''+''" by auto
  with u show ?thesis by blast
qed

lemma atou_utoa [simp]: "atou (utoa n) = Some n"
  by (simp add: atou_def atou_acc_utoa)

lemma Atoi_utoa: "int64 (int n) \<Longrightarrow> Atoi (utoa n) = Some (int n)"
  using utoa_hd [of n] atou_utoa [of n] by (auto simp: Atoi_def simp del: atou_utoa)

lemma Atoi_Itoa: "int64 i \<Longrightarrow> Atoi (Itoa i) = Some i"
  by (cases "i < 0") (auto simp: Itoa_def Atoi_utoa, simp add: Atoi_def)

lemma Atoi_range: "Atoi s = Some i \<Longrightarrow> int64 i"
  by (auto simp: Atoi_def Let_def split: option.splits if_splits list.splits)

lemma Itoa_no_sep:
  assumes "of_char c \<notin> {48..57::nat}" and "c \<noteq> CHR ''-''"
  shows "c \<notin> set (Itoa i)"
  using assms utoa_no_sep by (auto simp: Itoa_def)

lemma Itoa_nat_no_sep:
  assumes "of_char c \<notin> {48..57::nat}"
  shows "c \<notin> set (Itoa (int n))"
  using assms utoa_no_sep by (auto simp: Itoa_def)

lemma Itoa_no_space [simp]: "c \<in> set (Itoa i) \<Longrightarrow> \<not> is_space c"
  using Itoa_no_sep [of c i] by (auto simp: is_space_def)

lemma digit_char_mem:
  assumes "d < 10"
  shows "list_all P ''0123456789'' \<Longrightarrow> P (digit_char d)"
proof -
  have "d = 0 \<or> d = 1 \<or> d = 2 \<or> d = 3 \<or> d = 4 \<or> d = 5 \<or> d = 6 \<or> d = 7 \<or> d = 8 \<or> d = 9"
    using assms by arith
  then show "list_all P ''0123456789'' \<Longrightarrow> P (digit_char d)" by (elim disjE) simp_all
qed

lemma utoa_all: "list_all P ''0123456789'' \<Longrightarrow> list_all P (utoa n)"
proof (induction n rule: utoa.induct)
  case (1 n)
  have a: "P (digit_char n)" if "n < 10"
    by (rule digit_char_mem [OF that "1.prems"])
  have b: "P (digit_char (n mod 10))" by (rule digit_char_mem [OF _ "1.prems"]) simp
  show ?case
  proof (cases "n < 10")
    case True
    with a show ?thesis by (subst utoa.simps) simp
  next
    case False
    with "1.IH" "1.prems" have "list_all P (utoa (n div 10))" by blast
    with False b show ?thesis by (subst utoa.simps) simp
  qed
qed

lemma Itoa_all: "list_all P ''-0123456789'' \<Longrightarrow> list_all P (Itoa i)"
  using utoa_all [of P "nat i"] utoa_all [of P "nat (- i)"] by (simp add: Itoa_def)

lemma length_utoa: "n < 10 ^ Suc k \<Longrightarrow> length (utoa n) \<le> Suc k"
proof (induction n arbitrary: k rule: utoa.induct)
  case (1 n)
  show ?case
  proof (cases "n < 10")
    case True
    then show ?thesis by (subst utoa.simps) simp
  next
    case False
    with "1.prems" obtain k' where k: "k = Suc k'" by (cases k) auto
    with "1.prems" have "n div 10 < 10 ^ Suc k'" by auto
    with "1.IH" False have "length (utoa (n div 10)) \<le> Suc k'" by blast
    with False k show ?thesis by (subst utoa.simps) simp
  qed
qed

lemma length_Itoa:
  assumes "int64 i"
  shows "length (Itoa i) \<le> 20"
proof -
  have "nat i < 10 ^ Suc 18" "nat (- i) < 10 ^ Suc 18" using assms by (auto simp: int64_def)
  then show ?thesis using length_utoa [of "nat i" 18] length_utoa [of "nat (- i)" 18]
    by (auto simp: Itoa_def)
qed

lemma Itoa_inject: "int64 i \<Longrightarrow> int64 j \<Longrightarrow> Itoa i = Itoa j \<longleftrightarrow> i = j"
  by (metis Atoi_Itoa option.inject)

lemma int64_small [simp]: "0 \<le> i \<Longrightarrow> i < 2 ^ 31 \<Longrightarrow> int64 i"
  by (simp add: int64_def)

subsection \<open>bufio.Scanner with ScanLines\<close>

text \<open>
  Lines end at a line feed, one carriage return before it is cut, and a final line feed opens no
  further line. The scanner's buffer holds 65536 bytes: it stops, silently, at the first line that
  does not fit with its terminator.
\<close>

definition drop_cr :: "string \<Rightarrow> string" where
  "drop_cr l = (if l \<noteq> [] \<and> last l = CHR 0x0D then butlast l else l)"

definition raw_lines :: "string \<Rightarrow> string list" where
  "raw_lines s = (let ls = split_on (CHR 0x0A) s in if last ls = [] then butlast ls else ls)"

definition scan_lines :: "string \<Rightarrow> string list" where
  "scan_lines s = map drop_cr (takeWhile (\<lambda>l. length l < 65536) (raw_lines s))"

lemma drop_cr_id [simp]: "CHR 0x0D \<notin> set l \<Longrightarrow> drop_cr l = l"
  by (auto simp: drop_cr_def dest: last_in_set)

end
