(* ===== verification/Statefulset.thy ===== *)
theory Statefulset
  imports Go_Prelude
begin

text \<open>
  \<^verbatim>\<open>pkg/statefulset\<close>: the names of the Pods and Services of a StatefulSet, and the Pod index read
  back from a Pod name. The \<^verbatim>\<open>CLUSTER_NAME\<close> environment variable is an argument (\<open>env\<close>).
\<close>

record ObjectMeta =
  Name :: string
  Namespace :: string
  UID :: string

record NamespacedName =
  nn_Name :: string
  nn_Namespace :: string

definition clusterName :: "string \<Rightarrow> string" where
  "clusterName env = (if env = '''' then ''cluster.local'' else env)"

definition ServiceFQDNWithService :: "string \<Rightarrow> ObjectMeta \<Rightarrow> string \<Rightarrow> string" where
  "ServiceFQDNWithService env meta service =
     service @ ''.'' @ Namespace meta @ ''.svc.'' @ clusterName env"

definition ServiceFQDN :: "string \<Rightarrow> ObjectMeta \<Rightarrow> string" where
  "ServiceFQDN env meta = ServiceFQDNWithService env meta (Name meta)"

definition HeadlessServiceNameVariants :: "string \<Rightarrow> ObjectMeta \<Rightarrow> string \<Rightarrow> string \<Rightarrow> string list" where
  "HeadlessServiceNameVariants env meta pod service =
     [pod @ ''.'' @ service @ ''.'' @ Namespace meta @ ''.svc.'' @ clusterName env,
      pod @ ''.'' @ service @ ''.'' @ Namespace meta @ ''.svc'',
      pod @ ''.'' @ service @ ''.'' @ Namespace meta,
      pod @ ''.'' @ service]"

definition ServiceNameVariants :: "string \<Rightarrow> ObjectMeta \<Rightarrow> string \<Rightarrow> string list" where
  "ServiceNameVariants env meta service =
     [ServiceFQDNWithService env meta service,
      service @ ''.'' @ Namespace meta @ ''.svc'',
      service @ ''.'' @ Namespace meta,
      service]"

definition PodName :: "ObjectMeta \<Rightarrow> int \<Rightarrow> string" where
  "PodName meta podIndex = Name meta @ ''-'' @ Itoa podIndex"

definition PodFQDNWithService :: "string \<Rightarrow> ObjectMeta \<Rightarrow> int \<Rightarrow> string \<Rightarrow> string" where
  "PodFQDNWithService env meta podIndex service =
     PodName meta podIndex @ ''.'' @ ServiceFQDNWithService env meta service"

definition PodShortFQDNWithService :: "ObjectMeta \<Rightarrow> int \<Rightarrow> string \<Rightarrow> string" where
  "PodShortFQDNWithService meta podIndex service = PodName meta podIndex @ ''.'' @ service"

definition PodIndex :: "string \<Rightarrow> int result" where
  "PodIndex podName =
     (let parts = split_on (CHR ''-'') podName
      in if length parts = 0 then Inl (ErrNew ''invalid Pod name'')
         else case Atoi (last parts) of
                None \<Rightarrow> Inl (ErrNew ''invalid Pod name'')
              | Some index \<Rightarrow> Inr index)"

definition ValidPodName :: "ObjectMeta \<Rightarrow> int \<Rightarrow> string \<Rightarrow> unit result" where
  "ValidPodName meta replicas podName =
     (if replicas < 0 then Inl (ErrNew ''replicas must be positive'')
      else case PodIndex podName of
        Inl e \<Rightarrow> Inl (ErrCtx ''invalid Pod index'' e)
      | Inr index \<Rightarrow>
          if index < 0 \<or> index \<ge> replicas then Inl (ErrNew ''index out of replicas range'')
          else if \<not> HasPrefix podName (Name meta) then Inl (ErrNew ''invalid Pod name: must start with'')
          else Inr ())"

subsection \<open>Reading back what was printed\<close>

lemma split_PodName:
  assumes "0 \<le> i"
  shows "split_on (CHR ''-'') (PodName meta i) = split_on (CHR ''-'') (Name meta) @ [Itoa i]"
proof -
  have "CHR ''-'' \<notin> set (Itoa i)" using assms Itoa_nat_no_sep [of "CHR ''-''" "nat i"] by simp
  then show ?thesis by (simp add: PodName_def split_on_append split_on_no_sep)
qed

lemma PodIndex_PodName_int64:
  "0 \<le> i \<Longrightarrow> int64 i \<Longrightarrow> PodIndex (PodName meta i) = Inr i"
  by (simp add: PodIndex_def split_PodName Atoi_Itoa)

lemma PodName_inject: "PodName meta i = PodName meta j \<Longrightarrow> int64 i \<Longrightarrow> int64 j \<Longrightarrow> i = j"
  by (simp add: PodName_def Itoa_inject)

lemma PodName_neq:
  "0 \<le> i \<Longrightarrow> 0 \<le> j \<Longrightarrow> i < 2 ^ 31 \<Longrightarrow> j < 2 ^ 31 \<Longrightarrow> PodName meta i = PodName meta j \<longleftrightarrow> i = j"
  using PodName_inject [of meta i j] by auto

text \<open>The index read from a Pod name is the index the name was made from, for every StatefulSet
  name (dashes included) and every index of a StatefulSet (replicas are 32-bit), and such a name
  is accepted by \<^verbatim>\<open>ValidPodName\<close> exactly when the index is below the number of replicas.\<close>

theorem PodIndex_PodName:
  assumes "0 \<le> i" and "i < 2 ^ 31" and "0 \<le> replicas"
  shows "PodIndex (PodName meta i) = Inr i \<and>
    (ValidPodName meta replicas (PodName meta i) = Inr () \<longleftrightarrow> i < replicas)"
proof -
  have "PodIndex (PodName meta i) = Inr i"
    using assms by (intro PodIndex_PodName_int64) auto
  moreover have "HasPrefix (PodName meta i) (Name meta)" by (simp add: PodName_def)
  ultimately show ?thesis using assms by (auto simp: ValidPodName_def)
qed

theorem PodIndex_PodName_witness:
  "PodIndex (PodName \<lparr>Name = ''mariadb-galera'', Namespace = ''ns'', UID = ''''\<rparr> 12) = Inr 12 \<and>
    ValidPodName \<lparr>Name = ''mariadb-galera'', Namespace = ''ns'', UID = ''''\<rparr> 13 ''mariadb-galera-12'' = Inr () \<and>
    ValidPodName \<lparr>Name = ''mariadb-galera'', Namespace = ''ns'', UID = ''''\<rparr> 12 ''mariadb-galera-12'' \<noteq> Inr ()"
proof -
  let ?m = "\<lparr>Name = ''mariadb-galera'', Namespace = ''ns'', UID = ''''\<rparr>"
  have n: "PodName ?m 12 = ''mariadb-galera-12''"
    by (simp add: PodName_def Itoa_def utoa.simps)
  show ?thesis
    using PodIndex_PodName [of 12 13 ?m] PodIndex_PodName [of 12 12 ?m] by (simp add: n)
qed

text \<open>\<^verbatim>\<open>ValidPodName\<close> only checks a name prefix and a trailing index: with the name of a StatefulSet
  that is a prefix of another's it accepts a Pod of the other one, which is the name of no Pod of
  the StatefulSet it was asked about.\<close>

theorem ValidPodName_accepts_foreign_pod:
  "ValidPodName \<lparr>Name = ''mariadb'', Namespace = ns, UID = u\<rparr> 3 ''mariadb-other-0'' = Inr () \<and>
    ''mariadb-other-0'' \<noteq> PodName \<lparr>Name = ''mariadb'', Namespace = ns, UID = u\<rparr> i"
proof -
  have "ValidPodName \<lparr>Name = ''mariadb'', Namespace = ns, UID = u\<rparr> 3 ''mariadb-other-0'' = Inr ()"
    by (simp add: ValidPodName_def PodIndex_def Atoi_def atou_def digit_val_def int64_def HasPrefix_def)
  moreover have "CHR ''o'' \<notin> set (Itoa i)" by (rule Itoa_no_sep) auto
  then have "''mariadb-other-0'' \<noteq> PodName \<lparr>Name = ''mariadb'', Namespace = ns, UID = u\<rparr> i"
    by (auto simp: PodName_def) (metis list.set_intros(1))
  ultimately show ?thesis by blast
qed

end
