(* ===== verification/Galera_State.thy ===== *)
theory Galera_State
  imports Go_Prelude
begin

text \<open>
  \<^verbatim>\<open>pkg/galera/recovery\<close>: the Galera state file (\<^verbatim>\<open>grastate.dat\<close>), the position recovered by a
  recovery Job, and their order by sequence number. \<^verbatim>\<open>uuid.Parse\<close> of \<^verbatim>\<open>github.com/google/uuid\<close> is
  the argument \<open>uuid_ok\<close> (does it parse). The state file is rendered with \<^verbatim>\<open>html/template\<close>, whose
  escaping of text is part of the model.
\<close>

record GaleraState =
  gs_Version :: string
  gs_UUID :: string
  gs_Seqno :: int
  gs_SafeToBootstrap :: bool

record Bootstrap =
  b_UUID :: string
  b_Seqno :: int

text \<open>The interface type \<^verbatim>\<open>GaleraRecoverer\<close>: a value of one of its two implementations.\<close>

datatype GaleraRecoverer = RecState GaleraState | RecBootstrap Bootstrap

fun GetUUID :: "GaleraRecoverer \<Rightarrow> string" where
  "GetUUID (RecState g) = gs_UUID g"
| "GetUUID (RecBootstrap b) = b_UUID b"

fun GetSeqno :: "GaleraRecoverer \<Rightarrow> int" where
  "GetSeqno (RecState g) = gs_Seqno g"
| "GetSeqno (RecBootstrap b) = b_Seqno b"

definition GaleraState_Compare :: "GaleraState \<Rightarrow> GaleraRecoverer option \<Rightarrow> int" where
  "GaleraState_Compare g other =
     (case other of
        None \<Rightarrow> 1
      | Some o' \<Rightarrow> if gs_Seqno g < GetSeqno o' then - 1 else if gs_Seqno g > GetSeqno o' then 1 else 0)"

definition Bootstrap_Compare :: "Bootstrap \<Rightarrow> GaleraRecoverer option \<Rightarrow> int" where
  "Bootstrap_Compare b other =
     (case other of
        None \<Rightarrow> 1
      | Some o' \<Rightarrow> if b_Seqno b < GetSeqno o' then - 1 else if b_Seqno b > GetSeqno o' then 1 else 0)"

subsection \<open>Rendering the state file\<close>

text \<open>\<^verbatim>\<open>html/template\<close> in text context: the bytes of its replacement table are escaped.\<close>

definition html_escape_char :: "char \<Rightarrow> string" where
  "html_escape_char c =
     (if c = CHR 0x00 then [CHR 0xEF, CHR 0xBF, CHR 0xBD]
      else if c = CHR 0x22 then ''&#34;''
      else if c = CHR ''&'' then ''&amp;''
      else if c = CHR 0x27 then ''&#39;''
      else if c = CHR ''+'' then ''&#43;''
      else if c = CHR ''<'' then ''&lt;''
      else if c = CHR ''>'' then ''&gt;''
      else [c])"

definition html_escape :: "string \<Rightarrow> string" where
  "html_escape s = concat (map html_escape_char s)"

definition nl :: string where
  "nl = [CHR 0x0A]"

definition GaleraState_Marshal :: "(string \<Rightarrow> bool) \<Rightarrow> GaleraState \<Rightarrow> string result" where
  "GaleraState_Marshal uuid_ok g =
     (if \<not> uuid_ok (gs_UUID g) then Inl (ErrNew ''invalid uuid'')
      else Inr (''version: '' @ html_escape (gs_Version g) @ nl @
                ''uuid: '' @ html_escape (gs_UUID g) @ nl @
                ''seqno: '' @ html_escape (Itoa (gs_Seqno g)) @ nl @
                ''safe_to_bootstrap: '' @
                  html_escape (Itoa (if gs_SafeToBootstrap g then 1 else 0))))"

subsection \<open>Reading the state file\<close>

definition parseBool :: "string \<Rightarrow> bool result" where
  "parseBool s =
     (case Atoi s of
        None \<Rightarrow> Inl (ErrNew ''error parsing integer bool'')
      | Some i \<Rightarrow> if i \<noteq> 0 \<and> i \<noteq> 1 then Inl (ErrNew ''invalid integer bool'') else Inr (i = 1))"

text \<open>The four pointers the scanning loop fills.\<close>

record state_fields =
  f_version :: "string option"
  f_uuid :: "string option"
  f_seqno :: "int option"
  f_safe :: "bool option"

definition no_fields :: state_fields where
  "no_fields = \<lparr>f_version = None, f_uuid = None, f_seqno = None, f_safe = None\<rparr>"

definition state_line :: "(string \<Rightarrow> bool) \<Rightarrow> state_fields \<Rightarrow> string \<Rightarrow> state_fields result" where
  "state_line uuid_ok f line =
     (let parts = split_on (CHR '':'') line
      in if length parts \<noteq> 2 then Inr f
         else let key = TrimSpace (parts ! 0); value = TrimSpace (parts ! 1)
           in if key = ''version'' then Inr (f\<lparr>f_version := Some value\<rparr>)
              else if key = ''uuid'' then
                (if \<not> uuid_ok value then Inl (ErrNew ''error parsing uuid'')
                 else Inr (f\<lparr>f_uuid := Some value\<rparr>))
              else if key = ''seqno'' then
                (case Atoi value of
                   None \<Rightarrow> Inl (ErrNew ''error parsing seqno'')
                 | Some i \<Rightarrow> Inr (f\<lparr>f_seqno := Some i\<rparr>))
              else if key = ''safe_to_bootstrap'' then
                (case parseBool value of
                   Inl e \<Rightarrow> Inl (ErrCtx ''error parsing safe_to_bootstrap'' e)
                 | Inr b \<Rightarrow> Inr (f\<lparr>f_safe := Some b\<rparr>))
              else Inr f)"

fun state_lines :: "(string \<Rightarrow> bool) \<Rightarrow> state_fields \<Rightarrow> string list \<Rightarrow> state_fields result" where
  "state_lines uuid_ok f [] = Inr f"
| "state_lines uuid_ok f (l # ls) =
     (case state_line uuid_ok f l of Inl e \<Rightarrow> Inl e | Inr f' \<Rightarrow> state_lines uuid_ok f' ls)"

definition GaleraState_Unmarshal :: "(string \<Rightarrow> bool) \<Rightarrow> string \<Rightarrow> GaleraState result" where
  "GaleraState_Unmarshal uuid_ok raw =
     (case state_lines uuid_ok no_fields (scan_lines raw) of
        Inl e \<Rightarrow> Inl e
      | Inr f \<Rightarrow>
          (case (f_version f, f_uuid f, f_seqno f, f_safe f) of
             (Some v, Some u, Some s, Some b) \<Rightarrow>
               Inr \<lparr>gs_Version = v, gs_UUID = u, gs_Seqno = s, gs_SafeToBootstrap = b\<rparr>
           | _ \<Rightarrow> Inl (ErrNew ''invalid galera state file'')))"

subsection \<open>Reading the recovered position\<close>

definition Bootstrap_Validate :: "(string \<Rightarrow> bool) \<Rightarrow> Bootstrap \<Rightarrow> unit result" where
  "Bootstrap_Validate uuid_ok b =
     (if uuid_ok (b_UUID b) then Inr () else Inl (ErrNew ''invalid uuid''))"

definition recovered_marker :: string where
  "recovered_marker = ''WSREP: Recovered position: ''"

definition bootstrap_line :: "(string \<Rightarrow> bool) \<Rightarrow> (string \<times> int) option \<Rightarrow> string \<Rightarrow>
    (string \<times> int) option result" where
  "bootstrap_line uuid_ok cur line =
     (let parts = split_str recovered_marker line
      in if length parts \<noteq> 2 then Inr cur
         else let parts' = split_on (CHR '':'') (parts ! 1)
           in if length parts' \<noteq> 2 then Inr cur
              else let currentUUID = TrimSpace (parts' ! 0)
                in if \<not> uuid_ok currentUUID then Inl (ErrNew ''error parsing uuid'')
                   else case Atoi (TrimSpace (parts' ! 1)) of
                          None \<Rightarrow> Inl (ErrNew ''error parsing seqno'')
                        | Some currentSeqno \<Rightarrow> Inr (Some (currentUUID, currentSeqno)))"

fun bootstrap_lines :: "(string \<Rightarrow> bool) \<Rightarrow> (string \<times> int) option \<Rightarrow> string list \<Rightarrow>
    (string \<times> int) option result" where
  "bootstrap_lines uuid_ok cur [] = Inr cur"
| "bootstrap_lines uuid_ok cur (l # ls) =
     (case bootstrap_line uuid_ok cur l of
        Inl e \<Rightarrow> Inl e
      | Inr cur' \<Rightarrow> bootstrap_lines uuid_ok cur' ls)"

text \<open>The loop always sets the UUID and the sequence number together, so the two pointers are one
  option.\<close>

definition Bootstrap_Unmarshal :: "(string \<Rightarrow> bool) \<Rightarrow> string \<Rightarrow> Bootstrap result" where
  "Bootstrap_Unmarshal uuid_ok raw =
     (case bootstrap_lines uuid_ok None (scan_lines raw) of
        Inl e \<Rightarrow> Inl e
      | Inr None \<Rightarrow> Inl (ErrNew ''unable to find uuid and seqno'')
      | Inr (Some (u, s)) \<Rightarrow> Inr \<lparr>b_UUID = u, b_Seqno = s\<rparr>)"

subsection \<open>The order of recoverers\<close>

text \<open>What the choice of a bootstrap source relies on: how a candidate compares with the current
  one. Both implementations of the interface provide it.\<close>

locale recoverer =
  fixes cmp :: "'a \<Rightarrow> GaleraRecoverer option \<Rightarrow> int"
    and inj :: "'a \<Rightarrow> GaleraRecoverer"
  assumes cmp_nil: "0 \<le> cmp x None"
    and cmp_le: "0 \<le> cmp x (Some y) \<longleftrightarrow> GetSeqno y \<le> GetSeqno (inj x)"
begin

lemma cmp_ge: "0 \<le> cmp x cur \<longleftrightarrow> (\<forall>y. cur = Some y \<longrightarrow> GetSeqno y \<le> GetSeqno (inj x))"
  by (cases cur) (auto simp: cmp_nil cmp_le)

end

interpretation state_rec: recoverer GaleraState_Compare RecState
  by unfold_locales (auto simp: GaleraState_Compare_def)

interpretation boot_rec: recoverer Bootstrap_Compare RecBootstrap
  by unfold_locales (auto simp: Bootstrap_Compare_def)

subsection \<open>Round trip of the state file\<close>

text \<open>A field without white space, colons and characters the template escapes, and short enough
  for the scanner's buffer.\<close>

definition plain_char :: "char \<Rightarrow> bool" where
  "plain_char c \<longleftrightarrow> \<not> is_space c \<and> c \<noteq> CHR '':'' \<and> html_escape_char c = [c]"

definition plain_field :: "string \<Rightarrow> bool" where
  "plain_field s \<longleftrightarrow> (\<forall>c \<in> set s. plain_char c) \<and> length s < 65000"

lemma html_escape_id: "\<forall>c \<in> set s. html_escape_char c = [c] \<Longrightarrow> html_escape s = s"
  unfolding html_escape_def by (induction s) auto

lemma html_escape_plain [simp]: "plain_field s \<Longrightarrow> html_escape s = s"
  by (rule html_escape_id) (simp add: plain_field_def plain_char_def)

lemma plain_Itoa:
  assumes "int64 i"
  shows "plain_field (Itoa i)"
proof -
  have "list_all plain_char ''-0123456789''"
    by (simp add: plain_char_def is_space_def html_escape_char_def)
  then have "list_all plain_char (Itoa i)" by (rule Itoa_all)
  then show ?thesis using length_Itoa [OF assms] by (simp add: plain_field_def list_all_iff)
qed

lemma plain_field_chars:
  assumes "plain_field s"
  shows "CHR '':'' \<notin> set s" "CHR 0x0A \<notin> set s" "CHR 0x0D \<notin> set s"
    "\<forall>c \<in> set s. \<not> is_space c" "length s < 65000"
  using assms by (auto simp: plain_field_def plain_char_def is_space_def)

lemma split_key_value:
  assumes "CHR '':'' \<notin> set key" and "CHR '':'' \<notin> set v"
  shows "split_on (CHR '':'') (key @ '': '' @ v) = [key, CHR '' '' # v]"
  using assms by (simp add: split_on_append_sep split_on_no_sep)

lemma trim_value: "\<forall>c \<in> set v. \<not> is_space c \<Longrightarrow> TrimSpace (CHR '' '' # v) = v"
  by (simp add: is_space_def)

lemma scan_four_lines:
  assumes "\<forall>l \<in> {l1, l2, l3, l4}. CHR 0x0A \<notin> set l \<and> CHR 0x0D \<notin> set l \<and> length l < 65536"
    and "l4 \<noteq> []"
  shows "scan_lines (l1 @ nl @ l2 @ nl @ l3 @ nl @ l4) = [l1, l2, l3, l4]"
proof -
  have "split_on (CHR 0x0A) (l1 @ nl @ l2 @ nl @ l3 @ nl @ l4) = [l1, l2, l3, l4]"
    using assms by (simp add: nl_def split_on_append split_on_no_sep)
  with assms show ?thesis by (simp add: scan_lines_def raw_lines_def Let_def)
qed

lemma state_line_version:
  "plain_field v \<Longrightarrow> state_line ok f (''version: '' @ v) = Inr (f\<lparr>f_version := Some v\<rparr>)"
  using split_key_value [of "''version''" v] plain_field_chars [of v]
  by (simp add: state_line_def trim_value is_space_def)

lemma state_line_uuid:
  "plain_field u \<Longrightarrow> state_line ok f (''uuid: '' @ u) =
    (if ok u then Inr (f\<lparr>f_uuid := Some u\<rparr>) else Inl (ErrNew ''error parsing uuid''))"
  using split_key_value [of "''uuid''" u] plain_field_chars [of u]
  by (simp add: state_line_def trim_value is_space_def)

lemma state_line_seqno:
  "int64 i \<Longrightarrow> state_line ok f (''seqno: '' @ Itoa i) = Inr (f\<lparr>f_seqno := Some i\<rparr>)"
  using split_key_value [of "''seqno''" "Itoa i"] plain_field_chars [OF plain_Itoa, of i]
  by (simp add: state_line_def trim_value Atoi_Itoa is_space_def)

lemma state_line_safe:
  "state_line ok f (''safe_to_bootstrap: '' @ Itoa (if b then 1 else 0)) = Inr (f\<lparr>f_safe := Some b\<rparr>)"
proof -
  let ?i = "if b then 1 else 0 :: int"
  have i: "int64 ?i" by simp
  show ?thesis
    using split_key_value [of "''safe_to_bootstrap''" "Itoa ?i"] plain_field_chars [OF plain_Itoa [OF i]]
    by (simp add: state_line_def trim_value parseBool_def Atoi_Itoa [OF i] is_space_def)
qed

definition one_line :: "string \<Rightarrow> bool" where
  "one_line s \<longleftrightarrow> (\<forall>c \<in> set s. html_escape_char c = [c] \<and> c \<noteq> CHR 0x0A \<and> c \<noteq> CHR 0x0D) \<and>
     length s < 65000"

lemma one_lineD:
  assumes "one_line s"
  shows "html_escape s = s" "CHR 0x0A \<notin> set s" "CHR 0x0D \<notin> set s" "length s < 65000"
  using assms html_escape_id [of s] by (auto simp: one_line_def)

lemma plain_one_line: "plain_field s \<Longrightarrow> one_line s"
  by (auto simp: one_line_def plain_field_def plain_char_def is_space_def)

lemma Marshal_lines:
  assumes "plain_field (gs_Version g)" and "one_line (gs_UUID g)" and "int64 (gs_Seqno g)"
    and "uuid_ok (gs_UUID g)"
  shows "\<exists>raw. GaleraState_Marshal uuid_ok g = Inr raw \<and>
    scan_lines raw = [''version: '' @ gs_Version g, ''uuid: '' @ gs_UUID g,
      ''seqno: '' @ Itoa (gs_Seqno g),
      ''safe_to_bootstrap: '' @ Itoa (if gs_SafeToBootstrap g then 1 else 0)]"
proof -
  let ?b = "if gs_SafeToBootstrap g then 1 else 0 :: int"
  have b: "int64 ?b" by simp
  note plain = plain_field_chars [OF assms(1)] one_lineD [OF assms(2)]
    plain_field_chars [OF plain_Itoa [OF assms(3)]] plain_field_chars [OF plain_Itoa [OF b]]
  have "scan_lines ((''version: '' @ gs_Version g) @ nl @ (''uuid: '' @ gs_UUID g) @ nl @
      (''seqno: '' @ Itoa (gs_Seqno g)) @ nl @ (''safe_to_bootstrap: '' @ Itoa ?b)) =
    [''version: '' @ gs_Version g, ''uuid: '' @ gs_UUID g, ''seqno: '' @ Itoa (gs_Seqno g),
      ''safe_to_bootstrap: '' @ Itoa ?b]"
    using plain by (intro scan_four_lines) auto
  then show ?thesis
    using assms plain by (simp add: GaleraState_Marshal_def plain_Itoa)
qed

lemma Marshal_Unmarshal:
  assumes "plain_field (gs_Version g)" and "plain_field (gs_UUID g)" and "int64 (gs_Seqno g)"
    and "uuid_ok (gs_UUID g)"
  shows "\<exists>raw. GaleraState_Marshal uuid_ok g = Inr raw \<and>
    GaleraState_Unmarshal uuid_ok raw = Inr (g::GaleraState)"
proof -
  obtain raw where m: "GaleraState_Marshal uuid_ok g = Inr raw"
    and l: "scan_lines raw = [''version: '' @ gs_Version g, ''uuid: '' @ gs_UUID g,
      ''seqno: '' @ Itoa (gs_Seqno g),
      ''safe_to_bootstrap: '' @ Itoa (if gs_SafeToBootstrap g then 1 else 0)]"
    using Marshal_lines [of g uuid_ok] assms plain_one_line by blast
  have "state_lines uuid_ok no_fields (scan_lines raw) =
    Inr \<lparr>f_version = Some (gs_Version g), f_uuid = Some (gs_UUID g), f_seqno = Some (gs_Seqno g),
      f_safe = Some (gs_SafeToBootstrap g)\<rparr>"
    unfolding l state_lines.simps
    by (simp only: state_line_version [OF assms(1)] state_line_uuid [OF assms(2)] assms(4)
        state_line_seqno [OF assms(3)] state_line_safe sum.case if_True) (simp add: no_fields_def)
  then have "GaleraState_Unmarshal uuid_ok raw = Inr g"
    by (simp add: GaleraState_Unmarshal_def)
  with m show ?thesis by blast
qed

text \<open>Reading a rendered state file gives the state back, for every 64-bit sequence number
  (negative ones included), both values of the safe-to-bootstrap flag, and a version and a parsable
  UUID that hold no colon, white space or character the HTML template escapes. The two formats
  agree, so the agent reads what the operator had it write.\<close>

theorem GaleraState_roundtrip:
  assumes "plain_field (gs_Version g)" and "plain_field (gs_UUID g)" and "int64 (gs_Seqno g)"
    and "uuid_ok (gs_UUID g)"
  shows "\<exists>raw. GaleraState_Marshal uuid_ok g = Inr raw \<and>
    GaleraState_Unmarshal uuid_ok raw = Inr (g::GaleraState)"
  using assms by (rule Marshal_Unmarshal)

theorem GaleraState_roundtrip_witness:
  "\<exists>raw. GaleraState_Marshal (\<lambda>u. length u = 36) \<lparr>gs_Version = ''2.1'',
      gs_UUID = ''05f061bd-02a3-11ee-857c-aa370ff6666b'', gs_Seqno = - 1,
      gs_SafeToBootstrap = True\<rparr> = Inr raw \<and>
    GaleraState_Unmarshal (\<lambda>u. length u = 36) raw = Inr \<lparr>gs_Version = ''2.1'',
      gs_UUID = ''05f061bd-02a3-11ee-857c-aa370ff6666b'', gs_Seqno = - 1, gs_SafeToBootstrap = True\<rparr>"
  by (rule GaleraState_roundtrip)
    (simp_all add: plain_field_def plain_char_def is_space_def html_escape_char_def int64_def)

lemma split_colons:
  assumes "CHR '':'' \<in> set u"
  shows "length (split_on (CHR '':'') (''uuid: '' @ u)) > 2"
proof -
  obtain x y where "u = x @ CHR '':'' # y" using assms by (meson split_list)
  then have "split_on (CHR '':'') (''uuid: '' @ u) =
      split_on (CHR '':'') (''uuid'' @ CHR '':'' # (CHR '' '' # x) @ CHR '':'' # y)" by simp
  also have "\<dots> = [''uuid''] @ split_on (CHR '':'') (CHR '' '' # x) @ split_on (CHR '':'') y"
    by (simp only: split_on_append) (simp add: split_on_no_sep)
  finally have "length (split_on (CHR '':'') (''uuid: '' @ u)) =
      1 + length (split_on (CHR '':'') (CHR '' '' # x)) + length (split_on (CHR '':'') y)" by simp
  moreover have "split_on (CHR '':'') (CHR '' '' # x) \<noteq> []" "split_on (CHR '':'') y \<noteq> []"
    by (rule split_on_nonempty)+
  then have "0 < length (split_on (CHR '':'') (CHR '' '' # x))" "0 < length (split_on (CHR '':'') y)"
    by simp_all
  ultimately show ?thesis by linarith
qed

lemma state_line_uuid_colon:
  assumes "CHR '':'' \<in> set u"
  shows "state_line ok f (''uuid: '' @ u) = Inr f"
proof -
  have "length (split_on (CHR '':'') (''uuid: '' @ u)) \<noteq> 2" using split_colons [OF assms] by linarith
  then show ?thesis unfolding state_line_def Let_def by simp
qed

text \<open>A UUID in the \<^verbatim>\<open>urn:uuid:\<close> form, or any other accepted form with a colon, is rendered without
  an error into a file that cannot be read back: its line has more than one colon and is skipped.\<close>

theorem GaleraState_colon_uuid_unreadable:
  assumes "plain_field (gs_Version g)" and "int64 (gs_Seqno g)" and "uuid_ok (gs_UUID g)"
    and "one_line (gs_UUID g)" and "CHR '':'' \<in> set (gs_UUID g)"
  shows "\<exists>raw. GaleraState_Marshal uuid_ok g = Inr raw \<and>
    GaleraState_Unmarshal uuid_ok raw = Inl (ErrNew ''invalid galera state file'')"
proof -
  obtain raw where m: "GaleraState_Marshal uuid_ok g = Inr raw"
    and l: "scan_lines raw = [''version: '' @ gs_Version g, ''uuid: '' @ gs_UUID g,
      ''seqno: '' @ Itoa (gs_Seqno g),
      ''safe_to_bootstrap: '' @ Itoa (if gs_SafeToBootstrap g then 1 else 0)]"
    using Marshal_lines [of g uuid_ok] assms by blast
  have "state_lines uuid_ok no_fields (scan_lines raw) =
    Inr \<lparr>f_version = Some (gs_Version g), f_uuid = None, f_seqno = Some (gs_Seqno g),
      f_safe = Some (gs_SafeToBootstrap g)\<rparr>"
    unfolding l state_lines.simps
    by (simp only: state_line_version [OF assms(1)] state_line_uuid_colon [OF assms(5)]
        state_line_seqno [OF assms(2)] state_line_safe sum.case) (simp add: no_fields_def)
  then have "GaleraState_Unmarshal uuid_ok raw = Inl (ErrNew ''invalid galera state file'')"
    by (simp add: GaleraState_Unmarshal_def)
  with m show ?thesis by blast
qed

theorem GaleraState_colon_uuid_unreadable_witness:
  "\<exists>raw. GaleraState_Marshal (\<lambda>u. length u \<in> {36, 45}) \<lparr>gs_Version = ''2.1'',
      gs_UUID = ''urn:uuid:05f061bd-02a3-11ee-857c-aa370ff6666b'', gs_Seqno = 7,
      gs_SafeToBootstrap = False\<rparr> = Inr raw \<and>
    GaleraState_Unmarshal (\<lambda>u. length u \<in> {36, 45}) raw = Inl (ErrNew ''invalid galera state file'')"
  by (rule GaleraState_colon_uuid_unreadable)
    (simp_all add: plain_field_def plain_char_def is_space_def html_escape_char_def int64_def one_line_def)

end
