(* ===== verification/Api_Types.thy ===== *)
theory Api_Types
  imports Go_Prelude Statefulset Galera_State
begin

text \<open>
  \<^verbatim>\<open>api/v1alpha1\<close>: the MariaDB resource with its replication and Galera sections, its status, the
  defaulting and validation methods and the predicates the controllers ask. A pointer is an option,
  a duration is its number of nanoseconds, a field no modelled operation reads or writes is left
  out. The condition helpers of \<^verbatim>\<open>k8s.io/apimachinery/pkg/api/meta\<close> are the argument \<open>M\<close>.
\<close>

subsection \<open>Conditions\<close>

datatype ConditionStatus = ConditionTrue | ConditionFalse | ConditionUnknown

record Condition =
  c_Type :: string
  c_Status :: ConditionStatus
  c_Reason :: string
  c_Message :: string

record meta_api =
  SetStatusCondition :: "Condition list \<Rightarrow> Condition \<Rightarrow> Condition list"
  FindStatusCondition :: "Condition list \<Rightarrow> string \<Rightarrow> Condition option"
  IsStatusConditionTrue :: "Condition list \<Rightarrow> string \<Rightarrow> bool"
  IsStatusConditionFalse :: "Condition list \<Rightarrow> string \<Rightarrow> bool"

text \<open>What the package documents: setting a condition replaces the one of its type and leaves the
  others, and the two tests look up the type and compare the status.\<close>

definition meta_ok :: "meta_api \<Rightarrow> bool" where
  "meta_ok M \<longleftrightarrow>
     (\<forall>cs c t. FindStatusCondition M (SetStatusCondition M cs c) t =
        (if t = c_Type c then Some c else FindStatusCondition M cs t)) \<and>
     (\<forall>cs t. IsStatusConditionTrue M cs t \<longleftrightarrow>
        (\<exists>c. FindStatusCondition M cs t = Some c \<and> c_Status c = ConditionTrue)) \<and>
     (\<forall>cs t. IsStatusConditionFalse M cs t \<longleftrightarrow>
        (\<exists>c. FindStatusCondition M cs t = Some c \<and> c_Status c = ConditionFalse))"

lemma meta_okD:
  assumes "meta_ok M"
  shows "FindStatusCondition M (SetStatusCondition M cs c) t =
      (if t = c_Type c then Some c else FindStatusCondition M cs t)"
    and "IsStatusConditionTrue M cs t \<longleftrightarrow>
      (\<exists>c. FindStatusCondition M cs t = Some c \<and> c_Status c = ConditionTrue)"
    and "IsStatusConditionFalse M cs t \<longleftrightarrow>
      (\<exists>c. FindStatusCondition M cs t = Some c \<and> c_Status c = ConditionFalse)"
  using assms by (auto simp: meta_ok_def)

text \<open>An implementation of that contract on lists, used by the witnesses.\<close>

definition find_condition :: "Condition list \<Rightarrow> string \<Rightarrow> Condition option" where
  "find_condition cs t = find (\<lambda>c. c_Type c = t) cs"

fun set_condition :: "Condition list \<Rightarrow> Condition \<Rightarrow> Condition list" where
  "set_condition [] c = [c]"
| "set_condition (d # ds) c = (if c_Type d = c_Type c then c # ds else d # set_condition ds c)"

definition list_meta :: meta_api where
  "list_meta = \<lparr>SetStatusCondition = set_condition, FindStatusCondition = find_condition,
     IsStatusConditionTrue = (\<lambda>cs t. case find_condition cs t of
        None \<Rightarrow> False | Some c \<Rightarrow> c_Status c = ConditionTrue),
     IsStatusConditionFalse = (\<lambda>cs t. case find_condition cs t of
        None \<Rightarrow> False | Some c \<Rightarrow> c_Status c = ConditionFalse)\<rparr>"

lemma find_set_condition:
  "find_condition (set_condition cs c) t = (if t = c_Type c then Some c else find_condition cs t)"
  by (induction cs) (auto simp: find_condition_def)

lemma meta_ok_list_meta: "meta_ok list_meta"
  by (auto simp: meta_ok_def list_meta_def find_set_condition split: option.splits)

subsection \<open>Condition types and reasons\<close>

abbreviation (input) "ConditionTypeReady \<equiv> ''Ready''"
abbreviation (input) "ConditionTypeBackupRestored \<equiv> ''BackupRestored''"
abbreviation (input) "ConditionTypePrimarySwitched \<equiv> ''PrimarySwitched''"
abbreviation (input) "ConditionTypeGaleraReady \<equiv> ''GaleraReady''"
abbreviation (input) "ConditionTypeGaleraConfigured \<equiv> ''GaleraConfigured''"
abbreviation (input) "ConditionTypeGaleraInitialized \<equiv> ''GaleraInitialized''"
abbreviation (input) "ConditionTypeComplete \<equiv> ''Complete''"
abbreviation (input) "ConditionTypeStorageResized \<equiv> ''StorageResized''"
abbreviation (input) "ConditionTypeUpdated \<equiv> ''Updated''"
abbreviation (input) "ConditionTypeInitialized \<equiv> ''Initialized''"

subsection \<open>Replication\<close>

datatype WaitPoint = WaitPointAfterSync | WaitPointAfterCommit | WaitPointOther string

definition WaitPoint_Validate :: "WaitPoint \<Rightarrow> unit result" where
  "WaitPoint_Validate w =
     (case w of WaitPointAfterSync \<Rightarrow> Inr () | WaitPointAfterCommit \<Rightarrow> Inr ()
      | WaitPointOther _ \<Rightarrow> Inl (ErrNew ''invalid WaitPoint''))"

definition WaitPoint_MariaDBFormat :: "WaitPoint \<Rightarrow> string result" where
  "WaitPoint_MariaDBFormat w =
     (case w of WaitPointAfterSync \<Rightarrow> Inr ''AFTER_SYNC'' | WaitPointAfterCommit \<Rightarrow> Inr ''AFTER_COMMIT''
      | WaitPointOther _ \<Rightarrow> Inl (ErrNew ''invalid WaitPoint''))"

datatype Gtid = GtidCurrentPos | GtidSlavePos | GtidOther string

definition Gtid_Validate :: "Gtid \<Rightarrow> unit result" where
  "Gtid_Validate g =
     (case g of GtidCurrentPos \<Rightarrow> Inr () | GtidSlavePos \<Rightarrow> Inr ()
      | GtidOther _ \<Rightarrow> Inl (ErrNew ''invalid Gtid''))"

definition Gtid_MariaDBFormat :: "Gtid \<Rightarrow> string result" where
  "Gtid_MariaDBFormat g =
     (case g of GtidCurrentPos \<Rightarrow> Inr ''current_pos'' | GtidSlavePos \<Rightarrow> Inr ''slave_pos''
      | GtidOther _ \<Rightarrow> Inl (ErrNew ''invalid Gtid''))"

record GeneratedSecretKeyRef =
  sk_Name :: string
  sk_Key :: string
  sk_Generate :: bool

definition zeroSecretKeyRef :: GeneratedSecretKeyRef where
  "zeroSecretKeyRef = \<lparr>sk_Name = '''', sk_Key = '''', sk_Generate = False\<rparr>"

record PrimaryReplication =
  pr_PodIndex :: "int option"
  pr_AutomaticFailover :: "bool option"
  pr_AutomaticFailoverDelay :: "int option"

record ReplicaReplication =
  rr_WaitPoint :: "WaitPoint option"
  rr_Gtid :: "Gtid option"
  rr_ReplPasswordSecretKeyRef :: "GeneratedSecretKeyRef option"
  rr_ConnectionTimeout :: "int option"
  rr_ConnectionRetries :: "int option"
  rr_SyncTimeout :: "int option"

record Replication =
  rp_Primary :: "PrimaryReplication option"
  rp_Replica :: "ReplicaReplication option"
  rp_SyncBinlog :: "int option"
  rp_ProbesEnabled :: "bool option"
  rp_Enabled :: bool

definition second :: int where "second = 1000000000"

definition minute :: int where "minute = 60 * second"

definition DefaultPrimaryReplication :: PrimaryReplication where
  "DefaultPrimaryReplication =
     \<lparr>pr_PodIndex = Some 0, pr_AutomaticFailover = Some True, pr_AutomaticFailoverDelay = Some 0\<rparr>"

definition DefaultReplicaReplication :: ReplicaReplication where
  "DefaultReplicaReplication =
     \<lparr>rr_WaitPoint = Some WaitPointAfterSync, rr_Gtid = Some GtidCurrentPos,
      rr_ReplPasswordSecretKeyRef = None, rr_ConnectionTimeout = Some (10 * second),
      rr_ConnectionRetries = Some 10, rr_SyncTimeout = Some (10 * second)\<rparr>"

definition zeroReplication :: Replication where
  "zeroReplication = \<lparr>rp_Primary = None, rp_Replica = None, rp_SyncBinlog = None,
     rp_ProbesEnabled = None, rp_Enabled = False\<rparr>"

definition PrimaryReplication_FillWithDefaults :: "PrimaryReplication \<Rightarrow> PrimaryReplication" where
  "PrimaryReplication_FillWithDefaults r =
     \<lparr>pr_PodIndex = or_default (pr_PodIndex r) 0,
      pr_AutomaticFailover = or_default (pr_AutomaticFailover r) True,
      pr_AutomaticFailoverDelay = or_default (pr_AutomaticFailoverDelay r) 0\<rparr>"

definition ReplicaReplication_FillWithDefaults :: "ReplicaReplication \<Rightarrow> ReplicaReplication" where
  "ReplicaReplication_FillWithDefaults r =
     \<lparr>rr_WaitPoint = or_default (rr_WaitPoint r) WaitPointAfterSync,
      rr_Gtid = or_default (rr_Gtid r) GtidCurrentPos,
      rr_ReplPasswordSecretKeyRef = rr_ReplPasswordSecretKeyRef r,
      rr_ConnectionTimeout = or_default (rr_ConnectionTimeout r) (10 * second),
      rr_ConnectionRetries = or_default (rr_ConnectionRetries r) 10,
      rr_SyncTimeout = or_default (rr_SyncTimeout r) (10 * second)\<rparr>"

definition ReplicaReplication_Validate :: "ReplicaReplication \<Rightarrow> unit result" where
  "ReplicaReplication_Validate r =
     and_then (case rr_WaitPoint r of None \<Rightarrow> Inr ()
               | Some w \<Rightarrow> with_ctx ''invalid WaitPoint'' (WaitPoint_Validate w))
       (\<lambda>_. case rr_Gtid r of None \<Rightarrow> Inr ()
            | Some g \<Rightarrow> with_ctx ''invalid GTID'' (Gtid_Validate g))"

definition Replication_FillWithDefaults :: "Replication \<Rightarrow> Replication" where
  "Replication_FillWithDefaults r =
     r\<lparr>rp_Primary := Some (case rp_Primary r of None \<Rightarrow> DefaultPrimaryReplication
                          | Some p \<Rightarrow> PrimaryReplication_FillWithDefaults p),
       rp_Replica := Some (case rp_Replica r of None \<Rightarrow> DefaultReplicaReplication
                          | Some p \<Rightarrow> ReplicaReplication_FillWithDefaults p),
       rp_SyncBinlog := or_default (rp_SyncBinlog r) 1,
       rp_ProbesEnabled := or_default (rp_ProbesEnabled r) False\<rparr>"

datatype ReplicationState = ReplicationStateMaster | ReplicationStateSlave | ReplicationStateNotConfigured

text \<open>The status map from Pod names to states; \<open>None\<close> is the nil map.\<close>

type_synonym ReplicationStatus = "(string \<times> ReplicationState) list option"

fun status_entries :: "ReplicationStatus \<Rightarrow> (string \<times> ReplicationState) list" where
  "status_entries None = []"
| "status_entries (Some kvs) = kvs"

fun any_slave :: "(string \<times> ReplicationState) list \<Rightarrow> bool" where
  "any_slave [] = False"
| "any_slave ((pod, state) # r) = (if state = ReplicationStateSlave then True else any_slave r)"

definition ReplicationStatus_HasConfiguredReplica :: "ReplicationStatus \<Rightarrow> bool" where
  "ReplicationStatus_HasConfiguredReplica r = any_slave (status_entries r)"

fun slave_named :: "(string \<times> ReplicationState) list \<Rightarrow> string \<Rightarrow> bool" where
  "slave_named [] podName = False"
| "slave_named ((pod, state) # r) podName =
     (if pod = podName \<and> state = ReplicationStateSlave then True else slave_named r podName)"

definition ReplicationStatus_IsConfiguredReplica :: "ReplicationStatus \<Rightarrow> string \<Rightarrow> bool" where
  "ReplicationStatus_IsConfiguredReplica r podName = slave_named (status_entries r) podName"

lemma any_slave_iff: "any_slave kvs \<longleftrightarrow> (\<exists>pod. (pod, ReplicationStateSlave) \<in> set kvs)"
  by (induction kvs rule: any_slave.induct) auto

lemma slave_named_iff: "slave_named kvs p \<longleftrightarrow> (p, ReplicationStateSlave) \<in> set kvs"
  by (induction kvs p rule: slave_named.induct) auto


subsection \<open>References and volumes\<close>

record SecretKeySelector =
  ss_Name :: string
  ss_Key :: string

record TypedLocalObjectReference =
  tr_Name :: string
  tr_Kind :: string

record ObjectReference =
  or_Name :: string
  or_Namespace :: string

text \<open>A quantity is kept as its text; comparison and the zero test are the library's.\<close>

type_synonym Quantity = string

record quantity_api =
  Quantity_Cmp :: "Quantity \<Rightarrow> Quantity \<Rightarrow> int"
  Quantity_IsZero :: "Quantity \<Rightarrow> bool"

text \<open>A claim template: the storage request, the access modes and the storage class.\<close>

record VolumeClaimTemplate =
  vt_Storage :: "Quantity option"
  vt_AccessModes :: "string list"
  vt_StorageClassName :: "string option"

definition zeroVolumeClaimTemplate :: VolumeClaimTemplate where
  "zeroVolumeClaimTemplate = \<lparr>vt_Storage = None, vt_AccessModes = [], vt_StorageClassName = None\<rparr>"

text \<open>The claim of a persistent volume is its claim name; the NFS, CSI and host-path sources are
  only passed on and stay opaque.\<close>

record StorageVolumeSource =
  sv_EmptyDir :: "unit option"
  sv_NFS :: "string option"
  sv_CSI :: "string option"
  sv_HostPath :: "string option"
  sv_PersistentVolumeClaim :: "string option"

definition zeroStorageVolumeSource :: StorageVolumeSource where
  "zeroStorageVolumeSource = \<lparr>sv_EmptyDir = None, sv_NFS = None, sv_CSI = None,
     sv_HostPath = None, sv_PersistentVolumeClaim = None\<rparr>"

record BackupStagingStorage =
  bs_PersistentVolumeClaim :: "VolumeClaimTemplate option"
  bs_Volume :: "StorageVolumeSource option"

definition zeroBackupStagingStorage :: BackupStagingStorage where
  "zeroBackupStagingStorage = \<lparr>bs_PersistentVolumeClaim = None, bs_Volume = None\<rparr>"

definition BackupStagingStorage_VolumeOrEmptyDir ::
    "BackupStagingStorage \<Rightarrow> NamespacedName \<Rightarrow> StorageVolumeSource" where
  "BackupStagingStorage_VolumeOrEmptyDir s pvcKey =
     (if bs_PersistentVolumeClaim s \<noteq> None
      then zeroStorageVolumeSource\<lparr>sv_PersistentVolumeClaim := Some (nn_Name pvcKey)\<rparr>
      else case bs_Volume s of
        Some v \<Rightarrow> v
      | None \<Rightarrow> zeroStorageVolumeSource\<lparr>sv_EmptyDir := Some ()\<rparr>)"

datatype BackupContentType =
  BackupContentTypeEmpty | BackupContentTypeLogical | BackupContentTypePhysical
  | BackupContentTypeOther string

definition BackupContentType_Validate :: "BackupContentType \<Rightarrow> unit result" where
  "BackupContentType_Validate b =
     (if b \<in> {BackupContentTypeLogical, BackupContentTypePhysical} then Inr ()
      else Inl (ErrNew ''invalid backup content type''))"

record BackupS3 =
  s3_Bucket :: string
  s3_Endpoint :: string
  s3_Prefix :: string

record PodDisruptionBudget =
  pd_MinAvailable :: "string option"
  pd_MaxUnavailable :: "string option"

definition PodDisruptionBudget_Validate :: "PodDisruptionBudget \<Rightarrow> unit result" where
  "PodDisruptionBudget_Validate p =
     (if pd_MinAvailable p \<noteq> None \<and> pd_MaxUnavailable p = None then Inr ()
      else if pd_MinAvailable p = None \<and> pd_MaxUnavailable p \<noteq> None then Inr ()
      else Inl (ErrNew ''either minAvailable or maxUnavailable must be specified''))"

subsection \<open>Galera\<close>

datatype SST = SSTRsync | SSTMariaBackup | SSTMysqldump | SSTEmpty | SSTOther string

record PrimaryGalera =
  pg_PodIndex :: "int option"
  pg_AutomaticFailover :: "bool option"

record KubernetesAuth =
  ka_Enabled :: bool
  ka_AuthDelegatorRoleName :: string

record BasicAuth =
  ba_Enabled :: bool
  ba_Username :: string
  ba_PasswordSecretKeyRef :: GeneratedSecretKeyRef

text \<open>The container template embedded in the Galera containers is passed on untouched and only
  compared with its zero value: its remaining Kubernetes fields are one opaque text.\<close>

record ContainerTemplate =
  ct_Command :: "string list"
  ct_Args :: "string list"
  ct_Other :: string

definition zeroContainerTemplate :: ContainerTemplate where
  "zeroContainerTemplate = \<lparr>ct_Command = [], ct_Args = [], ct_Other = ''''\<rparr>"

record GaleraInit =
  gi_ContainerTemplate :: ContainerTemplate
  gi_Image :: string
  gi_ImagePullPolicy :: string

definition zeroGaleraInit :: GaleraInit where
  "zeroGaleraInit = \<lparr>gi_ContainerTemplate = zeroContainerTemplate, gi_Image = '''', gi_ImagePullPolicy = ''''\<rparr>"

record GaleraAgent =
  ga_ContainerTemplate :: ContainerTemplate
  ga_Image :: string
  ga_ImagePullPolicy :: string
  ga_Port :: int
  ga_ProbePort :: int
  ga_KubernetesAuth :: "KubernetesAuth option"
  ga_BasicAuth :: "BasicAuth option"
  ga_GracefulShutdownTimeout :: "int option"

datatype IntOrString = IntVal int | StrVal string

record GaleraRecovery =
  gr_Enabled :: bool
  gr_MinClusterSize :: "IntOrString option"
  gr_ClusterMonitorInterval :: "int option"
  gr_ClusterHealthyTimeout :: "int option"
  gr_ClusterBootstrapTimeout :: "int option"
  gr_ClusterUpscaleTimeout :: "int option"
  gr_ClusterDownscaleTimeout :: "int option"
  gr_PodRecoveryTimeout :: "int option"
  gr_PodSyncTimeout :: "int option"
  gr_ForceClusterBootstrapInPod :: "string option"

definition zeroGaleraRecovery :: GaleraRecovery where
  "zeroGaleraRecovery = \<lparr>gr_Enabled = False, gr_MinClusterSize = None, gr_ClusterMonitorInterval = None,
     gr_ClusterHealthyTimeout = None, gr_ClusterBootstrapTimeout = None, gr_ClusterUpscaleTimeout = None,
     gr_ClusterDownscaleTimeout = None, gr_PodRecoveryTimeout = None, gr_PodSyncTimeout = None,
     gr_ForceClusterBootstrapInPod = None\<rparr>"

record GaleraConfig =
  gc_ReuseStorageVolume :: "bool option"
  gc_VolumeClaimTemplate :: "VolumeClaimTemplate option"

record Galera =
  g_Primary :: PrimaryGalera
  g_SST :: SST
  g_AvailableWhenDonor :: "bool option"
  g_GaleraLibPath :: string
  g_ReplicaThreads :: int
  g_ProviderOptions :: "(string \<times> string) list"
  g_Agent :: GaleraAgent
  g_Recovery :: "GaleraRecovery option"
  g_InitContainer :: GaleraInit
  g_Config :: GaleraConfig
  g_Enabled :: bool

definition zeroGalera :: Galera where
  "zeroGalera = \<lparr>g_Primary = \<lparr>pg_PodIndex = None, pg_AutomaticFailover = None\<rparr>, g_SST = SSTEmpty,
     g_AvailableWhenDonor = None, g_GaleraLibPath = '''', g_ReplicaThreads = 0, g_ProviderOptions = [],
     g_Agent = \<lparr>ga_ContainerTemplate = zeroContainerTemplate, ga_Image = '''', ga_ImagePullPolicy = '''',
        ga_Port = 0, ga_ProbePort = 0, ga_KubernetesAuth = None, ga_BasicAuth = None,
        ga_GracefulShutdownTimeout = None\<rparr>,
     g_Recovery = None, g_InitContainer = zeroGaleraInit,
     g_Config = \<lparr>gc_ReuseStorageVolume = None, gc_VolumeClaimTemplate = None\<rparr>, g_Enabled = False\<rparr>"

text \<open>A time is its number of nanoseconds since the epoch. The \<^verbatim>\<open>State\<close> and \<^verbatim>\<open>Recovered\<close> maps
  of the recovery status hold pointers: a key may be present with a nil value.\<close>

record GaleraBootstrapStatus =
  gb_Time :: "int option"
  gb_Pod :: "string option"

record GaleraRecoveryStatus =
  gs_State :: "(string \<Rightarrow> GaleraState option option) option"
  gs_Recovered :: "(string \<Rightarrow> Bootstrap option option) option"
  gs_Bootstrap :: "GaleraBootstrapStatus option"
  gs_PodsRestarted :: "bool option"

definition zeroGaleraRecoveryStatus :: GaleraRecoveryStatus where
  "zeroGaleraRecoveryStatus =
     \<lparr>gs_State = None, gs_Recovered = None, gs_Bootstrap = None, gs_PodsRestarted = None\<rparr>"

end
