(* ===== verification/Mariadb_Types.thy ===== *)
theory Mariadb_Types
  imports Api_Types
begin

text \<open>
  \<^verbatim>\<open>api/v1alpha1/mariadb_types.go\<close> and \<^verbatim>\<open>mariadb_keys.go\<close>: the MariaDB resource, its status, the
  predicates the controllers ask about it and the names of the objects derived from it. The image,
  port and replica counts are the 32-bit fields of the source kept as \<open>int\<close>; none of the modelled
  operations does arithmetic on them.
\<close>

subsection \<open>Storage, bootstrap source, update strategy, TLS\<close>

record Storage =
  st_Ephemeral :: "bool option"
  st_Size :: "Quantity option"
  st_StorageClassName :: string
  st_ResizeInUseVolumes :: "bool option"
  st_WaitForVolumeResize :: "bool option"
  st_VolumeClaimTemplate :: "VolumeClaimTemplate option"

record BootstrapFrom =
  bf_BackupRef :: "TypedLocalObjectReference option"
  bf_VolumeSnapshotRef :: "string option"
  bf_BackupContentType :: BackupContentType
  bf_S3 :: "BackupS3 option"
  bf_Volume :: "StorageVolumeSource option"
  bf_TargetRecoveryTime :: "int option"
  bf_StagingStorage :: "BackupStagingStorage option"
  bf_RestoreJob :: "string option"

datatype UpdateType =
  UpdateTypeEmpty | ReplicasFirstPrimaryLastUpdateType | RollingUpdateUpdateType
  | OnDeleteUpdateType | NeverUpdateType | UpdateTypeOther string

record UpdateStrategy =
  us_Type :: UpdateType
  us_RollingUpdate :: "string option"
  us_AutoUpdateDataPlane :: "bool option"

definition zeroUpdateStrategy :: UpdateStrategy where
  "zeroUpdateStrategy = \<lparr>us_Type = UpdateTypeEmpty, us_RollingUpdate = None, us_AutoUpdateDataPlane = None\<rparr>"

record TLS =
  tls_Enabled :: bool
  tls_Required :: "bool option"
  tls_ServerCASecretRef :: "string option"
  tls_ServerCertSecretRef :: "string option"
  tls_ServerCertIssuerRef :: "string option"
  tls_ClientCASecretRef :: "string option"
  tls_ClientCertSecretRef :: "string option"
  tls_ClientCertIssuerRef :: "string option"
  tls_GaleraSSTEnabled :: "bool option"

definition zeroTLS :: TLS where
  "zeroTLS = \<lparr>tls_Enabled = False, tls_Required = None, tls_ServerCASecretRef = None,
     tls_ServerCertSecretRef = None, tls_ServerCertIssuerRef = None, tls_ClientCASecretRef = None,
     tls_ClientCertSecretRef = None, tls_ClientCertIssuerRef = None, tls_GaleraSSTEnabled = None\<rparr>"

text \<open>The anti-affinity of a Pod: the instances each required term selects and its topology key.\<close>

record AffinityConfig =
  af_AntiAffinityEnabled :: "bool option"
  af_PodAntiAffinity :: "(string list \<times> string) list option"

record MariadbMetrics =
  mm_Enabled :: bool
  mm_Exporter_Image :: string
  mm_Exporter_Port :: int
  mm_Exporter_Affinity :: "AffinityConfig option"
  mm_Username :: string
  mm_PasswordSecretKeyRef :: GeneratedSecretKeyRef

definition zeroMariadbMetrics :: MariadbMetrics where
  "zeroMariadbMetrics = \<lparr>mm_Enabled = False, mm_Exporter_Image = '''', mm_Exporter_Port = 0,
     mm_Exporter_Affinity = None, mm_Username = '''', mm_PasswordSecretKeyRef = zeroSecretKeyRef\<rparr>"

subsection \<open>The resource\<close>

record MariaDBSpec =
  sp_ServiceAccountName :: "string option"
  sp_Affinity :: "AffinityConfig option"
  sp_Suspend :: bool
  sp_Image :: string
  sp_RootPasswordSecretKeyRef :: GeneratedSecretKeyRef
  sp_RootEmptyPassword :: "bool option"
  sp_Database :: "string option"
  sp_Username :: "string option"
  sp_PasswordSecretKeyRef :: "GeneratedSecretKeyRef option"
  sp_PasswordHashSecretKeyRef :: "SecretKeySelector option"
  sp_PasswordPlugin :: "string option"
  sp_MyCnf :: "string option"
  sp_MyCnfConfigMapKeyRef :: "SecretKeySelector option"
  sp_BootstrapFrom :: "BootstrapFrom option"
  sp_Storage :: Storage
  sp_Metrics :: "MariadbMetrics option"
  sp_TLS :: "TLS option"
  sp_Replication :: "Replication option"
  sp_Galera :: "Galera option"
  sp_MaxScaleRef :: "ObjectReference option"
  sp_MaxScale_Enabled :: "bool option"
  sp_Replicas :: int
  sp_Port :: int
  sp_PodDisruptionBudget :: "PodDisruptionBudget option"
  sp_UpdateStrategy :: UpdateStrategy

record MariaDBStatus =
  ms_Conditions :: "Condition list"
  ms_Replicas :: int
  ms_CurrentPrimaryPodIndex :: "int option"
  ms_CurrentPrimary :: "string option"
  ms_CurrentPrimaryFailingSince :: "int option"
  ms_GaleraRecovery :: "GaleraRecoveryStatus option"
  ms_ReplicationStatus :: ReplicationStatus
  ms_DefaultVersion :: string

record MariaDB =
  m_ObjectMeta :: ObjectMeta
  m_DeletionTimestamp :: "int option"
  m_Spec :: MariaDBSpec
  m_Status :: MariaDBStatus

abbreviation "m_Name m \<equiv> Name (m_ObjectMeta m)"
abbreviation "m_Namespace m \<equiv> Namespace (m_ObjectMeta m)"
abbreviation "m_Conditions m \<equiv> ms_Conditions (m_Status m)"
abbreviation "m_Replicas m \<equiv> sp_Replicas (m_Spec m)"

definition set_conditions :: "MariaDBStatus \<Rightarrow> Condition list \<Rightarrow> MariaDBStatus" where
  "set_conditions s cs = s\<lparr>ms_Conditions := cs\<rparr>"

text \<open>A nil condition list is the empty list, so the allocation of the source is not a step.\<close>

definition MariaDBStatus_SetCondition :: "meta_api \<Rightarrow> Condition \<Rightarrow> MariaDBStatus \<Rightarrow> MariaDBStatus" where
  "MariaDBStatus_SetCondition M c s = set_conditions s (SetStatusCondition M (ms_Conditions s) c)"

definition UpdateCurrentPrimary :: "MariaDB \<Rightarrow> int \<Rightarrow> MariaDBStatus \<Rightarrow> MariaDBStatus" where
  "UpdateCurrentPrimary mariadb index s =
     s\<lparr>ms_CurrentPrimaryPodIndex := Some index,
       ms_CurrentPrimary := Some (PodName (m_ObjectMeta mariadb) index)\<rparr>"

text \<open>\<^verbatim>\<open>MariaDB.Replication\<close> fills the section with its defaults in place and returns it:
  \<open>fillReplication\<close> is the object afterwards, \<open>MariaDB_Replication\<close> the value returned.\<close>

definition MariaDB_Replication :: "MariaDB \<Rightarrow> Replication" where
  "MariaDB_Replication m =
     Replication_FillWithDefaults (Deref (sp_Replication (m_Spec m)) zeroReplication)"

definition fillReplication :: "MariaDB \<Rightarrow> MariaDB" where
  "fillReplication m = m\<lparr>m_Spec := (m_Spec m)\<lparr>sp_Replication := Some (MariaDB_Replication m)\<rparr>\<rparr>"

subsection \<open>Predicates\<close>

definition IsGaleraEnabled :: "MariaDB \<Rightarrow> bool" where
  "IsGaleraEnabled m = g_Enabled (Deref (sp_Galera (m_Spec m)) zeroGalera)"

definition IsHAEnabled :: "MariaDB \<Rightarrow> bool" where
  "IsHAEnabled m = (rp_Enabled (MariaDB_Replication m) \<or> IsGaleraEnabled m)"

definition IsMaxScaleEnabled :: "MariaDB \<Rightarrow> bool" where
  "IsMaxScaleEnabled m = (sp_MaxScaleRef (m_Spec m) \<noteq> None)"

definition AreMetricsEnabled :: "MariaDB \<Rightarrow> bool" where
  "AreMetricsEnabled m = mm_Enabled (Deref (sp_Metrics (m_Spec m)) zeroMariadbMetrics)"

definition IsInitialUserEnabled :: "MariaDB \<Rightarrow> bool" where
  "IsInitialUserEnabled m =
     (sp_Username (m_Spec m) \<noteq> None \<and> sp_Database (m_Spec m) \<noteq> None \<and>
      (sp_PasswordSecretKeyRef (m_Spec m) \<noteq> None \<or> sp_PasswordHashSecretKeyRef (m_Spec m) \<noteq> None \<or>
       sp_PasswordPlugin (m_Spec m) \<noteq> None))"

definition IsRootPasswordEmpty :: "MariaDB \<Rightarrow> bool" where
  "IsRootPasswordEmpty m = (sp_RootEmptyPassword (m_Spec m) = Some True)"

definition IsRootPasswordDefined :: "MariaDB \<Rightarrow> bool" where
  "IsRootPasswordDefined m = (sp_RootPasswordSecretKeyRef (m_Spec m) \<noteq> zeroSecretKeyRef)"

definition IsEphemeralStorageEnabled :: "MariaDB \<Rightarrow> bool" where
  "IsEphemeralStorageEnabled m = Deref (st_Ephemeral (sp_Storage (m_Spec m))) False"

definition IsTLSEnabled :: "MariaDB \<Rightarrow> bool" where
  "IsTLSEnabled m = tls_Enabled (Deref (sp_TLS (m_Spec m)) zeroTLS)"

definition IsTLSRequired :: "MariaDB \<Rightarrow> bool" where
  "IsTLSRequired m =
     (if \<not> IsTLSEnabled m then False
      else Deref (tls_Required (Deref (sp_TLS (m_Spec m)) zeroTLS)) False)"

definition IsTLSForGaleraSSTEnabled :: "MariaDB \<Rightarrow> bool" where
  "IsTLSForGaleraSSTEnabled m =
     (if \<not> IsGaleraEnabled m \<or> \<not> IsTLSEnabled m then False
      else Deref (tls_GaleraSSTEnabled (Deref (sp_TLS (m_Spec m)) zeroTLS)) False)"

definition IsReady :: "meta_api \<Rightarrow> MariaDB \<Rightarrow> bool" where
  "IsReady M m = IsStatusConditionTrue M (m_Conditions m) ConditionTypeReady"

definition IsRestoringBackup :: "meta_api \<Rightarrow> MariaDB \<Rightarrow> bool" where
  "IsRestoringBackup M m = IsStatusConditionFalse M (m_Conditions m) ConditionTypeBackupRestored"

definition HasRestoredBackup :: "meta_api \<Rightarrow> MariaDB \<Rightarrow> bool" where
  "HasRestoredBackup M m = IsStatusConditionTrue M (m_Conditions m) ConditionTypeBackupRestored"

definition IsResizingStorage :: "meta_api \<Rightarrow> MariaDB \<Rightarrow> bool" where
  "IsResizingStorage M m = IsStatusConditionFalse M (m_Conditions m) ConditionTypeStorageResized"

definition IsWaitingForStorageResize :: "meta_api \<Rightarrow> MariaDB \<Rightarrow> bool" where
  "IsWaitingForStorageResize M m =
     (case FindStatusCondition M (m_Conditions m) ConditionTypeStorageResized of
        None \<Rightarrow> False
      | Some c \<Rightarrow> c_Status c = ConditionFalse \<and> c_Reason c = ''WaitStorageResize'')"

definition HasPendingUpdate :: "meta_api \<Rightarrow> MariaDB \<Rightarrow> bool" where
  "HasPendingUpdate M m =
     (case FindStatusCondition M (m_Conditions m) ConditionTypeUpdated of
        None \<Rightarrow> False
      | Some c \<Rightarrow> c_Status c = ConditionFalse \<and> c_Reason c = ''PendingUpdate'')"

definition IsUpdating :: "meta_api \<Rightarrow> MariaDB \<Rightarrow> bool" where
  "IsUpdating M m =
     (case FindStatusCondition M (m_Conditions m) ConditionTypeUpdated of
        None \<Rightarrow> False
      | Some c \<Rightarrow> c_Status c = ConditionFalse \<and> c_Reason c = ''Updating'')"

definition IsSuspended :: "MariaDB \<Rightarrow> bool" where
  "IsSuspended m = sp_Suspend (m_Spec m)"

definition IsInitialized :: "meta_api \<Rightarrow> MariaDB \<Rightarrow> bool" where
  "IsInitialized M m = IsStatusConditionTrue M (m_Conditions m) ConditionTypeInitialized"

definition IsInitializing :: "meta_api \<Rightarrow> MariaDB \<Rightarrow> bool" where
  "IsInitializing M m = IsStatusConditionFalse M (m_Conditions m) ConditionTypeInitialized"

definition InitError :: "meta_api \<Rightarrow> MariaDB \<Rightarrow> go_error option" where
  "InitError M m =
     (case FindStatusCondition M (m_Conditions m) ConditionTypeInitialized of
        None \<Rightarrow> None
      | Some c \<Rightarrow> if c_Status c = ConditionFalse \<and> c_Reason c = ''InitError''
                 then Some (ErrNew (c_Message c)) else None)"

definition HasGaleraReadyCondition :: "meta_api \<Rightarrow> MariaDB \<Rightarrow> bool" where
  "HasGaleraReadyCondition M m = IsStatusConditionTrue M (m_Conditions m) ConditionTypeGaleraReady"

definition HasGaleraNotReadyCondition :: "meta_api \<Rightarrow> MariaDB \<Rightarrow> bool" where
  "HasGaleraNotReadyCondition M m = IsStatusConditionFalse M (m_Conditions m) ConditionTypeGaleraReady"

definition HasGaleraConfiguredCondition :: "meta_api \<Rightarrow> MariaDB \<Rightarrow> bool" where
  "HasGaleraConfiguredCondition M m =
     IsStatusConditionTrue M (m_Conditions m) ConditionTypeGaleraConfigured"

definition IsGaleraInitialized :: "meta_api \<Rightarrow> MariaDB \<Rightarrow> bool" where
  "IsGaleraInitialized M m = IsStatusConditionTrue M (m_Conditions m) ConditionTypeGaleraInitialized"

definition IsGaleraInitializing :: "meta_api \<Rightarrow> MariaDB \<Rightarrow> bool" where
  "IsGaleraInitializing M m = IsStatusConditionFalse M (m_Conditions m) ConditionTypeGaleraInitialized"

definition IsSwitchingPrimary :: "meta_api \<Rightarrow> MariaDB \<Rightarrow> bool" where
  "IsSwitchingPrimary M m = IsStatusConditionFalse M (m_Conditions m) ConditionTypePrimarySwitched"

definition MariaDB_HasConfiguredReplica :: "MariaDB \<Rightarrow> bool" where
  "MariaDB_HasConfiguredReplica m = ReplicationStatus_HasConfiguredReplica (ms_ReplicationStatus (m_Status m))"

definition MariaDB_IsConfiguredReplica :: "MariaDB \<Rightarrow> string \<Rightarrow> bool" where
  "MariaDB_IsConfiguredReplica m podName =
     ReplicationStatus_IsConfiguredReplica (ms_ReplicationStatus (m_Status m)) podName"

definition GetAutomaticFailoverDelay :: "MariaDB \<Rightarrow> int" where
  "GetAutomaticFailoverDelay m =
     (let primary = Deref (rp_Primary (MariaDB_Replication m))
        \<lparr>pr_PodIndex = None, pr_AutomaticFailover = None, pr_AutomaticFailoverDelay = None\<rparr>
      in Deref (pr_AutomaticFailoverDelay primary) 0)"

lemmas condition_preds = IsReady_def IsRestoringBackup_def HasRestoredBackup_def IsResizingStorage_def
  IsWaitingForStorageResize_def HasPendingUpdate_def IsUpdating_def IsInitialized_def IsInitializing_def
  InitError_def HasGaleraReadyCondition_def HasGaleraNotReadyCondition_def
  HasGaleraConfiguredCondition_def IsGaleraInitialized_def IsGaleraInitializing_def IsSwitchingPrimary_def

subsection \<open>Keys of derived objects\<close>

definition named :: "MariaDB \<Rightarrow> string \<Rightarrow> NamespacedName" where
  "named m sfx = \<lparr>nn_Name = m_Name m @ sfx, nn_Namespace = m_Namespace m\<rparr>"

definition generatedRef :: "MariaDB \<Rightarrow> string \<Rightarrow> string \<Rightarrow> GeneratedSecretKeyRef" where
  "generatedRef m sfx key = \<lparr>sk_Name = m_Name m @ sfx, sk_Key = key, sk_Generate = True\<rparr>"

definition RootPasswordSecretKeyRef :: "MariaDB \<Rightarrow> GeneratedSecretKeyRef" where
  "RootPasswordSecretKeyRef m = generatedRef m ''-root'' ''password''"

definition PasswordSecretKeyRef :: "MariaDB \<Rightarrow> GeneratedSecretKeyRef" where
  "PasswordSecretKeyRef m = generatedRef m ''-password'' ''password''"

definition MetricsPasswordSecretKeyRef :: "MariaDB \<Rightarrow> GeneratedSecretKeyRef" where
  "MetricsPasswordSecretKeyRef m = generatedRef m ''-metrics-password'' ''password''"

definition MetricsConfigSecretKeyRef :: "MariaDB \<Rightarrow> GeneratedSecretKeyRef" where
  "MetricsConfigSecretKeyRef m = generatedRef m ''-metrics-config'' ''exporter.cnf''"

definition AgentAuthSecretKeyRef :: "MariaDB \<Rightarrow> GeneratedSecretKeyRef" where
  "AgentAuthSecretKeyRef m = generatedRef m ''-agent-auth'' ''password''"

definition MyCnfConfigMapKeyRef :: "MariaDB \<Rightarrow> SecretKeySelector" where
  "MyCnfConfigMapKeyRef m = \<lparr>ss_Name = m_Name m @ ''-config'', ss_Key = ''my.cnf''\<rparr>"

definition DefaultConfigMapKeyRef :: "MariaDB \<Rightarrow> SecretKeySelector" where
  "DefaultConfigMapKeyRef m = \<lparr>ss_Name = m_Name m @ ''-config-default'', ss_Key = ''0-default.cnf''\<rparr>"

definition TLSConfigMapKeyRef :: "MariaDB \<Rightarrow> SecretKeySelector" where
  "TLSConfigMapKeyRef m = \<lparr>ss_Name = m_Name m @ ''-config-tls'', ss_Key = ''1-tls.cnf''\<rparr>"

definition TLSCABundleSecretKeyRef :: "MariaDB \<Rightarrow> SecretKeySelector" where
  "TLSCABundleSecretKeyRef m = \<lparr>ss_Name = m_Name m @ ''-ca-bundle'', ss_Key = ''ca.crt''\<rparr>"

definition TLSServerCertSecretKey :: "MariaDB \<Rightarrow> NamespacedName" where
  "TLSServerCertSecretKey m =
     (let tls = Deref (sp_TLS (m_Spec m)) zeroTLS in
      case tls_ServerCertSecretRef tls of
        Some n \<Rightarrow> if tls_Enabled tls then \<lparr>nn_Name = n, nn_Namespace = m_Namespace m\<rparr>
                  else named m ''-server-cert''
      | None \<Rightarrow> named m ''-server-cert'')"

definition TLSServerCASecretKey :: "MariaDB \<Rightarrow> NamespacedName" where
  "TLSServerCASecretKey m =
     (let tls = Deref (sp_TLS (m_Spec m)) zeroTLS in
      if tls_Enabled tls then
        (case tls_ServerCASecretRef tls of
           Some n \<Rightarrow> \<lparr>nn_Name = n, nn_Namespace = m_Namespace m\<rparr>
         | None \<Rightarrow> if tls_ServerCertIssuerRef tls \<noteq> None
                   then \<lparr>nn_Name = nn_Name (TLSServerCertSecretKey m), nn_Namespace = m_Namespace m\<rparr>
                   else named m ''-ca'')
      else named m ''-ca'')"

definition TLSClientCertSecretKey :: "MariaDB \<Rightarrow> NamespacedName" where
  "TLSClientCertSecretKey m =
     (let tls = Deref (sp_TLS (m_Spec m)) zeroTLS in
      case tls_ClientCertSecretRef tls of
        Some n \<Rightarrow> if tls_Enabled tls then \<lparr>nn_Name = n, nn_Namespace = m_Namespace m\<rparr>
                  else named m ''-client-cert''
      | None \<Rightarrow> named m ''-client-cert'')"

definition TLSClientCASecretKey :: "MariaDB \<Rightarrow> NamespacedName" where
  "TLSClientCASecretKey m =
     (let tls = Deref (sp_TLS (m_Spec m)) zeroTLS in
      if tls_Enabled tls then
        (case tls_ClientCASecretRef tls of
           Some n \<Rightarrow> \<lparr>nn_Name = n, nn_Namespace = m_Namespace m\<rparr>
         | None \<Rightarrow> if tls_ClientCertIssuerRef tls \<noteq> None
                   then \<lparr>nn_Name = nn_Name (TLSClientCertSecretKey m), nn_Namespace = m_Namespace m\<rparr>
                   else named m ''-ca'')
      else named m ''-ca'')"

definition InternalServiceName :: "string \<Rightarrow> string" where
  "InternalServiceName mariadbName = mariadbName @ ''-internal''"

definition InternalServiceKey :: "MariaDB \<Rightarrow> NamespacedName" where
  "InternalServiceKey m = \<lparr>nn_Name = InternalServiceName (m_Name m), nn_Namespace = m_Namespace m\<rparr>"

definition PrimaryServiceKey :: "MariaDB \<Rightarrow> NamespacedName" where
  "PrimaryServiceKey m = named m ''-primary''"

definition SecondaryServiceKey :: "MariaDB \<Rightarrow> NamespacedName" where
  "SecondaryServiceKey m = named m ''-secondary''"

definition MetricsKey :: "MariaDB \<Rightarrow> NamespacedName" where
  "MetricsKey m = named m ''-metrics''"

definition MaxScaleKey :: "MariaDB \<Rightarrow> NamespacedName" where
  "MaxScaleKey m = named m ''-maxscale''"

definition RestoreKey :: "MariaDB \<Rightarrow> NamespacedName" where
  "RestoreKey m = named m ''-restore''"

definition InitKey :: "MariaDB \<Rightarrow> NamespacedName" where
  "InitKey m = named m ''-init''"

definition PhysicalBackupInitJobKey :: "MariaDB \<Rightarrow> int \<Rightarrow> NamespacedName" where
  "PhysicalBackupInitJobKey m podIndex =
     \<lparr>nn_Name = PodName (m_ObjectMeta m) podIndex @ ''-physicalbackup-init'', nn_Namespace = m_Namespace m\<rparr>"

definition PhysicalBackupStagingPVCKey :: "MariaDB \<Rightarrow> NamespacedName" where
  "PhysicalBackupStagingPVCKey m = named m ''-physicalbackup-staging''"

definition RecoveryJobKey :: "MariaDB \<Rightarrow> string \<Rightarrow> NamespacedName" where
  "RecoveryJobKey m podName = \<lparr>nn_Name = podName @ ''-recovery'', nn_Namespace = m_Namespace m\<rparr>"

definition PVCKey :: "MariaDB \<Rightarrow> string \<Rightarrow> int \<Rightarrow> NamespacedName" where
  "PVCKey m name index =
     \<lparr>nn_Name = name @ ''-'' @ m_Name m @ ''-'' @ Itoa index, nn_Namespace = m_Namespace m\<rparr>"

definition GetHost :: "string \<Rightarrow> MariaDB \<Rightarrow> string" where
  "GetHost env m =
     (if IsHAEnabled m then ServiceFQDNWithService env (m_ObjectMeta m) (nn_Name (PrimaryServiceKey m))
      else ServiceFQDN env (m_ObjectMeta m))"

definition TLSServerDNSNames :: "string \<Rightarrow> MariaDB \<Rightarrow> string list" where
  "TLSServerDNSNames env m =
     ServiceNameVariants env (m_ObjectMeta m) (m_Name m) @
     HeadlessServiceNameVariants env (m_ObjectMeta m) ''*'' (nn_Name (InternalServiceKey m)) @
     ServiceNameVariants env (m_ObjectMeta m) (nn_Name (PrimaryServiceKey m)) @
     ServiceNameVariants env (m_ObjectMeta m) (nn_Name (SecondaryServiceKey m)) @ [''localhost'']"

subsection \<open>Facts about the accessors\<close>

text \<open>The defaulted sections never lose a pointer: the accessors that follow are total.\<close>

definition primaryOf :: "MariaDB \<Rightarrow> PrimaryReplication" where
  "primaryOf m = the (rp_Primary (MariaDB_Replication m))"

definition replicaOf :: "MariaDB \<Rightarrow> ReplicaReplication" where
  "replicaOf m = the (rp_Replica (MariaDB_Replication m))"

definition primaryPodIndex :: "MariaDB \<Rightarrow> int" where
  "primaryPodIndex m = the (pr_PodIndex (primaryOf m))"

definition primaryAutomaticFailover :: "MariaDB \<Rightarrow> bool" where
  "primaryAutomaticFailover m = the (pr_AutomaticFailover (primaryOf m))"

lemma MariaDB_Replication_filled [simp]:
  "rp_Primary (MariaDB_Replication m) = Some (primaryOf m)"
  "rp_Replica (MariaDB_Replication m) = Some (replicaOf m)"
  "pr_PodIndex (primaryOf m) = Some (primaryPodIndex m)"
  "pr_AutomaticFailover (primaryOf m) = Some (primaryAutomaticFailover m)"
  by (auto simp: MariaDB_Replication_def Replication_FillWithDefaults_def DefaultPrimaryReplication_def
      DefaultReplicaReplication_def PrimaryReplication_FillWithDefaults_def primaryOf_def replicaOf_def
      primaryPodIndex_def primaryAutomaticFailover_def split: option.splits)

lemma Replication_FillWithDefaults_idem:
  "Replication_FillWithDefaults (Replication_FillWithDefaults r) = Replication_FillWithDefaults r"
  by (auto simp: Replication_FillWithDefaults_def PrimaryReplication_FillWithDefaults_def
      ReplicaReplication_FillWithDefaults_def DefaultPrimaryReplication_def DefaultReplicaReplication_def
      split: option.splits)

lemma fillReplication_keeps [simp]:
  "m_ObjectMeta (fillReplication m) = m_ObjectMeta m" "m_Status (fillReplication m) = m_Status m"
  "sp_Galera (m_Spec (fillReplication m)) = sp_Galera (m_Spec m)"
  "sp_Replicas (m_Spec (fillReplication m)) = sp_Replicas (m_Spec m)"
  "sp_Storage (m_Spec (fillReplication m)) = sp_Storage (m_Spec m)"
  by (simp_all add: fillReplication_def)

lemma MariaDB_Replication_fill [simp]: "MariaDB_Replication (fillReplication m) = MariaDB_Replication m"
  by (simp add: MariaDB_Replication_def fillReplication_def Replication_FillWithDefaults_idem)

lemma fillReplication_idem [simp]: "fillReplication (fillReplication m) = fillReplication m"
proof -
  have "fillReplication (fillReplication m) =
      (fillReplication m)\<lparr>m_Spec := (m_Spec (fillReplication m))\<lparr>sp_Replication := Some (MariaDB_Replication m)\<rparr>\<rparr>"
    by (subst fillReplication_def) simp
  then show ?thesis by (simp add: fillReplication_def)
qed

lemma rp_Enabled_fill [simp]:
  "rp_Enabled (MariaDB_Replication m) = rp_Enabled (Deref (sp_Replication (m_Spec m)) zeroReplication)"
  by (simp add: MariaDB_Replication_def Replication_FillWithDefaults_def)

text \<open>
  The replication accessor is a pure view. Filling the defaults never changes whether
  replication is enabled, keeps every value the user gave, fills the rest with the documented
  defaults, leaves no pointer of the primary and replica sections nil except the password
  reference, and filling twice is filling once.
\<close>

theorem Replication_defaults_correct:
  "rp_Enabled (Replication_FillWithDefaults r) = rp_Enabled r \<and>
   Replication_FillWithDefaults (Replication_FillWithDefaults r) = Replication_FillWithDefaults r \<and>
   rp_SyncBinlog (Replication_FillWithDefaults r) = Some (Deref (rp_SyncBinlog r) 1) \<and>
   rp_ProbesEnabled (Replication_FillWithDefaults r) = Some (Deref (rp_ProbesEnabled r) False) \<and>
   rp_Primary (Replication_FillWithDefaults r) =
     Some \<lparr>pr_PodIndex = Some (case rp_Primary r of None \<Rightarrow> 0 | Some p \<Rightarrow> Deref (pr_PodIndex p) 0),
           pr_AutomaticFailover = Some (case rp_Primary r of None \<Rightarrow> True | Some p \<Rightarrow> Deref (pr_AutomaticFailover p) True),
           pr_AutomaticFailoverDelay = Some (case rp_Primary r of None \<Rightarrow> 0 | Some p \<Rightarrow> Deref (pr_AutomaticFailoverDelay p) 0)\<rparr> \<and>
   (\<exists>q. rp_Replica (Replication_FillWithDefaults r) = Some q \<and>
     rr_WaitPoint q \<noteq> None \<and> rr_Gtid q \<noteq> None \<and> rr_ConnectionTimeout q \<noteq> None \<and>
     rr_ConnectionRetries q \<noteq> None \<and> rr_SyncTimeout q \<noteq> None \<and>
     rr_ReplPasswordSecretKeyRef q = (case rp_Replica r of None \<Rightarrow> None | Some x \<Rightarrow> rr_ReplPasswordSecretKeyRef x))"
  unfolding Replication_FillWithDefaults_idem
  by (auto simp: Replication_FillWithDefaults_def PrimaryReplication_FillWithDefaults_def
      ReplicaReplication_FillWithDefaults_def DefaultPrimaryReplication_def DefaultReplicaReplication_def
      or_default_def Deref_def split: option.splits)

subsection \<open>A concrete resource\<close>

text \<open>The object on which the witnesses of the development are evaluated: a cluster \<^verbatim>\<open>mdb\<close> in
  namespace \<^verbatim>\<open>ns\<close> with everything optional left out.\<close>

definition exampleMeta :: ObjectMeta where
  "exampleMeta = \<lparr>Name = ''mdb'', Namespace = ''ns'', UID = ''0a1b-2c3d''\<rparr>"

definition exampleSpec :: MariaDBSpec where
  "exampleSpec = \<lparr>sp_ServiceAccountName = None, sp_Affinity = None, sp_Suspend = False, sp_Image = '''',
     sp_RootPasswordSecretKeyRef = zeroSecretKeyRef, sp_RootEmptyPassword = None, sp_Database = None,
     sp_Username = None, sp_PasswordSecretKeyRef = None, sp_PasswordHashSecretKeyRef = None,
     sp_PasswordPlugin = None, sp_MyCnf = None, sp_MyCnfConfigMapKeyRef = None, sp_BootstrapFrom = None,
     sp_Storage = \<lparr>st_Ephemeral = None, st_Size = Some ''1Gi'', st_StorageClassName = '''',
        st_ResizeInUseVolumes = None, st_WaitForVolumeResize = None, st_VolumeClaimTemplate = None\<rparr>,
     sp_Metrics = None, sp_TLS = None, sp_Replication = None, sp_Galera = None, sp_MaxScaleRef = None,
     sp_MaxScale_Enabled = None, sp_Replicas = 3, sp_Port = 0, sp_PodDisruptionBudget = None,
     sp_UpdateStrategy = zeroUpdateStrategy\<rparr>"

definition exampleStatus :: MariaDBStatus where
  "exampleStatus = \<lparr>ms_Conditions = [], ms_Replicas = 3, ms_CurrentPrimaryPodIndex = None,
     ms_CurrentPrimary = None, ms_CurrentPrimaryFailingSince = None, ms_GaleraRecovery = None,
     ms_ReplicationStatus = None, ms_DefaultVersion = ''''\<rparr>"

definition exampleMariaDB :: MariaDB where
  "exampleMariaDB = \<lparr>m_ObjectMeta = exampleMeta, m_DeletionTimestamp = None, m_Spec = exampleSpec, m_Status = exampleStatus\<rparr>"

lemmas example_defs = exampleMariaDB_def exampleSpec_def exampleStatus_def exampleMeta_def

lemmas replication_defs = MariaDB_Replication_def Replication_FillWithDefaults_def zeroReplication_def
  DefaultPrimaryReplication_def DefaultReplicaReplication_def primaryOf_def replicaOf_def
  primaryPodIndex_def primaryAutomaticFailover_def

text \<open>\<^verbatim>\<open>mdb.Replication().Primary.PodIndex = toIndex\<close>\<close>

definition setPodIndex :: "int \<Rightarrow> MariaDB \<Rightarrow> MariaDB" where
  "setPodIndex toIndex m =
     m\<lparr>m_Spec := (m_Spec m)\<lparr>sp_Replication := Some ((MariaDB_Replication m)
        \<lparr>rp_Primary := Some ((primaryOf m)\<lparr>pr_PodIndex := Some toIndex\<rparr>)\<rparr>)\<rparr>\<rparr>"

end
