(* ===== verification/Galera_Types.thy ===== *)
theory Galera_Types
  imports Mariadb_Types
begin

text \<open>
  \<^verbatim>\<open>api/v1alpha1/mariadb_galera_types.go\<close> with the operator environment it reads
  (\<^verbatim>\<open>pkg/environment\<close>) and the image helpers of \<^verbatim>\<open>pkg/docker\<close>: defaulting and validation of the
  Galera section. The image-reference library is the argument \<open>R\<close> and
  \<^verbatim>\<open>intstr.GetScaledValueFromIntOrPercent\<close> the argument \<open>scaled\<close>.
\<close>

subsection \<open>Operator environment\<close>

record OperatorEnv =
  oe_MariadbOperatorNamespace :: string
  oe_MariadbOperatorImage :: string
  oe_RelatedMariadbImage :: string
  oe_RelatedExporterImage :: string
  oe_MariadbGaleraLibPath :: string
  oe_WatchNamespace :: string

definition WatchNamespaces :: "OperatorEnv \<Rightarrow> string list result" where
  "WatchNamespaces e =
     (if oe_WatchNamespace e = '''' then Inl (ErrNew ''WATCH_NAMESPACE environment variable not set'')
      else if CHR '','' \<in> set (oe_WatchNamespace e) then Inr (split_on (CHR '','') (oe_WatchNamespace e))
      else Inr [oe_WatchNamespace e])"

definition CurrentNamespaceOnly :: "OperatorEnv \<Rightarrow> bool result" where
  "CurrentNamespaceOnly e =
     (if oe_WatchNamespace e = '''' then Inr False
      else and_then (with_ctx ''error getting namespaces to watch'' (WatchNamespaces e))
        (\<lambda>ns. if length ns \<noteq> 1 then Inr False
              else Inr (hd ns = oe_MariadbOperatorNamespace e)))"

lemma CurrentNamespaceOnly_eq:
  "CurrentNamespaceOnly e = Inr (oe_WatchNamespace e \<noteq> '''' \<and> CHR '','' \<notin> set (oe_WatchNamespace e) \<and>
     oe_WatchNamespace e = oe_MariadbOperatorNamespace e)"
proof (cases "CHR '','' \<in> set (oe_WatchNamespace e)")
  case True
  then obtain a b where ab: "oe_WatchNamespace e = a @ CHR '','' # b"
    by (auto simp: in_set_conv_decomp)
  have "length (split_on (CHR '','') (oe_WatchNamespace e)) \<noteq> 1"
    unfolding ab split_on_append
    by (cases "split_on (CHR '','') a"; cases "split_on (CHR '','') b") (auto dest: arg_cong [where f = length])
  with True show ?thesis by (auto simp: CurrentNamespaceOnly_def WatchNamespaces_def)
qed (auto simp: CurrentNamespaceOnly_def WatchNamespaces_def)

text \<open>
  Whether the operator watches only its own namespace is always decided without an error,
  and the answer is that the watch list is exactly the operator's namespace.
\<close>

theorem CurrentNamespaceOnly_total:
  "CurrentNamespaceOnly e = Inr (oe_WatchNamespace e \<noteq> '''' \<and> CHR '','' \<notin> set (oe_WatchNamespace e) \<and>
     oe_WatchNamespace e = oe_MariadbOperatorNamespace e)"
  by (rule CurrentNamespaceOnly_eq)

subsection \<open>Image references\<close>

text \<open>A parsed reference has a tag (\<^verbatim>\<open>NamedTagged\<close>), a digest (\<^verbatim>\<open>Digested\<close>), or neither.\<close>

record 'r reference_api =
  reference_Parse :: "string \<Rightarrow> 'r result"
  reference_ParseNamed :: "string \<Rightarrow> 'r result"
  reference_TrimNamed :: "'r \<Rightarrow> 'r"
  reference_Tag :: "'r \<Rightarrow> string option"
  reference_Digest :: "'r \<Rightarrow> string option"
  reference_WithTag :: "'r \<Rightarrow> string \<Rightarrow> 'r result"
  reference_WithDigest :: "'r \<Rightarrow> string \<Rightarrow> 'r result"
  reference_String :: "'r \<Rightarrow> string"

definition GetTag :: "'r reference_api \<Rightarrow> string \<Rightarrow> string result" where
  "GetTag R img =
     and_then (with_ctx ''error parsing reference'' (reference_Parse R img))
       (\<lambda>ref. case reference_Tag R ref of
          Some t \<Rightarrow> Inr t
        | None \<Rightarrow> Inl (ErrNew ''image does not have a tag''))"

definition SetTagOrDigest :: "'r reference_api \<Rightarrow> string \<Rightarrow> string \<Rightarrow> string result" where
  "SetTagOrDigest R sourceImage targetImage =
     and_then (with_ctx ''error parsing source reference'' (reference_Parse R sourceImage)) (\<lambda>sourceRef.
     and_then (with_ctx ''error parsing target reference'' (reference_ParseNamed R targetImage)) (\<lambda>targetRef.
     let targetRef = reference_TrimNamed R targetRef in
     and_then
       (case reference_Tag R sourceRef of
          Some t \<Rightarrow> with_ctx ''error setting tag'' (reference_WithTag R targetRef t)
        | None \<Rightarrow>
          (case reference_Digest R sourceRef of
             Some d \<Rightarrow> with_ctx ''error setting digest'' (reference_WithDigest R targetRef d)
           | None \<Rightarrow> Inl (ErrNew ''source image does not have tag nor digest'')))
       (\<lambda>ref. Inr (reference_String R ref))))"

subsection \<open>The Galera section\<close>

definition SST_Validate :: "SST \<Rightarrow> unit result" where
  "SST_Validate s =
     (if s \<in> {SSTMariaBackup, SSTRsync, SSTMysqldump} then Inr () else Inl (ErrNew ''invalid SST''))"

definition SST_MariaDBFormat :: "SST \<Rightarrow> string result" where
  "SST_MariaDBFormat s =
     (case s of SSTRsync \<Rightarrow> Inr ''rsync'' | SSTMariaBackup \<Rightarrow> Inr ''mariabackup''
      | SSTMysqldump \<Rightarrow> Inr ''mysqldump'' | _ \<Rightarrow> Inl (ErrNew ''invalid SST''))"

definition PrimaryGalera_SetDefaults :: "PrimaryGalera \<Rightarrow> PrimaryGalera" where
  "PrimaryGalera_SetDefaults r =
     \<lparr>pg_PodIndex = or_default (pg_PodIndex r) 0, pg_AutomaticFailover = or_default (pg_AutomaticFailover r) True\<rparr>"

definition AuthDelegatorRoleNameOrDefault :: "KubernetesAuth \<Rightarrow> MariaDB \<Rightarrow> string" where
  "AuthDelegatorRoleNameOrDefault k mariadb =
     (if ka_AuthDelegatorRoleName k \<noteq> '''' then ka_AuthDelegatorRoleName k
      else
        let name = m_Name mariadb @ ''-'' @ m_Namespace mariadb;
            parts = split_on (CHR ''-'') (UID (m_ObjectMeta mariadb))
        in if length parts > 0 then name @ ''-'' @ hd parts else name)"

definition BasicAuth_SetDefaults :: "MariaDB \<Rightarrow> BasicAuth \<Rightarrow> BasicAuth" where
  "BasicAuth_SetDefaults mariadb b =
     (if \<not> ba_Enabled b then b
      else
        let b = (if ba_Username b = '''' then b\<lparr>ba_Username := ''mariadb-operator''\<rparr> else b)
        in if ba_PasswordSecretKeyRef b = zeroSecretKeyRef
           then b\<lparr>ba_PasswordSecretKeyRef := AgentAuthSecretKeyRef mariadb\<rparr> else b)"

definition enabledBasicAuth :: BasicAuth where
  "enabledBasicAuth = \<lparr>ba_Enabled = True, ba_Username = '''', ba_PasswordSecretKeyRef = zeroSecretKeyRef\<rparr>"

definition enabledKubernetesAuth :: KubernetesAuth where
  "enabledKubernetesAuth = \<lparr>ka_Enabled = True, ka_AuthDelegatorRoleName = ''''\<rparr>"

text \<open>The authentication step of \<^verbatim>\<open>GaleraAgent.SetDefaults\<close>, with the inner \<^verbatim>\<open>else if\<close> of the source.\<close>

definition agentAuthDefaults :: "bool \<Rightarrow> GaleraAgent \<Rightarrow> GaleraAgent" where
  "agentAuthDefaults currentNamespaceOnly r =
     (if currentNamespaceOnly then
        (if ga_BasicAuth r = None then r\<lparr>ga_BasicAuth := Some enabledBasicAuth\<rparr> else r)
      else if ga_KubernetesAuth r = None \<and> ga_BasicAuth r = None then
        (if ga_KubernetesAuth r = None then r\<lparr>ga_KubernetesAuth := Some enabledKubernetesAuth\<rparr>
         else if ga_BasicAuth r = None then r\<lparr>ga_BasicAuth := Some enabledBasicAuth\<rparr>
         else r)
      else r)"

definition GaleraAgent_SetDefaults :: "MariaDB \<Rightarrow> OperatorEnv \<Rightarrow> GaleraAgent \<Rightarrow> GaleraAgent result" where
  "GaleraAgent_SetDefaults mariadb env r =
     (let r = (if ga_Image r = '''' then r\<lparr>ga_Image := oe_MariadbOperatorImage env\<rparr> else r);
          r = (if ga_Port r = 0 then r\<lparr>ga_Port := 5555\<rparr> else r);
          r = (if ga_ProbePort r = 0 then r\<lparr>ga_ProbePort := 5566\<rparr> else r)
      in and_then (with_ctx ''error checking operator watch scope'' (CurrentNamespaceOnly env))
        (\<lambda>currentNamespaceOnly.
          let r = agentAuthDefaults currentNamespaceOnly r;
              r = r\<lparr>ga_BasicAuth := map_option (BasicAuth_SetDefaults mariadb) (ga_BasicAuth r)\<rparr>
          in Inr (r\<lparr>ga_GracefulShutdownTimeout := or_default (ga_GracefulShutdownTimeout r) (1 * second)\<rparr>)))"

definition zeroKubernetesAuth :: KubernetesAuth where
  "zeroKubernetesAuth = \<lparr>ka_Enabled = False, ka_AuthDelegatorRoleName = ''''\<rparr>"

definition zeroBasicAuth :: BasicAuth where
  "zeroBasicAuth = \<lparr>ba_Enabled = False, ba_Username = '''', ba_PasswordSecretKeyRef = zeroSecretKeyRef\<rparr>"

definition GaleraAgent_Validate :: "GaleraAgent \<Rightarrow> unit result" where
  "GaleraAgent_Validate r =
     (let kubernetesAuth = Deref (ga_KubernetesAuth r) zeroKubernetesAuth;
          basicAuth = Deref (ga_BasicAuth r) zeroBasicAuth
      in if ka_Enabled kubernetesAuth \<and> ba_Enabled basicAuth
         then Inl (ErrNew ''only one authentication method must be enabled: kubernetes or basic auth'')
         else Inr ())"

definition GaleraRecovery_Validate ::
    "(IntOrString \<Rightarrow> int \<Rightarrow> bool \<Rightarrow> int result) \<Rightarrow> MariaDB \<Rightarrow> GaleraRecovery \<Rightarrow> unit result" where
  "GaleraRecovery_Validate scaled mdb g =
     (if \<not> gr_Enabled g then Inr ()
      else and_then
        (case gr_MinClusterSize g of
           None \<Rightarrow> Inr ()
         | Some s \<Rightarrow> and_then (scaled s 0 False)
             (\<lambda>_. case s of
                IntVal minClusterSize \<Rightarrow>
                  if minClusterSize < 0 \<or> minClusterSize > m_Replicas mdb
                  then Inl (ErrNew ''minClusterSize out of replicas bounds'') else Inr ()
              | StrVal _ \<Rightarrow> Inr ()))
        (\<lambda>_. case gr_ForceClusterBootstrapInPod g of
           None \<Rightarrow> Inr ()
         | Some pod \<Rightarrow> with_ctx ''forceClusterBootstrapInPod invalid''
                        (ValidPodName (m_ObjectMeta mdb) (m_Replicas mdb) pod)))"

definition GaleraRecovery_SetDefaults :: "GaleraRecovery \<Rightarrow> GaleraRecovery" where
  "GaleraRecovery_SetDefaults g =
     g\<lparr>gr_MinClusterSize := or_default (gr_MinClusterSize g) (IntVal 1),
       gr_ClusterMonitorInterval := or_default (gr_ClusterMonitorInterval g) (10 * second),
       gr_ClusterHealthyTimeout := or_default (gr_ClusterHealthyTimeout g) (30 * second),
       gr_ClusterBootstrapTimeout := or_default (gr_ClusterBootstrapTimeout g) (10 * minute),
       gr_ClusterUpscaleTimeout := or_default (gr_ClusterUpscaleTimeout g) (5 * minute),
       gr_ClusterDownscaleTimeout := or_default (gr_ClusterDownscaleTimeout g) (5 * minute),
       gr_PodRecoveryTimeout := or_default (gr_PodRecoveryTimeout g) (5 * minute),
       gr_PodSyncTimeout := or_default (gr_PodSyncTimeout g) (5 * minute)\<rparr>"

definition HasMinClusterSize ::
    "(IntOrString \<Rightarrow> int \<Rightarrow> bool \<Rightarrow> int result) \<Rightarrow> int \<Rightarrow> MariaDB \<Rightarrow> GaleraRecovery \<Rightarrow> bool result" where
  "HasMinClusterSize scaled currentSize mdb g =
     (let minClusterSize = Deref (gr_MinClusterSize g) (IntVal 1) in
      and_then (scaled minClusterSize (m_Replicas mdb) True) (\<lambda>n. Inr (currentSize \<ge> n)))"

definition GaleraConfig_SetDefaults :: "GaleraConfig \<Rightarrow> GaleraConfig" where
  "GaleraConfig_SetDefaults g =
     (let g = g\<lparr>gc_ReuseStorageVolume := or_default (gc_ReuseStorageVolume g) False\<rparr>
      in if \<not> Deref (gc_ReuseStorageVolume g) False \<and> gc_VolumeClaimTemplate g = None
         then g\<lparr>gc_VolumeClaimTemplate := Some (zeroVolumeClaimTemplate
                  \<lparr>vt_Storage := Some ''100Mi'', vt_AccessModes := [''ReadWriteOnce'']\<rparr>)\<rparr>
         else g)"

text \<open>The bump of the two data-plane images when \<^verbatim>\<open>autoUpdateDataPlane\<close> is set.\<close>

definition bumpDataPlane :: "'r reference_api \<Rightarrow> OperatorEnv \<Rightarrow> Galera \<Rightarrow> Galera result" where
  "bumpDataPlane R env g =
     and_then (with_ctx ''error bumping Galera init image''
         (SetTagOrDigest R (oe_MariadbOperatorImage env) (gi_Image (g_InitContainer g)))) (\<lambda>initBumped.
     let g = g\<lparr>g_InitContainer := (g_InitContainer g)\<lparr>gi_Image := initBumped\<rparr>\<rparr> in
     and_then (with_ctx ''error bumping Galera agent image''
         (SetTagOrDigest R (oe_MariadbOperatorImage env) (ga_Image (g_Agent g)))) (\<lambda>agentBumped.
     Inr (g\<lparr>g_Agent := (g_Agent g)\<lparr>ga_Image := agentBumped\<rparr>\<rparr>)))"

definition Galera_SetDefaults ::
    "'r reference_api \<Rightarrow> MariaDB \<Rightarrow> OperatorEnv \<Rightarrow> Galera \<Rightarrow> Galera result" where
  "Galera_SetDefaults R mdb env g =
     (let g = (if g_SST g = SSTEmpty then g\<lparr>g_SST := SSTMariaBackup\<rparr> else g);
          g = g\<lparr>g_AvailableWhenDonor := or_default (g_AvailableWhenDonor g) False\<rparr>;
          g = (if g_GaleraLibPath g = '''' then g\<lparr>g_GaleraLibPath := oe_MariadbGaleraLibPath env\<rparr> else g);
          g = (if g_ReplicaThreads g = 0 then g\<lparr>g_ReplicaThreads := 1\<rparr> else g);
          g = (if g_InitContainer g = zeroGaleraInit
               then g\<lparr>g_InitContainer := zeroGaleraInit\<lparr>gi_Image := oe_MariadbOperatorImage env\<rparr>\<rparr> else g);
          g = g\<lparr>g_Primary := PrimaryGalera_SetDefaults (g_Primary g)\<rparr>
      in and_then (with_ctx ''error setting agent defaults'' (GaleraAgent_SetDefaults mdb env (g_Agent g)))
        (\<lambda>agent.
          let g = g\<lparr>g_Agent := agent\<rparr>;
              g = g\<lparr>g_Config := GaleraConfig_SetDefaults (g_Config g)\<rparr>;
              g = g\<lparr>g_Recovery := or_default (g_Recovery g) (zeroGaleraRecovery\<lparr>gr_Enabled := True\<rparr>)\<rparr>;
              g = (if gr_Enabled (Deref (g_Recovery g) zeroGaleraRecovery)
                   then g\<lparr>g_Recovery := map_option GaleraRecovery_SetDefaults (g_Recovery g)\<rparr> else g)
          in if Deref (us_AutoUpdateDataPlane (sp_UpdateStrategy (m_Spec mdb))) False
             then bumpDataPlane R env g else Inr g))"

subsection \<open>Facts about defaulting and validation\<close>

lemma ba_Enabled_SetDefaults [simp]: "ba_Enabled (BasicAuth_SetDefaults m b) = ba_Enabled b"
  by (auto simp: BasicAuth_SetDefaults_def Let_def)

lemma agent_validate_iff:
  "GaleraAgent_Validate r = Inr () \<longleftrightarrow>
     \<not> ((\<exists>k. ga_KubernetesAuth r = Some k \<and> ka_Enabled k) \<and> (\<exists>b. ga_BasicAuth r = Some b \<and> ba_Enabled b))"
  by (cases "ga_KubernetesAuth r"; cases "ga_BasicAuth r")
    (auto simp: GaleraAgent_Validate_def zeroKubernetesAuth_def zeroBasicAuth_def)

lemma agent_defaults_shape:
  obtains r' where "GaleraAgent_SetDefaults m env r = Inr r'"
    "ga_KubernetesAuth r' = ga_KubernetesAuth (agentAuthDefaults (CurrentNamespaceOnly env = Inr True) r)"
    "ga_BasicAuth r' = map_option (BasicAuth_SetDefaults m)
       (ga_BasicAuth (agentAuthDefaults (CurrentNamespaceOnly env = Inr True) r))"
    "ga_Image r' = (if ga_Image r = '''' then oe_MariadbOperatorImage env else ga_Image r)"
    "ga_GracefulShutdownTimeout r' \<noteq> None"
proof -
  obtain b where b: "CurrentNamespaceOnly env = Inr b"
    using CurrentNamespaceOnly_eq by blast
  then show thesis
    by (intro that [of "projr (GaleraAgent_SetDefaults m env r)"])
      (auto simp: GaleraAgent_SetDefaults_def agentAuthDefaults_def Let_def)
qed

text \<open>
  Defaulting a Galera agent always succeeds and leaves an authentication method in place; the
  result passes validation exactly when the user's agent did and the defaults did not add basic
  authentication (which they do when the operator watches only its own namespace and the user set
  none) next to Kubernetes authentication the user had enabled.
\<close>

theorem GaleraAgent_defaults_auth:
  "\<exists>r'. GaleraAgent_SetDefaults m env r = Inr r' \<and>
     (ga_KubernetesAuth r' \<noteq> None \<or> ga_BasicAuth r' \<noteq> None) \<and>
     (GaleraAgent_Validate r' = Inr () \<longleftrightarrow>
        GaleraAgent_Validate r = Inr () \<and>
        \<not> (CurrentNamespaceOnly env = Inr True \<and> ga_BasicAuth r = None \<and>
           (\<exists>k. ga_KubernetesAuth r = Some k \<and> ka_Enabled k)))"
proof -
  obtain r' where r': "GaleraAgent_SetDefaults m env r = Inr r'"
    "ga_KubernetesAuth r' = ga_KubernetesAuth (agentAuthDefaults (CurrentNamespaceOnly env = Inr True) r)"
    "ga_BasicAuth r' = map_option (BasicAuth_SetDefaults m)
       (ga_BasicAuth (agentAuthDefaults (CurrentNamespaceOnly env = Inr True) r))"
    by (rule agent_defaults_shape)
  then show ?thesis
    by (intro exI [of _ r'])
      (auto simp: agent_validate_iff agentAuthDefaults_def enabledBasicAuth_def enabledKubernetesAuth_def)
qed

definition ownNamespaceEnv :: OperatorEnv where
  "ownNamespaceEnv = \<lparr>oe_MariadbOperatorNamespace = ''ns'', oe_MariadbOperatorImage = ''operator:1'',
     oe_RelatedMariadbImage = ''mariadb:11'', oe_RelatedExporterImage = ''exporter:1'',
     oe_MariadbGaleraLibPath = ''lib'', oe_WatchNamespace = ''ns''\<rparr>"

definition kubernetesAgent :: GaleraAgent where
  "kubernetesAgent = (g_Agent zeroGalera)\<lparr>ga_KubernetesAuth := Some enabledKubernetesAuth\<rparr>"

text \<open>An operator limited to its namespace and an agent with Kubernetes authentication: valid before
  the defaults, not after.\<close>

theorem GaleraAgent_defaults_auth_witness:
  "GaleraAgent_Validate kubernetesAgent = Inr () \<and>
   (\<exists>r'. GaleraAgent_SetDefaults exampleMariaDB ownNamespaceEnv kubernetesAgent = Inr r' \<and>
      GaleraAgent_Validate r' \<noteq> Inr ())"
proof -
  have "CurrentNamespaceOnly ownNamespaceEnv = Inr True" "ga_BasicAuth kubernetesAgent = None"
    "\<exists>k. ga_KubernetesAuth kubernetesAgent = Some k \<and> ka_Enabled k"
    by (simp_all add: CurrentNamespaceOnly_eq ownNamespaceEnv_def kubernetesAgent_def zeroGalera_def
        enabledKubernetesAuth_def)
  then show ?thesis
    using GaleraAgent_defaults_auth [of exampleMariaDB ownNamespaceEnv kubernetesAgent]
    by (auto simp: agent_validate_iff)
qed

text \<open>The documented behaviour of \<^verbatim>\<open>GetScaledValueFromIntOrPercent\<close> the recovery section relies
  on: an integer is its own value.\<close>

definition scaler_ok :: "(IntOrString \<Rightarrow> int \<Rightarrow> bool \<Rightarrow> int result) \<Rightarrow> bool" where
  "scaler_ok scaled \<longleftrightarrow> (\<forall>n total up. scaled (IntVal n) total up = Inr n)"

text \<open>
  For a recovery section that passes validation with an absolute minimum size, the size check
  never fails, a cluster with all its replicas is large enough, and shrinking the cluster can only
  turn the check from satisfied to unsatisfied; with the default section the check asks for one
  node.
\<close>

theorem HasMinClusterSize_valid:
  assumes "scaler_ok scaled" "gr_Enabled g" "gr_MinClusterSize g = Some (IntVal n)"
    "GaleraRecovery_Validate scaled mdb g = Inr ()"
  shows "HasMinClusterSize scaled c mdb g = Inr (n \<le> c) \<and>
    HasMinClusterSize scaled (m_Replicas mdb) mdb g = Inr True \<and>
    (HasMinClusterSize scaled c mdb g = Inr True \<and> c \<le> c' \<longrightarrow> HasMinClusterSize scaled c' mdb g = Inr True) \<and>
    HasMinClusterSize scaled c mdb (GaleraRecovery_SetDefaults (g\<lparr>gr_MinClusterSize := None\<rparr>)) = Inr (1 \<le> c)"
proof -
  have "n \<le> m_Replicas mdb"
    using assms by (auto simp: GaleraRecovery_Validate_def scaler_ok_def split: if_splits)
  then show ?thesis
    using assms by (auto simp: HasMinClusterSize_def scaler_ok_def GaleraRecovery_SetDefaults_def)
qed

theorem HasMinClusterSize_valid_witness:
  "HasMinClusterSize (\<lambda>s t u. case s of IntVal n \<Rightarrow> Inr n | StrVal _ \<Rightarrow> Inl (ErrExt ''percent'')) 1
     exampleMariaDB (zeroGaleraRecovery\<lparr>gr_Enabled := True, gr_MinClusterSize := Some (IntVal 2)\<rparr>) = Inr False"
  using HasMinClusterSize_valid [of "\<lambda>s t u. case s of IntVal n \<Rightarrow> Inr n | StrVal _ \<Rightarrow> Inl (ErrExt ''percent'')"
      "zeroGaleraRecovery\<lparr>gr_Enabled := True, gr_MinClusterSize := Some (IntVal 2)\<rparr>" 2 exampleMariaDB 1 1]
  by (simp add: scaler_ok_def GaleraRecovery_Validate_def zeroGaleraRecovery_def example_defs)

end
