(* ===== verification/Mariadb_Webhook.thy ===== *)
theory Mariadb_Webhook
  imports Galera_Types
begin

text \<open>
  Defaulting and admission of the MariaDB resource: the \<^verbatim>\<open>SetDefaults\<close> and \<^verbatim>\<open>Validate\<close> methods of
  \<^verbatim>\<open>api/v1alpha1/mariadb_types.go\<close> and the validating and defaulting webhooks of
  \<^verbatim>\<open>internal/webhook/v1alpha1/mariadb_webhook.go\<close>. Quantities are compared by the argument \<open>Q\<close>;
  the check of immutable fields by reflection over the Go types is the argument \<open>immutable\<close>.
  An error of \<^verbatim>\<open>field.Invalid\<close> is an \<open>ErrCtx\<close> with the path of the field.
\<close>

subsection \<open>Storage\<close>

definition Storage_Validate :: "quantity_api \<Rightarrow> MariaDB \<Rightarrow> Storage \<Rightarrow> unit result" where
  "Storage_Validate Q mdb s =
     (if st_Ephemeral s = Some True \<and> IsHAEnabled mdb
      then Inl (ErrNew ''ephemeral storage is only compatible with non HA MariaDBs'')
      else if st_Ephemeral s = Some True \<and> (st_Size s \<noteq> None \<or> st_VolumeClaimTemplate s \<noteq> None)
      then Inl (ErrNew ''either ephemeral or regular storage must be provided'')
      else if st_Ephemeral s = Some True then Inr ()
      else if (case st_Size s of None \<Rightarrow> False | Some q \<Rightarrow> Quantity_IsZero Q q)
      then Inl (ErrNew ''greater than zero storage size must be provided'')
      else case st_Size s of
        None \<Rightarrow> if st_VolumeClaimTemplate s = None
               then Inl (ErrNew ''either storage size or volumeClaimTemplate must be provided'') else Inr ()
      | Some sz \<Rightarrow>
          (case st_VolumeClaimTemplate s of
             None \<Rightarrow> Inr ()
           | Some t \<Rightarrow>
               (case vt_Storage t of
                  None \<Rightarrow> Inr ()
                | Some vctplSize \<Rightarrow>
                    if Quantity_Cmp Q sz vctplSize < 0 then Inl (ErrNew ''storage size cannot be decreased'')
                    else Inr ())))"

definition shouldUpdateVolumeClaimTemplate :: "quantity_api \<Rightarrow> Storage \<Rightarrow> bool" where
  "shouldUpdateVolumeClaimTemplate Q s =
     (case st_Size s of
        None \<Rightarrow> False
      | Some sz \<Rightarrow>
          (case st_VolumeClaimTemplate s of
             None \<Rightarrow> True
           | Some t \<Rightarrow>
               (case vt_Storage t of
                  None \<Rightarrow> True
                | Some vctplSize \<Rightarrow>
                    if Quantity_Cmp Q sz vctplSize \<noteq> 0 then True
                    else st_StorageClassName s \<noteq> '''' \<and>
                         st_StorageClassName s \<noteq> Deref (vt_StorageClassName t) '''')))"

definition Storage_SetDefaults :: "quantity_api \<Rightarrow> Storage \<Rightarrow> Storage" where
  "Storage_SetDefaults Q s =
     (let s = s\<lparr>st_Ephemeral := or_default (st_Ephemeral s) False\<rparr>;
          s = (if st_ResizeInUseVolumes s = None \<and> \<not> Deref (st_Ephemeral s) False
               then s\<lparr>st_ResizeInUseVolumes := Some True\<rparr> else s);
          s = (if st_WaitForVolumeResize s = None \<and> \<not> Deref (st_Ephemeral s) False
               then s\<lparr>st_WaitForVolumeResize := Some True\<rparr> else s)
      in if shouldUpdateVolumeClaimTemplate Q s
         then s\<lparr>st_VolumeClaimTemplate := Some
                  \<lparr>vt_Storage = st_Size s, vt_AccessModes = [''ReadWriteOnce''],
                   vt_StorageClassName = (if st_StorageClassName s \<noteq> '''' then Some (st_StorageClassName s) else None)\<rparr>\<rparr>
         else s)"

definition Storage_GetSize :: "Storage \<Rightarrow> Quantity option" where
  "Storage_GetSize s =
     (case vt_Storage (Deref (st_VolumeClaimTemplate s) zeroVolumeClaimTemplate) of
        Some q \<Rightarrow> Some q
      | None \<Rightarrow> st_Size s)"

subsection \<open>Bootstrap source, update strategy, affinity\<close>

definition BootstrapFrom_Validate :: "BootstrapFrom \<Rightarrow> unit result" where
  "BootstrapFrom_Validate b =
     (if bf_BackupRef b = None \<and> bf_VolumeSnapshotRef b = None \<and> bf_S3 b = None \<and> bf_Volume b = None
      then Inl (ErrNew ''unable to determine bootstrap source'')
      else
       and_then (if bf_BackupContentType b \<noteq> BackupContentTypeEmpty
                 then with_ctx ''invalid backupContentType'' (BackupContentType_Validate (bf_BackupContentType b))
                 else Inr ()) (\<lambda>_.
       and_then
        (case bf_BackupRef b of
           None \<Rightarrow> Inr ()
         | Some r \<Rightarrow>
             if tr_Kind r = '''' \<or> tr_Kind r = ''Backup'' then
               (if bf_BackupContentType b \<notin> {BackupContentTypeEmpty, BackupContentTypeLogical}
                then Inl (ErrNew ''Logical type must be set in this case'') else Inr ())
             else if tr_Kind r = ''PhysicalBackup'' then
               (if bf_BackupContentType b \<notin> {BackupContentTypeEmpty, BackupContentTypePhysical}
                then Inl (ErrNew ''Physical type must be set in this case'') else Inr ())
             else Inl (ErrNew ''unsupported backup kind'')) (\<lambda>_.
       if bf_VolumeSnapshotRef b \<noteq> None then
         (if bf_BackupContentType b \<notin> {BackupContentTypeEmpty, BackupContentTypePhysical}
          then Inl (ErrNew ''inconsistent volumeSnapshotRef and backupContentType fields'')
          else if bf_S3 b \<noteq> None \<or> bf_Volume b \<noteq> None \<or> bf_RestoreJob b \<noteq> None
          then Inl (ErrNew ''s3, volume and restoreJob may not be set when volumeSnapshotRef is set'')
          else Inr ())
       else Inr ())))"

definition BootstrapFrom_IsDefaulted :: "BootstrapFrom \<Rightarrow> bool" where
  "BootstrapFrom_IsDefaulted b = (bf_Volume b \<noteq> None \<or> bf_VolumeSnapshotRef b \<noteq> None)"

definition BootstrapFrom_SetDefaults :: "MariaDB \<Rightarrow> BootstrapFrom \<Rightarrow> BootstrapFrom" where
  "BootstrapFrom_SetDefaults mariadb b =
     (let b = (case bf_BackupRef b of
                 None \<Rightarrow> b
               | Some r \<Rightarrow>
                   if bf_BackupContentType b \<noteq> BackupContentTypeEmpty then b
                   else if tr_Kind r = ''Backup'' then b\<lparr>bf_BackupContentType := BackupContentTypeLogical\<rparr>
                   else if tr_Kind r = ''PhysicalBackup'' then b\<lparr>bf_BackupContentType := BackupContentTypePhysical\<rparr>
                   else b);
          b = (if bf_VolumeSnapshotRef b \<noteq> None \<and> bf_BackupContentType b = BackupContentTypeEmpty
               then b\<lparr>bf_BackupContentType := BackupContentTypePhysical\<rparr> else b);
          b = (if bf_BackupContentType b = BackupContentTypeEmpty
               then b\<lparr>bf_BackupContentType := BackupContentTypeLogical\<rparr> else b)
      in if bf_BackupContentType b = BackupContentTypePhysical \<and> bf_S3 b \<noteq> None
         then b\<lparr>bf_Volume := Some (BackupStagingStorage_VolumeOrEmptyDir
                  (Deref (bf_StagingStorage b) zeroBackupStagingStorage) (PhysicalBackupStagingPVCKey mariadb))\<rparr>
         else b)"

record RestoreSource =
  rs_BackupRef :: "string option"
  rs_S3 :: "BackupS3 option"
  rs_Volume :: "StorageVolumeSource option"
  rs_TargetRecoveryTime :: "int option"
  rs_StagingStorage :: "BackupStagingStorage option"

definition BootstrapFrom_RestoreSource :: "BootstrapFrom \<Rightarrow> RestoreSource result" where
  "BootstrapFrom_RestoreSource b =
     and_then
       (case bf_BackupRef b of
          None \<Rightarrow> Inr None
        | Some r \<Rightarrow>
            if tr_Kind r = ''PhysicalBackup''
            then Inl (ErrNew ''restoration from physical backups via RestoreSource is not supported'')
            else Inr (Some (tr_Name r)))
       (\<lambda>backupRef. Inr \<lparr>rs_BackupRef = backupRef, rs_S3 = bf_S3 b, rs_Volume = bf_Volume b,
          rs_TargetRecoveryTime = bf_TargetRecoveryTime b, rs_StagingStorage = bf_StagingStorage b\<rparr>)"

definition UpdateStrategy_SetDefaults :: "UpdateStrategy \<Rightarrow> UpdateStrategy" where
  "UpdateStrategy_SetDefaults u =
     (let u = (if us_Type u = UpdateTypeEmpty then u\<lparr>us_Type := ReplicasFirstPrimaryLastUpdateType\<rparr> else u)
      in u\<lparr>us_AutoUpdateDataPlane := or_default (us_AutoUpdateDataPlane u) False\<rparr>)"

definition AffinityConfig_SetDefaults :: "string list \<Rightarrow> AffinityConfig \<Rightarrow> AffinityConfig" where
  "AffinityConfig_SetDefaults antiAffinityInstances a =
     (let antiAffinityEnabled = Deref (af_AntiAffinityEnabled a) False in
      if antiAffinityEnabled \<and> length antiAffinityInstances > 0 \<and> af_PodAntiAffinity a = None
      then a\<lparr>af_PodAntiAffinity := Some [(antiAffinityInstances, ''kubernetes.io/hostname'')]\<rparr>
      else a)"

definition PodTemplate_SetDefaults :: "ObjectMeta \<Rightarrow> MariaDBSpec \<Rightarrow> MariaDBSpec" where
  "PodTemplate_SetDefaults objMeta p =
     p\<lparr>sp_ServiceAccountName := or_default (sp_ServiceAccountName p) (Name objMeta),
       sp_Affinity := map_option (AffinityConfig_SetDefaults [Name objMeta]) (sp_Affinity p)\<rparr>"

subsection \<open>Defaults of the resource\<close>

definition MariadbMetrics_SetDefaults :: "OperatorEnv \<Rightarrow> MariaDB \<Rightarrow> MariadbMetrics \<Rightarrow> MariadbMetrics" where
  "MariadbMetrics_SetDefaults env m x =
     (let x = (if mm_Exporter_Image x = '''' then x\<lparr>mm_Exporter_Image := oe_RelatedExporterImage env\<rparr> else x);
          x = (if mm_Exporter_Port x = 0 then x\<lparr>mm_Exporter_Port := 9104\<rparr> else x);
          x = x\<lparr>mm_Exporter_Affinity := map_option (AffinityConfig_SetDefaults [m_Name m]) (mm_Exporter_Affinity x)\<rparr>;
          x = (if mm_Username x = '''' then x\<lparr>mm_Username := nn_Name (MetricsKey m)\<rparr> else x)
      in if mm_PasswordSecretKeyRef x = zeroSecretKeyRef
         then x\<lparr>mm_PasswordSecretKeyRef := MetricsPasswordSecretKeyRef m\<rparr> else x)"

text \<open>The steps before the Galera defaults, which cannot fail, and those after.\<close>

definition spec_defaults_front :: "OperatorEnv \<Rightarrow> MariaDB \<Rightarrow> MariaDBSpec \<Rightarrow> MariaDBSpec" where
  "spec_defaults_front env m s =
     (let s = (if sp_Image s = '''' then s\<lparr>sp_Image := oe_RelatedMariadbImage env\<rparr> else s);
          s = s\<lparr>sp_RootEmptyPassword := or_default (sp_RootEmptyPassword s) False\<rparr>;
          s = (if sp_RootPasswordSecretKeyRef s = zeroSecretKeyRef \<and> sp_RootEmptyPassword s \<noteq> Some True
               then s\<lparr>sp_RootPasswordSecretKeyRef := RootPasswordSecretKeyRef m\<rparr> else s);
          s = (if sp_Port s = 0 then s\<lparr>sp_Port := 3306\<rparr> else s);
          s = (if sp_MyCnf s \<noteq> None \<and> sp_MyCnfConfigMapKeyRef s = None
               then s\<lparr>sp_MyCnfConfigMapKeyRef := Some (MyCnfConfigMapKeyRef m)\<rparr> else s);
          s = (if sp_Username s \<noteq> None \<and> sp_PasswordSecretKeyRef s = None \<and>
                  sp_PasswordHashSecretKeyRef s = None \<and> sp_PasswordPlugin s = None
               then s\<lparr>sp_PasswordSecretKeyRef := Some (PasswordSecretKeyRef m)\<rparr> else s);
          s = (if AreMetricsEnabled m
               then s\<lparr>sp_Metrics := map_option (MariadbMetrics_SetDefaults env m) (sp_Metrics s)\<rparr> else s);
          s = s\<lparr>sp_TLS := or_default (sp_TLS s) (zeroTLS\<lparr>tls_Enabled := True\<rparr>)\<rparr>
      in if Deref (sp_MaxScale_Enabled s) False \<and> sp_MaxScaleRef s = None
         then s\<lparr>sp_MaxScaleRef := Some \<lparr>or_Name = nn_Name (MaxScaleKey m), or_Namespace = m_Namespace m\<rparr>\<rparr>
         else s)"

definition spec_defaults_back :: "quantity_api \<Rightarrow> MariaDB \<Rightarrow> MariaDBSpec \<Rightarrow> MariaDBSpec" where
  "spec_defaults_back Q m s =
     (let s = s\<lparr>sp_BootstrapFrom := map_option (BootstrapFrom_SetDefaults m) (sp_BootstrapFrom s)\<rparr>;
          s = (if sp_UpdateStrategy s = zeroUpdateStrategy
               then s\<lparr>sp_UpdateStrategy := UpdateStrategy_SetDefaults (sp_UpdateStrategy s)\<rparr> else s);
          s = s\<lparr>sp_Storage := Storage_SetDefaults Q (sp_Storage s)\<rparr>
      in PodTemplate_SetDefaults (m_ObjectMeta m) s)"

definition MariaDB_SetDefaults ::
    "quantity_api \<Rightarrow> 'r reference_api \<Rightarrow> OperatorEnv \<Rightarrow> MariaDB \<Rightarrow> MariaDB result" where
  "MariaDB_SetDefaults Q R env m =
     (let m = m\<lparr>m_Spec := spec_defaults_front env m (m_Spec m)\<rparr> in
      and_then
        (if IsGaleraEnabled m
         then (case sp_Galera (m_Spec m) of
                 None \<Rightarrow> Inr m
               | Some g \<Rightarrow>
                   and_then (with_ctx ''error setting Galera defaults'' (Galera_SetDefaults R m env g))
                     (\<lambda>g. Inr (m\<lparr>m_Spec := (m_Spec m)\<lparr>sp_Galera := Some g\<rparr>\<rparr>)))
         else Inr m)
        (\<lambda>m. Inr (m\<lparr>m_Spec := spec_defaults_back Q m (m_Spec m)\<rparr>)))"

subsection \<open>The webhooks\<close>

definition MariaDB_Default :: "MariaDB \<Rightarrow> MariaDB" where
  "MariaDB_Default mariadb =
     (case sp_Replication (m_Spec mariadb) of
        None \<Rightarrow> mariadb
      | Some r \<Rightarrow>
          if rp_Enabled r
          then mariadb\<lparr>m_Spec := (m_Spec mariadb)\<lparr>sp_Replication := Some (Replication_FillWithDefaults r)\<rparr>\<rparr>
          else mariadb)"

definition validateHA :: "MariaDB \<Rightarrow> unit result" where
  "validateHA mariadb =
     (if rp_Enabled (MariaDB_Replication mariadb) \<and> IsGaleraEnabled mariadb
      then Inl (ErrNew ''you may only enable one HA method at a time'')
      else if \<not> IsHAEnabled mariadb \<and> m_Replicas mariadb > 1
      then Inl (ErrCtx ''spec.replicas'' (ErrNew ''Multiple replicas can only be specified with HA''))
      else if IsHAEnabled mariadb \<and> m_Replicas mariadb \<le> 1
      then Inl (ErrCtx ''spec.replicas'' (ErrNew ''Multiple replicas must be specified with HA''))
      else Inr ())"

definition validateMaxScale :: "MariaDB \<Rightarrow> unit result" where
  "validateMaxScale mariadb =
     (if sp_MaxScaleRef (m_Spec mariadb) \<noteq> None \<and> sp_MaxScale_Enabled (m_Spec mariadb) \<noteq> None
      then Inl (ErrCtx ''spec.maxScaleRef'' (ErrNew ''maxScaleRef and maxScale cannot be specified simultaneously''))
      else Inr ())"

definition validateGalera ::
    "(IntOrString \<Rightarrow> int \<Rightarrow> bool \<Rightarrow> int result) \<Rightarrow> MariaDB \<Rightarrow> unit result" where
  "validateGalera scaled mariadb =
     (let galera = Deref (sp_Galera (m_Spec mariadb)) zeroGalera in
      if \<not> g_Enabled galera then Inr ()
      else if (case pg_PodIndex (g_Primary galera) of
                 None \<Rightarrow> False | Some i \<Rightarrow> i < 0 \<or> i \<ge> m_Replicas mariadb)
      then Inl (ErrCtx ''spec.galera.primary.podIndex'' (ErrNew ''out of replicas bounds''))
      else
       and_then (if g_SST galera \<noteq> SSTEmpty
                 then with_ctx ''spec.galera.sst'' (SST_Validate (g_SST galera)) else Inr ()) (\<lambda>_.
       if g_ReplicaThreads galera < 0
       then Inl (ErrCtx ''spec.galera.replicaThreads'' (ErrNew ''must be at least 1''))
       else if map_of (g_ProviderOptions galera) ''ist.recv_addr'' \<noteq> None
       then Inl (ErrCtx ''spec.galera.providerOptions'' (ErrNew ''cannot contain: ist.recv_addr''))
       else
        and_then (with_ctx ''spec.galera.agent'' (GaleraAgent_Validate (g_Agent galera))) (\<lambda>_.
        case g_Recovery galera of
          None \<Rightarrow> Inr ()
        | Some rcv \<Rightarrow> with_ctx ''spec.galera.recovery'' (GaleraRecovery_Validate scaled mariadb rcv))))"

definition validateReplication :: "MariaDB \<Rightarrow> unit result" where
  "validateReplication mariadb =
     (if \<not> rp_Enabled (MariaDB_Replication mariadb) then Inr ()
      else if primaryPodIndex mariadb < 0 \<or> primaryPodIndex mariadb \<ge> m_Replicas mariadb
      then Inl (ErrCtx ''spec.replication.primary.podIndex'' (ErrNew ''out of replicas bounds''))
      else with_ctx ''spec.replication.replica'' (ReplicaReplication_Validate (replicaOf mariadb)))"

definition validatePrimarySwitchover :: "meta_api \<Rightarrow> MariaDB \<Rightarrow> MariaDB \<Rightarrow> unit result" where
  "validatePrimarySwitchover M mariadb old =
     (if rp_Enabled (MariaDB_Replication old) \<and> IsSwitchingPrimary M old then
        (if primaryPodIndex old \<noteq> primaryPodIndex mariadb
         then Inl (ErrCtx ''spec.replication.primary.podIndex'' (ErrNew ''cannot be updated during a primary switchover''))
         else if primaryAutomaticFailover old \<noteq> primaryAutomaticFailover mariadb \<and> primaryAutomaticFailover mariadb
         then Inl (ErrCtx ''spec.replication.primary.automaticFailover''
                     (ErrNew ''cannot be enabled during a primary switchover''))
         else Inr ())
      else Inr ())"

definition validateBootstrapFrom :: "MariaDB \<Rightarrow> unit result" where
  "validateBootstrapFrom mariadb =
     (case sp_BootstrapFrom (m_Spec mariadb) of
        None \<Rightarrow> Inr ()
      | Some b \<Rightarrow> with_ctx ''spec.bootstrapFrom'' (BootstrapFrom_Validate b))"

definition validatePodDisruptionBudget :: "MariaDB \<Rightarrow> unit result" where
  "validatePodDisruptionBudget mariadb =
     (case sp_PodDisruptionBudget (m_Spec mariadb) of
        None \<Rightarrow> Inr ()
      | Some p \<Rightarrow> with_ctx ''spec.podDisruptionBudget'' (PodDisruptionBudget_Validate p))"

definition validateStorage :: "quantity_api \<Rightarrow> MariaDB \<Rightarrow> unit result" where
  "validateStorage Q mariadb =
     with_ctx ''spec.storage'' (Storage_Validate Q mariadb (sp_Storage (m_Spec mariadb)))"

definition validateUpdateStorage :: "quantity_api \<Rightarrow> MariaDB \<Rightarrow> MariaDB \<Rightarrow> unit result" where
  "validateUpdateStorage Q mariadb old =
     and_then (validateStorage Q mariadb) (\<lambda>_.
       case (Storage_GetSize (sp_Storage (m_Spec mariadb)), Storage_GetSize (sp_Storage (m_Spec old))) of
         (Some currentSize, Some oldSize) \<Rightarrow>
           if Quantity_Cmp Q currentSize oldSize < 0
           then Inl (ErrCtx ''spec.storage'' (ErrNew ''Storage size cannot be decreased'')) else Inr ()
       | _ \<Rightarrow> Inr ())"

definition validateRootPassword :: "MariaDB \<Rightarrow> unit result" where
  "validateRootPassword mariadb =
     (if IsRootPasswordEmpty mariadb \<and> IsRootPasswordDefined mariadb
      then Inl (ErrCtx ''spec.rootEmptyPassword'' (ErrNew ''must be disabled when rootPasswordSecretKeyRef is specified''))
      else Inr ())"

record tlsValidationItem =
  ti_caSecretRef :: "string option"
  ti_certSecretRef :: "string option"
  ti_certIssuerRef :: "string option"

definition validateTLSCert :: "tlsValidationItem \<Rightarrow> unit result" where
  "validateTLSCert item =
     (if ti_certSecretRef item \<noteq> None \<and> ti_certIssuerRef item \<noteq> None
      then Inl (ErrCtx ''spec.tls'' (ErrNew ''certSecretRef and certIssuerRef are mutually exclusive''))
      else if ti_caSecretRef item = None \<and> ti_certSecretRef item \<noteq> None
      then Inl (ErrCtx ''spec.tls'' (ErrNew ''caSecretRef must be set when certSecretRef is set''))
      else Inr ())"

text \<open>A loop over checks that stops at the first error.\<close>

fun first_error :: "('a \<Rightarrow> unit result) list \<Rightarrow> 'a \<Rightarrow> unit result" where
  "first_error [] x = Inr ()"
| "first_error (fn # fns) x = and_then (fn x) (\<lambda>_. first_error fns x)"

definition validateTLS :: "MariaDB \<Rightarrow> unit result" where
  "validateTLS mariadb =
     (let tls = Deref (sp_TLS (m_Spec mariadb)) zeroTLS in
      if \<not> tls_Enabled tls then Inr ()
      else first_error
        (map (\<lambda>item _. validateTLSCert item)
          [\<lparr>ti_caSecretRef = tls_ServerCASecretRef tls, ti_certSecretRef = tls_ServerCertSecretRef tls,
            ti_certIssuerRef = tls_ServerCertIssuerRef tls\<rparr>,
           \<lparr>ti_caSecretRef = tls_ClientCASecretRef tls, ti_certSecretRef = tls_ClientCertSecretRef tls,
            ti_certIssuerRef = tls_ClientCertIssuerRef tls\<rparr>]) ())"

definition MariaDB_ValidateCreate ::
    "quantity_api \<Rightarrow> (IntOrString \<Rightarrow> int \<Rightarrow> bool \<Rightarrow> int result) \<Rightarrow> MariaDB \<Rightarrow> unit result" where
  "MariaDB_ValidateCreate Q scaled mariadb =
     first_error [validateHA, validateGalera scaled, validateReplication, validateBootstrapFrom,
       validatePodDisruptionBudget, validateStorage Q, validateRootPassword, validateMaxScale, validateTLS] mariadb"

definition MariaDB_ValidateUpdate ::
    "meta_api \<Rightarrow> quantity_api \<Rightarrow> (IntOrString \<Rightarrow> int \<Rightarrow> bool \<Rightarrow> int result) \<Rightarrow>
     (MariaDB \<Rightarrow> MariaDB \<Rightarrow> unit result) \<Rightarrow> MariaDB \<Rightarrow> MariaDB \<Rightarrow> unit result" where
  "MariaDB_ValidateUpdate M Q scaled immutable oldMariadb mariadb =
     and_then (immutable mariadb oldMariadb) (\<lambda>_.
     and_then (first_error [validateHA, validateGalera scaled, validateReplication, validateBootstrapFrom,
         validatePodDisruptionBudget, validateStorage Q, validateRootPassword, validateTLS] mariadb) (\<lambda>_.
     and_then (validatePrimarySwitchover M mariadb oldMariadb) (\<lambda>_.
     validateUpdateStorage Q mariadb oldMariadb)))"

subsection \<open>What admission guarantees\<close>

lemma first_error_ok: "first_error fns x = Inr () \<longleftrightarrow> (\<forall>fn \<in> set fns. fn x = Inr ())"
  by (induction fns) auto

lemma validateHA_ok:
  "validateHA m = Inr () \<longleftrightarrow>
     \<not> (rp_Enabled (MariaDB_Replication m) \<and> IsGaleraEnabled m) \<and> (IsHAEnabled m \<longleftrightarrow> m_Replicas m > 1)"
  by (auto simp: validateHA_def)

lemma validateReplication_ok:
  "validateReplication m = Inr () \<Longrightarrow> rp_Enabled (MariaDB_Replication m) \<Longrightarrow>
     0 \<le> primaryPodIndex m \<and> primaryPodIndex m < m_Replicas m \<and>
     ReplicaReplication_Validate (replicaOf m) = Inr ()"
  by (auto simp: validateReplication_def split: if_splits)

lemma validateGalera_ok:
  assumes "validateGalera scaled m = Inr ()" "sp_Galera (m_Spec m) = Some g" "g_Enabled g"
  shows "(\<forall>i. pg_PodIndex (g_Primary g) = Some i \<longrightarrow> 0 \<le> i \<and> i < m_Replicas m) \<and>
    GaleraAgent_Validate (g_Agent g) = Inr () \<and>
    (\<forall>rcv. g_Recovery g = Some rcv \<longrightarrow> GaleraRecovery_Validate scaled m rcv = Inr ())"
  using assms by (auto simp: validateGalera_def split: if_splits option.splits)

lemma replica_formats:
  assumes "ReplicaReplication_Validate r = Inr ()"
  shows "(\<forall>w. rr_WaitPoint r = Some w \<longrightarrow> (\<exists>s. WaitPoint_MariaDBFormat w = Inr s)) \<and>
    (\<forall>g. rr_Gtid r = Some g \<longrightarrow> (\<exists>s. Gtid_MariaDBFormat g = Inr s))"
  using assms by (auto simp: ReplicaReplication_Validate_def WaitPoint_Validate_def Gtid_Validate_def
      WaitPoint_MariaDBFormat_def Gtid_MariaDBFormat_def split: option.splits WaitPoint.splits Gtid.splits)

text \<open>
  C30: an object the validating webhook accepts on creation uses at most one high-availability
  method and has more than one replica exactly when it uses one; with replication the configured
  primary is one of the Pods and the wait point and GTID settings can be rendered for the server;
  with Galera a configured primary is one of the Pods, only one agent authentication method is
  enabled and an absolute minimum cluster size is within the replicas.
\<close>

theorem ValidateCreate_sound:
  assumes "MariaDB_ValidateCreate Q scaled m = Inr ()"
  shows "\<not> (rp_Enabled (MariaDB_Replication m) \<and> IsGaleraEnabled m) \<and>
    (IsHAEnabled m \<longleftrightarrow> m_Replicas m > 1) \<and>
    (rp_Enabled (MariaDB_Replication m) \<longrightarrow>
       0 \<le> primaryPodIndex m \<and> primaryPodIndex m < m_Replicas m \<and>
       (\<forall>w. rr_WaitPoint (replicaOf m) = Some w \<longrightarrow> (\<exists>s. WaitPoint_MariaDBFormat w = Inr s)) \<and>
       (\<forall>g. rr_Gtid (replicaOf m) = Some g \<longrightarrow> (\<exists>s. Gtid_MariaDBFormat g = Inr s))) \<and>
    (\<forall>g. sp_Galera (m_Spec m) = Some g \<and> g_Enabled g \<longrightarrow>
       (\<forall>i. pg_PodIndex (g_Primary g) = Some i \<longrightarrow> 0 \<le> i \<and> i < m_Replicas m) \<and>
       \<not> ((\<exists>k. ga_KubernetesAuth (g_Agent g) = Some k \<and> ka_Enabled k) \<and>
          (\<exists>b. ga_BasicAuth (g_Agent g) = Some b \<and> ba_Enabled b)) \<and>
       (\<forall>rcv n. g_Recovery g = Some rcv \<and> gr_Enabled rcv \<and> gr_MinClusterSize rcv = Some (IntVal n) \<longrightarrow>
          0 \<le> n \<and> n \<le> m_Replicas m))"
proof -
  have checks: "validateHA m = Inr ()" "validateGalera scaled m = Inr ()" "validateReplication m = Inr ()"
    using assms by (simp_all add: MariaDB_ValidateCreate_def first_error_ok)
  show ?thesis
    using checks(1) validateReplication_ok [OF checks(3)] replica_formats validateGalera_ok [OF checks(2)]
    by (fastforce simp: validateHA_ok agent_validate_iff GaleraRecovery_Validate_def split: if_splits)
qed

text \<open>
  C31: an accepted update never moves the configured primary nor enables automatic failover while a
  switchover of the old object is in progress, keeps the primary within the replicas and never
  shrinks the storage (a size that is compared with the old one is not smaller), whatever the check
  of immutable fields does.
\<close>

theorem ValidateUpdate_sound:
  assumes "MariaDB_ValidateUpdate M Q scaled immutable old m = Inr ()"
  shows "(rp_Enabled (MariaDB_Replication old) \<and> IsSwitchingPrimary M old \<longrightarrow>
      primaryPodIndex m = primaryPodIndex old \<and>
      (primaryAutomaticFailover m \<longrightarrow> primaryAutomaticFailover old)) \<and>
    (rp_Enabled (MariaDB_Replication m) \<longrightarrow> 0 \<le> primaryPodIndex m \<and> primaryPodIndex m < m_Replicas m) \<and>
    (\<forall>new_size old_size. Storage_GetSize (sp_Storage (m_Spec m)) = Some new_size \<and>
       Storage_GetSize (sp_Storage (m_Spec old)) = Some old_size \<longrightarrow> 0 \<le> Quantity_Cmp Q new_size old_size) \<and>
    immutable m old = Inr ()"
proof -
  have checks: "validateReplication m = Inr ()" "validatePrimarySwitchover M m old = Inr ()"
      "validateUpdateStorage Q m old = Inr ()" "immutable m old = Inr ()"
    using assms by (auto simp: MariaDB_ValidateUpdate_def first_error_ok)
  show ?thesis
    using checks validateReplication_ok [OF checks(1)]
    by (auto simp: validatePrimarySwitchover_def validateUpdateStorage_def split: if_splits)
qed

text \<open>Arguments for the witnesses: quantities compared by length of their text, integers scaled to
  themselves, and a replicated cluster of three.\<close>

definition text_quantity :: quantity_api where
  "text_quantity = \<lparr>Quantity_Cmp = (\<lambda>a b. int (length a) - int (length b)), Quantity_IsZero = (\<lambda>q. q = ''0'')\<rparr>"

definition int_scaler :: "IntOrString \<Rightarrow> int \<Rightarrow> bool \<Rightarrow> int result" where
  "int_scaler s t up = (case s of IntVal n \<Rightarrow> Inr n | StrVal _ \<Rightarrow> Inl (ErrExt ''percentage''))"

definition replicatedMariaDB :: MariaDB where
  "replicatedMariaDB = exampleMariaDB
     \<lparr>m_Spec := exampleSpec\<lparr>sp_Replication := Some (zeroReplication\<lparr>rp_Enabled := True\<rparr>)\<rparr>\<rparr>"

lemmas admission_defs = first_error.simps validateHA_def validateGalera_def validateReplication_def
  validateBootstrapFrom_def validatePodDisruptionBudget_def validateStorage_def validateRootPassword_def
  validateMaxScale_def validateTLS_def Storage_Validate_def IsHAEnabled_def IsGaleraEnabled_def
  IsRootPasswordEmpty_def zeroGalera_def zeroTLS_def text_quantity_def ReplicaReplication_Validate_def
  WaitPoint_Validate_def Gtid_Validate_def

lemma replicatedMariaDB_create: "MariaDB_ValidateCreate text_quantity int_scaler replicatedMariaDB = Inr ()"
  by (simp add: MariaDB_ValidateCreate_def admission_defs replicatedMariaDB_def example_defs replication_defs)

theorem ValidateCreate_sound_witness:
  "MariaDB_ValidateCreate text_quantity int_scaler replicatedMariaDB = Inr () \<and>
   IsHAEnabled replicatedMariaDB"
  using ValidateCreate_sound [OF replicatedMariaDB_create] replicatedMariaDB_create
  by (simp add: replicatedMariaDB_def example_defs)

lemma replicatedMariaDB_update:
  "MariaDB_ValidateUpdate list_meta text_quantity int_scaler (\<lambda>_ _. Inr ()) replicatedMariaDB replicatedMariaDB = Inr ()"
  using replicatedMariaDB_create
  by (simp add: MariaDB_ValidateUpdate_def MariaDB_ValidateCreate_def first_error_ok validateUpdateStorage_def
      validatePrimarySwitchover_def text_quantity_def split: option.splits)

theorem ValidateUpdate_sound_witness:
  "MariaDB_ValidateUpdate list_meta text_quantity int_scaler (\<lambda>_ _. Inr ()) replicatedMariaDB replicatedMariaDB = Inr () \<and>
   0 \<le> primaryPodIndex replicatedMariaDB \<and> primaryPodIndex replicatedMariaDB < 3"
proof -
  have "rp_Enabled (MariaDB_Replication replicatedMariaDB)" "m_Replicas replicatedMariaDB = 3"
    by (simp_all add: replicatedMariaDB_def example_defs replication_defs)
  then show ?thesis
    using ValidateUpdate_sound [OF replicatedMariaDB_update] replicatedMariaDB_update by simp
qed

lemma BootstrapFrom_Validate_iff:
  "BootstrapFrom_Validate b = Inr () \<longleftrightarrow>
     (bf_BackupRef b \<noteq> None \<or> bf_VolumeSnapshotRef b \<noteq> None \<or> bf_S3 b \<noteq> None \<or> bf_Volume b \<noteq> None) \<and>
     bf_BackupContentType b \<in> {BackupContentTypeEmpty, BackupContentTypeLogical, BackupContentTypePhysical} \<and>
     (\<forall>r. bf_BackupRef b = Some r \<longrightarrow>
        (if tr_Kind r = ''PhysicalBackup'' then bf_BackupContentType b \<noteq> BackupContentTypeLogical
         else tr_Kind r \<in> {'''', ''Backup''} \<and> bf_BackupContentType b \<noteq> BackupContentTypePhysical)) \<and>
     (bf_VolumeSnapshotRef b \<noteq> None \<longrightarrow> bf_BackupContentType b \<noteq> BackupContentTypeLogical \<and>
        bf_S3 b = None \<and> bf_Volume b = None \<and> bf_RestoreJob b = None)"
  by (cases "bf_BackupContentType b"; cases "bf_BackupRef b")
    (simp_all add: BootstrapFrom_Validate_def BackupContentType_Validate_def)

lemma BootstrapFrom_SetDefaults_fields:
  "bf_BackupRef (BootstrapFrom_SetDefaults m b) = bf_BackupRef b"
  "bf_VolumeSnapshotRef (BootstrapFrom_SetDefaults m b) = bf_VolumeSnapshotRef b"
  "bf_S3 (BootstrapFrom_SetDefaults m b) = bf_S3 b"
  "bf_RestoreJob (BootstrapFrom_SetDefaults m b) = bf_RestoreJob b"
  "bf_S3 b = None \<Longrightarrow> bf_Volume (BootstrapFrom_SetDefaults m b) = bf_Volume b"
  "bf_BackupContentType (BootstrapFrom_SetDefaults m b) =
     (if bf_BackupContentType b \<noteq> BackupContentTypeEmpty then bf_BackupContentType b
      else case bf_BackupRef b of
        Some r \<Rightarrow> if tr_Kind r = ''Backup'' then BackupContentTypeLogical
                 else if tr_Kind r = ''PhysicalBackup'' \<or> bf_VolumeSnapshotRef b \<noteq> None then BackupContentTypePhysical
                 else BackupContentTypeLogical
      | None \<Rightarrow> if bf_VolumeSnapshotRef b \<noteq> None then BackupContentTypePhysical else BackupContentTypeLogical)"
  by (simp_all add: BootstrapFrom_SetDefaults_def Let_def split: option.split)

text \<open>
  Defaulting a bootstrap source that passed validation gives one that passes again, except when
  the source names both a volume snapshot and a backup that is not explicitly physical and leaves
  the content type open: that one is accepted, and rejected after its own defaults are filled in.
\<close>

theorem BootstrapFrom_defaults_valid:
  assumes "BootstrapFrom_Validate b = Inr ()"
  shows "(BootstrapFrom_Validate (BootstrapFrom_SetDefaults m b) = Inr ()) =
    (\<not> (bf_VolumeSnapshotRef b \<noteq> None \<and> bf_BackupContentType b = BackupContentTypeEmpty \<and>
        (\<exists>r. bf_BackupRef b = Some r \<and> tr_Kind r \<noteq> ''PhysicalBackup'')))"
  using assms unfolding BootstrapFrom_Validate_iff BootstrapFrom_SetDefaults_fields(1-4,6)
  by (cases "bf_BackupRef b"; cases "bf_VolumeSnapshotRef b"; cases "bf_BackupContentType b")
    (auto simp: BootstrapFrom_SetDefaults_fields(5) split: if_splits)

definition ambiguousBootstrapFrom :: BootstrapFrom where
  "ambiguousBootstrapFrom = \<lparr>bf_BackupRef = Some \<lparr>tr_Name = ''backup'', tr_Kind = ''''\<rparr>,
     bf_VolumeSnapshotRef = Some ''snapshot'', bf_BackupContentType = BackupContentTypeEmpty, bf_S3 = None,
     bf_Volume = None, bf_TargetRecoveryTime = None, bf_StagingStorage = None, bf_RestoreJob = None\<rparr>"

theorem BootstrapFrom_defaults_valid_witness:
  "BootstrapFrom_Validate ambiguousBootstrapFrom = Inr () \<and>
   BootstrapFrom_Validate (BootstrapFrom_SetDefaults exampleMariaDB ambiguousBootstrapFrom) \<noteq> Inr ()"
proof -
  have ok: "BootstrapFrom_Validate ambiguousBootstrapFrom = Inr ()"
    by (simp add: BootstrapFrom_Validate_def ambiguousBootstrapFrom_def)
  from BootstrapFrom_defaults_valid [OF this, of exampleMariaDB] ok show ?thesis
    by (simp add: ambiguousBootstrapFrom_def)
qed

end
