(* ===== verification/Go_Prog.thy ===== *)
theory Go_Prog
  imports Go_Prelude
begin

text \<open>
  Effects. An operation that talks to the Kubernetes API, to a database or to another process is
  a program: it returns a value, makes a call and goes on with the answer, or starts a group of
  goroutines and goes on with what they report. Programs are data, so a program says exactly
  which calls the code makes, in which order, and how it branches on the answers; what answers
  come back is left open. \<open>exec\<close> relates a program to every trace (calls with their answers) and
  value it can produce against any environment, \<open>run\<close> computes one run against a given one.

  Two ways of joining goroutines occur. \<open>WaitAll\<close> is \<^verbatim>\<open>errgroup.Group\<close>: wait for all of them and
  return one of the errors. \<open>FirstError\<close> is the hand-written \<^verbatim>\<open>WaitGroup\<close> with a done and an error
  channel and a \<^verbatim>\<open>select\<close>: return as soon as one goroutine sends an error or the context is done,
  while the others may be anywhere in their work. The error channel is unbuffered, so a goroutine
  that failed is not done until its error has been received, and the done channel is only closed
  when no goroutine failed.
\<close>

datatype join = WaitAll | FirstError

datatype ('c, 'r, 'g, 'u, 'a) prog =
    Ret 'a
  | Call 'c "'r \<Rightarrow> ('c, 'r, 'g, 'u, 'a) prog"
  | Group join "'g list" "go_error option \<times> 'u list \<Rightarrow> ('c, 'r, 'g, 'u, 'a) prog"

type_synonym ('c, 'r) trace = "('c \<times> 'r) list"

text \<open>A goroutine reports an optional error and a value; it starts no goroutines of its own. An
  operation of the operator may start them.\<close>

type_synonym ('c, 'r, 'u) task = "('c, 'r, unit, 'u, go_error option \<times> 'u) prog"
type_synonym ('c, 'r, 'u, 'a) go = "('c, 'r, ('c, 'r, 'u) task, 'u, 'a) prog"

subsection \<open>Sequencing\<close>

primrec bindP :: "('c, 'r, 'g, 'u, 'a) prog \<Rightarrow> ('a \<Rightarrow> ('c, 'r, 'g, 'u, 'b) prog) \<Rightarrow>
    ('c, 'r, 'g, 'u, 'b) prog" where
  "bindP (Ret a) f = f a"
| "bindP (Call c k) f = Call c (\<lambda>r. bindP (k r) f)"
| "bindP (Group j gs k) f = Group j gs (\<lambda>x. bindP (k x) f)"

lemma bindP_Ret [simp]: "bindP p Ret = p"
  by (induction p) auto

lemma bindP_assoc: "bindP (bindP p f) g = bindP p (\<lambda>x. bindP (f x) g)"
  by (induction p) auto

text \<open>\<^verbatim>\<open>if err != nil { return err }\<close> after a call, and the same with the error put in context.\<close>

definition tryP :: "('c, 'r, 'g, 'u, 'a result) prog \<Rightarrow>
    ('a \<Rightarrow> ('c, 'r, 'g, 'u, 'b result) prog) \<Rightarrow> ('c, 'r, 'g, 'u, 'b result) prog" where
  "tryP p f = bindP p (\<lambda>x. case x of Inl e \<Rightarrow> Ret (Inl e) | Inr a \<Rightarrow> f a)"

definition ctxP :: "string \<Rightarrow> ('c, 'r, 'g, 'u, 'a result) prog \<Rightarrow>
    ('c, 'r, 'g, 'u, 'a result) prog" where
  "ctxP msg p = bindP p (\<lambda>x. Ret (with_ctx msg x))"

fun forP :: "'x list \<Rightarrow> ('x \<Rightarrow> ('c, 'r, 'g, 'u, unit result) prog) \<Rightarrow>
    ('c, 'r, 'g, 'u, unit result) prog" where
  "forP [] body = Ret (Inr ())"
| "forP (x # xs) body = tryP (body x) (\<lambda>_. forP xs body)"

text \<open>A block of statements, each followed by its error check.\<close>

primrec seqP :: "('c, 'r, 'g, 'u, unit result) prog list \<Rightarrow> ('c, 'r, 'g, 'u, unit result) prog" where
  "seqP [] = Ret (Inr ())"
| "seqP (p # ps) = tryP p (\<lambda>_. seqP ps)"

subsection \<open>Executions\<close>

inductive exec :: "(join \<Rightarrow> 'g list \<Rightarrow> ('c, 'r) trace \<Rightarrow> go_error option \<times> 'u list \<Rightarrow> bool) \<Rightarrow>
    ('c, 'r, 'g, 'u, 'a) prog \<Rightarrow> ('c, 'r) trace \<Rightarrow> 'a \<Rightarrow> bool"
  for grp where
  exec_ret: "exec grp (Ret a) [] a"
| exec_call: "exec grp (k r) t a \<Longrightarrow> exec grp (Call c k) ((c, r) # t) a"
| exec_group: "grp j gs t1 x \<Longrightarrow> exec grp (k x) t2 a \<Longrightarrow> exec grp (Group j gs k) (t1 @ t2) a"

inductive_simps exec_Ret [simp]: "exec grp (Ret a) t b"
inductive_simps exec_Call: "exec grp (Call c k) t b"
inductive_simps exec_Group: "exec grp (Group j gs k) t b"

lemma exec_bindI: "exec grp p t1 a \<Longrightarrow> exec grp (f a) t2 b \<Longrightarrow> exec grp (bindP p f) (t1 @ t2) b"
  by (induction rule: exec.induct) (auto intro: exec.intros simp: append.assoc)

lemma exec_bindD:
  "exec grp (bindP p f) t b \<Longrightarrow>
    \<exists>t1 t2 a. t = t1 @ t2 \<and> exec grp p t1 a \<and> exec grp (f a) t2 b"
proof (induction p arbitrary: t)
  case (Ret a)
  then show ?case by (metis append_Nil bindP.simps(1) exec_ret)
next
  case (Call c k)
  then obtain r t' where t: "t = (c, r) # t'" and "exec grp (bindP (k r) f) t' b"
    by (auto simp: exec_Call)
  with Call.IH [of "k r" t'] obtain t1 t2 a
    where "t' = t1 @ t2" "exec grp (k r) t1 a" "exec grp (f a) t2 b" by auto
  then have "t = ((c, r) # t1) @ t2" and "exec grp (Call c k) ((c, r) # t1) a"
    and "exec grp (f a) t2 b" using t by (auto intro: exec_call)
  then show ?case by blast
next
  case (Group j gs k)
  then obtain x u t' where t: "t = u @ t'" and g: "grp j gs u x"
    and "exec grp (bindP (k x) f) t' b"
    by (auto simp: exec_Group)
  with Group.IH [of "k x" t'] obtain t1 t2 a
    where "t' = t1 @ t2" "exec grp (k x) t1 a" "exec grp (f a) t2 b" by auto
  then have "t = (u @ t1) @ t2" and "exec grp (Group j gs k) (u @ t1) a"
    and "exec grp (f a) t2 b" using t g by (auto intro: exec_group)
  then show ?case by blast
qed

lemma exec_bind: "exec grp (bindP p f) t b \<longleftrightarrow>
    (\<exists>t1 t2 a. t = t1 @ t2 \<and> exec grp p t1 a \<and> exec grp (f a) t2 b)"
proof
  show "exec grp (bindP p f) t b \<Longrightarrow>
      \<exists>t1 t2 a. t = t1 @ t2 \<and> exec grp p t1 a \<and> exec grp (f a) t2 b"
    by (rule exec_bindD)
qed (auto intro: exec_bindI)

lemma exec_tryP: "exec grp (tryP p f) t x \<longleftrightarrow>
    (\<exists>e. x = Inl e \<and> exec grp p t (Inl e)) \<or>
    (\<exists>t1 t2 a. t = t1 @ t2 \<and> exec grp p t1 (Inr a) \<and> exec grp (f a) t2 x)" (is "?l \<longleftrightarrow> ?r")
proof
  assume ?l
  then obtain t1 t2 y where *: "t = t1 @ t2" "exec grp p t1 y"
    "exec grp (case y of Inl e \<Rightarrow> Ret (Inl e) | Inr a \<Rightarrow> f a) t2 x"
    unfolding tryP_def exec_bind by blast
  then show ?r by (cases y) auto
next
  assume ?r
  then show ?l
  proof (elim disjE exE conjE)
    fix e assume "x = Inl e" and "exec grp p t (Inl e)"
    then have "exec grp (tryP p f) (t @ []) x"
      unfolding tryP_def by (intro exec_bindI [where a = "Inl e"]) simp_all
    then show ?l by simp
  next
    fix t1 t2 a
    assume *: "t = t1 @ t2" "exec grp p t1 (Inr a)" "exec grp (f a) t2 x"
    show ?l unfolding tryP_def *(1)
      by (rule exec_bindI [OF *(2)]) (simp add: *(3))
  qed
qed

lemma exec_tryP_Inr: "exec grp (tryP p f) t (Inr b) \<longleftrightarrow>
    (\<exists>t1 t2 a. t = t1 @ t2 \<and> exec grp p t1 (Inr a) \<and> exec grp (f a) t2 (Inr b))"
  by (simp add: exec_tryP)

lemma exec_ctxP: "exec grp (ctxP msg p) t x \<longleftrightarrow> (\<exists>y. x = with_ctx msg y \<and> exec grp p t y)"
  by (auto simp: ctxP_def exec_bind)

lemma exec_ctxP_Inr [simp]: "exec grp (ctxP msg p) t (Inr a) \<longleftrightarrow> exec grp p t (Inr a)"
proof -
  have "Inr a = with_ctx msg y \<longleftrightarrow> y = Inr a" for y
    by (cases y) auto
  then show ?thesis by (simp add: exec_ctxP)
qed

lemma exec_bind_Ret: "exec grp (bindP p (\<lambda>x. Ret (f x))) t y \<longleftrightarrow> (\<exists>a. exec grp p t a \<and> y = f a)"
  by (auto simp: exec_bind)

lemma exec_bind_Ret_prod:
  "exec grp (bindP p (\<lambda>(a, b). Ret (f a b))) t y \<longleftrightarrow> (\<exists>a b. exec grp p t (a, b) \<and> y = f a b)"
  by (auto simp: exec_bind) blast

lemma exec_case_sum:
  "exec grp (case x of Inl e \<Rightarrow> f e | Inr a \<Rightarrow> g a) t y \<longleftrightarrow>
     (\<exists>e. x = Inl e \<and> exec grp (f e) t y) \<or> (\<exists>a. x = Inr a \<and> exec grp (g a) t y)"
  by (cases x) auto

text \<open>The facts that take an execution of a composite program apart.\<close>

lemmas exec_simps = exec_Call exec_Group exec_tryP exec_bind exec_ctxP

text \<open>A block that succeeds has run all its statements, each with success.\<close>

lemma exec_seqP_member:
  "exec grp (seqP ps) t (Inr ()) \<Longrightarrow> p \<in> set ps \<Longrightarrow>
    \<exists>t1 t2 t3. t = t1 @ t2 @ t3 \<and> exec grp p t2 (Inr ())"
proof (induction ps arbitrary: t)
  case (Cons q ps)
  then obtain t1 t2 u where t: "t = t1 @ t2" and q: "exec grp q t1 (Inr u)" and r: "exec grp (seqP ps) t2 (Inr ())"
    by (auto simp: exec_tryP_Inr)
  show ?case
  proof (cases "p = q")
    case True
    with t q have "t = [] @ t1 @ t2 \<and> exec grp p t1 (Inr ())" by simp
    then show ?thesis by blast
  next
    case False
    with Cons.prems Cons.IH [OF r] obtain u1 u2 u3 where "t2 = u1 @ u2 @ u3" "exec grp p u2 (Inr ())" by auto
    with t have "t = (t1 @ u1) @ u2 @ u3 \<and> exec grp p u2 (Inr ())" by simp
    then show ?thesis by blast
  qed
qed simp

lemma seqP_append: "seqP (ps @ qs) = tryP (seqP ps) (\<lambda>_. seqP qs)"
  by (induction ps) (auto simp: tryP_def bindP_assoc intro!: arg_cong [where f = "bindP _"] split: sum.split)

text \<open>An event of a sequence that its first part never makes happens after that part has succeeded.\<close>

lemma exec_tryP_guard:
  assumes "exec grp (tryP p f) (pre @ e # post) x" "\<And>t y. exec grp p t y \<Longrightarrow> e \<notin> set t"
  shows "\<exists>t1 pre2 a. pre = t1 @ pre2 \<and> exec grp p t1 (Inr a) \<and> exec grp (f a) (pre2 @ e # post) x"
proof -
  have "\<not> exec grp p (pre @ e # post) y" for y
    using assms(2) by force
  with assms(1) obtain t1 t2 a where eq: "pre @ e # post = t1 @ t2"
    and p: "exec grp p t1 (Inr a)" and f: "exec grp (f a) t2 x"
    unfolding exec_tryP by blast
  have "e \<notin> set t1" using assms(2) p by blast
  with eq obtain pre2 where "pre = t1 @ pre2" "t2 = pre2 @ e # post"
    by (auto simp: append_eq_append_conv2 Cons_eq_append_conv)
  with p f show ?thesis by blast
qed

lemma exec_seqP_guard:
  assumes "exec grp (seqP (ps @ qs)) (pre @ e # post) x" "\<And>t y. exec grp (seqP ps) t y \<Longrightarrow> e \<notin> set t"
  shows "\<exists>t1 pre2. pre = t1 @ pre2 \<and> exec grp (seqP ps) t1 (Inr ()) \<and> exec grp (seqP qs) (pre2 @ e # post) x"
  using exec_tryP_guard [OF assms(1) [unfolded seqP_append] assms(2)] by auto

lemma exec_bindP_split:
  assumes "exec grp (bindP p f) (pre @ e # post) x"
  shows "(\<exists>post' y. exec grp p (pre @ e # post') y) \<or>
    (\<exists>t1 pre2 a. pre = t1 @ pre2 \<and> exec grp p t1 a \<and> exec grp (f a) (pre2 @ e # post) x)"
proof -
  from assms obtain t1 t2 a where eq: "pre @ e # post = t1 @ t2" and p: "exec grp p t1 a" and f: "exec grp (f a) t2 x"
    unfolding exec_bind by blast
  from eq have "(\<exists>post'. t1 = pre @ e # post') \<or> (\<exists>pre2. pre = t1 @ pre2 \<and> t2 = pre2 @ e # post)"
    by (auto simp: append_eq_append_conv2 Cons_eq_append_conv)
  with p f show ?thesis by blast
qed

text \<open>Which part of a composite program an event belongs to.\<close>

lemma exec_bindP_event:
  assumes "exec grp (bindP p f) t x" "e \<in> set t"
  shows "(\<exists>t1 y. exec grp p t1 y \<and> e \<in> set t1) \<or> (\<exists>t1 t2 a. exec grp p t1 a \<and> exec grp (f a) t2 x \<and> e \<in> set t2)"
  using assms unfolding exec_bind by (metis Un_iff set_append)

lemma exec_tryP_event:
  assumes "exec grp (tryP p f) t x" "e \<in> set t"
  shows "(\<exists>t1 y. exec grp p t1 y \<and> e \<in> set t1) \<or>
    (\<exists>t1 t2 a. exec grp p t1 (Inr a) \<and> exec grp (f a) t2 x \<and> e \<in> set t2)"
  using assms unfolding exec_tryP by (metis Un_iff set_append)

lemma exec_ctxP_event: "exec grp (ctxP msg p) t x \<Longrightarrow> \<exists>y. exec grp p t y"
  by (auto simp: exec_ctxP)

lemma exec_seqP_event:
  "exec grp (seqP ps) t x \<Longrightarrow> e \<in> set t \<Longrightarrow> \<exists>p \<in> set ps. \<exists>t' y. exec grp p t' y \<and> e \<in> set t'"
proof (induction ps arbitrary: t)
  case (Cons p ps)
  from exec_tryP_event [OF Cons.prems(1) [unfolded seqP.simps] Cons.prems(2)] Cons.IH show ?case
    by (metis list.set_intros)
qed simp

lemma exec_forP_event:
  "exec grp (forP xs body) t x \<Longrightarrow> e \<in> set t \<Longrightarrow> \<exists>z \<in> set xs. \<exists>t' y. exec grp (body z) t' y \<and> e \<in> set t'"
proof (induction xs arbitrary: t)
  case (Cons z xs)
  from exec_tryP_event [OF Cons.prems(1) [unfolded forP.simps] Cons.prems(2)] Cons.IH show ?case
    by (metis list.set_intros)
qed simp

text \<open>An event that only the body for \<open>n\<close> makes happens after the bodies of all elements before \<open>n\<close> have
  succeeded.\<close>

lemma exec_forP_guard:
  assumes "exec grp (forP xs body) (pre @ e # post) x"
    and "\<And>z t y. z \<noteq> n \<Longrightarrow> exec grp (body z) t y \<Longrightarrow> e \<notin> set t"
    and "z \<in> set (takeWhile (\<lambda>z. z \<noteq> n) xs)"
  shows "\<exists>t1 t2 t3. pre = t1 @ t2 @ t3 \<and> exec grp (body z) t2 (Inr ())"
  using assms(1,3)
proof (induction xs arbitrary: pre)
  case (Cons y xs)
  then have y: "y \<noteq> n" by (auto split: if_splits)
  have "\<exists>t1 pre2 a. pre = t1 @ pre2 \<and> exec grp (body y) t1 (Inr a) \<and> exec grp (forP xs body) (pre2 @ e # post) x"
    by (rule exec_tryP_guard [OF Cons.prems(1) [unfolded forP.simps]]) (rule assms(2) [OF y])
  then obtain t1 pre2 where pre: "pre = t1 @ pre2" and b: "exec grp (body y) t1 (Inr ())"
    and r: "exec grp (forP xs body) (pre2 @ e # post) x" by auto

  show ?case
  proof (cases "z = y")
    case True
    with b pre have "pre = [] @ t1 @ pre2 \<and> exec grp (body z) t1 (Inr ())" by simp
    then show ?thesis by blast
  next
    case False
    with Cons.prems(2) y have "z \<in> set (takeWhile (\<lambda>z. z \<noteq> n) xs)" by simp
    from Cons.IH [OF r this] obtain u1 u2 u3 where "pre2 = u1 @ u2 @ u3" "exec grp (body z) u2 (Inr ())" by blast
    with pre have "pre = (t1 @ u1) @ u2 @ u3 \<and> exec grp (body z) u2 (Inr ())" by simp
    then show ?thesis by blast
  qed
qed simp

subsection \<open>Groups of goroutines\<close>

definition no_group :: "join \<Rightarrow> 'g list \<Rightarrow> ('c, 'r) trace \<Rightarrow> go_error option \<times> 'u list \<Rightarrow> bool" where
  "no_group j gs t x \<longleftrightarrow> False"

text \<open>All goroutines run to their end; their calls interleave freely.\<close>

inductive par_exec :: "('c, 'r, 'u) task list \<Rightarrow> ('c, 'r) trace \<Rightarrow>
    (go_error option \<times> 'u) list \<Rightarrow> bool" where
  par_nil: "par_exec [] [] []"
| par_cons: "exec no_group p t1 x \<Longrightarrow> par_exec ps t2 xs \<Longrightarrow> t \<in> shuffles t1 t2 \<Longrightarrow>
    par_exec (p # ps) t (x # xs)"

text \<open>Some goroutines have ended, the others have made some of their calls.\<close>

inductive partial :: "('c, 'r, 'g, 'u, 'a) prog \<Rightarrow> ('c, 'r) trace \<Rightarrow> bool" where
  partial_stop: "partial p []"
| partial_call: "partial (k r) t \<Longrightarrow> partial (Call c k) ((c, r) # t)"

inductive par_part :: "('c, 'r, 'u) task list \<Rightarrow> ('c, 'r) trace \<Rightarrow>
    (go_error option \<times> 'u) list \<Rightarrow> bool" where
  part_nil: "par_part [] [] []"
| part_done: "exec no_group p t1 x \<Longrightarrow> par_part ps t2 xs \<Longrightarrow> t \<in> shuffles t1 t2 \<Longrightarrow>
    par_part (p # ps) t (x # xs)"
| part_open: "partial p t1 \<Longrightarrow> par_part ps t2 xs \<Longrightarrow> t \<in> shuffles t1 t2 \<Longrightarrow>
    par_part (p # ps) t xs"

definition ctx_done :: go_error where
  "ctx_done = ErrExt ''context done''"

inductive group_exec :: "join \<Rightarrow> ('c, 'r, 'u) task list \<Rightarrow> ('c, 'r) trace \<Rightarrow>
    go_error option \<times> 'u list \<Rightarrow> bool" where
  all_ok: "par_exec ps t xs \<Longrightarrow> \<forall>x \<in> set xs. fst x = None \<Longrightarrow>
    group_exec j ps t (None, map snd xs)"
| wait_err: "par_exec ps t xs \<Longrightarrow> Some e \<in> fst ` set xs \<Longrightarrow>
    group_exec WaitAll ps t (Some e, map snd xs)"
| first_err: "par_part ps t xs \<Longrightarrow> Some e \<in> fst ` set xs \<Longrightarrow>
    group_exec FirstError ps t (Some e, [])"
| first_ctx: "par_part ps t xs \<Longrightarrow> group_exec FirstError ps t (Some ctx_done, [])"

abbreviation go_exec :: "('c, 'r, 'u, 'a) go \<Rightarrow> ('c, 'r) trace \<Rightarrow> 'a \<Rightarrow> bool" where
  "go_exec \<equiv> exec group_exec"

lemma par_exec_length: "par_exec ps t xs \<Longrightarrow> length xs = length ps"
  by (induction rule: par_exec.induct) auto

lemma set_shuffles: "t \<in> shuffles xs ys \<Longrightarrow> set t = set xs \<union> set ys"
  using set_shuffles by blast

text \<open>A group that reports no error has run every goroutine to its end without one, and every
  call of every goroutine is in the trace.\<close>

lemma par_exec_member:
  "par_exec ps t xs \<Longrightarrow> p \<in> set ps \<Longrightarrow>
    \<exists>t' x. exec no_group p t' x \<and> x \<in> set xs \<and> set t' \<subseteq> set t"
proof (induction rule: par_exec.induct)
  case (par_cons q t1 x ps t2 xs t)
  have "set t = set t1 \<union> set t2" using par_cons.hyps(3) by (rule set_shuffles)
  then show ?case using par_cons by fastforce
qed simp

lemma group_exec_None:
  assumes "group_exec j ps t (None, us)" and "p \<in> set ps"
  shows "\<exists>t' u. exec no_group p t' (None, u) \<and> u \<in> set us \<and> set t' \<subseteq> set t"
  using assms
proof cases
  case (all_ok xs)
  with par_exec_member [of ps t xs p] assms(2) show ?thesis by force
qed

subsection \<open>Computing a run\<close>

text \<open>
  The environment answers a call given the calls made before it. The goroutines of a group are run
  one after the other, which is one of the interleavings \<open>exec\<close> admits.
\<close>

type_synonym ('c, 'r) env = "'c list \<Rightarrow> 'c \<Rightarrow> 'r"

primrec run :: "('c list \<Rightarrow> join \<Rightarrow> 'g list \<Rightarrow>
      (('c, 'r) trace \<times> go_error option \<times> 'u list) option) \<Rightarrow> ('c, 'r) env \<Rightarrow> 'c list \<Rightarrow>
    ('c, 'r, 'g, 'u, 'a) prog \<Rightarrow> (('c, 'r) trace \<times> 'a) option" where
  "run rg env h (Ret a) = Some ([], a)"
| "run rg env h (Call c k) =
     map_option (\<lambda>(t, a). ((c, env h c) # t, a)) (run rg env (h @ [c]) (k (env h c)))"
| "run rg env h (Group j gs k) =
     (case rg h j gs of
        None \<Rightarrow> None
      | Some (t, x) \<Rightarrow>
          map_option (\<lambda>(t', a). (t @ t', a)) (run rg env (h @ map fst t) (k x)))"

definition run_no_group :: "'c list \<Rightarrow> join \<Rightarrow> 'g list \<Rightarrow>
    (('c, 'r) trace \<times> go_error option \<times> 'u list) option" where
  "run_no_group h j gs = None"

fun run_tasks :: "('c, 'r) env \<Rightarrow> 'c list \<Rightarrow> ('c, 'r, 'u) task list \<Rightarrow>
    (('c, 'r) trace \<times> (go_error option \<times> 'u) list) option" where
  "run_tasks env h [] = Some ([], [])"
| "run_tasks env h (p # ps) =
     (case run run_no_group env h p of
        None \<Rightarrow> None
      | Some (t, x) \<Rightarrow>
          map_option (\<lambda>(t', xs). (t @ t', x # xs)) (run_tasks env (h @ map fst t) ps))"

fun first_error :: "(go_error option \<times> 'u) list \<Rightarrow> go_error option" where
  "first_error [] = None"
| "first_error ((Some e, u) # xs) = Some e"
| "first_error ((None, u) # xs) = first_error xs"

definition run_group :: "('c, 'r) env \<Rightarrow> 'c list \<Rightarrow> join \<Rightarrow> ('c, 'r, 'u) task list \<Rightarrow>
    (('c, 'r) trace \<times> go_error option \<times> 'u list) option" where
  "run_group env h j ps =
     map_option (\<lambda>(t, xs).
         (t, first_error xs,
          if j = WaitAll \<or> first_error xs = None then map snd xs else []))
       (run_tasks env h ps)"

definition go_run :: "('c, 'r) env \<Rightarrow> ('c, 'r, 'u, 'a) go \<Rightarrow> (('c, 'r) trace \<times> 'a) option" where
  "go_run env p = run (run_group env) env [] p"

lemma first_error_None: "first_error xs = None \<longleftrightarrow> (\<forall>x \<in> set xs. fst x = None)"
  by (induction xs rule: first_error.induct) auto

lemma first_error_Some: "first_error xs = Some e \<Longrightarrow> Some e \<in> fst ` set xs"
  by (induction xs rule: first_error.induct) (auto simp: image_iff)

lemma run_sound:
  assumes "\<And>h j gs t x. rg h j gs = Some (t, x) \<Longrightarrow> grp j gs t x"
  shows "run rg env h p = Some (t, a) \<Longrightarrow> exec grp p t a"
proof (induction p arbitrary: h t)
  case (Group j gs k)
  then obtain u x t' where g: "rg h j gs = Some (u, x)" and t: "t = u @ t'"
    and r: "run rg env (h @ map fst u) (k x) = Some (t', a)"
    by (auto split: option.splits prod.splits)
  have "exec grp (k x) t' a" using r by (rule Group.IH [OF rangeI])
  with assms [OF g] show ?case unfolding t by (rule exec_group)
qed (auto intro: exec.intros)

lemma append_in_shuffles: "xs @ ys \<in> shuffles xs ys"
  by (induction xs) (auto simp: Cons_in_shuffles_leftI)

lemma run_tasks_sound: "run_tasks env h ps = Some (t, xs) \<Longrightarrow> par_exec ps t xs"
proof (induction env h ps arbitrary: t xs rule: run_tasks.induct)
  case (2 env h p ps)
  then obtain t1 x t2 ys where r: "run run_no_group env h p = Some (t1, x)"
    and rs: "run_tasks env (h @ map fst t1) ps = Some (t2, ys)" and t: "t = t1 @ t2" "xs = x # ys"
    by (auto split: option.splits prod.splits)
  have "exec no_group p t1 x"
    using r by (rule run_sound [rotated]) (simp add: run_no_group_def)
  moreover have "par_exec ps t2 ys"
    using r rs by (intro "2.IH") auto
  ultimately show ?case unfolding t
    using append_in_shuffles by (rule par_cons)
qed (auto intro: par_nil)

lemma par_exec_part: "par_exec ps t xs \<Longrightarrow> par_part ps t xs"
  by (induction rule: par_exec.induct) (auto intro: part_nil part_done)

lemma run_group_sound:
  assumes "run_group env h j ps = Some (t, x)"
  shows "group_exec j ps t x"
proof -
  obtain xs where r: "run_tasks env h ps = Some (t, xs)"
    and x: "x = (first_error xs, if j = WaitAll \<or> first_error xs = None then map snd xs else [])"
    using assms by (auto simp: run_group_def)
  have p: "par_exec ps t xs" using r by (rule run_tasks_sound)
  show ?thesis
  proof (cases "first_error xs")
    case None
    then have "\<forall>x \<in> set xs. fst x = None" by (simp add: first_error_None)
    with p x None show ?thesis by (auto intro: all_ok)
  next
    case (Some e)
    then have e: "Some e \<in> fst ` set xs" by (rule first_error_Some)
    show ?thesis
    proof (cases j)
      case WaitAll
      with p e x Some show ?thesis by (auto intro: wait_err)
    next
      case FirstError
      with par_exec_part [OF p] e x Some show ?thesis by (auto intro: first_err)
    qed
  qed
qed

lemma go_run_exec: "go_run env p = Some (t, a) \<Longrightarrow> go_exec p t a"
  unfolding go_run_def by (rule run_sound [OF run_group_sound])

text \<open>Running a composite program part by part.\<close>

definition run_then :: "(('c, 'r) trace \<times> 'a) option \<Rightarrow> (('c, 'r) trace \<Rightarrow> 'a \<Rightarrow> (('c, 'r) trace \<times> 'b) option) \<Rightarrow>
    (('c, 'r) trace \<times> 'b) option" where
  "run_then x f = (case x of None \<Rightarrow> None | Some (t, a) \<Rightarrow> map_option (\<lambda>(t', b). (t @ t', b)) (f t a))"

lemma run_then_simps [simp]:
  "run_then None f = None"
  "run_then (Some (t, a)) f = map_option (\<lambda>(t', b). (t @ t', b)) (f t a)"
  by (simp_all add: run_then_def)

lemma run_bindP:
  "run rg env h (bindP p f) = run_then (run rg env h p) (\<lambda>t a. run rg env (h @ map fst t) (f a))"
proof (induction p arbitrary: h)
  case (Call c k)
  then show ?case
    by (cases "run rg env (h @ [c]) (k (env h c))")
      (auto simp: option.map_comp comp_def split_beta run_then_def intro!: option.map_cong)
next
  case (Group j gs k)
  then show ?case
    by (cases "rg h j gs")
      (auto simp: option.map_comp comp_def split_beta run_then_def split: option.splits intro!: option.map_cong)
qed (simp add: option.map_id split_beta)

lemma run_tryP:
  "run rg env h (tryP p f) = run_then (run rg env h p)
     (\<lambda>t x. case x of Inl e \<Rightarrow> Some ([], Inl e) | Inr a \<Rightarrow> run rg env (h @ map fst t) (f a))"
  by (auto simp: tryP_def run_bindP intro!: arg_cong [where f = "run_then _"] ext split: sum.split)

lemma run_ctxP:
  "run rg env h (ctxP msg p) = map_option (\<lambda>(t, x). (t, with_ctx msg x)) (run rg env h p)"
  by (cases "run rg env h p") (auto simp: ctxP_def run_bindP)

lemmas run_simps = run_bindP run_tryP run_ctxP

text \<open>Every answer of a computed run was given by the environment.\<close>

definition answered :: "('c, 'r) env \<Rightarrow> ('c, 'r) trace \<Rightarrow> bool" where
  "answered env t \<longleftrightarrow> (\<forall>(c, r) \<in> set t. \<exists>h. r = env h c)"

lemma run_answered:
  assumes "\<And>h j gs t x. rg h j gs = Some (t, x) \<Longrightarrow> answered env t"
  shows "run rg env h p = Some (t, a) \<Longrightarrow> answered env t"
proof (induction p arbitrary: h t)
  case (Call c k)
  then obtain t' where t: "t = (c, env h c) # t'" and r: "run rg env (h @ [c]) (k (env h c)) = Some (t', a)"
    by auto
  have "answered env t'" using r by (rule Call.IH [OF rangeI])
  then show ?case unfolding t answered_def by auto
next
  case (Group j gs k)
  then obtain u x t' where g: "rg h j gs = Some (u, x)" and t: "t = u @ t'"
    and r: "run rg env (h @ map fst u) (k x) = Some (t', a)"
    by (auto split: option.splits prod.splits)
  have "answered env t'" using r by (rule Group.IH [OF rangeI])
  with assms [OF g] show ?case unfolding t answered_def by auto
qed (simp add: answered_def)

lemma run_tasks_answered: "run_tasks env h ps = Some (t, xs) \<Longrightarrow> answered env t"
proof (induction env h ps arbitrary: t xs rule: run_tasks.induct)
  case (2 env h p ps)
  then obtain t1 x t2 ys where r: "run run_no_group env h p = Some (t1, x)"
    and rs: "run_tasks env (h @ map fst t1) ps = Some (t2, ys)" and t: "t = t1 @ t2"
    by (auto split: option.splits prod.splits)
  have "answered env t1" using r by (rule run_answered [rotated]) (simp add: run_no_group_def)
  moreover have "answered env t2" using r rs by (intro "2.IH") auto
  ultimately show ?case unfolding t answered_def by auto
qed (simp add: answered_def)

lemma go_run_answered: "go_run env p = Some (t, a) \<Longrightarrow> answered env t"
  unfolding go_run_def
  by (erule run_answered [rotated]) (auto simp: run_group_def dest: run_tasks_answered)

subsection \<open>Total correctness\<close>

text \<open>\<open>ends rg env p Q\<close>: run against \<open>env\<close>, after any history, \<open>p\<close> returns and its value satisfies \<open>Q\<close>;
  \<open>ends_ok\<close>: it returns without an error. The rules are those of a weakest-precondition calculus.\<close>

definition ends :: "('c list \<Rightarrow> join \<Rightarrow> 'g list \<Rightarrow> (('c, 'r) trace \<times> go_error option \<times> 'u list) option) \<Rightarrow>
    ('c, 'r) env \<Rightarrow> ('c, 'r, 'g, 'u, 'a) prog \<Rightarrow> ('a \<Rightarrow> bool) \<Rightarrow> bool" where
  "ends rg env p Q \<longleftrightarrow> (\<forall>h. \<exists>t a. run rg env h p = Some (t, a) \<and> Q a)"

definition ends_ok :: "('c list \<Rightarrow> join \<Rightarrow> 'g list \<Rightarrow> (('c, 'r) trace \<times> go_error option \<times> 'u list) option) \<Rightarrow>
    ('c, 'r) env \<Rightarrow> ('c, 'r, 'g, 'u, 'a result) prog \<Rightarrow> ('a \<Rightarrow> bool) \<Rightarrow> bool" where
  "ends_ok rg env p Q \<longleftrightarrow> ends rg env p (\<lambda>x. case x of Inl _ \<Rightarrow> False | Inr a \<Rightarrow> Q a)"

lemma ends_Ret [simp]: "ends rg env (Ret a) Q \<longleftrightarrow> Q a"
  by (simp add: ends_def)

lemma ends_weaken: "ends rg env p Q \<Longrightarrow> (\<And>a. Q a \<Longrightarrow> R a) \<Longrightarrow> ends rg env p R"
  unfolding ends_def by blast

lemma ends_bindP:
  assumes "ends rg env p R" "\<And>a. R a \<Longrightarrow> ends rg env (f a) Q"
  shows "ends rg env (bindP p f) Q"
  unfolding ends_def run_bindP
proof
  fix h
  obtain t a where p: "run rg env h p = Some (t, a)" "R a" using assms(1) unfolding ends_def by blast
  from assms(2) [OF p(2)] obtain t' b where "run rg env (h @ map fst t) (f a) = Some (t', b)" "Q b"
    unfolding ends_def by blast
  with p(1) show "\<exists>u b. run_then (run rg env h p) (\<lambda>t a. run rg env (h @ map fst t) (f a)) = Some (u, b) \<and> Q b"
    by simp
qed

lemma ends_ok_Ret [simp]: "ends_ok rg env (Ret x) Q \<longleftrightarrow> (case x of Inl _ \<Rightarrow> False | Inr a \<Rightarrow> Q a)"
  by (simp add: ends_ok_def)

lemma ends_ok_weaken: "ends_ok rg env p Q \<Longrightarrow> (\<And>a. Q a \<Longrightarrow> R a) \<Longrightarrow> ends_ok rg env p R"
  unfolding ends_ok_def by (erule ends_weaken) (auto split: sum.splits)

lemma ends_tryP: "ends_ok rg env p R \<Longrightarrow> (\<And>a. R a \<Longrightarrow> ends_ok rg env (f a) Q) \<Longrightarrow> ends_ok rg env (tryP p f) Q"
  unfolding tryP_def ends_ok_def by (erule ends_bindP) (auto split: sum.splits)

lemma ends_ctxP: "ends_ok rg env p Q \<Longrightarrow> ends_ok rg env (ctxP msg p) Q"
  unfolding ctxP_def ends_ok_def by (erule ends_bindP) (auto split: sum.splits)

lemma ends_seqP: "(\<And>p. p \<in> set ps \<Longrightarrow> ends_ok rg env p (\<lambda>_. True)) \<Longrightarrow> ends_ok rg env (seqP ps) (\<lambda>_. True)"
  by (induction ps) (auto intro!: ends_tryP [where R = "\<lambda>_. True"])

lemma ends_forP:
  "(\<And>x. x \<in> set xs \<Longrightarrow> ends_ok rg env (body x) (\<lambda>_. True)) \<Longrightarrow> ends_ok rg env (forP xs body) (\<lambda>_. True)"
  by (induction xs) (auto intro!: ends_tryP [where R = "\<lambda>_. True"])

text \<open>A group whose goroutines all end without an error goes on without one.\<close>

lemma run_tasks_ok:
  assumes "\<And>p. p \<in> set ps \<Longrightarrow> ends run_no_group env p (\<lambda>x. fst x = None)"
  shows "\<exists>t xs. run_tasks env h ps = Some (t, xs) \<and> (\<forall>x \<in> set xs. fst x = None)"
  using assms
proof (induction ps arbitrary: h)
  case (Cons p ps)
  then obtain t x where t: "run run_no_group env h p = Some (t, x)" "fst x = None"
    unfolding ends_def by (metis list.set_intros(1))
  from Cons.IH [of "h @ map fst t"] Cons.prems obtain t' xs
    where "run_tasks env (h @ map fst t) ps = Some (t', xs)" "\<forall>x \<in> set xs. fst x = None" by auto
  with t show ?case by auto
qed simp

lemma ends_Group:
  assumes "\<And>p. p \<in> set ps \<Longrightarrow> ends run_no_group env p (\<lambda>x. fst x = None)"
    and "\<And>us. ends (run_group env) env (k (None, us)) Q"
  shows "ends (run_group env) env (Group j ps k) Q"
  unfolding ends_def
proof
  fix h
  obtain t xs where r: "run_tasks env h ps = Some (t, xs)" "\<forall>x \<in> set xs. fst x = None"
    using run_tasks_ok [of ps env h] assms(1) by blast
  then have g: "run_group env h j ps = Some (t, None, map snd xs)"
    by (simp add: run_group_def first_error_None [THEN iffD2])
  from assms(2) [of "map snd xs"] obtain t' a
    where "run (run_group env) env (h @ map fst t) (k (None, map snd xs)) = Some (t', a)" "Q a"
    unfolding ends_def by blast
  with g show "\<exists>t a. run (run_group env) env h (Group j ps k) = Some (t, a) \<and> Q a" by simp
qed

subsection \<open>Which calls a program makes\<close>

text \<open>\<open>all_calls G P p\<close>: every call \<open>p\<close> can make satisfies \<open>P\<close>, and every goroutine it can start
  satisfies \<open>G\<close>.\<close>

primrec all_calls :: "('g \<Rightarrow> bool) \<Rightarrow> ('c \<Rightarrow> bool) \<Rightarrow> ('c, 'r, 'g, 'u, 'a) prog \<Rightarrow> bool" where
  "all_calls G P (Ret a) \<longleftrightarrow> True"
| "all_calls G P (Call c k) \<longleftrightarrow> P c \<and> (\<forall>r. all_calls G P (k r))"
| "all_calls G P (Group j gs k) \<longleftrightarrow> (\<forall>g \<in> set gs. G g) \<and> (\<forall>x. all_calls G P (k x))"

lemma all_calls_bindP: "all_calls G P p \<Longrightarrow> (\<And>a. all_calls G P (f a)) \<Longrightarrow> all_calls G P (bindP p f)"
  by (induction p) auto

lemma all_calls_tryP: "all_calls G P p \<Longrightarrow> (\<And>a. all_calls G P (f a)) \<Longrightarrow> all_calls G P (tryP p f)"
  unfolding tryP_def by (rule all_calls_bindP) (auto split: sum.split)

lemma all_calls_ctxP [simp]: "all_calls G P p \<Longrightarrow> all_calls G P (ctxP msg p)"
  unfolding ctxP_def by (rule all_calls_bindP) auto

lemma all_calls_forP: "(\<And>x. x \<in> set xs \<Longrightarrow> all_calls G P (body x)) \<Longrightarrow> all_calls G P (forP xs body)"
  by (induction xs) (auto intro: all_calls_tryP)

lemma all_calls_seqP: "(\<And>p. p \<in> set ps \<Longrightarrow> all_calls G P p) \<Longrightarrow> all_calls G P (seqP ps)"
  by (induction ps) (auto intro: all_calls_tryP)

lemma exec_all_calls:
  assumes "exec grp p t a" "all_calls G P p"
    and "\<And>j gs t x. grp j gs t x \<Longrightarrow> \<forall>g \<in> set gs. G g \<Longrightarrow> \<forall>e \<in> set t. P (fst e)"
  shows "\<forall>e \<in> set t. P (fst e)"
  using assms(1,2) by (induction rule: exec.induct) (auto dest: assms(3))

abbreviation task_calls :: "('c \<Rightarrow> bool) \<Rightarrow> ('c, 'r, 'u) task \<Rightarrow> bool" where
  "task_calls P \<equiv> all_calls (\<lambda>_. False) P"

abbreviation go_calls :: "('c \<Rightarrow> bool) \<Rightarrow> ('c, 'r, 'u, 'a) go \<Rightarrow> bool" where
  "go_calls P \<equiv> all_calls (task_calls P) P"

lemma task_exec_calls: "exec no_group p t a \<Longrightarrow> task_calls P p \<Longrightarrow> \<forall>e \<in> set t. P (fst e)"
  by (erule exec_all_calls) (auto simp: no_group_def)

lemma partial_calls: "partial p t \<Longrightarrow> task_calls P p \<Longrightarrow> \<forall>e \<in> set t. P (fst e)"
  by (induction rule: partial.induct) auto

lemma par_part_calls:
  "par_part ps t xs \<Longrightarrow> \<forall>p \<in> set ps. task_calls P p \<Longrightarrow> \<forall>e \<in> set t. P (fst e)"
  by (induction rule: par_part.induct) (auto dest!: set_shuffles task_exec_calls partial_calls)

lemma group_exec_calls:
  assumes "group_exec j ps t x" "\<forall>p \<in> set ps. task_calls P p"
  shows "\<forall>e \<in> set t. P (fst e)"
  using assms(1) by cases (use assms(2) par_exec_part par_part_calls in blast)+

lemma go_exec_calls: "go_exec p t a \<Longrightarrow> go_calls P p \<Longrightarrow> \<forall>e \<in> set t. P (fst e)"
  by (erule exec_all_calls) (auto dest: group_exec_calls)

subsection \<open>Programs over more calls\<close>

text \<open>A program over some calls is one over more calls: its calls are tagged and the answers to them read
  back.\<close>

primrec embedP :: "('c \<Rightarrow> 'd) \<Rightarrow> ('s \<Rightarrow> 'r) \<Rightarrow> ('c, 'r, 'g, 'u, 'a) prog \<Rightarrow> ('d, 's, 'g, 'u, 'a) prog" where
  "embedP f h (Ret a) = Ret a"
| "embedP f h (Call c k) = Call (f c) (\<lambda>r. embedP f h (k (h r)))"
| "embedP f h (Group j gs k) = Group j gs (\<lambda>x. embedP f h (k x))"

definition embeds :: "('c \<Rightarrow> 'd) \<Rightarrow> ('s \<Rightarrow> 'r) \<Rightarrow> ('d, 's) trace \<Rightarrow> ('c, 'r) trace \<Rightarrow> bool" where
  "embeds f h = list_all2 (\<lambda>(d, s) (c, r). d = f c \<and> h s = r)"

lemma embeds_simps [simp]:
  "embeds f h [] t' \<longleftrightarrow> t' = []" "embeds f h t [] \<longleftrightarrow> t = []"
  "embeds f h t ((c, r) # t') \<longleftrightarrow> (\<exists>s u. t = (f c, s) # u \<and> h s = r \<and> embeds f h u t')"
  by (auto simp: embeds_def list_all2_Cons2)

lemma exec_embedP:
  "exec no_group (embedP f h p) t x \<longleftrightarrow> (\<exists>t'. embeds f h t t' \<and> exec no_group p t' x)"
proof (induction p arbitrary: t)
  case (Call c k)
  show ?case
    by (auto simp: exec_Call Call.IH) (metis embeds_simps(3))+
qed (auto simp: exec_Group no_group_def)

lemma embedP_bindP: "embedP f h (bindP p q) = bindP (embedP f h p) (\<lambda>x. embedP f h (q x))"
  by (induction p) auto

lemma all_calls_embedP: "all_calls G (\<lambda>c. P (f c)) p \<Longrightarrow> all_calls G P (embedP f h p)"
  by (induction p) auto

subsection \<open>Polling\<close>

text \<open>
  \<^verbatim>\<open>wait.PollUntilContextCancel\<close> with an interval of one second and an immediate first attempt: try
  until an attempt succeeds or the context is done. Whether it is done is asked of the environment
  by the call \<open>tick\<close> after every failed attempt; a context with a timeout is done after at most one
  attempt per second of it, so \<open>fuel\<close> attempts with \<open>fuel = poll_fuel timeout\<close> are all there are.
\<close>

primrec pollP :: "'c \<Rightarrow> ('r \<Rightarrow> bool) \<Rightarrow> nat \<Rightarrow> ('c, 'r, 'g, 'u, 'a result) prog \<Rightarrow>
    ('c, 'r, 'g, 'u, 'a result) prog" where
  "pollP tick done 0 body = Ret (Inl ctx_done)"
| "pollP tick done (Suc fuel) body =
     bindP body (\<lambda>x. case x of
         Inr a \<Rightarrow> Ret (Inr a)
       | Inl _ \<Rightarrow> Call tick (\<lambda>r. if done r then Ret (Inl ctx_done) else pollP tick done fuel body))"

definition poll_fuel :: "int \<Rightarrow> nat" where
  "poll_fuel timeout = nat (timeout div 1000000000) + 1"

text \<open>A poll that succeeds ends with a successful attempt; one that does not reports the context.\<close>

lemma exec_pollP_Inr:
  "exec grp (pollP tick done n body) t (Inr a) \<Longrightarrow>
    \<exists>t1 t2. t = t1 @ t2 \<and> exec grp body t2 (Inr a)"
proof (induction n arbitrary: t)
  case (Suc n)
  then obtain t1 t2 x where t: "t = t1 @ t2" and b: "exec grp body t1 x"
    and r: "exec grp (case x of Inr a \<Rightarrow> Ret (Inr a)
       | Inl _ \<Rightarrow> Call tick (\<lambda>r. if done r then Ret (Inl ctx_done) else pollP tick done n body)) t2 (Inr a)"
    by (auto simp: exec_bind)
  show ?case
  proof (cases x)
    case (Inl e)
    with r obtain r' t3 where "t2 = (tick, r') # t3" "exec grp (pollP tick done n body) t3 (Inr a)"
      by (auto simp: exec_Call split: if_splits)
    with Suc.IH [of t3] obtain t4 t5 where "t3 = t4 @ t5" and e5: "exec grp body t5 (Inr a)" by blast
    then have "t = (t1 @ (tick, r') # t4) @ t5" using t \<open>t2 = (tick, r') # t3\<close> by simp
    with e5 show ?thesis by blast
  next
    case (Inr u)
    with r have "t2 = []" "u = a" by simp_all
    with b t Inr have "t = [] @ t \<and> exec grp body t (Inr a)" by simp
    then show ?thesis by blast
  qed
qed simp

lemma exec_pollP_Inl: "exec grp (pollP tick done n body) t (Inl e) \<Longrightarrow> e = ctx_done"
proof (induction n arbitrary: t)
  case (Suc n)
  from Suc.prems obtain t1 t2 x where "exec grp body t1 x" and
    "exec grp (case x of Inr a \<Rightarrow> Ret (Inr a)
       | Inl _ \<Rightarrow> Call tick (\<lambda>r. if done r then Ret (Inl ctx_done) else pollP tick done n body)) t2 (Inl e)"
    unfolding pollP.simps exec_bind by blast
  then show ?case
    by (cases x) (auto simp: exec_Call split: if_splits dest: Suc.IH)
qed simp

text \<open>An event of a poll is a tick or an event of an attempt.\<close>

lemma exec_pollP_event:
  "exec grp (pollP tick done n body) t x \<Longrightarrow> e \<in> set t \<Longrightarrow>
    fst e = tick \<or> (\<exists>t' y. exec grp body t' y \<and> e \<in> set t')"
proof (induction n arbitrary: t)
  case (Suc n)
  from exec_bindP_event [OF Suc.prems(1) [unfolded pollP.simps] Suc.prems(2)] show ?case
  proof (elim disjE exE conjE)
    fix t1 t2 a assume "exec grp (case a of Inr a \<Rightarrow> Ret (Inr a)
       | Inl _ \<Rightarrow> Call tick (\<lambda>r. if done r then Ret (Inl ctx_done) else pollP tick done n body)) t2 x" "e \<in> set t2"
    then obtain r t3 where "t2 = (tick, r) # t3"
      "exec grp (if done r then Ret (Inl ctx_done) else pollP tick done n body) t3 x"
      by (cases a) (auto simp: exec_Call)
    with \<open>e \<in> set t2\<close> Suc.IH show ?thesis by (auto split: if_splits)
  qed blast
qed simp

lemma all_calls_pollP: "P tick \<Longrightarrow> all_calls G P body \<Longrightarrow> all_calls G P (pollP tick done n body)"
  by (induction n) (auto intro!: all_calls_bindP split: sum.split)

end
