(* ===== verification/Conditions.thy ===== *)
theory Conditions
  imports Mariadb_Types
begin

text \<open>
  \<^verbatim>\<open>pkg/condition\<close> and the Job predicates of \<^verbatim>\<open>pkg/job\<close>: how the controllers report state as
  status conditions. The interface \<^verbatim>\<open>Conditioner\<close> is the argument \<open>setc\<close>, the \<^verbatim>\<open>SetCondition\<close> method
  of a status of type \<open>'c\<close>; the locale \<open>conditioner\<close> states what it promises and the MariaDB status
  provides it.
\<close>

type_synonym 'c conditioner_set = "Condition \<Rightarrow> 'c \<Rightarrow> 'c"

definition cond :: "string \<Rightarrow> ConditionStatus \<Rightarrow> string \<Rightarrow> string \<Rightarrow> Condition" where
  "cond t s r msg = \<lparr>c_Type = t, c_Status = s, c_Reason = r, c_Message = msg\<rparr>"

lemma cond_sel [simp]:
  "c_Type (cond t s r msg) = t" "c_Status (cond t s r msg) = s"
  "c_Reason (cond t s r msg) = r" "c_Message (cond t s r msg) = msg"
  by (simp_all add: cond_def)

subsection \<open>Jobs and StatefulSets\<close>

datatype JobConditionType = JobComplete | JobFailed | JobSuspended | JobConditionOther string

type_synonym JobCondition = "JobConditionType \<times> ConditionStatus"

fun Job_IsStatusConditionTrue :: "JobCondition list \<Rightarrow> JobConditionType \<Rightarrow> bool" where
  "Job_IsStatusConditionTrue [] t = False"
| "Job_IsStatusConditionTrue ((ct, s) # cs) t =
     (if ct = t \<and> s = ConditionTrue then True else Job_IsStatusConditionTrue cs t)"

text \<open>A Job is its status conditions; \<open>None\<close> is the nil pointer.\<close>

definition IsJobFailed :: "JobCondition list option \<Rightarrow> bool" where
  "IsJobFailed job = (case job of None \<Rightarrow> False | Some cs \<Rightarrow> Job_IsStatusConditionTrue cs JobFailed)"

definition IsJobSuspended :: "JobCondition list option \<Rightarrow> bool" where
  "IsJobSuspended job = (case job of None \<Rightarrow> False | Some cs \<Rightarrow> Job_IsStatusConditionTrue cs JobSuspended)"

definition IsJobComplete :: "JobCondition list option \<Rightarrow> bool" where
  "IsJobComplete job = (case job of None \<Rightarrow> False | Some cs \<Rightarrow> Job_IsStatusConditionTrue cs JobComplete)"

definition IsJobRunning :: "JobCondition list option \<Rightarrow> bool" where
  "IsJobRunning job =
     (case job of None \<Rightarrow> False
      | Some _ \<Rightarrow> \<not> IsJobFailed job \<and> \<not> IsJobSuspended job \<and> \<not> IsJobComplete job)"

lemma Job_IsStatusConditionTrue_iff: "Job_IsStatusConditionTrue cs t \<longleftrightarrow> (t, ConditionTrue) \<in> set cs"
  by (induction cs t rule: Job_IsStatusConditionTrue.induct) auto

record StatefulSet =
  sts_Spec_Replicas :: int
  sts_Status_Replicas :: int
  sts_ReadyReplicas :: int
  sts_UpdateRevision :: string
  sts_Annotations :: "(string \<times> string) list"

record CronJob =
  cj_LastScheduleTime :: "int option"
  cj_LastSuccessfulTime :: "int option"
  cj_Active :: nat

subsection \<open>Ready\<close>

definition SetReadyHealthy :: "'c conditioner_set \<Rightarrow> 'c \<Rightarrow> 'c" where
  "SetReadyHealthy setc c = setc (cond ''Ready'' ConditionTrue ''Healthy'' ''Healthy'') c"

definition SetReadyUnhealthyWithError :: "'c conditioner_set \<Rightarrow> string \<Rightarrow> 'c \<Rightarrow> 'c" where
  "SetReadyUnhealthyWithError setc err c = setc (cond ''Ready'' ConditionFalse ''Healthy'' err) c"

definition SetReadyCreatedWithMessage :: "'c conditioner_set \<Rightarrow> string \<Rightarrow> 'c \<Rightarrow> 'c" where
  "SetReadyCreatedWithMessage setc msg c = setc (cond ''Ready'' ConditionTrue ''Created'' msg) c"

definition SetReadyCreated :: "'c conditioner_set \<Rightarrow> 'c \<Rightarrow> 'c" where
  "SetReadyCreated setc c = SetReadyCreatedWithMessage setc ''Created'' c"

definition SetReadyFailedWithMessage :: "'c conditioner_set \<Rightarrow> string \<Rightarrow> 'c \<Rightarrow> 'c" where
  "SetReadyFailedWithMessage setc msg c = setc (cond ''Ready'' ConditionFalse ''Failed'' msg) c"

definition SetReadyFailed :: "'c conditioner_set \<Rightarrow> 'c \<Rightarrow> 'c" where
  "SetReadyFailed setc c = SetReadyFailedWithMessage setc ''Failed'' c"

definition SetReadyWithStatefulSet :: "'c conditioner_set \<Rightarrow> StatefulSet \<Rightarrow> 'c \<Rightarrow> 'c" where
  "SetReadyWithStatefulSet setc sts c =
     (if sts_Status_Replicas sts = 0 \<or> sts_ReadyReplicas sts \<noteq> sts_Status_Replicas sts
      then setc (cond ''Ready'' ConditionFalse ''StatefulSetNotReady'' ''Not ready'') c
      else setc (cond ''Ready'' ConditionTrue ''StatefulSetReady'' ''Running'') c)"

text \<open>The text of an \<^verbatim>\<open>errors.New\<close> error; the initialization error is one.\<close>

fun error_text :: "go_error \<Rightarrow> string" where
  "error_text (ErrNew s) = s"
| "error_text (ErrCtx s e) = s @ '': '' @ error_text e"
| "error_text (ErrNotFound s) = s @ '' not found''"
| "error_text (ErrExt s) = s"
| "error_text (ErrMulti es) = concat (map (\<lambda>e. '' '' @ error_text e) es)"

definition SetReadyWithMariaDB ::
    "meta_api \<Rightarrow> 'c conditioner_set \<Rightarrow> StatefulSet \<Rightarrow> MariaDB \<Rightarrow> 'c \<Rightarrow> 'c" where
  "SetReadyWithMariaDB M setc sts mdb c =
     (if IsInitializing M mdb \<or> (IsGaleraEnabled mdb \<and> IsGaleraInitializing M mdb) then
        (case InitError M mdb of
           Some err \<Rightarrow> setc (cond ''Ready'' ConditionFalse ''InitError'' (error_text err)) c
         | None \<Rightarrow> setc (cond ''Ready'' ConditionFalse ''Initializing'' ''Initializing'') c)
      else if IsUpdating M mdb then setc (cond ''Ready'' ConditionFalse ''Updating'' ''Updating'') c
      else if sts_Status_Replicas sts = 0 \<or> sts_ReadyReplicas sts \<noteq> sts_Status_Replicas sts
      then setc (cond ''Ready'' ConditionFalse ''StatefulSetNotReady'' ''Not ready'') c
      else if HasPendingUpdate M mdb
      then setc (cond ''Ready'' ConditionTrue ''PendingUpdate'' ''Pending update'') c
      else setc (cond ''Ready'' ConditionTrue ''StatefulSetReady'' ''Running'') c)"

definition SetReadyWithInitJob :: "'c conditioner_set \<Rightarrow> JobCondition list option \<Rightarrow> 'c \<Rightarrow> 'c" where
  "SetReadyWithInitJob setc job c =
     (if IsJobComplete job then setc (cond ''Ready'' ConditionTrue ''Initializing'' ''Initialized'') c
      else setc (cond ''Ready'' ConditionFalse ''Initializing'' ''Initializing'') c)"

definition SetReadyStorageResizing :: "'c conditioner_set \<Rightarrow> 'c \<Rightarrow> 'c" where
  "SetReadyStorageResizing setc c =
     (let msg = ''Resizing storage'' in
      setc (cond ''StorageResized'' ConditionFalse ''ResizingStorage'' msg)
        (setc (cond ''Ready'' ConditionFalse ''ResizingStorage'' msg) c))"

definition SetReadyWaitingStorageResize :: "'c conditioner_set \<Rightarrow> 'c \<Rightarrow> 'c" where
  "SetReadyWaitingStorageResize setc c =
     (let msg = ''Waiting for storage resize'' in
      setc (cond ''StorageResized'' ConditionFalse ''WaitStorageResize'' msg)
        (setc (cond ''Ready'' ConditionFalse ''WaitStorageResize'' msg) c))"

definition SetReadyStorageResized :: "'c conditioner_set \<Rightarrow> 'c \<Rightarrow> 'c" where
  "SetReadyStorageResized setc c = setc (cond ''StorageResized'' ConditionTrue ''StorageResized'' ''Storage resized'') c"

definition SetReadySuspended :: "'c conditioner_set \<Rightarrow> 'c \<Rightarrow> 'c" where
  "SetReadySuspended setc c = setc (cond ''Ready'' ConditionFalse ''Suspended'' ''Suspended'') c"

subsection \<open>Backups, Galera, initialization, switchover, updates\<close>

definition SetRestoringBackup :: "'c conditioner_set \<Rightarrow> 'c \<Rightarrow> 'c" where
  "SetRestoringBackup setc c =
     setc (cond ''BackupRestored'' ConditionFalse ''RestoreBackup'' ''Restoring backup'')
       (setc (cond ''Ready'' ConditionFalse ''RestoreBackup'' ''Restoring backup'') c)"

definition SetRestoredBackup :: "'c conditioner_set \<Rightarrow> 'c \<Rightarrow> 'c" where
  "SetRestoredBackup setc c = setc (cond ''BackupRestored'' ConditionTrue ''RestoreBackup'' ''Restored backup'') c"

definition SetRestoredPhysicalBackup :: "'c conditioner_set \<Rightarrow> 'c \<Rightarrow> 'c" where
  "SetRestoredPhysicalBackup setc c =
     setc (cond ''BackupRestored'' ConditionTrue ''RestorePhysicalBackup'' ''Restored physical backup'') c"

definition SetGaleraConfigured :: "'c conditioner_set \<Rightarrow> 'c \<Rightarrow> 'c" where
  "SetGaleraConfigured setc c = setc (cond ''GaleraConfigured'' ConditionTrue ''GaleraConfigured'' ''Galera configured'') c"

definition SetGaleraInitialized :: "'c conditioner_set \<Rightarrow> 'c \<Rightarrow> 'c" where
  "SetGaleraInitialized setc c =
     setc (cond ''GaleraInitialized'' ConditionTrue ''GaleraInitialized'' ''Galera initialized'') c"

definition SetGaleraInitializing :: "'c conditioner_set \<Rightarrow> 'c \<Rightarrow> 'c" where
  "SetGaleraInitializing setc c =
     setc (cond ''GaleraInitialized'' ConditionFalse ''GaleraInitialized'' ''Galera initializing'') c"

definition SetGaleraNotReady :: "'c conditioner_set \<Rightarrow> 'c \<Rightarrow> 'c" where
  "SetGaleraNotReady setc c =
     setc (cond ''GaleraReady'' ConditionFalse ''GaleraNotReady'' ''Galera not ready'')
       (setc (cond ''Ready'' ConditionFalse ''GaleraNotReady'' ''Galera not ready'') c)"

definition SetGaleraReady :: "'c conditioner_set \<Rightarrow> 'c \<Rightarrow> 'c" where
  "SetGaleraReady setc c = setc (cond ''GaleraReady'' ConditionTrue ''GaleraReady'' ''Galera ready'') c"

definition SetInitialized :: "'c conditioner_set \<Rightarrow> 'c \<Rightarrow> 'c" where
  "SetInitialized setc c = setc (cond ''Initialized'' ConditionTrue ''Initialized'' ''Initialized'') c"

definition SetInitializing :: "'c conditioner_set \<Rightarrow> 'c \<Rightarrow> 'c" where
  "SetInitializing setc c = setc (cond ''Initialized'' ConditionFalse ''Initializing'' ''Initializing'') c"

definition SetInitError :: "'c conditioner_set \<Rightarrow> string \<Rightarrow> 'c \<Rightarrow> 'c" where
  "SetInitError setc msg c = setc (cond ''Initialized'' ConditionFalse ''InitError'' (''Init error: '' @ msg)) c"

definition switchingPrimaryMessage :: "MariaDB \<Rightarrow> string" where
  "switchingPrimaryMessage mariadb =
     ''Switching primary to '' @ [CHR 0x27] @ PodName (m_ObjectMeta mariadb) (primaryPodIndex mariadb) @ [CHR 0x27]"

definition SetPrimarySwitching :: "'c conditioner_set \<Rightarrow> MariaDB \<Rightarrow> 'c \<Rightarrow> 'c" where
  "SetPrimarySwitching setc mariadb c =
     (let msg = switchingPrimaryMessage mariadb in
      setc (cond ''PrimarySwitched'' ConditionFalse ''SwitchPrimary'' msg)
        (setc (cond ''Ready'' ConditionFalse ''SwitchPrimary'' msg) c))"

definition SetPrimarySwitched :: "'c conditioner_set \<Rightarrow> 'c \<Rightarrow> 'c" where
  "SetPrimarySwitched setc c = setc (cond ''PrimarySwitched'' ConditionTrue ''SwitchPrimary'' ''Switchover complete'') c"

definition SetPendingUpdate :: "'c conditioner_set \<Rightarrow> 'c \<Rightarrow> 'c" where
  "SetPendingUpdate setc c = setc (cond ''Updated'' ConditionFalse ''PendingUpdate'' ''Pending update'') c"

definition SetUpdating :: "'c conditioner_set \<Rightarrow> 'c \<Rightarrow> 'c" where
  "SetUpdating setc c = setc (cond ''Updated'' ConditionFalse ''Updating'' ''Updating'') c"

definition SetUpdated :: "'c conditioner_set \<Rightarrow> 'c \<Rightarrow> 'c" where
  "SetUpdated setc c = setc (cond ''Updated'' ConditionTrue ''Updated'' ''Updated'') c"

subsection \<open>Complete\<close>

definition ConditionReasonCronJobFailed :: string where
  "ConditionReasonCronJobFailed = ''CronJobScheduled''"

definition SetCompleteWithCronJob :: "'c conditioner_set \<Rightarrow> CronJob \<Rightarrow> 'c \<Rightarrow> 'c" where
  "SetCompleteWithCronJob setc cronJob c =
     (let setScheduled = setc (cond ''Complete'' ConditionFalse ''CronJobScheduled'' ''Scheduled'') in
      case (cj_LastScheduleTime cronJob, cj_LastSuccessfulTime cronJob) of
        (Some sched, Some succ) \<Rightarrow>
          if succ < sched then
            (if cj_Active cronJob > 0
             then setc (cond ''Complete'' ConditionFalse ''CronJobRunning'' ''Running'') c
             else setc (cond ''Complete'' ConditionFalse ConditionReasonCronJobFailed ''Failed'') c)
          else if sched = succ \<or> sched < succ
          then setc (cond ''Complete'' ConditionTrue ''CronJobSuccess'' ''Success'') c
          else setScheduled c
      | _ \<Rightarrow> setScheduled c)"

definition SetCompleteWithJob :: "'c conditioner_set \<Rightarrow> JobCondition list option \<Rightarrow> 'c \<Rightarrow> 'c" where
  "SetCompleteWithJob setc job c =
     (if IsJobFailed job then setc (cond ''Complete'' ConditionTrue ''JobFailed'' ''Failed'') c
      else if IsJobSuspended job then setc (cond ''Complete'' ConditionFalse ''JobSuspended'' ''Suspended'') c
      else if IsJobComplete job then setc (cond ''Complete'' ConditionTrue ''JobComplete'' ''Success'') c
      else setc (cond ''Complete'' ConditionFalse ''JobRunning'' ''Running'') c)"

definition SetCompleteFailedWithMessage :: "'c conditioner_set \<Rightarrow> string \<Rightarrow> 'c \<Rightarrow> 'c" where
  "SetCompleteFailedWithMessage setc msg c = setc (cond ''Complete'' ConditionFalse ''Failed'' msg) c"

definition SetCompleteFailed :: "'c conditioner_set \<Rightarrow> 'c \<Rightarrow> 'c" where
  "SetCompleteFailed setc c = SetCompleteFailedWithMessage setc ''Failed'' c"

subsection \<open>Patchers\<close>

definition Ready_PatcherWithError :: "'c conditioner_set \<Rightarrow> go_error option \<Rightarrow> 'c \<Rightarrow> 'c" where
  "Ready_PatcherWithError setc err c = (if err = None then SetReadyCreated setc c else SetReadyFailed setc c)"

definition Ready_PatcherRefResolver :: "'c conditioner_set \<Rightarrow> go_error option \<Rightarrow> string \<Rightarrow> 'c \<Rightarrow> 'c" where
  "Ready_PatcherRefResolver setc err typ c =
     (case err of
        None \<Rightarrow> c
      | Some e \<Rightarrow> if IsNotFound e then SetReadyFailedWithMessage setc (typ @ '' not found'') c
                 else SetReadyFailedWithMessage setc (''Error getting '' @ typ) c)"

definition Ready_PatcherHealthy :: "'c conditioner_set \<Rightarrow> go_error option \<Rightarrow> 'c \<Rightarrow> 'c" where
  "Ready_PatcherHealthy setc err c =
     (case err of None \<Rightarrow> SetReadyHealthy setc c | Some e \<Rightarrow> SetReadyUnhealthyWithError setc (error_text e) c)"

definition Complete_PatcherRefResolver :: "'c conditioner_set \<Rightarrow> go_error option \<Rightarrow> string \<Rightarrow> 'c \<Rightarrow> 'c" where
  "Complete_PatcherRefResolver setc err typ c =
     (case err of
        None \<Rightarrow> c
      | Some e \<Rightarrow> if IsNotFound e then SetCompleteFailedWithMessage setc (typ @ '' not found'') c
                 else SetCompleteFailedWithMessage setc (''Error getting '' @ typ) c)"

text \<open>The patcher of a Job or CronJob: the object is read once (\<open>got\<close> is the answer of the client).\<close>

definition Complete_PatcherWithJob ::
    "'c conditioner_set \<Rightarrow> go_error option \<Rightarrow> JobCondition list result \<Rightarrow> ('c \<Rightarrow> 'c) result" where
  "Complete_PatcherWithJob setc err got =
     (if err \<noteq> None then Inr (SetCompleteFailedWithMessage setc ''Error creating Job'')
      else and_then got (\<lambda>job. Inr (SetCompleteWithJob setc (Some job))))"

definition Complete_PatcherWithCronJob ::
    "'c conditioner_set \<Rightarrow> go_error option \<Rightarrow> CronJob result \<Rightarrow> ('c \<Rightarrow> 'c) result" where
  "Complete_PatcherWithCronJob setc err got =
     (if err \<noteq> None then Inr (SetCompleteFailedWithMessage setc ''Error creating CronJob'')
      else and_then got (\<lambda>cronJob. Inr (SetCompleteWithCronJob setc cronJob)))"

subsection \<open>What a conditioner promises\<close>

text \<open>A status whose \<^verbatim>\<open>SetCondition\<close> method stores the condition with the meta library.\<close>

locale conditioner =
  fixes M :: meta_api
    and setc :: "'c conditioner_set"
    and conds :: "'c \<Rightarrow> Condition list"
  assumes conds_set: "conds (setc c x) = SetStatusCondition M (conds x) c"
begin

definition look :: "'c \<Rightarrow> string \<Rightarrow> Condition option" where
  "look x t = FindStatusCondition M (conds x) t"

lemma look_set: "meta_ok M \<Longrightarrow> look (setc c x) t = (if t = c_Type c then Some c else look x t)"
  by (simp add: look_def conds_set meta_okD(1))

lemma look_true:
  "meta_ok M \<Longrightarrow> IsStatusConditionTrue M (conds x) t \<longleftrightarrow> (\<exists>c. look x t = Some c \<and> c_Status c = ConditionTrue)"
  by (simp add: look_def meta_okD(2))

lemma look_false:
  "meta_ok M \<Longrightarrow> IsStatusConditionFalse M (conds x) t \<longleftrightarrow> (\<exists>c. look x t = Some c \<and> c_Status c = ConditionFalse)"
  by (simp add: look_def meta_okD(3))

lemma ready_with_mariadb_look:
  assumes "meta_ok M"
  shows "t \<noteq> ''Ready'' \<Longrightarrow> look (SetReadyWithMariaDB M setc sts mdb x) t = look x t"
    and "(\<exists>c. look (SetReadyWithMariaDB M setc sts mdb x) ''Ready'' = Some c \<and> c_Status c = ConditionTrue) \<longleftrightarrow>
      \<not> (IsInitializing M mdb \<or> (IsGaleraEnabled mdb \<and> IsGaleraInitializing M mdb)) \<and> \<not> IsUpdating M mdb \<and>
      sts_Status_Replicas sts \<noteq> 0 \<and> sts_ReadyReplicas sts = sts_Status_Replicas sts"
  using assms by (auto simp: SetReadyWithMariaDB_def look_set split: option.split)

lemma complete_with_job_look:
  assumes "meta_ok M"
  shows "look (SetCompleteWithJob setc job x) ''Complete'' = Some
    (if IsJobFailed job then cond ''Complete'' ConditionTrue ''JobFailed'' ''Failed''
     else if IsJobSuspended job then cond ''Complete'' ConditionFalse ''JobSuspended'' ''Suspended''
     else if IsJobComplete job then cond ''Complete'' ConditionTrue ''JobComplete'' ''Success''
     else cond ''Complete'' ConditionFalse ''JobRunning'' ''Running'')"
  using assms by (simp add: SetCompleteWithJob_def look_set)

end

interpretation mdb_status: conditioner M "MariaDBStatus_SetCondition M" ms_Conditions for M
  by unfold_locales (simp add: MariaDBStatus_SetCondition_def set_conditions_def)

text \<open>The conditions of a plain list, the status of the smaller resources.\<close>

definition list_SetCondition :: "meta_api \<Rightarrow> Condition \<Rightarrow> Condition list \<Rightarrow> Condition list" where
  "list_SetCondition M c cs = SetStatusCondition M cs c"

interpretation list_status: conditioner M "list_SetCondition M" "\<lambda>cs. cs" for M
  by unfold_locales (simp add: list_SetCondition_def)

lemma SetCondition_status [simp]:
  "ms_CurrentPrimaryPodIndex (MariaDBStatus_SetCondition M c s) = ms_CurrentPrimaryPodIndex s"
  "ms_CurrentPrimary (MariaDBStatus_SetCondition M c s) = ms_CurrentPrimary s"
  "ms_GaleraRecovery (MariaDBStatus_SetCondition M c s) = ms_GaleraRecovery s"
  "ms_Replicas (MariaDBStatus_SetCondition M c s) = ms_Replicas s"
  "ms_ReplicationStatus (MariaDBStatus_SetCondition M c s) = ms_ReplicationStatus s"
  by (simp_all add: MariaDBStatus_SetCondition_def set_conditions_def)

definition with_status :: "MariaDB \<Rightarrow> MariaDBStatus \<Rightarrow> MariaDB" where
  "with_status m s = m\<lparr>m_Status := s\<rparr>"

lemma with_status_sel [simp]:
  "m_Status (with_status m s) = s" "m_Spec (with_status m s) = m_Spec m"
  "m_ObjectMeta (with_status m s) = m_ObjectMeta m"
  by (simp_all add: with_status_def)

text \<open>
  Reporting readiness. After the MariaDB status is refreshed the object is ready exactly when it
  is not initializing, no update is in progress and the StatefulSet has Pods and all of them are
  ready; a pending update does not make it unready; no other condition is touched.
\<close>

theorem SetReadyWithMariaDB_ready:
  assumes "meta_ok M"
  shows "(IsReady M (with_status m (SetReadyWithMariaDB M (MariaDBStatus_SetCondition M) sts mdb s)) \<longleftrightarrow>
      \<not> IsInitializing M mdb \<and> \<not> (IsGaleraEnabled mdb \<and> IsGaleraInitializing M mdb) \<and> \<not> IsUpdating M mdb \<and>
      sts_Status_Replicas sts \<noteq> 0 \<and> sts_ReadyReplicas sts = sts_Status_Replicas sts) \<and>
    (t \<noteq> ''Ready'' \<longrightarrow>
      FindStatusCondition M (ms_Conditions (SetReadyWithMariaDB M (MariaDBStatus_SetCondition M) sts mdb s)) t =
      FindStatusCondition M (ms_Conditions s) t)"
  using mdb_status.ready_with_mariadb_look [OF assms] mdb_status.look_true [OF assms]
  by (auto simp: IsReady_def mdb_status.look_def)

theorem SetReadyWithMariaDB_ready_witness:
  "IsReady list_meta (with_status exampleMariaDB (SetReadyWithMariaDB list_meta (MariaDBStatus_SetCondition list_meta)
     \<lparr>sts_Spec_Replicas = 3, sts_Status_Replicas = 3, sts_ReadyReplicas = 3, sts_UpdateRevision = ''r'', sts_Annotations = []\<rparr>
     exampleMariaDB exampleStatus))"
proof -
  have "\<not> IsInitializing list_meta exampleMariaDB" "\<not> IsGaleraEnabled exampleMariaDB"
    "\<not> IsUpdating list_meta exampleMariaDB"
    by (simp_all add: IsInitializing_def IsGaleraEnabled_def IsUpdating_def zeroGalera_def example_defs
        list_meta_def find_condition_def)
  then show ?thesis
    using SetReadyWithMariaDB_ready [OF meta_ok_list_meta] by simp
qed

text \<open>
  Marking a switchover makes the object not ready and switching, marking its end makes it not
  switching and changes nothing else: a status that is switching stays so until it is marked
  switched.
\<close>

theorem switching_conditions:
  assumes "meta_ok M"
  shows "IsSwitchingPrimary M (with_status m (SetPrimarySwitching (MariaDBStatus_SetCondition M) mdb s)) \<and>
    \<not> IsReady M (with_status m (SetPrimarySwitching (MariaDBStatus_SetCondition M) mdb s)) \<and>
    \<not> IsSwitchingPrimary M (with_status m (SetPrimarySwitched (MariaDBStatus_SetCondition M) s)) \<and>
    (t \<noteq> ''PrimarySwitched'' \<longrightarrow>
       FindStatusCondition M (ms_Conditions (SetPrimarySwitched (MariaDBStatus_SetCondition M) s)) t =
       FindStatusCondition M (ms_Conditions s) t) \<and>
    (IsSwitchingPrimary M (with_status m (SetReadyWithMariaDB M (MariaDBStatus_SetCondition M) sts mdb s)) \<longleftrightarrow>
       IsSwitchingPrimary M (with_status m s))"
  using mdb_status.look_set [OF assms] mdb_status.look_true [OF assms] mdb_status.look_false [OF assms]
    mdb_status.ready_with_mariadb_look(1) [OF assms, of "''PrimarySwitched''"]
  by (auto simp: IsReady_def IsSwitchingPrimary_def SetPrimarySwitching_def SetPrimarySwitched_def Let_def
      mdb_status.look_def)

theorem switching_conditions_witness:
  "IsSwitchingPrimary list_meta (with_status exampleMariaDB
     (SetPrimarySwitching (MariaDBStatus_SetCondition list_meta) exampleMariaDB exampleStatus))"
  using switching_conditions [OF meta_ok_list_meta] by blast

text \<open>
  The completion a Job reports. The condition is true exactly when the Job failed, or completed
  without being suspended, and a failed Job always reports its own reason even when it is suspended
  or complete as well.
\<close>

theorem SetCompleteWithJob_status:
  assumes "meta_ok M"
  shows "(IsStatusConditionTrue M (SetCompleteWithJob (list_SetCondition M) job cs) ''Complete'' \<longleftrightarrow>
      IsJobFailed job \<or> (IsJobComplete job \<and> \<not> IsJobSuspended job)) \<and>
    (IsJobFailed job \<longrightarrow>
      FindStatusCondition M (SetCompleteWithJob (list_SetCondition M) job cs) ''Complete'' =
        Some (cond ''Complete'' ConditionTrue ''JobFailed'' ''Failed'')) \<and>
    (IsStatusConditionFalse M (SetCompleteWithJob (list_SetCondition M) job cs) ''Complete'' \<longleftrightarrow>
      job = None \<or> IsJobRunning job \<or> (IsJobSuspended job \<and> \<not> IsJobFailed job))"
  using list_status.complete_with_job_look [OF assms, of job cs]
    list_status.look_true [OF assms] list_status.look_false [OF assms]
  by (cases job) (auto simp: list_status.look_def IsJobRunning_def IsJobFailed_def IsJobSuspended_def
      IsJobComplete_def)

theorem SetCompleteWithJob_status_witness:
  "IsStatusConditionTrue list_meta
     (SetCompleteWithJob (list_SetCondition list_meta) (Some [(JobComplete, ConditionTrue)]) []) ''Complete''"
  by (simp add: SetCompleteWithJob_status [OF meta_ok_list_meta, THEN conjunct1] IsJobFailed_def
      IsJobComplete_def IsJobSuspended_def)

text \<open>
  A scheduled backup whose last run did not succeed is reported with the same reason as one that
  has only been scheduled: the failure is visible in the message alone.
\<close>

theorem CronJob_failure_reason:
  assumes "meta_ok M" "cj_LastScheduleTime j = Some sched" "cj_LastSuccessfulTime j = Some succ"
    "succ < sched" "cj_Active j = 0"
  shows "\<exists>c. FindStatusCondition M (SetCompleteWithCronJob (list_SetCondition M) j cs) ''Complete'' = Some c \<and>
    c_Status c = ConditionFalse \<and> c_Message c = ''Failed'' \<and>
    (\<exists>d. FindStatusCondition M (SetCompleteWithCronJob (list_SetCondition M)
          (j\<lparr>cj_LastSuccessfulTime := None\<rparr>) cs) ''Complete'' = Some d \<and> c_Reason d = c_Reason c \<and> c_Status d = c_Status c)"
  using assms list_status.look_set [OF assms(1)]
  by (auto simp: SetCompleteWithCronJob_def ConditionReasonCronJobFailed_def list_status.look_def
      list_SetCondition_def meta_okD(1))

theorem CronJob_failure_reason_witness:
  "\<exists>c. FindStatusCondition list_meta (SetCompleteWithCronJob (list_SetCondition list_meta)
       \<lparr>cj_LastScheduleTime = Some 5, cj_LastSuccessfulTime = Some 3, cj_Active = 0\<rparr> []) ''Complete'' = Some c \<and>
     c_Message c = ''Failed''"
  using CronJob_failure_reason [OF meta_ok_list_meta,
      of "\<lparr>cj_LastScheduleTime = Some 5, cj_LastSuccessfulTime = Some 3, cj_Active = 0\<rparr>" 5 3 "[]"]
  by auto

end
