(* ===== verification/Sql_Client.thy ===== *)
theory Sql_Client
  imports Api_Types
begin

text \<open>
  \<^verbatim>\<open>pkg/sql/sql.go\<close>: the statements the operator sends to a database. A statement is a value of
  \<open>sql_stmt\<close>, one constructor per method of the client that builds one, and \<open>stmt_text\<close> is the text
  the method sends. Reading a row can fail: how a method treats that is part of the operations that
  use it (\<open>Operator_Calls\<close>).
\<close>

abbreviation (input) quote_char :: char where "quote_char \<equiv> CHR 0x27"

definition quoted :: "string \<Rightarrow> string" where
  "quoted s = [quote_char] @ s @ [quote_char]"

definition newline :: string where
  "newline = [CHR 0x0A]"

record TLSRequirements =
  tq_SSL :: "bool option"
  tq_X509 :: "bool option"
  tq_Issuer :: "string option"
  tq_Subject :: "string option"

definition set_text :: "string option \<Rightarrow> bool" where
  "set_text s = (case s of None \<Rightarrow> False | Some t \<Rightarrow> t \<noteq> '''')"

definition TLSRequirements_Validate :: "TLSRequirements \<Rightarrow> unit result" where
  "TLSRequirements_Validate u =
     (let count = (if tq_SSL u = Some True then 1 else 0) + (if tq_X509 u = Some True then 1 else 0) +
        (if set_text (tq_Issuer u) \<or> set_text (tq_Subject u) then 1 else (0 :: nat))
      in if count > 1 then Inl (ErrNew ''only one of [SSL, X509, (Issuer, Subject)] can be set at a time'')
         else if count = 0 then Inl (ErrNew ''at least one field [SSL, X509, (Issuer, Subject)] must be set'')
         else Inr ())"

definition requireOptions :: "TLSRequirements \<Rightarrow> string list" where
  "requireOptions r =
     (if tq_SSL r = Some True then [''SSL''] else []) @
     (if tq_X509 r = Some True then [''X509''] else []) @
     (if set_text (tq_Issuer r) then [''ISSUER '' @ quoted (Deref (tq_Issuer r) '''')] else []) @
     (if set_text (tq_Subject r) then [''SUBJECT '' @ quoted (Deref (tq_Subject r) '''')] else [])"

definition requireQuery :: "TLSRequirements option \<Rightarrow> string result" where
  "requireQuery require =
     (case require of
        None \<Rightarrow> Inl (ErrNew ''TLS requirements must be set'')
      | Some r \<Rightarrow>
          and_then (with_ctx ''invalid TLS requirements'' (TLSRequirements_Validate r)) (\<lambda>_.
            if length (requireOptions r) = 0 then Inl (ErrNew ''no valid TLS requirements specified'')
            else Inr (''REQUIRE '' @ join_with '' AND '' (requireOptions r))))"

record CreateUserOpts =
  cu_IdentifiedBy :: string
  cu_IdentifiedByPassword :: string
  cu_IdentifiedVia :: string
  cu_IdentifiedViaUsing :: string
  cu_Require :: "TLSRequirements option"
  cu_MaxUserConnections :: int

definition noCreateUserOpts :: CreateUserOpts where
  "noCreateUserOpts = \<lparr>cu_IdentifiedBy = '''', cu_IdentifiedByPassword = '''', cu_IdentifiedVia = '''',
     cu_IdentifiedViaUsing = '''', cu_Require = None, cu_MaxUserConnections = 0\<rparr>"

definition WithIdentifiedBy :: "string \<Rightarrow> CreateUserOpts \<Rightarrow> CreateUserOpts" where
  "WithIdentifiedBy password cuo = cuo\<lparr>cu_IdentifiedBy := password\<rparr>"

definition WithIdentifiedByPassword :: "string \<Rightarrow> CreateUserOpts \<Rightarrow> CreateUserOpts" where
  "WithIdentifiedByPassword password cuo = cuo\<lparr>cu_IdentifiedByPassword := password\<rparr>"

definition WithIdentifiedVia :: "string \<Rightarrow> CreateUserOpts \<Rightarrow> CreateUserOpts" where
  "WithIdentifiedVia via cuo = cuo\<lparr>cu_IdentifiedVia := via\<rparr>"

definition WithIdentifiedViaUsing :: "string \<Rightarrow> CreateUserOpts \<Rightarrow> CreateUserOpts" where
  "WithIdentifiedViaUsing viaUsing cuo = cuo\<lparr>cu_IdentifiedViaUsing := viaUsing\<rparr>"

definition WithTLSRequirements :: "TLSRequirements \<Rightarrow> CreateUserOpts \<Rightarrow> CreateUserOpts" where
  "WithTLSRequirements require cuo = cuo\<lparr>cu_Require := Some require\<rparr>"

definition WithMaxUserConnections :: "int \<Rightarrow> CreateUserOpts \<Rightarrow> CreateUserOpts" where
  "WithMaxUserConnections maxConns cuo = cuo\<lparr>cu_MaxUserConnections := maxConns\<rparr>"

text \<open>The part of the user statements that \<^verbatim>\<open>CreateUser\<close> and \<^verbatim>\<open>AlterUser\<close> share.\<close>

definition identification :: "CreateUserOpts \<Rightarrow> string" where
  "identification opts =
     (if cu_IdentifiedVia opts \<noteq> '''' then
        ''IDENTIFIED VIA '' @ cu_IdentifiedVia opts @ '' '' @
        (if cu_IdentifiedViaUsing opts \<noteq> '''' then ''USING '' @ quoted (cu_IdentifiedViaUsing opts) @ '' '' else '''')
      else if cu_IdentifiedByPassword opts \<noteq> '''' then
        ''IDENTIFIED BY PASSWORD '' @ quoted (cu_IdentifiedByPassword opts) @ '' ''
      else if cu_IdentifiedBy opts \<noteq> '''' then ''IDENTIFIED BY '' @ quoted (cu_IdentifiedBy opts) @ '' ''
      else '''')"

definition requirement :: "CreateUserOpts \<Rightarrow> string result" where
  "requirement opts =
     (case cu_Require opts of
        None \<Rightarrow> Inr ''''
      | Some r \<Rightarrow>
          and_then (with_ctx ''error processing require subquery'' (requireQuery (Some r)))
            (\<lambda>q. Inr (q @ '' '')))"

definition CreateUser_text :: "string \<Rightarrow> CreateUserOpts \<Rightarrow> string result" where
  "CreateUser_text accountName opts =
     and_then (requirement opts) (\<lambda>req.
       Inr (''CREATE USER IF NOT EXISTS '' @ accountName @ '' '' @ identification opts @ req @
         ''WITH MAX_USER_CONNECTIONS '' @ Itoa (cu_MaxUserConnections opts) @ '' '' @
         (if cu_IdentifiedBy opts = '''' \<and> cu_IdentifiedByPassword opts = '''' \<and> cu_IdentifiedVia opts = '''' \<and>
             cu_Require opts = None then ''ACCOUNT LOCK PASSWORD EXPIRE '' else '''') @ '';''))"

definition AlterUser_text :: "string \<Rightarrow> CreateUserOpts \<Rightarrow> string result" where
  "AlterUser_text accountName opts =
     and_then (requirement opts) (\<lambda>req.
       Inr (''ALTER USER '' @ accountName @ '' '' @ identification opts @ req @
         ''WITH MAX_USER_CONNECTIONS '' @ Itoa (cu_MaxUserConnections opts) @ '' '' @ '';''))"

definition escapeWildcard :: "string \<Rightarrow> string" where
  "escapeWildcard s = (if s = ''*'' then s else [CHR 0x60] @ s @ [CHR 0x60])"

definition Grant_text :: "string list \<Rightarrow> string \<Rightarrow> string \<Rightarrow> string \<Rightarrow> bool \<Rightarrow> string" where
  "Grant_text privileges database table accountName grantOption =
     ''GRANT '' @ join_with '','' privileges @ '' ON '' @ escapeWildcard database @ ''.'' @
     escapeWildcard table @ '' TO '' @ accountName @ '' '' @
     (if grantOption then ''WITH GRANT OPTION '' else '''') @ '';''"

definition Revoke_text :: "string list \<Rightarrow> string \<Rightarrow> string \<Rightarrow> string \<Rightarrow> bool \<Rightarrow> string" where
  "Revoke_text privileges database table accountName grantOption =
     (let privileges = (if grantOption then privileges @ [''GRANT OPTION''] else privileges)
      in ''REVOKE '' @ join_with '','' privileges @ '' ON '' @ escapeWildcard database @ ''.'' @
         escapeWildcard table @ '' FROM '' @ accountName)"

definition DropUser_text :: "string \<Rightarrow> string" where
  "DropUser_text accountName = ''DROP USER IF EXISTS '' @ accountName @ '';''"

record DatabaseOpts =
  do_CharacterSet :: string
  do_Collate :: string

definition DatabaseExists_text :: "string \<Rightarrow> string" where
  "DatabaseExists_text database =
     ''SELECT EXISTS (SELECT 1 FROM INFORMATION_SCHEMA.SCHEMATA WHERE SCHEMA_NAME = '' @ quoted database @ '')''"

definition CreateDatabase_text :: "string \<Rightarrow> DatabaseOpts \<Rightarrow> string" where
  "CreateDatabase_text database opts =
     ''CREATE DATABASE '' @ [CHR 0x60] @ database @ [CHR 0x60] @ '' '' @
     (if do_CharacterSet opts \<noteq> '''' then ''CHARACTER SET = '' @ quoted (do_CharacterSet opts) @ '' '' else '''') @
     (if do_Collate opts \<noteq> '''' then ''COLLATE = '' @ quoted (do_Collate opts) @ '' '' else '''') @ '';''"

definition DropDatabase_text :: "string \<Rightarrow> string" where
  "DropDatabase_text database = ''DROP DATABASE IF EXISTS '' @ [CHR 0x60] @ database @ [CHR 0x60] @ '';''"

record ChangeMasterOpts =
  cm_Host :: string
  cm_Port :: int
  cm_User :: string
  cm_Password :: string
  cm_Gtid :: string
  cm_Retries :: int
  cm_SSLEnabled :: bool
  cm_SSLCertPath :: string
  cm_SSLKeyPath :: string
  cm_SSLCAPath :: string

type_synonym ChangeMasterOpt = "ChangeMasterOpts \<Rightarrow> ChangeMasterOpts"

definition WithChangeMasterHost :: "string \<Rightarrow> ChangeMasterOpt" where
  "WithChangeMasterHost host cmo = cmo\<lparr>cm_Host := host\<rparr>"

definition WithChangeMasterPort :: "int \<Rightarrow> ChangeMasterOpt" where
  "WithChangeMasterPort port cmo = cmo\<lparr>cm_Port := port\<rparr>"

definition WithChangeMasterCredentials :: "string \<Rightarrow> string \<Rightarrow> ChangeMasterOpt" where
  "WithChangeMasterCredentials user password cmo = cmo\<lparr>cm_User := user, cm_Password := password\<rparr>"

definition WithChangeMasterGtid :: "string \<Rightarrow> ChangeMasterOpt" where
  "WithChangeMasterGtid gtid cmo = cmo\<lparr>cm_Gtid := gtid\<rparr>"

definition WithChangeMasterRetries :: "int \<Rightarrow> ChangeMasterOpt" where
  "WithChangeMasterRetries retries cmo = cmo\<lparr>cm_Retries := retries\<rparr>"

definition WithChangeMasterSSL :: "string \<Rightarrow> string \<Rightarrow> string \<Rightarrow> ChangeMasterOpt" where
  "WithChangeMasterSSL certPath keyPath caPath cmo =
     cmo\<lparr>cm_SSLEnabled := True, cm_SSLCertPath := certPath, cm_SSLKeyPath := keyPath, cm_SSLCAPath := caPath\<rparr>"

definition defaultChangeMasterOpts :: ChangeMasterOpts where
  "defaultChangeMasterOpts = \<lparr>cm_Host = '''', cm_Port = 3306, cm_User = '''', cm_Password = '''',
     cm_Gtid = ''CurrentPos'', cm_Retries = 10, cm_SSLEnabled = False, cm_SSLCertPath = '''',
     cm_SSLKeyPath = '''', cm_SSLCAPath = ''''\<rparr>"

definition applyOpts :: "('o \<Rightarrow> 'o) list \<Rightarrow> 'o \<Rightarrow> 'o" where
  "applyOpts setOpts opts = foldl (\<lambda>o' setOpt. setOpt o') opts setOpts"

definition ChangeMaster_text :: "ChangeMasterOpts \<Rightarrow> string" where
  "ChangeMaster_text o' =
     ''CHANGE MASTER TO'' @ newline @
     ''MASTER_HOST='' @ quoted (cm_Host o') @ '','' @ newline @
     ''MASTER_PORT='' @ Itoa (cm_Port o') @ '','' @ newline @
     ''MASTER_USER='' @ quoted (cm_User o') @ '','' @ newline @
     ''MASTER_PASSWORD='' @ quoted (cm_Password o') @ '','' @ newline @
     ''MASTER_USE_GTID='' @ cm_Gtid o' @ '','' @ newline @
     ''MASTER_CONNECT_RETRY='' @ Itoa (cm_Retries o') @
     (if cm_SSLEnabled o' then '','' @ newline @ ''MASTER_SSL=1,'' @ newline @
        ''MASTER_SSL_CERT='' @ quoted (cm_SSLCertPath o') @ '','' @ newline @
        ''MASTER_SSL_KEY='' @ quoted (cm_SSLKeyPath o') @ '','' @ newline @
        ''MASTER_SSL_CA='' @ quoted (cm_SSLCAPath o') @ '','' @ newline @
        ''MASTER_SSL_VERIFY_SERVER_CERT=1;'' @ newline
      else '';'' @ newline)"

definition checkChangeMasterOpts :: "ChangeMasterOpts \<Rightarrow> unit result" where
  "checkChangeMasterOpts opts =
     (if cm_Host opts = '''' then Inl (ErrNew ''host must be provided'')
      else if cm_User opts = '''' \<or> cm_Password opts = '''' then Inl (ErrNew ''credentials must be provided'')
      else if cm_SSLEnabled opts \<and> (cm_SSLCertPath opts = '''' \<or> cm_SSLKeyPath opts = '''' \<or> cm_SSLCAPath opts = '''')
      then Inl (ErrNew ''all SSL paths must be provided when SSL is enabled'')
      else Inr ())"

definition buildChangeMasterQuery :: "ChangeMasterOpt list \<Rightarrow> string result" where
  "buildChangeMasterQuery changeMasterOpts =
     (let opts = applyOpts changeMasterOpts defaultChangeMasterOpts
      in and_then (checkChangeMasterOpts opts) (\<lambda>_. Inr (ChangeMaster_text opts)))"

datatype sql_stmt =
    LockTablesWithReadLock
  | UnlockTables
  | SetSystemVariable string string
  | ResetMaster
  | StartSlave
  | StopAllSlaves
  | ResetAllSlaves
  | ResetSlavePos
  | ChangeMasterTo string
  | CreateUser string CreateUserOpts
  | AlterUser string CreateUserOpts
  | DropUser string
  | Grant "string list" string string string bool
  | Revoke "string list" string string string bool
  | DatabaseExists string
  | CreateDatabase string DatabaseOpts
  | DropDatabase string
  | SystemVariable string
  | UserExists string string
  | MasterGtidWait string int

abbreviation EnableReadOnly :: sql_stmt where "EnableReadOnly \<equiv> SetSystemVariable ''read_only'' ''1''"
abbreviation DisableReadOnly :: sql_stmt where "DisableReadOnly \<equiv> SetSystemVariable ''read_only'' ''0''"

definition stmt_text :: "sql_stmt \<Rightarrow> string result" where
  "stmt_text s =
     (case s of
        LockTablesWithReadLock \<Rightarrow> Inr ''FLUSH TABLES WITH READ LOCK;''
      | UnlockTables \<Rightarrow> Inr ''UNLOCK TABLES;''
      | SetSystemVariable variable val \<Rightarrow> Inr (''SET @@global.'' @ variable @ ''='' @ val @ '';'')
      | ResetMaster \<Rightarrow> Inr ''RESET MASTER;''
      | StartSlave \<Rightarrow> Inr ''START SLAVE;''
      | StopAllSlaves \<Rightarrow> Inr ''STOP ALL SLAVES;''
      | ResetAllSlaves \<Rightarrow> Inr ''RESET SLAVE ALL;''
      | ResetSlavePos \<Rightarrow> Inr (''SET @@global.gtid_slave_pos='' @ quoted '''' @ '';'')
      | ChangeMasterTo query \<Rightarrow> Inr query
      | CreateUser accountName opts \<Rightarrow> CreateUser_text accountName opts
      | AlterUser accountName opts \<Rightarrow> AlterUser_text accountName opts
      | DropUser accountName \<Rightarrow> Inr (DropUser_text accountName)
      | Grant privileges database table accountName opt \<Rightarrow> Inr (Grant_text privileges database table accountName opt)
      | Revoke privileges database table accountName opt \<Rightarrow> Inr (Revoke_text privileges database table accountName opt)
      | DatabaseExists database \<Rightarrow> Inr (DatabaseExists_text database)
      | CreateDatabase database opts \<Rightarrow> Inr (CreateDatabase_text database opts)
      | DropDatabase database \<Rightarrow> Inr (DropDatabase_text database)
      | SystemVariable variable \<Rightarrow> Inr (''SELECT @@global.'' @ variable @ '';'')
      | UserExists username host \<Rightarrow> Inr ''SELECT COUNT(*) FROM mysql.user WHERE user=? AND host=?''
      | MasterGtidWait gtid secs \<Rightarrow>
          Inr (''SELECT MASTER_GTID_WAIT('' @ quoted gtid @ '', '' @ Itoa secs @ '');''))"

text \<open>
  The \<^verbatim>\<open>REQUIRE\<close> clause. A user's TLS requirements are accepted exactly when precisely one of
  SSL, X509 and the issuer/subject pair is asked for, and then the clause is never empty and names
  exactly what was asked.
\<close>

theorem requireQuery_correct:
  "(\<exists>q. requireQuery (Some r) = Inr q) = (TLSRequirements_Validate r = Inr ()) \<and>
   (TLSRequirements_Validate r = Inr () \<longrightarrow>
      requireQuery (Some r) = Inr (''REQUIRE '' @ join_with '' AND '' (requireOptions r)) \<and>
      requireOptions r \<noteq> [] \<and>
      (requireOptions r = [''SSL''] \<or> requireOptions r = [''X509''] \<or>
       (tq_SSL r \<noteq> Some True \<and> tq_X509 r \<noteq> Some True)))"
  by (auto simp: requireQuery_def TLSRequirements_Validate_def requireOptions_def Let_def split: if_splits)

theorem requireQuery_correct_witness:
  "requireQuery (Some \<lparr>tq_SSL = None, tq_X509 = None, tq_Issuer = Some ''ca'', tq_Subject = Some ''me''\<rparr>) =
     Inr (''REQUIRE ISSUER '' @ quoted ''ca'' @ '' AND SUBJECT '' @ quoted ''me'')"
proof -
  let ?r = "\<lparr>tq_SSL = None, tq_X509 = None, tq_Issuer = Some ''ca'', tq_Subject = Some ''me''\<rparr>"
  have "TLSRequirements_Validate ?r = Inr ()"
    by (simp add: TLSRequirements_Validate_def set_text_def)
  then show ?thesis
    using requireQuery_correct [of ?r] by (simp add: requireOptions_def set_text_def)
qed

text \<open>
  A \<^verbatim>\<open>CHANGE MASTER\<close> statement is built exactly when, after all options are applied, there is a
  host, credentials and, with TLS, all three paths; later options override earlier ones.
\<close>

theorem buildChangeMasterQuery_ok:
  "buildChangeMasterQuery opts =
     (let o' = applyOpts opts defaultChangeMasterOpts in
      if cm_Host o' \<noteq> '''' \<and> cm_User o' \<noteq> '''' \<and> cm_Password o' \<noteq> '''' \<and>
         (cm_SSLEnabled o' \<longrightarrow> cm_SSLCertPath o' \<noteq> '''' \<and> cm_SSLKeyPath o' \<noteq> '''' \<and> cm_SSLCAPath o' \<noteq> '''')
      then Inr (ChangeMaster_text o')
      else Inl (if cm_Host o' = '''' then ErrNew ''host must be provided''
                else if cm_User o' = '''' \<or> cm_Password o' = '''' then ErrNew ''credentials must be provided''
                else ErrNew ''all SSL paths must be provided when SSL is enabled'')) \<and>
   buildChangeMasterQuery (opts @ [WithChangeMasterHost ''a'', WithChangeMasterHost h]) =
     buildChangeMasterQuery (opts @ [WithChangeMasterHost h])"
  by (auto simp: buildChangeMasterQuery_def checkChangeMasterOpts_def applyOpts_def WithChangeMasterHost_def Let_def)

theorem buildChangeMasterQuery_ok_witness:
  "buildChangeMasterQuery [WithChangeMasterHost ''h'', WithChangeMasterCredentials ''repl'' ''pw''] =
     Inr (''CHANGE MASTER TO'' @ newline @ ''MASTER_HOST='' @ quoted ''h'' @ '','' @ newline @
       ''MASTER_PORT='' @ Itoa 3306 @ '','' @ newline @ ''MASTER_USER='' @ quoted ''repl'' @ '','' @ newline @
       ''MASTER_PASSWORD='' @ quoted ''pw'' @ '','' @ newline @ ''MASTER_USE_GTID=CurrentPos,'' @ newline @
       ''MASTER_CONNECT_RETRY='' @ Itoa 10 @ '';'' @ newline)"
  using buildChangeMasterQuery_ok [of "[WithChangeMasterHost ''h'', WithChangeMasterCredentials ''repl'' ''pw'']" "[]"]
  by (simp add: applyOpts_def WithChangeMasterHost_def WithChangeMasterCredentials_def
      defaultChangeMasterOpts_def ChangeMaster_text_def)

end
