(* ===== verification/Operator_Calls.thy ===== *)
theory Operator_Calls
  imports Go_Prog Conditions Sql_Client
begin

text \<open>
  The calls the controllers make: the Kubernetes client, a Pod's database (\<^verbatim>\<open>pkg/sql\<close>), the Galera
  agent of a Pod, and the clock. What answers them is outside the operator and left open; an
  operation is a program of \<open>Go_Prog\<close> over these calls. Here are also the methods that interpret an
  answer (\<^verbatim>\<open>sql.Client\<close>, \<^verbatim>\<open>pkg/galera/client\<close>), the Pod predicates of \<^verbatim>\<open>pkg/pod\<close>, the bounds
  check of \<^verbatim>\<open>pkg/sqlset\<close> and the polling of \<^verbatim>\<open>pkg/wait\<close>.
\<close>

subsection \<open>Pods\<close>

record Pod =
  pod_Name :: string
  pod_Namespace :: string
  pod_Labels :: "(string \<times> string) list"
  pod_Annotations :: "(string \<times> string) list"
  pod_NodeName :: string
  pod_Phase :: string
  pod_Conditions :: "(string \<times> ConditionStatus) list"

fun ready_condition :: "(string \<times> ConditionStatus) list \<Rightarrow> ConditionStatus option" where
  "ready_condition [] = None"
| "ready_condition ((t, s) # cs) = (if t = ''Ready'' then Some s else ready_condition cs)"

definition PodReadyCondition :: "Pod \<Rightarrow> ConditionStatus option" where
  "PodReadyCondition pod = ready_condition (pod_Conditions pod)"

definition PodReady :: "Pod \<Rightarrow> bool" where
  "PodReady pod = (case PodReadyCondition pod of None \<Rightarrow> False | Some s \<Rightarrow> s = ConditionTrue)"

definition PodUpdated :: "Pod \<Rightarrow> string \<Rightarrow> bool" where
  "PodUpdated pod updateRevision =
     (case map_of (pod_Labels pod) ''controller-revision-hash'' of
        Some r \<Rightarrow> r = updateRevision | None \<Rightarrow> False)"

definition PodScheduled :: "Pod \<Rightarrow> bool" where
  "PodScheduled pod = (pod_NodeName pod \<noteq> '''')"

subsection \<open>Calls and answers\<close>

record EndpointSlice =
  es_Ports :: "int option list"
  es_Ready :: "bool option list"

datatype agent_call = AgentHealth | AgentGetState | AgentEnableBootstrap "Bootstrap option" | AgentDisableBootstrap

datatype call =
    GetPod NamespacedName
  | DeletePod NamespacedName
  | ListPods NamespacedName
  | ListMaxScalePods NamespacedName
  | GetStatefulSet NamespacedName
  | PatchStatefulSetReplicas NamespacedName int
  | GetMariaDB NamespacedName
  | PatchStatus MariaDB
  | PatchMariaDB MariaDB
  | GetMaxScale NamespacedName
  | ListEndpointSlices NamespacedName
  | GetJob NamespacedName
  | CreateJob NamespacedName
  | DeleteJob NamespacedName
  | ListJobPods NamespacedName
  | PodLogs string
  | SqlConnect int
  | Sql int sql_stmt
  | SqlStatus int string
  | AgentConnect int
  | Agent int agent_call
  | SecretKeyRef SecretKeySelector string
  | ReconcilePassword NamespacedName string bool
  | Now
  | Tick

text \<open>An answer carries what the call returns; \<open>AState\<close> says apart when the agent answers a request
  with the HTTP status 404.\<close>

datatype answer =
    AUnit "unit result"
  | APod "Pod result"
  | APods "Pod list result"
  | AStatefulSet "StatefulSet result"
  | AMariaDB "MariaDB result"
  | AEndpointSlices "EndpointSlice list result"
  | AJob "JobCondition list result"
  | ANames "string list result"
  | AText "string result"
  | AInt "int result"
  | ABool "bool result"
  | AState "GaleraState option result"
  | ATime int
  | ATick bool

definition unexpected :: go_error where
  "unexpected = ErrExt ''unexpected answer''"

fun as_unit where "as_unit (AUnit x) = x" | "as_unit _ = Inl unexpected"
fun as_pod where "as_pod (APod x) = x" | "as_pod _ = Inl unexpected"
fun as_pods where "as_pods (APods x) = x" | "as_pods _ = Inl unexpected"
fun as_sts where "as_sts (AStatefulSet x) = x" | "as_sts _ = Inl unexpected"
fun as_mariadb where "as_mariadb (AMariaDB x) = x" | "as_mariadb _ = Inl unexpected"
fun as_slices where "as_slices (AEndpointSlices x) = x" | "as_slices _ = Inl unexpected"
fun as_job where "as_job (AJob x) = x" | "as_job _ = Inl unexpected"
fun as_names where "as_names (ANames x) = x" | "as_names _ = Inl unexpected"
fun as_text where "as_text (AText x) = x" | "as_text _ = Inl unexpected"
fun as_int where "as_int (AInt x) = x" | "as_int _ = Inl unexpected"
fun as_bool where "as_bool (ABool x) = x" | "as_bool _ = Inl unexpected"
fun as_state where "as_state (AState x) = x" | "as_state _ = Inl unexpected"
fun as_time where "as_time (ATime x) = x" | "as_time _ = 0"
fun ctx_is_done where "ctx_is_done (ATick b) = b" | "ctx_is_done _ = True"

type_synonym ('g, 'u, 'a) op = "(call, answer, 'g, 'u, 'a) prog"

definition ask :: "(answer \<Rightarrow> 'a) \<Rightarrow> call \<Rightarrow> ('g, 'u, 'a) op" where
  "ask sel c = Call c (\<lambda>r. Ret (sel r))"

lemma exec_ask [simp]: "exec grp (ask sel c) t x \<longleftrightarrow> (\<exists>r. t = [(c, r)] \<and> sel r = x)"
  by (auto simp: ask_def exec_Call)

lemma exec_ask_bind:
  "exec grp (bindP (ask sel c) f) t x \<longleftrightarrow> (\<exists>r t'. t = (c, r) # t' \<and> exec grp (f (sel r)) t' x)"
  by (auto simp: ask_def exec_Call)

lemma all_calls_ask [simp]: "all_calls G P (ask sel c) \<longleftrightarrow> P c"
  by (simp add: ask_def)

lemma run_ask [simp]: "run rg env h (ask sel c) = Some ([(c, env h c)], sel (env h c))"
  by (simp add: ask_def)

subsection \<open>sql.Client\<close>

definition execSql :: "int \<Rightarrow> sql_stmt \<Rightarrow> ('g, 'u, unit result) op" where
  "execSql i s = ask as_unit (Sql i s)"

text \<open>\<^verbatim>\<open>SystemVariable\<close> returns the empty string and no error when the row cannot be read.\<close>

definition systemVariable :: "int \<Rightarrow> string \<Rightarrow> ('g, 'u, string result) op" where
  "systemVariable i variable =
     bindP (ask as_text (Sql i (SystemVariable variable))) (\<lambda>x. Ret (case x of Inl e \<Rightarrow> Inr '''' | Inr val \<Rightarrow> Inr val))"

definition isSystemVariableEnabled :: "int \<Rightarrow> string \<Rightarrow> ('g, 'u, bool result) op" where
  "isSystemVariableEnabled i variable =
     tryP (systemVariable i variable) (\<lambda>val. Ret (Inr (val = ''1'' \<or> val = ''ON'')))"

text \<open>A Go map is iterated in an unspecified order; the list is one of them.\<close>

definition setSystemVariables :: "int \<Rightarrow> (string \<times> string) list \<Rightarrow> ('g, 'u, unit result) op" where
  "setSystemVariables i keyVal = forP keyVal (\<lambda>(k, v). execSql i (SetSystemVariable k v))"

definition ErrWaitReplicaTimeout :: go_error where
  "ErrWaitReplicaTimeout = ErrNew ''timeout waiting for replica to be synced''"

definition waitForReplicaGtid :: "int \<Rightarrow> string \<Rightarrow> int \<Rightarrow> ('g, 'u, unit result) op" where
  "waitForReplicaGtid i gtid timeout =
     tryP (ctxP ''error scanning result'' (ask as_int (Sql i (MasterGtidWait gtid (timeout div second)))))
       (\<lambda>res. Ret (if res = 0 then Inr () else if res = - 1 then Inl ErrWaitReplicaTimeout
                 else Inl (ErrNew ''unexpected result'')))"

definition userExists :: "int \<Rightarrow> string \<Rightarrow> string \<Rightarrow> ('g, 'u, bool result) op" where
  "userExists i username host =
     tryP (ask as_int (Sql i (UserExists username host))) (\<lambda>count. Ret (Inr (count > 0)))"

definition changeMasterSql :: "int \<Rightarrow> ChangeMasterOpt list \<Rightarrow> ('g, 'u, unit result) op" where
  "changeMasterSql i opts =
     (case buildChangeMasterQuery opts of
        Inl e \<Rightarrow> Ret (Inl (ErrCtx ''error building CHANGE MASTER query'' e))
      | Inr query \<Rightarrow> execSql i (ChangeMasterTo query))"

lemma exec_execSql [simp]:
  "exec grp (execSql i s) t x \<longleftrightarrow> (\<exists>r. t = [(Sql i s, r)] \<and> as_unit r = x)"
  by (simp add: execSql_def)

lemma exec_systemVariable:
  "exec grp (systemVariable i v) t x \<longleftrightarrow>
     (\<exists>r. t = [(Sql i (SystemVariable v), r)] \<and>
          x = (case as_text r of Inl e \<Rightarrow> Inr '''' | Inr val \<Rightarrow> Inr val))"
  by (auto simp: systemVariable_def exec_bind)

lemma exec_waitForReplicaGtid_ok:
  "exec grp (waitForReplicaGtid i gtid timeout) t (Inr ()) \<Longrightarrow>
     (\<exists>r. t = [(Sql i (MasterGtidWait gtid (timeout div second)), r)] \<and> as_int r = Inr 0)"
  by (auto simp: waitForReplicaGtid_def exec_tryP_Inr split: if_splits)

text \<open>The bounds check of the client sets, and the connection they make. A client set keeps its
  connections, so a later request for the same index is answered without connecting again; the
  request is made either way.\<close>

definition validateIndex :: "MariaDB \<Rightarrow> int \<Rightarrow> unit result" where
  "validateIndex m index =
     (if index \<ge> 0 \<and> index < m_Replicas m then Inr () else Inl (ErrNew ''index out of MariaDB replicas bounds''))"

definition ClientForIndex :: "MariaDB \<Rightarrow> int \<Rightarrow> ('g, 'u, int result) op" where
  "ClientForIndex m index =
     (case validateIndex m index of
        Inl e \<Rightarrow> Ret (Inl (ErrCtx ''invalid index'' e))
      | Inr _ \<Rightarrow> tryP (ctxP ''error creating replica client'' (ask as_unit (SqlConnect index))) (\<lambda>_. Ret (Inr index)))"

lemma exec_ClientForIndex_ok:
  "exec grp (ClientForIndex m i) t (Inr j) \<Longrightarrow>
     j = i \<and> 0 \<le> i \<and> i < m_Replicas m \<and> (\<exists>r. t = [(SqlConnect i, r)] \<and> as_unit r = Inr ())"
  by (auto simp: ClientForIndex_def validateIndex_def exec_tryP_Inr split: if_splits)

subsection \<open>Galera over SQL\<close>

definition IsPodHealthy :: "int \<Rightarrow> ('g, 'u, bool result) op" where
  "IsPodHealthy i =
     tryP (ctxP ''error getting cluster status'' (ask as_text (SqlStatus i ''wsrep_cluster_status'')))
       (\<lambda>status. Ret (Inr (status = ''Primary'')))"

definition IsPodSynced :: "int \<Rightarrow> ('g, 'u, bool result) op" where
  "IsPodSynced i =
     tryP (ctxP ''error checking Pod health'' (IsPodHealthy i)) (\<lambda>healthy.
       if \<not> healthy then Ret (Inr False)
       else tryP (ctxP ''error getting local state'' (ask as_text (SqlStatus i ''wsrep_local_state_comment'')))
         (\<lambda>state. Ret (Inr (state = ''Synced''))))"

subsection \<open>pkg/wait\<close>

definition keyOf :: "MariaDB \<Rightarrow> NamespacedName" where
  "keyOf m = \<lparr>nn_Name = m_Name m, nn_Namespace = m_Namespace m\<rparr>"

definition shouldPoll :: "NamespacedName \<Rightarrow> ('g, 'u, bool) op" where
  "shouldPoll mariadbKey =
     bindP (ask as_mariadb (GetMariaDB mariadbKey))
       (\<lambda>x. Ret (case x of Inl e \<Rightarrow> \<not> IsNotFound e | Inr _ \<Rightarrow> True))"

text \<open>What is polled may produce a value; \<open>gone\<close> is the one when the MariaDB object is gone.\<close>

definition PollValue :: "int \<Rightarrow> NamespacedName \<Rightarrow> 'a \<Rightarrow> ('g, 'u, 'a result) op \<Rightarrow> ('g, 'u, 'a result) op" where
  "PollValue timeout mariadbKey gone fn =
     pollP Tick ctx_is_done (poll_fuel timeout)
       (bindP (shouldPoll mariadbKey) (\<lambda>b. if b then fn else Ret (Inr gone)))"

definition PollWithMariaDB :: "int \<Rightarrow> NamespacedName \<Rightarrow> ('g, 'u, unit result) op \<Rightarrow> ('g, 'u, unit result) op" where
  "PollWithMariaDB timeout mariadbKey fn = PollValue timeout mariadbKey () fn"

text \<open>A poll that succeeds ends with a success of what is polled, or finds the MariaDB object gone.\<close>

definition mariadb_gone :: "NamespacedName \<Rightarrow> (call, answer) trace \<Rightarrow> bool" where
  "mariadb_gone key t \<longleftrightarrow> (\<exists>r e. (GetMariaDB key, r) \<in> set t \<and> as_mariadb r = Inl e \<and> IsNotFound e)"

lemma exec_PollWithMariaDB_ok:
  assumes "exec grp (PollWithMariaDB timeout key fn) t (Inr ())"
  shows "mariadb_gone key t \<or> (\<exists>t1 t2. t = t1 @ t2 \<and> exec grp fn t2 (Inr ()))"
proof -
  from exec_pollP_Inr [OF assms [unfolded PollWithMariaDB_def PollValue_def]] obtain t1 t2
    where t: "t = t1 @ t2" and e: "exec grp (bindP (shouldPoll key) (\<lambda>b. if b then fn else Ret (Inr ()))) t2 (Inr ())"
    by blast
  from e obtain r t3 where t2: "t2 = (GetMariaDB key, r) # t3"
    and x: "exec grp (if (case as_mariadb r of Inl e \<Rightarrow> \<not> IsNotFound e | Inr _ \<Rightarrow> True) then fn else Ret (Inr ())) t3 (Inr ())"
    by (auto simp: shouldPoll_def exec_bind)
  have "(\<exists>e. as_mariadb r = Inl e \<and> IsNotFound e) \<or> exec grp fn t3 (Inr ())"
    using x by (auto split: if_splits sum.splits)
  moreover have "t = (t1 @ [(GetMariaDB key, r)]) @ t3" using t t2 by simp
  ultimately show ?thesis unfolding mariadb_gone_def using t t2 by (metis in_set_conv_decomp append.assoc append_Cons)
qed

lemma exec_PollValue_event:
  assumes "exec grp (PollValue timeout key gone fn) t x" "e \<in> set t"
  shows "fst e \<in> {Tick, GetMariaDB key} \<or> (\<exists>t' y. exec grp fn t' y \<and> e \<in> set t')"
proof -
  from exec_pollP_event [OF assms(1) [unfolded PollValue_def] assms(2)] show ?thesis
  proof (elim disjE exE conjE)
    fix t' y assume "exec grp (bindP (shouldPoll key) (\<lambda>b. if b then fn else Ret (Inr gone))) t' y" "e \<in> set t'"
    then obtain r t'' b where t': "t' = (GetMariaDB key, r) # t''" and "exec grp (if b then fn else Ret (Inr gone)) t'' y"
      unfolding shouldPoll_def bindP_assoc exec_ask_bind by auto
    with \<open>e \<in> set t'\<close> show ?thesis by (cases b) auto
  qed simp
qed

lemma all_calls_PollValue:
  "P Tick \<Longrightarrow> P (GetMariaDB key) \<Longrightarrow> all_calls G P fn \<Longrightarrow> all_calls G P (PollValue timeout key gone fn)"
  unfolding PollValue_def shouldPoll_def
  by (intro all_calls_pollP all_calls_bindP) auto

lemma all_calls_PollWithMariaDB:
  "P Tick \<Longrightarrow> P (GetMariaDB key) \<Longrightarrow> all_calls G P fn \<Longrightarrow> all_calls G P (PollWithMariaDB timeout key fn)"
  unfolding PollWithMariaDB_def by (rule all_calls_PollValue)

text \<open>The first attempt of a poll.\<close>

lemma PollValue_unfold:
  "PollValue timeout key gone fn =
     bindP (bindP (shouldPoll key) (\<lambda>b. if b then fn else Ret (Inr gone))) (\<lambda>x. case x of
         Inr a \<Rightarrow> Ret (Inr a)
       | Inl _ \<Rightarrow> Call Tick (\<lambda>r. if ctx_is_done r then Ret (Inl ctx_done) else
           pollP Tick ctx_is_done (nat (timeout div 1000000000)) (bindP (shouldPoll key) (\<lambda>b. if b then fn else Ret (Inr gone)))))"
  unfolding PollValue_def poll_fuel_def Suc_eq_plus1 [symmetric] by simp

text \<open>A poll whose first attempt succeeds is that attempt.\<close>

lemma ends_PollValue:
  assumes "\<And>h. \<exists>m. env h (GetMariaDB key) = AMariaDB (Inr m)" "ends_ok rg env fn Q"
  shows "ends_ok rg env (PollValue timeout key gone fn) Q"
proof -
  have "ends rg env (shouldPoll key) (\<lambda>b. b)"
    unfolding shouldPoll_def
  proof (rule ends_bindP)
    show "ends rg env (ask as_mariadb (GetMariaDB key)) (\<lambda>x. \<exists>m. x = Inr m)"
      unfolding ends_def using assms(1) by (metis as_mariadb.simps(1) run_ask)
  qed auto
  then have "ends rg env (bindP (shouldPoll key) (\<lambda>b. if b then fn else Ret (Inr gone))) (\<lambda>x. case x of Inl _ \<Rightarrow> False | Inr a \<Rightarrow> Q a)"
    by (rule ends_bindP) (use assms(2) in \<open>simp add: ends_ok_def\<close>)
  then show ?thesis
    unfolding PollValue_def poll_fuel_def ends_ok_def Suc_eq_plus1 [symmetric] pollP.simps
    by (rule ends_bindP) (auto split: sum.splits)
qed

lemmas ends_PollWithMariaDB = ends_PollValue [where gone = "()", folded PollWithMariaDB_def]

subsection \<open>Results of a reconciliation\<close>

record CtrlResult =
  cr_Requeue :: bool
  cr_RequeueAfter :: int

definition zeroResult :: CtrlResult where
  "zeroResult = \<lparr>cr_Requeue = False, cr_RequeueAfter = 0\<rparr>"

abbreviation requeueAfter :: "int \<Rightarrow> CtrlResult" where
  "requeueAfter d \<equiv> zeroResult\<lparr>cr_RequeueAfter := d\<rparr>"

abbreviation requeue :: CtrlResult where
  "requeue \<equiv> zeroResult\<lparr>cr_Requeue := True\<rparr>"

text \<open>\<^verbatim>\<open>if result, err := p; !result.IsZero() || err != nil { return result, err }\<close>\<close>

definition stepP :: "('c, 'r, 'g, 'u, CtrlResult result) prog \<Rightarrow> ('c, 'r, 'g, 'u, CtrlResult result) prog \<Rightarrow>
    ('c, 'r, 'g, 'u, CtrlResult result) prog" where
  "stepP p q = tryP p (\<lambda>res. if res \<noteq> zeroResult then Ret (Inr res) else q)"

text \<open>\<^verbatim>\<open>multierror.Append\<close> of the errors of several steps, with a context when there is one.\<close>

definition bundleErrors :: "string \<Rightarrow> unit result list \<Rightarrow> unit result" where
  "bundleErrors msg xs = (case [e. Inl e \<leftarrow> xs] of [] \<Rightarrow> Inr () | es \<Rightarrow> Inl (ErrCtx msg (ErrMulti es)))"

text \<open>Dereferencing a nil pointer ends the goroutine with a panic, which the controller runtime recovers
  and reports as an error.\<close>

definition nil_dereference :: go_error where
  "nil_dereference = ErrExt ''nil pointer dereference''"

subsection \<open>pkg/refresolver\<close>

definition MariadbAnnotation :: string where
  "MariadbAnnotation = ''k8s.mariadb.com/mariadb''"

definition ErrMariaDBAnnotationNotFound :: go_error where
  "ErrMariaDBAnnotationNotFound = ErrNew ''MariaDB annotation not found''"

definition MariaDBFromAnnotation :: "string \<Rightarrow> (string \<times> string) list \<Rightarrow> ('g, 'u, MariaDB result) op" where
  "MariaDBFromAnnotation namespace annotations =
     (case map_of annotations MariadbAnnotation of
        None \<Rightarrow> Ret (Inl ErrMariaDBAnnotationNotFound)
      | Some n \<Rightarrow> bindP (ask as_mariadb (GetMariaDB \<lparr>nn_Name = n, nn_Namespace = namespace\<rparr>)) (\<lambda>x. Ret (case x of
            Inl e \<Rightarrow> Inl (if IsNotFound e then e else ErrCtx ''error getting MariaDB from annotation'' e)
          | Inr m \<Rightarrow> Inr m)))"

lemma exec_MariaDBFromAnnotation_bind:
  "exec grp (bindP (MariaDBFromAnnotation ns anns) f) t x \<longleftrightarrow>
     (map_of anns MariadbAnnotation = None \<and> exec grp (f (Inl ErrMariaDBAnnotationNotFound)) t x) \<or>
     (\<exists>n r t'. map_of anns MariadbAnnotation = Some n \<and> t = (GetMariaDB \<lparr>nn_Name = n, nn_Namespace = ns\<rparr>, r) # t' \<and>
       exec grp (f (case as_mariadb r of
            Inl e \<Rightarrow> Inl (if IsNotFound e then e else ErrCtx ''error getting MariaDB from annotation'' e)
          | Inr m \<Rightarrow> Inr m)) t' x)"
  by (auto simp: MariaDBFromAnnotation_def bindP_assoc exec_ask_bind split: option.splits)

lemma all_calls_MariaDBFromAnnotation:
  "(\<And>k. P (GetMariaDB k)) \<Longrightarrow> all_calls G P (MariaDBFromAnnotation ns anns)"
  by (auto simp: MariaDBFromAnnotation_def intro!: all_calls_bindP split: option.split)

end
