(* ===== verification/Replication_Config.thy ===== *)
theory Replication_Config
  imports Operator_Calls
begin

text \<open>
  \<^verbatim>\<open>pkg/controller/replication/config.go\<close>: turning a database into the primary or into a replica. The
  client of a Pod is its index. The cluster domain read from the environment is the argument
  \<open>domain\<close>; whether the image's version is at least 10.6 (\<^verbatim>\<open>pkg/version\<close>, a semantic-version
  library) is the argument \<open>v106\<close>.
\<close>

definition newReplPasswordRef :: "MariaDB \<Rightarrow> GeneratedSecretKeyRef" where
  "newReplPasswordRef mariadb =
     (case rr_ReplPasswordSecretKeyRef (replicaOf mariadb) of
        Some ref \<Rightarrow>
          if rp_Enabled (MariaDB_Replication mariadb) then ref
          else \<lparr>sk_Name = ''repl-password-'' @ m_Name mariadb, sk_Key = ''password'', sk_Generate = True\<rparr>
      | None \<Rightarrow> \<lparr>sk_Name = ''repl-password-'' @ m_Name mariadb, sk_Key = ''password'', sk_Generate = True\<rparr>)"

definition serverId :: "int \<Rightarrow> string" where
  "serverId index = Itoa (10 + index)"

definition formatAccountName :: "string \<Rightarrow> string \<Rightarrow> string" where
  "formatAccountName username host = quoted username @ ''@'' @ quoted host"

record userSqlOpts =
  uo_username :: string
  uo_host :: string
  uo_privileges :: "string list"

definition reconcileUserSql :: "MariaDB \<Rightarrow> int \<Rightarrow> userSqlOpts \<Rightarrow> ('g, 'u, unit result) op" where
  "reconcileUserSql mariadb client opts =
     (let ref = newReplPasswordRef mariadb in
      tryP (ctxP ''error reconciling replication password''
          (ask as_text (ReconcilePassword \<lparr>nn_Name = sk_Name ref, nn_Namespace = m_Namespace mariadb\<rparr>
             (sk_Key ref) (sk_Generate ref)))) (\<lambda>replPassword.
      let accountName = formatAccountName (uo_username opts) (uo_host opts) in
      tryP (ctxP ''error checking if replication user exists''
          (userExists client (uo_username opts) (uo_host opts))) (\<lambda>exists.
      seqP
        [if exists
         then ctxP ''error altering replication user''
                (execSql client (AlterUser accountName (WithIdentifiedBy replPassword noCreateUserOpts)))
         else ctxP ''error creating replication user''
                (execSql client (CreateUser accountName (WithIdentifiedBy replPassword noCreateUserOpts))),
         ctxP ''error creating grant''
           (execSql client (Grant (uo_privileges opts) ''*'' ''*'' accountName False))])))"

definition reconcilePrimarySql :: "MariaDB \<Rightarrow> int \<Rightarrow> ('g, 'u, unit result) op" where
  "reconcilePrimarySql mariadb client =
     ctxP ''error reconciling repl SQL user''
       (reconcileUserSql mariadb client
         \<lparr>uo_username = ''repl'', uo_host = ''%'', uo_privileges = [''REPLICATION REPLICA'']\<rparr>)"

definition primaryVars :: "MariaDB \<Rightarrow> int \<Rightarrow> (string \<times> string) list" where
  "primaryVars mariadb primaryIndex =
     [(''sync_binlog'', Itoa (Deref (rp_SyncBinlog (MariaDB_Replication mariadb)) 1)),
      (''rpl_semi_sync_master_enabled'', ''ON''),
      (''rpl_semi_sync_master_timeout'', Itoa (the (rr_ConnectionTimeout (replicaOf mariadb)) div 1000000)),
      (''rpl_semi_sync_slave_enabled'', ''OFF''),
      (''server_id'', serverId primaryIndex)]"

definition configurePrimaryVars :: "MariaDB \<Rightarrow> int \<Rightarrow> int \<Rightarrow> ('g, 'u, unit result) op" where
  "configurePrimaryVars mariadb client primaryIndex =
     (case rr_WaitPoint (replicaOf mariadb) of
        None \<Rightarrow> ctxP ''error setting replication vars'' (setSystemVariables client (primaryVars mariadb primaryIndex))
      | Some w \<Rightarrow>
          (case WaitPoint_MariaDBFormat w of
             Inl e \<Rightarrow> Ret (Inl (ErrCtx ''error getting wait point'' e))
           | Inr waitPoint \<Rightarrow> ctxP ''error setting replication vars''
               (setSystemVariables client
                 (primaryVars mariadb primaryIndex @ [(''rpl_semi_sync_master_wait_point'', waitPoint)]))))"

definition configureReplicaVars :: "MariaDB \<Rightarrow> int \<Rightarrow> int \<Rightarrow> ('g, 'u, unit result) op" where
  "configureReplicaVars mariadb client ordinal =
     ctxP ''error setting replication vars''
       (setSystemVariables client
         [(''sync_binlog'', Itoa (Deref (rp_SyncBinlog (MariaDB_Replication mariadb)) 1)),
          (''rpl_semi_sync_master_enabled'', ''OFF''),
          (''rpl_semi_sync_slave_enabled'', ''ON''),
          (''server_id'', serverId ordinal)])"

definition getChangeMasterHost :: "string \<Rightarrow> (string \<Rightarrow> bool result) \<Rightarrow> MariaDB \<Rightarrow> int \<Rightarrow> ChangeMasterOpt result" where
  "getChangeMasterHost domain v106 mariadb primaryIndex =
     and_then (with_ctx ''error comparing version'' (v106 (sp_Image (m_Spec mariadb)))) (\<lambda>isCompatibleVersion.
       if isCompatibleVersion
       then Inr (WithChangeMasterHost
              (PodFQDNWithService domain (m_ObjectMeta mariadb) primaryIndex (nn_Name (InternalServiceKey mariadb))))
       else Inr (WithChangeMasterHost
              (PodShortFQDNWithService (m_ObjectMeta mariadb) primaryIndex (nn_Name (InternalServiceKey mariadb)))))"

definition changeMaster :: "string \<Rightarrow> (string \<Rightarrow> bool result) \<Rightarrow> MariaDB \<Rightarrow> int \<Rightarrow> int \<Rightarrow> ('g, 'u, unit result) op" where
  "changeMaster domain v106 mariadb client primaryIndex =
     (let ref = newReplPasswordRef mariadb in
      tryP (ctxP ''error getting replication password''
          (ask as_text (SecretKeyRef \<lparr>ss_Name = sk_Name ref, ss_Key = sk_Key ref\<rparr> (m_Namespace mariadb)))) (\<lambda>password.
      let gtid = Deref (rr_Gtid (replicaOf mariadb)) GtidCurrentPos in
      case Gtid_MariaDBFormat gtid of
        Inl e \<Rightarrow> Ret (Inl (ErrCtx ''error getting GTID'' e))
      | Inr gtidString \<Rightarrow>
          (case getChangeMasterHost domain v106 mariadb primaryIndex of
             Inl e \<Rightarrow> Ret (Inl (ErrCtx ''error getting host option'' e))
           | Inr changeMasterHostOpt \<Rightarrow>
               ctxP ''error changing master'' (changeMasterSql client
                 ([changeMasterHostOpt, WithChangeMasterPort (sp_Port (m_Spec mariadb)),
                   WithChangeMasterCredentials ''repl'' password, WithChangeMasterGtid gtidString,
                   WithChangeMasterRetries (the (rr_ConnectionRetries (replicaOf mariadb)))] @
                  (if IsTLSEnabled mariadb
                   then [WithChangeMasterSSL ''/etc/pki/client.crt'' ''/etc/pki/client.key'' ''/etc/pki/ca.crt'']
                   else []))))))"

definition ConfigurePrimary :: "MariaDB \<Rightarrow> int \<Rightarrow> int \<Rightarrow> ('g, 'u, unit result) op" where
  "ConfigurePrimary mariadb client podIndex =
     seqP
       [ctxP ''error stopping slaves'' (execSql client StopAllSlaves),
        ctxP ''error resetting slave'' (execSql client ResetAllSlaves),
        ctxP ''error resetting slave position'' (execSql client ResetSlavePos),
        ctxP ''error disabling read_only'' (execSql client DisableReadOnly),
        ctxP ''error reconciling primary SQL'' (reconcilePrimarySql mariadb client),
        ctxP ''error configuring replication variables'' (configurePrimaryVars mariadb client podIndex)]"

definition ConfigureReplica ::
    "string \<Rightarrow> (string \<Rightarrow> bool result) \<Rightarrow> MariaDB \<Rightarrow> int \<Rightarrow> int \<Rightarrow> int \<Rightarrow> bool \<Rightarrow> ('g, 'u, unit result) op" where
  "ConfigureReplica domain v106 mariadb client replicaIndex primaryIndex resetSlavePos =
     seqP
       ([ctxP ''error resetting master'' (execSql client ResetMaster),
         ctxP ''error stopping slaves'' (execSql client StopAllSlaves)] @
        (if resetSlavePos then [ctxP ''error resetting slave position'' (execSql client ResetSlavePos)] else []) @
        [ctxP ''error enabling read_only'' (execSql client EnableReadOnly),
         ctxP ''error configuring replication variables'' (configureReplicaVars mariadb client replicaIndex),
         ctxP ''error changing master'' (changeMaster domain v106 mariadb client primaryIndex),
         ctxP ''error starting slave'' (execSql client StartSlave)])"

subsection \<open>Which databases they touch\<close>

text \<open>\<open>on_pod i c\<close>: the call is for the database of Pod \<open>i\<close> or for none.\<close>

fun on_pod :: "int \<Rightarrow> call \<Rightarrow> bool" where
  "on_pod i (Sql j s) = (j = i)"
| "on_pod i (SqlConnect j) = (j = i)"
| "on_pod i _ = True"

fun writable :: "call \<Rightarrow> bool" where
  "writable (Sql j (SetSystemVariable k v)) = (k = ''read_only'' \<and> v = ''0'')"
| "writable _ = False"

lemmas config_calls = all_calls_tryP all_calls_seqP all_calls_forP all_calls_bindP all_calls_ctxP

lemma setSystemVariables_calls:
  "(\<And>k v. (k, v) \<in> set kvs \<Longrightarrow> P (Sql i (SetSystemVariable k v))) \<Longrightarrow> all_calls G P (setSystemVariables i kvs)"
  unfolding setSystemVariables_def by (rule all_calls_forP) (auto simp: execSql_def)

lemma changeMasterSql_calls: "(\<And>q. P (Sql i (ChangeMasterTo q))) \<Longrightarrow> all_calls G P (changeMasterSql i opts)"
  by (simp add: changeMasterSql_def execSql_def split: sum.split)

lemma changeMaster_calls:
  assumes "\<And>q. P (Sql i (ChangeMasterTo q))" "\<And>s ns. P (SecretKeyRef s ns)"
  shows "all_calls G P (changeMaster domain v106 m i pi)"
  unfolding changeMaster_def Let_def
  by (rule all_calls_tryP)
    (use assms in \<open>auto split: sum.split intro!: all_calls_ctxP changeMasterSql_calls\<close>)

lemma reconcileUserSql_calls:
  assumes "\<And>k s b. P (ReconcilePassword k s b)" "\<And>u h. P (Sql i (UserExists u h))"
    "\<And>a o'. P (Sql i (AlterUser a o'))" "\<And>a o'. P (Sql i (CreateUser a o'))" "\<And>ps d tb a b. P (Sql i (Grant ps d tb a b))"
  shows "all_calls G P (reconcileUserSql m i opts)"
  unfolding reconcileUserSql_def Let_def userExists_def
  by (intro config_calls) (use assms in \<open>auto simp: execSql_def\<close>)

lemma primaryVars_not_read_only:
  "(k, v) \<in> set (primaryVars m i) \<Longrightarrow> k \<noteq> ''read_only''"
  by (auto simp: primaryVars_def)

lemma configurePrimaryVars_calls:
  assumes "\<And>k v. k \<noteq> ''read_only'' \<Longrightarrow> P (Sql i (SetSystemVariable k v))"
  shows "all_calls G P (configurePrimaryVars m i pi)"
  using assms primaryVars_not_read_only
  by (auto simp: configurePrimaryVars_def split: option.split sum.split
      intro!: all_calls_ctxP setSystemVariables_calls)

lemma configureReplicaVars_calls:
  assumes "\<And>k v. k \<noteq> ''read_only'' \<Longrightarrow> P (Sql i (SetSystemVariable k v))"
  shows "all_calls G P (configureReplicaVars m i ri)"
  unfolding configureReplicaVars_def by (intro all_calls_ctxP setSystemVariables_calls) (auto simp: assms)

lemma ConfigureReplica_calls:
  assumes "\<And>s. (\<forall>v. s = SetSystemVariable ''read_only'' v \<longrightarrow> v = ''1'') \<Longrightarrow> P (Sql i s)" "\<And>s ns. P (SecretKeyRef s ns)"
  shows "all_calls G P (ConfigureReplica domain v106 m i ri pi rst)"
  unfolding ConfigureReplica_def
  by (intro all_calls_seqP)
    (auto simp: execSql_def assms split: if_splits intro!: all_calls_ctxP changeMaster_calls configureReplicaVars_calls)

lemma reconcilePrimarySql_calls:
  assumes "\<And>k s b. P (ReconcilePassword k s b)" "\<And>s. (\<forall>k v. s \<noteq> SetSystemVariable k v) \<Longrightarrow> P (Sql i s)"
  shows "all_calls G P (reconcilePrimarySql m i)"
  unfolding reconcilePrimarySql_def by (intro all_calls_ctxP reconcileUserSql_calls) (simp_all add: assms)

lemma ConfigurePrimary_calls:
  assumes "\<And>s. (\<forall>v. s = SetSystemVariable ''read_only'' v \<longrightarrow> v = ''0'') \<Longrightarrow> P (Sql i s)"
    "\<And>k s b. P (ReconcilePassword k s b)"
  shows "all_calls G P (ConfigurePrimary m i pi)"
  unfolding ConfigurePrimary_def
  by (intro all_calls_seqP)
    (auto simp: execSql_def assms intro!: all_calls_ctxP reconcilePrimarySql_calls configurePrimaryVars_calls)

subsection \<open>A replica is read-only before it starts\<close>

definition replicaFront ::
    "string \<Rightarrow> (string \<Rightarrow> bool result) \<Rightarrow> MariaDB \<Rightarrow> int \<Rightarrow> int \<Rightarrow> int \<Rightarrow> bool \<Rightarrow> ('g, 'u, unit result) op list" where
  "replicaFront domain v106 m i ri pi rst =
     [ctxP ''error resetting master'' (execSql i ResetMaster), ctxP ''error stopping slaves'' (execSql i StopAllSlaves)] @
     (if rst then [ctxP ''error resetting slave position'' (execSql i ResetSlavePos)] else []) @
     [ctxP ''error enabling read_only'' (execSql i EnableReadOnly),
      ctxP ''error configuring replication variables'' (configureReplicaVars m i ri),
      ctxP ''error changing master'' (changeMaster domain v106 m i pi)]"

lemma ConfigureReplica_split:
  "ConfigureReplica domain v106 m i ri pi rst =
     seqP (replicaFront domain v106 m i ri pi rst @ [ctxP ''error starting slave'' (execSql i StartSlave)])"
  by (simp add: ConfigureReplica_def replicaFront_def)

lemma replicaFront_calls:
  "p \<in> set (replicaFront domain v106 m i ri pi rst) \<Longrightarrow> all_calls G (\<lambda>c. c \<noteq> Sql i StartSlave) p"
  by (auto simp: replicaFront_def execSql_def split: if_splits
      intro!: all_calls_ctxP configureReplicaVars_calls changeMaster_calls)

lemma changeMaster_ok:
  assumes "exec grp (changeMaster domain v106 m i pi) t (Inr ())"
  shows "\<exists>q r. (Sql i (ChangeMasterTo q), r) \<in> set t \<and> as_unit r = Inr ()"
proof -
  from assms obtain t2 opts where "set t2 \<subseteq> set t" and "exec grp (changeMasterSql i opts) t2 (Inr ())"
    unfolding changeMaster_def Let_def exec_tryP_Inr by (force split: sum.splits)
  then show ?thesis
    by (auto simp: changeMasterSql_def split: sum.splits) blast
qed

lemma replicaFront_ok:
  assumes "exec grp (seqP (replicaFront domain v106 m i ri pi rst)) t (Inr ())"
  shows "(\<exists>r. (Sql i EnableReadOnly, r) \<in> set t \<and> as_unit r = Inr ()) \<and>
    (\<exists>q r. (Sql i (ChangeMasterTo q), r) \<in> set t \<and> as_unit r = Inr ())"
proof
  have "ctxP ''error enabling read_only'' (execSql i EnableReadOnly) \<in> set (replicaFront domain v106 m i ri pi rst)"
    by (simp add: replicaFront_def)
  from exec_seqP_member [OF assms this] show "\<exists>r. (Sql i EnableReadOnly, r) \<in> set t \<and> as_unit r = Inr ()"
    by auto
  have "ctxP ''error changing master'' (changeMaster domain v106 m i pi) \<in> set (replicaFront domain v106 m i ri pi rst)"
    by (simp add: replicaFront_def)
  from exec_seqP_member [OF assms this] show "\<exists>q r. (Sql i (ChangeMasterTo q), r) \<in> set t \<and> as_unit r = Inr ()"
    by (fastforce dest!: changeMaster_ok)
qed

text \<open>
  Configuring a replica, in any run and whether it succeeds or fails, never makes the database
  writable and touches no other Pod's database, and replication is started at most once, as the last
  statement and only after the database was put into read-only mode and pointed at its primary, both
  with success.
\<close>

theorem ConfigureReplica_safe:
  assumes "go_exec (ConfigureReplica domain v106 m i ri pi rst :: ((call, answer, 'u) task, 'u, unit result) op) t x"
  shows "(\<forall>e \<in> set t. \<not> writable (fst e) \<and> on_pod i (fst e)) \<and>
    (\<forall>pre r post. t = pre @ (Sql i StartSlave, r) # post \<longrightarrow> post = [] \<and>
       (\<exists>r1. (Sql i EnableReadOnly, r1) \<in> set pre \<and> as_unit r1 = Inr ()) \<and>
       (\<exists>q r2. (Sql i (ChangeMasterTo q), r2) \<in> set pre \<and> as_unit r2 = Inr ()))"
proof
  have safe: "go_calls (\<lambda>c. \<not> writable c \<and> on_pod i c) (ConfigureReplica domain v106 m i ri pi rst)"
  proof (rule ConfigureReplica_calls)
    fix s assume "\<forall>v. s = SetSystemVariable ''read_only'' v \<longrightarrow> v = ''1''"
    then show "\<not> writable (Sql i s) \<and> on_pod i (Sql i s)" by (cases s) auto
  qed simp
  show "\<forall>e \<in> set t. \<not> writable (fst e) \<and> on_pod i (fst e)"
    by (rule go_exec_calls [OF assms safe])
next
  let ?F = "replicaFront domain v106 m i ri pi rst :: ((call, answer, 'u) task, 'u, unit result) op list"
  have front: "(Sql i StartSlave, r) \<notin> set t'" if "go_exec (seqP ?F) t' y" for t' y r
    using go_exec_calls [OF that, of "\<lambda>c. c \<noteq> Sql i StartSlave", OF all_calls_seqP, OF replicaFront_calls]
    by fastforce
  show "\<forall>pre r post. t = pre @ (Sql i StartSlave, r) # post \<longrightarrow> post = [] \<and>
       (\<exists>r1. (Sql i EnableReadOnly, r1) \<in> set pre \<and> as_unit r1 = Inr ()) \<and>
       (\<exists>q r2. (Sql i (ChangeMasterTo q), r2) \<in> set pre \<and> as_unit r2 = Inr ())"
  proof (intro allI impI)
    fix pre r post assume t: "t = pre @ (Sql i StartSlave, r) # post"
    note run = assms [unfolded ConfigureReplica_split t]
    have "\<exists>t1 pre2. pre = t1 @ pre2 \<and> go_exec (seqP ?F) t1 (Inr ()) \<and>
        go_exec (seqP [ctxP ''error starting slave'' (execSql i StartSlave)]
        :: ((call, answer, 'u) task, 'u, unit result) op) (pre2 @ (Sql i StartSlave, r) # post) x"
      by (rule exec_seqP_guard [OF run]) (rule front)
    then obtain t1 pre2 where pre: "pre = t1 @ pre2" and ok: "go_exec (seqP ?F) t1 (Inr ())"
      and last: "go_exec (seqP [ctxP ''error starting slave'' (execSql i StartSlave)]
        :: ((call, answer, 'u) task, 'u, unit result) op) (pre2 @ (Sql i StartSlave, r) # post) x"
      by blast
    from last have "pre2 = [] \<and> post = []"
      by (auto simp: exec_simps Cons_eq_append_conv append_eq_Cons_conv)
    with pre replicaFront_ok [OF ok] show "post = [] \<and>
       (\<exists>r1. (Sql i EnableReadOnly, r1) \<in> set pre \<and> as_unit r1 = Inr ()) \<and>
       (\<exists>q r2. (Sql i (ChangeMasterTo q), r2) \<in> set pre \<and> as_unit r2 = Inr ())" by simp
  qed
qed

end
