(* ===== verification/Switchover.thy ===== *)
theory Switchover
  imports Replication_Config
begin

text \<open>
  \<^verbatim>\<open>pkg/controller/replication/switchover.go\<close> with the status patch of \<^verbatim>\<open>controller.go\<close> and the client
  set of \<^verbatim>\<open>clientset.go\<close>: moving the primary role from one Pod to another. Goroutines are tasks of a
  \<open>Group\<close>. Events and log lines are not modelled. \<^verbatim>\<open>MariaDB.Replication\<close> fills defaults into the
  object it is called on; the filling is idempotent and concerns only the view every reader takes,
  so the object is passed on unfilled.
\<close>

type_synonym 'a repl = "(call, answer, unit, 'a) go"
type_synonym repl_task = "(call, answer, unit) task"

text \<open>\<^verbatim>\<open>patchStatus\<close>: the status is changed in memory and the change is sent; the answer of the API
  server replaces the object, an error leaves the changed object.\<close>

definition patchStatus :: "MariaDB \<Rightarrow> (MariaDBStatus \<Rightarrow> MariaDBStatus) \<Rightarrow> ('g, 'u, MariaDB \<times> unit result) op" where
  "patchStatus mariadb patcher =
     (let mariadb' = mariadb\<lparr>m_Status := patcher (m_Status mariadb)\<rparr> in
      bindP (ask as_mariadb (PatchStatus mariadb'))
        (\<lambda>x. case x of Inl e \<Rightarrow> Ret (mariadb', Inl e) | Inr server \<Rightarrow> Ret (server, Inr ())))"

definition shouldReconcileSwitchover :: "meta_api \<Rightarrow> MariaDB \<Rightarrow> bool" where
  "shouldReconcileSwitchover M mdb =
     (if IsMaxScaleEnabled mdb \<or> IsRestoringBackup M mdb \<or> IsResizingStorage M mdb then False
      else if \<not> MariaDB_HasConfiguredReplica mdb then False
      else case ms_CurrentPrimaryPodIndex (m_Status mdb) of
        None \<Rightarrow> False
      | Some currentPodIndex \<Rightarrow> currentPodIndex \<noteq> primaryPodIndex mdb)"

subsection \<open>Clients\<close>

definition no_current_primary :: go_error where
  "no_current_primary = ErrNew ''status.currentPrimaryPodIndex must be set''"

definition currentPrimaryClient :: "MariaDB \<Rightarrow> ('g, 'u, int result) op" where
  "currentPrimaryClient m =
     (case ms_CurrentPrimaryPodIndex (m_Status m) of
        None \<Rightarrow> Ret (Inl no_current_primary)
      | Some i \<Rightarrow> ctxP ''error getting current primary client'' (ClientForIndex m i))"

definition newPrimaryClient :: "MariaDB \<Rightarrow> ('g, 'u, int result) op" where
  "newPrimaryClient m = ctxP ''error getting new primary client'' (ClientForIndex m (primaryPodIndex m))"

definition podKey :: "MariaDB \<Rightarrow> int \<Rightarrow> NamespacedName" where
  "podKey m i = \<lparr>nn_Name = PodName (m_ObjectMeta m) i, nn_Namespace = m_Namespace m\<rparr>"

definition currentPrimaryReady :: "MariaDB \<Rightarrow> ('g, 'u, bool result) op" where
  "currentPrimaryReady mariadb =
     (case ms_CurrentPrimaryPodIndex (m_Status mariadb) of
        None \<Rightarrow> Ret (Inl no_current_primary)
      | Some i \<Rightarrow> tryP (ask as_pod (GetPod (podKey mariadb i))) (\<lambda>pod. Ret (Inr (PodReady pod))))"

subsection \<open>Phases\<close>

text \<open>The common shape of the phases that concern the old primary: skip when it is not ready.\<close>

definition ifPrimaryReady :: "MariaDB \<Rightarrow> (int \<Rightarrow> ('g, 'u, unit result) op) \<Rightarrow> ('g, 'u, unit result) op" where
  "ifPrimaryReady mariadb body =
     tryP (ctxP ''error getting current primary readiness'' (currentPrimaryReady mariadb)) (\<lambda>ready.
       if \<not> ready then Ret (Inr ())
       else tryP (ctxP ''error getting current primary client'' (currentPrimaryClient mariadb)) body)"

definition lockPrimaryWithReadLock :: "MariaDB \<Rightarrow> unit result repl" where
  "lockPrimaryWithReadLock mariadb = ifPrimaryReady mariadb (\<lambda>client. execSql client LockTablesWithReadLock)"

definition setPrimaryReadOnly :: "MariaDB \<Rightarrow> unit result repl" where
  "setPrimaryReadOnly mariadb = ifPrimaryReady mariadb (\<lambda>client. execSql client EnableReadOnly)"

definition resetSlave :: "int \<Rightarrow> ('g, 'u, unit result) op" where
  "resetSlave client =
     seqP [ctxP ''error stopping slaves'' (execSql client StopAllSlaves),
           ctxP ''error resetting slave position'' (execSql client ResetSlavePos),
           execSql client StartSlave]"

text \<open>A goroutine of \<^verbatim>\<open>waitForReplicaSync\<close>: after a failed wait, after a successful one, the wait, and
  the whole.\<close>

definition syncFailed :: "int \<Rightarrow> go_error \<Rightarrow> repl_task" where
  "syncFailed replClient e =
     (let err = ErrCtx ''error waiting for GTID in replica'' e in
      if e = ErrWaitReplicaTimeout
      then bindP (resetSlave replClient) (\<lambda>r. Ret (Some (ErrMulti
             (err # (case r of Inl e' \<Rightarrow> [ErrCtx ''error resetting slave position in replica'' e'] | Inr _ \<Rightarrow> []))), ()))
      else Ret (Some (ErrMulti [err]), ()))"

definition syncDone :: "int \<Rightarrow> repl_task" where
  "syncDone replClient =
     bindP (resetSlave replClient) (\<lambda>r. Ret (case r of
         Inl e \<Rightarrow> (Some (ErrCtx ''error resetting slave position in replica after being synced'' e), ())
       | Inr _ \<Rightarrow> (None, ())))"

definition awaitGtid :: "MariaDB \<Rightarrow> string \<Rightarrow> int \<Rightarrow> repl_task" where
  "awaitGtid mariadb primaryGtid replClient =
     bindP (waitForReplicaGtid replClient primaryGtid (the (rr_SyncTimeout (replicaOf mariadb))))
       (\<lambda>w. case w of Inl e \<Rightarrow> syncFailed replClient e | Inr _ \<Rightarrow> syncDone replClient)"

definition syncReplica :: "MariaDB \<Rightarrow> string \<Rightarrow> int \<Rightarrow> repl_task" where
  "syncReplica mariadb primaryGtid i =
     bindP (ClientForIndex mariadb i) (\<lambda>c. case c of
       Inl e \<Rightarrow> Ret (Some (ErrCtx ''error getting replica client'' e), ())
     | Inr replClient \<Rightarrow> awaitGtid mariadb primaryGtid replClient)"

text \<open>The \<^verbatim>\<open>select\<close> at the end of the two concurrent phases.\<close>

definition joinFirst :: "repl_task list \<Rightarrow> unit result repl" where
  "joinFirst ts = Group FirstError ts (\<lambda>(err, _). Ret (case err of None \<Rightarrow> Inr () | Some e \<Rightarrow> Inl e))"

definition replicaIndexes :: "MariaDB \<Rightarrow> int list" where
  "replicaIndexes m = [0..m_Replicas m - 1]"

definition waitForReplicaSync :: "MariaDB \<Rightarrow> unit result repl" where
  "waitForReplicaSync mariadb =
     (case ms_CurrentPrimaryPodIndex (m_Status mariadb) of
        None \<Rightarrow> Ret (Inl no_current_primary)
      | Some cur \<Rightarrow>
          ifPrimaryReady mariadb (\<lambda>client.
            tryP (ctxP ''error getting primary GTID binlog pos'' (systemVariable client ''gtid_binlog_pos''))
              (\<lambda>primaryGtid. joinFirst (map (syncReplica mariadb primaryGtid)
                 (filter (\<lambda>i. i \<noteq> cur) (replicaIndexes mariadb))))))"

definition configureNewPrimary :: "MariaDB \<Rightarrow> unit result repl" where
  "configureNewPrimary mariadb =
     tryP (ctxP ''error getting new primary client'' (newPrimaryClient mariadb)) (\<lambda>client.
       ctxP ''error confguring new primary vars'' (ConfigurePrimary mariadb client (primaryPodIndex mariadb)))"

definition connectReplica :: "string \<Rightarrow> (string \<Rightarrow> bool result) \<Rightarrow> MariaDB \<Rightarrow> int \<Rightarrow> repl_task" where
  "connectReplica domain v106 mariadb i =
     bindP (ask as_pod (GetPod (podKey mariadb i))) (\<lambda>p. case p of
       Inl e \<Rightarrow> Ret (if IsNotFound e then None else Some e, ())
     | Inr pod \<Rightarrow>
         if \<not> PodReady pod then Ret (None, ())
         else bindP (ClientForIndex mariadb i) (\<lambda>c. case c of
           Inl e \<Rightarrow> Ret (Some (ErrCtx ''error getting replica client'' e), ())
         | Inr replClient \<Rightarrow>
             bindP (ConfigureReplica domain v106 mariadb replClient i (primaryPodIndex mariadb) True) (\<lambda>r.
               Ret (case r of Inl e \<Rightarrow> (Some (ErrCtx ''error configuring replica vars in replica'' e), ())
                    | Inr _ \<Rightarrow> (None, ())))))"

definition connectReplicasToNewPrimary :: "string \<Rightarrow> (string \<Rightarrow> bool result) \<Rightarrow> MariaDB \<Rightarrow> unit result repl" where
  "connectReplicasToNewPrimary domain v106 mariadb =
     (case ms_CurrentPrimaryPodIndex (m_Status mariadb) of
        None \<Rightarrow> Ret (Inl no_current_primary)
      | Some cur \<Rightarrow> joinFirst (map (connectReplica domain v106 mariadb)
          (filter (\<lambda>i. \<not> (i = cur \<or> i = primaryPodIndex mariadb)) (replicaIndexes mariadb))))"

definition changePrimaryToReplica :: "string \<Rightarrow> (string \<Rightarrow> bool result) \<Rightarrow> MariaDB \<Rightarrow> unit result repl" where
  "changePrimaryToReplica domain v106 mariadb =
     (case ms_CurrentPrimaryPodIndex (m_Status mariadb) of
        None \<Rightarrow> Ret (Inl no_current_primary)
      | Some currentPrimary \<Rightarrow>
          ifPrimaryReady mariadb (\<lambda>client.
            tryP (ctxP ''error unlocking primary'' (execSql client UnlockTables)) (\<lambda>_.
              ConfigureReplica domain v106 mariadb client currentPrimary (primaryPodIndex mariadb) True)))"

subsection \<open>The switchover\<close>

definition phases :: "string \<Rightarrow> (string \<Rightarrow> bool result) \<Rightarrow> (string \<times> (MariaDB \<Rightarrow> unit result repl)) list" where
  "phases domain v106 =
     [(''Lock primary with read lock'', lockPrimaryWithReadLock),
      (''Set read_only in primary'', setPrimaryReadOnly),
      (''Wait for replica sync'', waitForReplicaSync),
      (''Configure new primary'', configureNewPrimary),
      (''Connect replicas to new primary'', connectReplicasToNewPrimary domain v106),
      (''Change primary to replica'', changePrimaryToReplica domain v106)]"

definition phase_error :: "string \<Rightarrow> unit result \<Rightarrow> unit result" where
  "phase_error name x = (case x of Inl e \<Rightarrow> Inl (if IsNotFound e then e else ErrCtx name e) | Inr u \<Rightarrow> Inr u)"

definition runPhase :: "MariaDB \<Rightarrow> string \<times> (MariaDB \<Rightarrow> unit result repl) \<Rightarrow> unit result repl" where
  "runPhase m p = bindP (snd p m) (\<lambda>x. Ret (phase_error (fst p) x))"

text \<open>The loop over the phases and the status patch after it, then the whole.\<close>

definition markSwitched :: "meta_api \<Rightarrow> int \<Rightarrow> MariaDB \<Rightarrow> (MariaDB \<times> unit result) repl" where
  "markSwitched M toIndex mariadb =
     bindP (patchStatus mariadb (\<lambda>status.
         SetPrimarySwitched (MariaDBStatus_SetCondition M) (UpdateCurrentPrimary mariadb toIndex status)))
       (\<lambda>(mariadb', z). Ret (mariadb', with_ctx ''error patching MariaDB status'' z))"

definition runPhases ::
    "meta_api \<Rightarrow> string \<Rightarrow> (string \<Rightarrow> bool result) \<Rightarrow> int \<Rightarrow> MariaDB \<Rightarrow> (MariaDB \<times> unit result) repl" where
  "runPhases M domain v106 toIndex mariadb =
     bindP (seqP (map (runPhase mariadb) (phases domain v106))) (\<lambda>y.
       case y of Inl e \<Rightarrow> Ret (mariadb, Inl e) | Inr _ \<Rightarrow> markSwitched M toIndex mariadb)"

definition reconcileSwitchover ::
    "meta_api \<Rightarrow> string \<Rightarrow> (string \<Rightarrow> bool result) \<Rightarrow> MariaDB \<Rightarrow> (MariaDB \<times> unit result) repl" where
  "reconcileSwitchover M domain v106 mdb =
     (if \<not> shouldReconcileSwitchover M mdb then Ret (mdb, Inr ())
      else
       let toIndex = primaryPodIndex mdb in
       bindP (patchStatus mdb (SetPrimarySwitching (MariaDBStatus_SetCondition M) mdb)) (\<lambda>(mariadb, x).
         case x of
           Inl e \<Rightarrow> Ret (mariadb, Inl (ErrCtx ''error patching MariaDB status'' e))
         | Inr _ \<Rightarrow> runPhases M domain v106 toIndex mariadb))"

subsection \<open>What the phases do\<close>

lemma exec_patchStatus:
  "exec grp (patchStatus m f) t y \<longleftrightarrow>
     (\<exists>r. t = [(PatchStatus (m\<lparr>m_Status := f (m_Status m)\<rparr>), r)] \<and>
        y = (case as_mariadb r of Inl e \<Rightarrow> (m\<lparr>m_Status := f (m_Status m)\<rparr>, Inl e) | Inr s \<Rightarrow> (s, Inr ())))"
proof -
  let ?m = "m\<lparr>m_Status := f (m_Status m)\<rparr>"
  have "exec grp (case z of Inl e \<Rightarrow> Ret (?m, Inl e) | Inr s \<Rightarrow> Ret (s, Inr ())) t' y \<longleftrightarrow>
      t' = [] \<and> y = (case z of Inl e \<Rightarrow> (?m, Inl e) | Inr s \<Rightarrow> (s, Inr ()))" for z t'
    by (cases z) auto
  then show ?thesis by (auto simp: patchStatus_def Let_def exec_ask_bind)
qed

lemma currentPrimaryReady_ok:
  assumes "exec grp (currentPrimaryReady m) t (Inr b)"
  shows "\<exists>cur r pod. ms_CurrentPrimaryPodIndex (m_Status m) = Some cur \<and> t = [(GetPod (podKey m cur), r)] \<and>
    as_pod r = Inr pod \<and> b = PodReady pod"
  using assms by (auto simp: currentPrimaryReady_def exec_tryP_Inr split: option.splits)

lemma ifPrimaryReady_ok:
  assumes "exec grp (ifPrimaryReady m body) t (Inr ())"
  shows "\<exists>cur r pod. ms_CurrentPrimaryPodIndex (m_Status m) = Some cur \<and> (GetPod (podKey m cur), r) \<in> set t \<and>
    as_pod r = Inr pod \<and> (PodReady pod \<longrightarrow> (\<exists>t1 t2. t = t1 @ t2 \<and> exec grp (body cur) t2 (Inr ())))"
proof -
  from assms obtain t1 t2 b where t: "t = t1 @ t2" and c: "exec grp (currentPrimaryReady m) t1 (Inr b)"
    and r: "exec grp (if \<not> b then Ret (Inr ())
       else tryP (ctxP ''error getting current primary client'' (currentPrimaryClient m)) body) t2 (Inr ())"
    by (auto simp: ifPrimaryReady_def exec_tryP_Inr)
  from currentPrimaryReady_ok [OF c] obtain cur r' pod where cur: "ms_CurrentPrimaryPodIndex (m_Status m) = Some cur"
    and t1: "t1 = [(GetPod (podKey m cur), r')]" "as_pod r' = Inr pod" "b = PodReady pod" by blast
  have "\<exists>u1 u2. t = u1 @ u2 \<and> exec grp (body cur) u2 (Inr ())" if "PodReady pod"
  proof -
    from that r t1 obtain u1 u2 a where "t2 = u1 @ u2" "exec grp (currentPrimaryClient m) u1 (Inr a)"
      "exec grp (body a) u2 (Inr ())"
      by (auto simp: exec_tryP_Inr)
    moreover from this cur have "a = cur"
      by (auto simp: currentPrimaryClient_def dest: exec_ClientForIndex_ok)
    ultimately have "t = (t1 @ u1) @ u2 \<and> exec grp (body cur) u2 (Inr ())" using t by simp
    then show ?thesis by blast
  qed
  moreover have "(GetPod (podKey m cur), r') \<in> set t" using t t1 by simp
  ultimately show ?thesis using cur t1(2) by blast
qed

text \<open>The old primary was seen not ready, in a trace.\<close>

definition seen_unready :: "MariaDB \<Rightarrow> int \<Rightarrow> (call, answer) trace \<Rightarrow> bool" where
  "seen_unready m cur t \<longleftrightarrow> (\<exists>r pod. (GetPod (podKey m cur), r) \<in> set t \<and> as_pod r = Inr pod \<and> \<not> PodReady pod)"

definition done_ok :: "call \<Rightarrow> (call, answer) trace \<Rightarrow> bool" where
  "done_ok c t \<longleftrightarrow> (\<exists>r. (c, r) \<in> set t \<and> as_unit r = Inr ())"

lemma lock_ok:
  assumes "go_exec (lockPrimaryWithReadLock m) t (Inr ())" "ms_CurrentPrimaryPodIndex (m_Status m) = Some cur"
  shows "seen_unready m cur t \<or> done_ok (Sql cur LockTablesWithReadLock) t"
  using ifPrimaryReady_ok [OF assms(1) [unfolded lockPrimaryWithReadLock_def]] assms(2)
  by (fastforce simp: seen_unready_def done_ok_def)

lemma read_only_ok:
  assumes "go_exec (setPrimaryReadOnly m) t (Inr ())" "ms_CurrentPrimaryPodIndex (m_Status m) = Some cur"
  shows "seen_unready m cur t \<or> done_ok (Sql cur EnableReadOnly) t"
  using ifPrimaryReady_ok [OF assms(1) [unfolded setPrimaryReadOnly_def]] assms(2)
  by (fastforce simp: seen_unready_def done_ok_def)

text \<open>A replica that reports no error has answered the wait for the GTID with success.\<close>

definition gtid_reached :: "MariaDB \<Rightarrow> string \<Rightarrow> int \<Rightarrow> (call, answer) trace \<Rightarrow> bool" where
  "gtid_reached m gtid i t \<longleftrightarrow>
     (\<exists>r. (Sql i (MasterGtidWait gtid (the (rr_SyncTimeout (replicaOf m)) div second)), r) \<in> set t \<and> as_int r = Inr 0)"

lemma syncFailed_reports: "\<not> exec no_group (syncFailed c e) t (None, u)"
  by (auto simp: syncFailed_def Let_def exec_bind)

lemma awaitGtid_ok:
  assumes "exec no_group (awaitGtid m gtid i) t (None, u)"
  shows "gtid_reached m gtid i t"
  using assms unfolding awaitGtid_def exec_bind
proof (elim exE conjE)
  fix t1 t2 w
  assume t: "t = t1 @ t2" and w: "exec no_group (waitForReplicaGtid i gtid (the (rr_SyncTimeout (replicaOf m)))) t1 w"
    and r: "exec no_group (case w of Inl e \<Rightarrow> syncFailed i e | Inr _ \<Rightarrow> syncDone i) t2 (None, u)"
  from r have "w = Inr ()" by (cases w) (auto simp: syncFailed_reports)
  with w t show ?thesis by (auto simp: gtid_reached_def dest!: exec_waitForReplicaGtid_ok)
qed

lemma gtid_reached_mono: "gtid_reached m gtid i t \<Longrightarrow> set t \<subseteq> set t' \<Longrightarrow> gtid_reached m gtid i t'"
  by (auto simp: gtid_reached_def)

lemma syncReplica_ok:
  assumes "exec no_group (syncReplica m gtid i) t (None, u)"
  shows "gtid_reached m gtid i t"
  using assms unfolding syncReplica_def exec_bind
proof (elim exE conjE)
  fix t1 t2 c
  assume t: "t = t1 @ t2" and c: "exec no_group (ClientForIndex m i) t1 c"
    and r: "exec no_group (case c of Inl e \<Rightarrow> Ret (Some (ErrCtx ''error getting replica client'' e), ())
      | Inr replClient \<Rightarrow> awaitGtid m gtid replClient) t2 (None, u)"
  from r obtain j where j: "c = Inr j" "exec no_group (awaitGtid m gtid j) t2 (None, u)" by (cases c) auto
  with c have "j = i" by (auto dest: exec_ClientForIndex_ok)
  with awaitGtid_ok [OF j(2)] t show ?thesis by (auto elim: gtid_reached_mono)
qed

lemma joinFirst_ok:
  assumes "go_exec (joinFirst ts) t (Inr ())" "p \<in> set ts"
  shows "\<exists>t' u. exec no_group p t' (None, u) \<and> set t' \<subseteq> set t"
proof -
  from assms(1) obtain us where "group_exec FirstError ts t (None, us)"
    by (auto simp: joinFirst_def exec_Group split: option.splits)
  from group_exec_None [OF this assms(2)] show ?thesis by blast
qed

text \<open>What the operator read as the primary's GTID: the empty string when the query failed.\<close>

definition read_gtid :: "int \<Rightarrow> (call, answer) trace \<Rightarrow> string \<Rightarrow> bool" where
  "read_gtid cur t gtid \<longleftrightarrow> (\<exists>r. (Sql cur (SystemVariable ''gtid_binlog_pos''), r) \<in> set t \<and>
     gtid = (case as_text r of Inl e \<Rightarrow> '''' | Inr v \<Rightarrow> v))"

lemma tryP_systemVariable:
  assumes "exec grp (tryP (ctxP msg (systemVariable cur ''gtid_binlog_pos'')) f) t (Inr x)"
  shows "\<exists>t1 t2 g. t = t1 @ t2 \<and> read_gtid cur t1 g \<and> exec grp (f g) t2 (Inr x)"
  using assms unfolding exec_tryP_Inr exec_ctxP_Inr
proof (elim exE conjE)
  fix t1 t2 g
  assume t: "t = t1 @ t2" and v: "exec grp (systemVariable cur ''gtid_binlog_pos'') t1 (Inr g)"
    and f: "exec grp (f g) t2 (Inr x)"
  from v obtain r where r: "t1 = [(Sql cur (SystemVariable ''gtid_binlog_pos''), r)]"
    "(Inr g :: string result) = (case as_text r of Inl e \<Rightarrow> Inr '''' | Inr val \<Rightarrow> Inr val)"
    by (auto simp: exec_systemVariable)
  then have "read_gtid cur t1 g" by (cases "as_text r") (auto simp: read_gtid_def)
  with t f show ?thesis by blast
qed

lemma wait_ok:
  assumes "go_exec (waitForReplicaSync m) t (Inr ())" "ms_CurrentPrimaryPodIndex (m_Status m) = Some cur"
  shows "seen_unready m cur t \<or> (\<exists>gtid. read_gtid cur t gtid \<and>
    (\<forall>i. 0 \<le> i \<and> i < m_Replicas m \<and> i \<noteq> cur \<longrightarrow> gtid_reached m gtid i t))"
proof -
  let ?tasks = "\<lambda>g. map (syncReplica m g) (filter (\<lambda>i. i \<noteq> cur) (replicaIndexes m))"
  let ?body = "\<lambda>client. tryP (ctxP ''error getting primary GTID binlog pos'' (systemVariable client ''gtid_binlog_pos''))
     (\<lambda>g. joinFirst (?tasks g))"
  from assms have "go_exec (ifPrimaryReady m ?body) t (Inr ())"
    by (simp add: waitForReplicaSync_def)
  from ifPrimaryReady_ok [OF this] assms(2) obtain r pod
    where p: "(GetPod (podKey m cur), r) \<in> set t" "as_pod r = Inr pod"
      and body: "PodReady pod \<longrightarrow> (\<exists>t1 t2. t = t1 @ t2 \<and> go_exec (?body cur) t2 (Inr ()))" by auto
  show ?thesis
  proof (cases "PodReady pod")
    case True
    with body obtain t1 t2 where t12: "t = t1 @ t2" and e: "go_exec (?body cur) t2 (Inr ())" by blast
    from tryP_systemVariable [OF e] obtain u1 u2 g where t2: "t2 = u1 @ u2" and g: "read_gtid cur u1 g"
      and j: "go_exec (joinFirst (?tasks g)) u2 (Inr ())" by blast
    have t: "t = t1 @ u1 @ u2" using t12 t2 by simp
    have "gtid_reached m g i t" if "0 \<le> i" "i < m_Replicas m" "i \<noteq> cur" for i
    proof -
      have "syncReplica m g i \<in> set (?tasks g)"
        using that by (auto simp: replicaIndexes_def)
      from joinFirst_ok [OF j this] obtain t' u where "exec no_group (syncReplica m g i) t' (None, u)"
        and sub: "set t' \<subseteq> set u2" by blast
      have "set t' \<subseteq> set t" using sub t by auto
      with syncReplica_ok [OF \<open>exec no_group (syncReplica m g i) t' (None, u)\<close>] show ?thesis
        by (rule gtid_reached_mono)
    qed
    with g t show ?thesis by (auto simp: read_gtid_def)
  next
    case False
    with p show ?thesis by (auto simp: seen_unready_def)
  qed
qed

subsection \<open>Which phases can make a database writable\<close>

text \<open>A call that neither opens a database for writes nor patches the object.\<close>

definition patches_status :: "call \<Rightarrow> bool" where
  "patches_status c \<longleftrightarrow> (\<exists>m. c = PatchStatus m \<or> c = PatchMariaDB m)"

definition quiet :: "call \<Rightarrow> bool" where
  "quiet c \<longleftrightarrow> \<not> writable c \<and> \<not> patches_status c"

lemma quiet_simps [simp]:
  "quiet (GetPod k)" "quiet (SqlConnect i)" "quiet (SecretKeyRef ref ns)"
  "quiet (Sql i s) \<longleftrightarrow> \<not> writable (Sql i s)"
  by (auto simp: quiet_def patches_status_def)

lemma ClientForIndex_calls: "P (SqlConnect i) \<Longrightarrow> all_calls G P (ClientForIndex m i)"
  by (auto simp: ClientForIndex_def split: sum.split intro!: all_calls_tryP all_calls_ctxP)

lemma ifPrimaryReady_calls:
  assumes "\<And>k. P (GetPod k)" "\<And>i. P (SqlConnect i)" "\<And>c. all_calls G P (body c)"
  shows "all_calls G P (ifPrimaryReady m body)"
  unfolding ifPrimaryReady_def currentPrimaryReady_def currentPrimaryClient_def
  by (auto intro!: all_calls_tryP all_calls_ctxP ClientForIndex_calls simp: assms split: option.split)

lemma resetSlave_calls:
  "(\<And>s. s \<in> {StopAllSlaves, ResetSlavePos, StartSlave} \<Longrightarrow> P (Sql i s)) \<Longrightarrow> all_calls G P (resetSlave i)"
  unfolding resetSlave_def by (rule all_calls_seqP) (auto simp: execSql_def intro!: all_calls_ctxP)

lemma waitForReplicaGtid_calls:
  "(\<And>n. P (Sql i (MasterGtidWait gtid n))) \<Longrightarrow> all_calls G P (waitForReplicaGtid i gtid timeout)"
  unfolding waitForReplicaGtid_def by (auto intro!: all_calls_tryP all_calls_ctxP)

lemma syncReplica_calls: "task_calls quiet (syncReplica m gtid i)"
proof -
  have "task_calls quiet (awaitGtid m gtid j)" for j
    unfolding awaitGtid_def syncFailed_def syncDone_def Let_def
    by (auto split: sum.split intro!: all_calls_bindP waitForReplicaGtid_calls resetSlave_calls)
  then show ?thesis
    unfolding syncReplica_def
    by (auto split: sum.split intro!: all_calls_bindP ClientForIndex_calls)
qed

lemma waitForReplicaSync_calls: "go_calls quiet (waitForReplicaSync m)"
proof -
  have "go_calls quiet (joinFirst (map (syncReplica m gtid) is))" for gtid "is"
    by (auto simp: joinFirst_def syncReplica_calls)
  then show ?thesis
    unfolding waitForReplicaSync_def systemVariable_def
    by (auto split: option.split intro!: ifPrimaryReady_calls all_calls_tryP all_calls_ctxP all_calls_bindP)
qed

lemma ConfigureReplica_not_writable:
  "all_calls G quiet (ConfigureReplica domain v106 m i ri pi rst)"
proof (rule ConfigureReplica_calls)
  fix s assume "\<forall>v. s = SetSystemVariable ''read_only'' v \<longrightarrow> v = ''1''"
  then show "quiet (Sql i s)" by (cases s) auto
qed simp

lemma connectReplica_calls: "task_calls quiet (connectReplica domain v106 m i)"
  unfolding connectReplica_def
  by (auto split: sum.split intro!: all_calls_bindP ClientForIndex_calls ConfigureReplica_not_writable)

lemma connectReplicasToNewPrimary_calls:
  "go_calls quiet (connectReplicasToNewPrimary domain v106 m)"
  by (auto simp: connectReplicasToNewPrimary_def joinFirst_def connectReplica_calls split: option.split)

lemma changePrimaryToReplica_calls:
  "go_calls quiet (changePrimaryToReplica domain v106 m)"
  unfolding changePrimaryToReplica_def
  by (auto simp: execSql_def split: option.split
      intro!: ifPrimaryReady_calls all_calls_tryP all_calls_ctxP ConfigureReplica_not_writable)

lemma runPhase_calls: "go_calls P (snd p m) \<Longrightarrow> go_calls P (runPhase m p)"
  unfolding runPhase_def by (rule all_calls_bindP) auto

lemma exec_runPhase_Inr [simp]: "go_exec (runPhase m p) t (Inr u) \<longleftrightarrow> go_exec (snd p m) t (Inr u)"
proof -
  have "Inr u = phase_error n x \<longleftrightarrow> x = Inr u" for n x
    by (auto simp: phase_error_def split: sum.splits)
  then show ?thesis by (auto simp: runPhase_def exec_bind)
qed

lemma exec_runPhaseD: "go_exec (runPhase m p) t x \<Longrightarrow> \<exists>y. go_exec (snd p m) t y"
  by (auto simp: runPhase_def exec_bind)

text \<open>The fourth phase opens the database of the desired primary and no other.\<close>

lemma ConfigurePrimary_opens:
  "all_calls G (\<lambda>c. quiet c \<or> c = Sql i DisableReadOnly) (ConfigurePrimary m i pi)"
proof (rule ConfigurePrimary_calls)
  fix s assume "\<forall>v. s = SetSystemVariable ''read_only'' v \<longrightarrow> v = ''0''"
  then show "quiet (Sql i s) \<or> Sql i s = Sql i DisableReadOnly" by (cases s) auto
qed (simp add: quiet_def patches_status_def)

lemma newPrimaryClient_calls: "P (SqlConnect (primaryPodIndex m)) \<Longrightarrow> all_calls G P (newPrimaryClient m)"
  unfolding newPrimaryClient_def by (intro all_calls_ctxP ClientForIndex_calls)

lemma configureNewPrimary_opens:
  assumes "go_exec (configureNewPrimary m) t x" "e \<in> set t" "\<not> quiet (fst e)"
  shows "fst e = Sql (primaryPodIndex m) DisableReadOnly \<and> 0 \<le> primaryPodIndex m \<and> primaryPodIndex m < m_Replicas m"
proof -
  have quiet: "quiet (fst e)" if "go_exec (ctxP msg (newPrimaryClient m) :: int result repl) t' y" "e \<in> set t'"
    for msg t' y
    using go_exec_calls [OF that(1), of quiet, OF all_calls_ctxP, OF newPrimaryClient_calls] that(2) by auto
  from assms obtain t1 t2 i y where t: "t = t1 @ t2"
    and c: "go_exec (ctxP ''error getting new primary client'' (newPrimaryClient m) :: int result repl) t1 (Inr i)"
    and p: "go_exec (ctxP ''error confguring new primary vars'' (ConfigurePrimary m i (primaryPodIndex m)) :: unit result repl) t2 y"
    unfolding configureNewPrimary_def exec_tryP using quiet by blast
  from c have i: "i = primaryPodIndex m" "0 \<le> i" "i < m_Replicas m"
    by (auto simp: newPrimaryClient_def dest!: exec_ClientForIndex_ok)
  have "e \<in> set t2" using quiet [OF c] assms(2,3) t by auto
  with go_exec_calls [OF p, OF all_calls_ctxP, OF ConfigurePrimary_opens] assms(3) i show ?thesis by auto
qed

subsection \<open>Safety of the switchover\<close>

text \<open>What must have happened before the new primary may accept writes: the old primary was seen not
  ready, or it was locked and made read-only and every other Pod has reached the GTID read from it.\<close>

definition fenced :: "MariaDB \<Rightarrow> int \<Rightarrow> (call, answer) trace \<Rightarrow> bool" where
  "fenced m cur t \<longleftrightarrow> seen_unready m cur t \<or>
     (done_ok (Sql cur LockTablesWithReadLock) t \<and> done_ok (Sql cur EnableReadOnly) t \<and>
      (\<exists>gtid. read_gtid cur t gtid \<and>
        (\<forall>i. 0 \<le> i \<and> i < m_Replicas m \<and> i \<noteq> cur \<longrightarrow> gtid_reached m gtid i t)))"

lemma seen_unready_mono: "seen_unready m cur t \<Longrightarrow> set t \<subseteq> set t' \<Longrightarrow> seen_unready m cur t'"
  by (auto simp: seen_unready_def)

lemma done_ok_mono: "done_ok c t \<Longrightarrow> set t \<subseteq> set t' \<Longrightarrow> done_ok c t'"
  by (auto simp: done_ok_def)

lemma read_gtid_mono: "read_gtid cur t g \<Longrightarrow> set t \<subseteq> set t' \<Longrightarrow> read_gtid cur t' g"
  by (auto simp: read_gtid_def)

lemmas trace_mono = seen_unready_mono done_ok_mono read_gtid_mono gtid_reached_mono

lemma fenced_mono: "fenced m cur t \<Longrightarrow> set t \<subseteq> set t' \<Longrightarrow> fenced m cur t'"
  unfolding fenced_def by (meson trace_mono)

definition fencing :: "(string \<times> (MariaDB \<Rightarrow> unit result repl)) list" where
  "fencing = [(''Lock primary with read lock'', lockPrimaryWithReadLock),
     (''Set read_only in primary'', setPrimaryReadOnly), (''Wait for replica sync'', waitForReplicaSync)]"

definition connecting :: "string \<Rightarrow> (string \<Rightarrow> bool result) \<Rightarrow> (string \<times> (MariaDB \<Rightarrow> unit result repl)) list" where
  "connecting domain v106 = [(''Connect replicas to new primary'', connectReplicasToNewPrimary domain v106),
     (''Change primary to replica'', changePrimaryToReplica domain v106)]"

lemma phases_split:
  "phases domain v106 = fencing @ [(''Configure new primary'', configureNewPrimary)] @ connecting domain v106"
  by (simp add: phases_def fencing_def connecting_def)

lemma fencing_calls: "p \<in> set (map (runPhase m) fencing) \<Longrightarrow> go_calls quiet p"
  by (auto simp: fencing_def lockPrimaryWithReadLock_def setPrimaryReadOnly_def execSql_def
      intro!: runPhase_calls waitForReplicaSync_calls ifPrimaryReady_calls)

lemma connecting_calls: "p \<in> set (map (runPhase m) (connecting domain v106)) \<Longrightarrow> go_calls quiet p"
  by (auto simp: connecting_def intro!: runPhase_calls connectReplicasToNewPrimary_calls changePrimaryToReplica_calls)

lemma fencing_member:
  assumes "go_exec (seqP (map (runPhase m) fencing)) t (Inr ())" "p \<in> set fencing"
  shows "\<exists>t'. set t' \<subseteq> set t \<and> go_exec (snd p m) t' (Inr ())"
proof -
  have "runPhase m p \<in> set (map (runPhase m) fencing)" using assms(2) by simp
  from exec_seqP_member [OF assms(1) this] show ?thesis by auto
qed

lemma fencing_ok:
  assumes "go_exec (seqP (map (runPhase m) fencing)) t (Inr ())"
  shows "\<exists>cur. ms_CurrentPrimaryPodIndex (m_Status m) = Some cur \<and> fenced m cur t"
proof -
  note phase = fencing_member [OF assms]
  obtain t1 where t1: "set t1 \<subseteq> set t" "go_exec (lockPrimaryWithReadLock m) t1 (Inr ())"
    using phase [of "(''Lock primary with read lock'', lockPrimaryWithReadLock)"] by (auto simp: fencing_def)
  obtain t2 where t2: "set t2 \<subseteq> set t" "go_exec (setPrimaryReadOnly m) t2 (Inr ())"
    using phase [of "(''Set read_only in primary'', setPrimaryReadOnly)"] by (auto simp: fencing_def)
  obtain t3 where t3: "set t3 \<subseteq> set t" "go_exec (waitForReplicaSync m) t3 (Inr ())"
    using phase [of "(''Wait for replica sync'', waitForReplicaSync)"] by (auto simp: fencing_def)
  obtain cur where cur: "ms_CurrentPrimaryPodIndex (m_Status m) = Some cur"
    using ifPrimaryReady_ok [OF t1(2) [unfolded lockPrimaryWithReadLock_def]] by blast
  have "fenced m cur t"
    using lock_ok [OF t1(2) cur] read_only_ok [OF t2(2) cur] wait_ok [OF t3(2) cur] t1(1) t2(1) t3(1)
    unfolding fenced_def by (meson trace_mono)
  with cur show ?thesis by blast
qed

lemma seqP_quiet:
  assumes "go_exec (seqP ps) t x" "\<And>p. p \<in> set ps \<Longrightarrow> go_calls quiet p" "\<not> quiet (fst e)"
  shows "e \<notin> set t"
proof -
  have "\<forall>e\<in>set t. quiet (fst e)"
    by (rule go_exec_calls [OF assms(1)]) (rule all_calls_seqP, rule assms(2))
  with assms(3) show ?thesis by blast
qed

lemma phases_safe:
  assumes "go_exec (seqP (map (runPhase m) (phases domain v106))) (pre @ e # post) x" "\<not> quiet (fst e)"
  shows "fst e = Sql (primaryPodIndex m) DisableReadOnly \<and> 0 \<le> primaryPodIndex m \<and> primaryPodIndex m < m_Replicas m \<and>
    (\<exists>cur. ms_CurrentPrimaryPodIndex (m_Status m) = Some cur \<and> fenced m cur pre)"
proof -
  let ?new = "runPhase m (''Configure new primary'', configureNewPrimary)"
  let ?rest = "map (runPhase m) (connecting domain v106)"
  note run = assms(1) [unfolded phases_split map_append]
  have "\<exists>t1 pre2. pre = t1 @ pre2 \<and> go_exec (seqP (map (runPhase m) fencing)) t1 (Inr ()) \<and>
     go_exec (seqP (map (runPhase m) [(''Configure new primary'', configureNewPrimary)] @ ?rest)) (pre2 @ e # post) x"
    by (rule exec_seqP_guard [OF run]) (rule seqP_quiet [OF _ fencing_calls assms(2)])
  then obtain t1 pre2 where pre: "pre = t1 @ pre2" and f: "go_exec (seqP (map (runPhase m) fencing)) t1 (Inr ())"
    and r: "go_exec (tryP ?new (\<lambda>_. seqP ?rest)) (pre2 @ e # post) x" by auto
  have "\<exists>t2 y. go_exec ?new t2 y \<and> e \<in> set t2"
  proof (rule ccontr)
    assume no: "\<not> ?thesis"
    from r no obtain t1' t2' where "pre2 @ e # post = t1' @ t2'" "e \<notin> set t1'" "go_exec (seqP ?rest) t2' x"
      unfolding exec_tryP by (force simp del: exec_runPhase_Inr)
    moreover from this(3) have "e \<notin> set t2'" by (rule seqP_quiet [OF _ connecting_calls assms(2)])
    ultimately show False by (metis Un_iff in_set_conv_decomp set_append)
  qed
  then obtain t2 z where "go_exec (configureNewPrimary m) t2 z" "e \<in> set t2" using exec_runPhaseD by fastforce
  from configureNewPrimary_opens [OF this assms(2)] fencing_ok [OF f] fenced_mono [of m _ t1 pre] pre show ?thesis
    by auto
qed

text \<open>The shape of a run of \<^verbatim>\<open>reconcileSwitchover\<close>: the first status patch, the phases on the object
  the API server answered, and the second status patch.\<close>

definition switchingPatch :: "meta_api \<Rightarrow> MariaDB \<Rightarrow> MariaDB" where
  "switchingPatch M mdb =
     mdb\<lparr>m_Status := SetPrimarySwitching (MariaDBStatus_SetCondition M) mdb (m_Status mdb)\<rparr>"

definition switchedPatch :: "meta_api \<Rightarrow> int \<Rightarrow> MariaDB \<Rightarrow> MariaDB" where
  "switchedPatch M toIndex mariadb =
     mariadb\<lparr>m_Status := SetPrimarySwitched (MariaDBStatus_SetCondition M)
       (UpdateCurrentPrimary mariadb toIndex (m_Status mariadb))\<rparr>"

lemma markSwitched_run:
  assumes "go_exec (markSwitched M toIndex m) t (m', x)"
  shows "\<exists>r. t = [(PatchStatus (switchedPatch M toIndex m), r)] \<and>
    x = (case as_mariadb r of Inl e \<Rightarrow> Inl (ErrCtx ''error patching MariaDB status'' e) | Inr s \<Rightarrow> Inr ()) \<and>
    (\<forall>s. as_mariadb r = Inr s \<longrightarrow> m' = s)"
  using assms
  by (auto simp: markSwitched_def exec_bind exec_patchStatus switchedPatch_def split: sum.splits prod.splits)

lemma runPhases_run:
  assumes "go_exec (runPhases M domain v106 toIndex m) t (m', x)"
  shows "(\<exists>e. x = Inl e \<and> go_exec (seqP (map (runPhase m) (phases domain v106))) t (Inl e)) \<or>
    (\<exists>t1 t2. t = t1 @ t2 \<and> go_exec (seqP (map (runPhase m) (phases domain v106))) t1 (Inr ()) \<and>
      go_exec (markSwitched M toIndex m) t2 (m', x))"
proof -
  from assms obtain t1 t2 y where t: "t = t1 @ t2" and y: "go_exec (seqP (map (runPhase m) (phases domain v106))) t1 y"
    and z: "go_exec (case y of Inl e \<Rightarrow> Ret (m, Inl e) | Inr _ \<Rightarrow> markSwitched M toIndex m) t2 (m', x)"
    unfolding runPhases_def exec_bind by blast
  show ?thesis using t y z by (cases y) auto
qed

lemma reconcileSwitchover_run:
  assumes "go_exec (reconcileSwitchover M domain v106 mdb) t (m', x)" "shouldReconcileSwitchover M mdb"
  shows "\<exists>r t'. t = (PatchStatus (switchingPatch M mdb), r) # t' \<and>
    ((\<exists>e. as_mariadb r = Inl e \<and> t' = [] \<and> x = Inl (ErrCtx ''error patching MariaDB status'' e)) \<or>
     (\<exists>server. as_mariadb r = Inr server \<and> go_exec (runPhases M domain v106 (primaryPodIndex mdb) server) t' (m', x)))"
proof -
  from assms obtain t1 t2 m1 y where t: "t = t1 @ t2"
    and p: "go_exec (patchStatus mdb (SetPrimarySwitching (MariaDBStatus_SetCondition M) mdb) :: (MariaDB \<times> unit result) repl) t1 (m1, y)"
    and z: "go_exec (case y of Inl e \<Rightarrow> Ret (m1, Inl (ErrCtx ''error patching MariaDB status'' e))
         | Inr _ \<Rightarrow> runPhases M domain v106 (primaryPodIndex mdb) m1) t2 (m', x)"
    by (auto simp: reconcileSwitchover_def Let_def exec_bind)
  from p obtain r where t1: "t1 = [(PatchStatus (switchingPatch M mdb), r)]"
    and y: "(m1, y) = (case as_mariadb r of Inl e \<Rightarrow> (switchingPatch M mdb, Inl e) | Inr s \<Rightarrow> (s, Inr ()))"
    unfolding exec_patchStatus switchingPatch_def by blast
  show ?thesis
    by (cases "as_mariadb r") (use t t1 y z in auto)
qed

lemma phases_no_patch:
  assumes "go_exec (seqP (map (runPhase m) (phases domain v106))) t x" "e \<in> set t"
  shows "\<not> patches_status (fst e)"
proof
  assume p: "patches_status (fst e)"
  from assms(2) obtain pre post where "t = pre @ e # post" by (meson split_list)
  with assms(1) p show False
    using phases_safe [of m domain v106 pre e post x] by (auto simp: quiet_def patches_status_def)
qed

lemma switchover_safe_run:
  assumes "go_exec (reconcileSwitchover M domain v106 mdb) (pre @ e # post) (m', x)" "writable (fst e)"
  shows "shouldReconcileSwitchover M mdb \<and>
    (\<exists>r server pre' cur. pre = (PatchStatus (switchingPatch M mdb), r) # pre' \<and> as_mariadb r = Inr server \<and>
      fst e = Sql (primaryPodIndex server) DisableReadOnly \<and>
      0 \<le> primaryPodIndex server \<and> primaryPodIndex server < m_Replicas server \<and>
      ms_CurrentPrimaryPodIndex (m_Status server) = Some cur \<and> fenced server cur pre')"
proof -
  have nq: "\<not> quiet (fst e)" and np: "\<not> patches_status (fst e)"
    using assms(2) by (auto simp: quiet_def patches_status_def)
  have should: "shouldReconcileSwitchover M mdb"
    using assms(1) by (cases "shouldReconcileSwitchover M mdb") (auto simp: reconcileSwitchover_def)
  from reconcileSwitchover_run [OF assms(1) should] np obtain r server pre' where
    pre: "pre = (PatchStatus (switchingPatch M mdb), r) # pre'" "as_mariadb r = Inr server"
    and ph: "go_exec (runPhases M domain v106 (primaryPodIndex mdb) server) (pre' @ e # post) (m', x)"
    by (auto simp: Cons_eq_append_conv append_eq_Cons_conv patches_status_def)
  have "\<exists>post' y. go_exec (seqP (map (runPhase server) (phases domain v106))) (pre' @ e # post') y"
    using runPhases_run [OF ph] np
    by (fastforce dest!: markSwitched_run simp: append_eq_append_conv2 Cons_eq_append_conv append_eq_Cons_conv patches_status_def)
  then obtain post' y where "go_exec (seqP (map (runPhase server) (phases domain v106))) (pre' @ e # post') y" by blast
  from phases_safe [OF this nq] pre should show ?thesis by blast
qed

text \<open>
  C2: a database is opened for writes only when that is safe. In every run of the switchover, whatever
  the API server and the databases answer and however the goroutines interleave, a call that makes a
  database writable is for the Pod that is the desired primary of the object the first status patch
  answered with, inside the bounds of the replicas, and before it the current primary was seen not
  ready, or it was locked and made read-only with success and every other Pod has answered the wait
  for the GTID read from it with success.
\<close>

theorem switchover_safe:
  assumes "go_exec (reconcileSwitchover M domain v106 mdb) (pre @ e # post) (m', x)" "writable (fst e)"
  shows "shouldReconcileSwitchover M mdb \<and>
    (\<exists>r server pre' cur. pre = (PatchStatus (switchingPatch M mdb), r) # pre' \<and> as_mariadb r = Inr server \<and>
      fst e = Sql (primaryPodIndex server) DisableReadOnly \<and>
      0 \<le> primaryPodIndex server \<and> primaryPodIndex server < m_Replicas server \<and>
      ms_CurrentPrimaryPodIndex (m_Status server) = Some cur \<and> fenced server cur pre')"
  using assms by (rule switchover_safe_run)

lemma switchingPatch_status:
  assumes "meta_ok M"
  shows "IsSwitchingPrimary M (switchingPatch M mdb)" "\<not> IsReady M (switchingPatch M mdb)"
  using mdb_status.look_set [OF assms] mdb_status.look_true [OF assms] mdb_status.look_false [OF assms]
  by (auto simp: switchingPatch_def IsReady_def IsSwitchingPrimary_def SetPrimarySwitching_def Let_def mdb_status.look_def)

lemma switchedPatch_status:
  assumes "meta_ok M"
  shows "\<not> IsSwitchingPrimary M (switchedPatch M i s)"
    "ms_CurrentPrimaryPodIndex (m_Status (switchedPatch M i s)) = Some i"
proof -
  show "\<not> IsSwitchingPrimary M (switchedPatch M i s)"
    using mdb_status.look_set [OF assms] mdb_status.look_false [OF assms]
    by (auto simp: switchedPatch_def IsSwitchingPrimary_def SetPrimarySwitched_def mdb_status.look_def)
  show "ms_CurrentPrimaryPodIndex (m_Status (switchedPatch M i s)) = Some i"
    by (simp add: switchedPatch_def SetPrimarySwitched_def UpdateCurrentPrimary_def
        MariaDBStatus_SetCondition_def set_conditions_def)
qed

text \<open>The phases and the second patch: the patch is the last call, and it is made when the phases succeed.\<close>

lemma runPhases_outcome:
  assumes "go_exec (runPhases M domain v106 i m) t (m', x)"
  shows "(x = Inr () \<longrightarrow> t \<noteq> [] \<and> (\<exists>r. last t = (PatchStatus (switchedPatch M i m), r) \<and> as_mariadb r = Inr m')) \<and>
    (\<forall>m2 r2. (PatchStatus m2, r2) \<in> set t \<and> as_mariadb r2 \<in> range Inr \<longrightarrow> x = Inr ())"
  using runPhases_run [OF assms]
proof (elim disjE exE conjE)
  fix e assume "x = Inl e" "go_exec (seqP (map (runPhase m) (phases domain v106))) t (Inl e)"
  with phases_no_patch show ?thesis by (fastforce simp: patches_status_def)
next
  fix t1 t2 assume t: "t = t1 @ t2" and p: "go_exec (seqP (map (runPhase m) (phases domain v106))) t1 (Inr ())"
    and ms: "go_exec (markSwitched M i m) t2 (m', x)"
  have "(PatchStatus m2, r2) \<notin> set t1" for m2 r2
    using phases_no_patch [OF p] by (fastforce simp: patches_status_def)
  moreover from markSwitched_run [OF ms] obtain r where "t2 = [(PatchStatus (switchedPatch M i m), r)]"
    "x = (case as_mariadb r of Inl e \<Rightarrow> Inl (ErrCtx ''error patching MariaDB status'' e) | Inr s \<Rightarrow> Inr ())"
    "\<forall>s. as_mariadb r = Inr s \<longrightarrow> m' = s" by blast
  ultimately show ?thesis using t by (cases "as_mariadb r") auto
qed


text \<open>A switchover that succeeds has opened the new primary.\<close>

lemma switchover_opens:
  assumes "go_exec (reconcileSwitchover M domain v106 mdb) t (m', Inr ())" "shouldReconcileSwitchover M mdb"
  shows "\<exists>pre e post. t = pre @ e # post \<and> writable (fst e)"
proof -
  from reconcileSwitchover_run [OF assms] obtain server r' t' where t: "t = (PatchStatus (switchingPatch M mdb), r') # t'"
    and run: "go_exec (runPhases M domain v106 (primaryPodIndex mdb) server) t' (m', Inr ())" by auto
  have sub: "set t' \<subseteq> set t" using t by auto
  from runPhases_run [OF run] obtain t1 t1' where t1: "t' = t1 @ t1'"
    and ph: "go_exec (seqP (map (runPhase server) (phases domain v106))) t1 (Inr ())" by blast
  have "runPhase server (''Configure new primary'', configureNewPrimary) \<in> set (map (runPhase server) (phases domain v106))"
    by (simp add: phases_def)
  from exec_seqP_member [OF ph this] obtain u1 t2 u2 where t2: "t1 = u1 @ t2 @ u2" "go_exec (configureNewPrimary server) t2 (Inr ())"
    by auto
  from t2(2) obtain i u3 t3 where t3: "t2 = u3 @ t3"
    and cp: "go_exec (ConfigurePrimary server i (primaryPodIndex server) :: unit result repl) t3 (Inr ())"
    unfolding configureNewPrimary_def exec_tryP_Inr by auto
  have "\<exists>r. (Sql i DisableReadOnly, r) \<in> set t3"
    using exec_seqP_member [OF cp [unfolded ConfigurePrimary_def],
      of "ctxP ''error disabling read_only'' (execSql i DisableReadOnly)"] by auto
  then obtain r where "(Sql i DisableReadOnly, r) \<in> set t" using sub t1 t2(1) t3 by auto
  then show ?thesis by (metis split_list fst_conv writable.simps(1))
qed

end
