(* ===== verification/Switchover_Live.thy ===== *)
theory Switchover_Live
  imports Switchover
begin

text \<open>
  The switchover completes. \<open>cooperative\<close> says what the operator relies on: the API server stores what
  it is sent, Pods can be read, connections and statements succeed and replicas reach the GTID. Against
  such an environment a switchover to an index in range returns without an error. The run of a
  concrete cluster is the witness of the safety theorem of \<open>Switchover\<close>.
\<close>

fun good :: "call \<Rightarrow> answer \<Rightarrow> bool" where
  "good (GetPod k) r = (\<not> isl (as_pod r))"
| "good (PatchStatus m) r = (as_mariadb r = Inr m)"
| "good (SqlConnect i) r = (as_unit r = Inr ())"
| "good (ReconcilePassword k s b) r = (\<not> isl (as_text r))"
| "good (SecretKeyRef s ns) r = (case as_text r of Inl e \<Rightarrow> False | Inr v \<Rightarrow> v \<noteq> '''')"
| "good (Sql i (SystemVariable v)) r = True"
| "good (Sql i (UserExists u h)) r = (\<not> isl (as_int r))"
| "good (Sql i (MasterGtidWait g n)) r = (as_int r = Inr 0)"
| "good (Sql i s) r = (as_unit r = Inr ())"
| "good c r = True"

definition cooperative :: "(call, answer) env \<Rightarrow> bool" where
  "cooperative env \<longleftrightarrow> (\<forall>h c. good c (env h c))"

lemma ends_ask: "cooperative env \<Longrightarrow> (\<And>r. good c r \<Longrightarrow> Q (sel r)) \<Longrightarrow> ends rg env (ask sel c) Q"
  by (auto simp: cooperative_def ends_def)

lemma ends_ok_ask:
  "cooperative env \<Longrightarrow> (\<And>r. good c r \<Longrightarrow> (case sel r of Inl _ \<Rightarrow> False | Inr a \<Rightarrow> Q a)) \<Longrightarrow> ends_ok rg env (ask sel c) Q"
  unfolding ends_ok_def by (rule ends_ask)

fun returns_value :: "sql_stmt \<Rightarrow> bool" where
  "returns_value (SystemVariable v) = True"
| "returns_value (UserExists u h) = True"
| "returns_value (MasterGtidWait g n) = True"
| "returns_value (DatabaseExists d) = True"
| "returns_value s = False"

lemma execSql_ends: "cooperative env \<Longrightarrow> \<not> returns_value s \<Longrightarrow> ends_ok rg env (execSql i s) (\<lambda>_. True)"
  unfolding execSql_def by (erule ends_ok_ask) (cases s; simp)

lemma setSystemVariables_ends: "cooperative env \<Longrightarrow> ends_ok rg env (setSystemVariables i kvs) (\<lambda>_. True)"
  unfolding setSystemVariables_def by (rule ends_forP) (auto intro!: execSql_ends)

lemma ClientForIndex_ends:
  "cooperative env \<Longrightarrow> 0 \<le> i \<Longrightarrow> i < m_Replicas m \<Longrightarrow> ends_ok rg env (ClientForIndex m i) (\<lambda>j. j = i)"
  by (auto simp: ClientForIndex_def validateIndex_def
      intro!: ends_tryP [where R = "\<lambda>_. True"] ends_ctxP ends_ok_ask)

lemmas ends_try = ends_tryP [where R = "\<lambda>_. True"]

lemma ask_ends:
  "cooperative env \<Longrightarrow> (\<And>r. good c r \<Longrightarrow> \<not> isl (sel r)) \<Longrightarrow> ends_ok rg env (ask sel c) (\<lambda>_. True)"
  by (rule ends_ok_ask) (auto simp: isl_def split: sum.split)

lemma userExists_ends: "cooperative env \<Longrightarrow> ends_ok rg env (userExists i u h) (\<lambda>_. True)"
  unfolding userExists_def by (auto intro!: ends_try ask_ends)

lemma reconcileUserSql_ends:
  assumes "cooperative env"
  shows "ends_ok rg env (reconcileUserSql m i opts) (\<lambda>_. True)"
  unfolding reconcileUserSql_def Let_def
  by (intro ends_try ends_ctxP ends_seqP ask_ends userExists_ends assms)
    (auto intro!: ends_ctxP execSql_ends assms)

text \<open>A replica section the admission webhook accepts.\<close>

definition valid_replica :: "MariaDB \<Rightarrow> bool" where
  "valid_replica m \<longleftrightarrow> ReplicaReplication_Validate (replicaOf m) = Inr ()"

lemma valid_replica_formats:
  assumes "valid_replica m"
  shows "rr_WaitPoint (replicaOf m) = Some w \<Longrightarrow> \<exists>s. WaitPoint_MariaDBFormat w = Inr s"
    "\<exists>s. Gtid_MariaDBFormat (Deref (rr_Gtid (replicaOf m)) GtidCurrentPos) = Inr s"
proof -
  show "rr_WaitPoint (replicaOf m) = Some w \<Longrightarrow> \<exists>s. WaitPoint_MariaDBFormat w = Inr s"
    using assms by (cases w) (auto simp: valid_replica_def ReplicaReplication_Validate_def WaitPoint_Validate_def
        WaitPoint_MariaDBFormat_def and_then_Inr)
  show "\<exists>s. Gtid_MariaDBFormat (Deref (rr_Gtid (replicaOf m)) GtidCurrentPos) = Inr s"
    using assms by (cases "Deref (rr_Gtid (replicaOf m)) GtidCurrentPos")
      (auto simp: valid_replica_def ReplicaReplication_Validate_def Gtid_Validate_def Gtid_MariaDBFormat_def
        and_then_Inr Deref_def split: option.splits)
qed

lemma configurePrimaryVars_ends:
  assumes "cooperative env" "valid_replica m"
  shows "ends_ok rg env (configurePrimaryVars m i pi) (\<lambda>_. True)"
  using assms valid_replica_formats(1) [OF assms(2)]
  by (fastforce simp: configurePrimaryVars_def split: option.split sum.split
      intro: ends_ctxP setSystemVariables_ends)

lemma ConfigurePrimary_ends:
  assumes "cooperative env" "valid_replica m"
  shows "ends_ok rg env (ConfigurePrimary m i pi) (\<lambda>_. True)"
  unfolding ConfigurePrimary_def reconcilePrimarySql_def
  by (rule ends_seqP)
    (auto intro!: ends_ctxP execSql_ends reconcileUserSql_ends configurePrimaryVars_ends assms)

lemma getChangeMasterHost_ok:
  assumes "v106 (sp_Image (m_Spec m)) = Inr b"
  shows "\<exists>h. getChangeMasterHost domain v106 m pi = Inr (WithChangeMasterHost h) \<and> h \<noteq> ''''"
  by (cases b) (auto simp: getChangeMasterHost_def assms PodFQDNWithService_def PodShortFQDNWithService_def
      and_then_Inr)

lemma changeMasterQuery_ok:
  assumes "h \<noteq> ''''" "pw \<noteq> ''''"
  shows "\<exists>q. buildChangeMasterQuery
    ([WithChangeMasterHost h, WithChangeMasterPort p, WithChangeMasterCredentials ''repl'' pw, WithChangeMasterGtid g,
      WithChangeMasterRetries n] @
     (if tls then [WithChangeMasterSSL ''/etc/pki/client.crt'' ''/etc/pki/client.key'' ''/etc/pki/ca.crt''] else [])) = Inr q"
  using assms
  by (cases tls) (auto simp: buildChangeMasterQuery_def checkChangeMasterOpts_def applyOpts_def WithChangeMasterHost_def
      WithChangeMasterPort_def WithChangeMasterCredentials_def WithChangeMasterGtid_def WithChangeMasterRetries_def
      WithChangeMasterSSL_def defaultChangeMasterOpts_def Let_def)

lemma changeMaster_ends:
  assumes "cooperative env" "valid_replica m" "v106 (sp_Image (m_Spec m)) = Inr b"
  shows "ends_ok rg env (changeMaster domain v106 m i pi) (\<lambda>_. True)"
proof -
  let ?ref = "newReplPasswordRef m"
  obtain h where h: "getChangeMasterHost domain v106 m pi = Inr (WithChangeMasterHost h)" "h \<noteq> ''''"
    using getChangeMasterHost_ok [of v106 m b, OF assms(3)] by blast
  obtain g where g: "Gtid_MariaDBFormat (Deref (rr_Gtid (replicaOf m)) GtidCurrentPos) = Inr g"
    using valid_replica_formats(2) [OF assms(2)] by blast
  have pw: "ends_ok rg env (ask as_text (SecretKeyRef \<lparr>ss_Name = sk_Name ?ref, ss_Key = sk_Key ?ref\<rparr> (m_Namespace m)))
      (\<lambda>pw. pw \<noteq> '''')"
    by (rule ends_ok_ask [OF assms(1)]) simp
  have sql: "ends_ok rg env (changeMasterSql i opts) (\<lambda>_. True)" if "\<exists>q. buildChangeMasterQuery opts = Inr q" for opts
    using that by (auto simp: changeMasterSql_def intro!: execSql_ends assms(1))
  show ?thesis
    unfolding changeMaster_def Let_def h(1) g sum.case
    by (rule ends_tryP [OF ends_ctxP [OF pw]], rule ends_ctxP, rule sql, rule changeMasterQuery_ok [OF h(2)])
qed

lemma ConfigureReplica_ends:
  assumes "cooperative env" "valid_replica m" "v106 (sp_Image (m_Spec m)) = Inr b"
  shows "ends_ok rg env (ConfigureReplica domain v106 m i ri pi rst) (\<lambda>_. True)"
  unfolding ConfigureReplica_def configureReplicaVars_def
  by (rule ends_seqP)
    (auto intro!: ends_ctxP execSql_ends setSystemVariables_ends changeMaster_ends assms split: if_splits)

subsection \<open>The phases\<close>

text \<open>What the object must say: the current and the desired primary are among the replicas.\<close>

definition switchable :: "(string \<Rightarrow> bool result) \<Rightarrow> MariaDB \<Rightarrow> bool" where
  "switchable v106 m \<longleftrightarrow> valid_replica m \<and> \<not> isl (v106 (sp_Image (m_Spec m))) \<and>
     0 \<le> primaryPodIndex m \<and> primaryPodIndex m < m_Replicas m \<and>
     (case ms_CurrentPrimaryPodIndex (m_Status m) of None \<Rightarrow> False | Some cur \<Rightarrow> 0 \<le> cur \<and> cur < m_Replicas m)"

lemma switchableD:
  assumes "switchable v106 m"
  obtains b cur where "valid_replica m" "v106 (sp_Image (m_Spec m)) = Inr b"
    "0 \<le> primaryPodIndex m" "primaryPodIndex m < m_Replicas m"
    "ms_CurrentPrimaryPodIndex (m_Status m) = Some cur" "0 \<le> cur" "cur < m_Replicas m"
  using assms by (auto simp: switchable_def isl_def split: option.splits sum.splits) (metis sum.exhaust)

lemma ifPrimaryReady_ends:
  assumes "cooperative env" "switchable v106 m" "\<And>c. ends_ok rg env (body c) (\<lambda>_. True)"
  shows "ends_ok rg env (ifPrimaryReady m body) (\<lambda>_. True)"
proof -
  from assms(2) obtain cur where cur: "ms_CurrentPrimaryPodIndex (m_Status m) = Some cur" "0 \<le> cur" "cur < m_Replicas m"
    by (rule switchableD)
  have "ends_ok rg env (ask as_pod (GetPod (podKey m cur))) (\<lambda>_. True)"
    by (rule ask_ends [OF assms(1)]) (auto split: sum.splits)
  then have ready: "ends_ok rg env (currentPrimaryReady m) (\<lambda>_. True)"
    unfolding currentPrimaryReady_def using cur by (auto intro!: ends_try)
  have "ends_ok rg env (currentPrimaryClient m) (\<lambda>_. True)"
    unfolding currentPrimaryClient_def
    using cur by (auto intro!: ends_ok_weaken [OF ends_ctxP, OF ClientForIndex_ends [OF assms(1)]])
  with ready show ?thesis
    unfolding ifPrimaryReady_def by (auto intro!: ends_try ends_ctxP assms(3))
qed

lemma lock_ends:
  "cooperative env \<Longrightarrow> switchable v106 m \<Longrightarrow> ends_ok rg env (lockPrimaryWithReadLock m) (\<lambda>_. True)"
  unfolding lockPrimaryWithReadLock_def by (rule ifPrimaryReady_ends) (auto intro: execSql_ends)

lemma read_only_ends:
  "cooperative env \<Longrightarrow> switchable v106 m \<Longrightarrow> ends_ok rg env (setPrimaryReadOnly m) (\<lambda>_. True)"
  unfolding setPrimaryReadOnly_def by (rule ifPrimaryReady_ends) (auto intro: execSql_ends)

lemma syncReplica_ends:
  assumes "cooperative env" "0 \<le> i" "i < m_Replicas m"
  shows "ends run_no_group env (syncReplica m gtid i) (\<lambda>x. fst x = None)"
proof -
  have "ends_ok run_no_group env (resetSlave j) (\<lambda>_. True)" for j
    unfolding resetSlave_def by (rule ends_seqP) (auto intro!: ends_ctxP execSql_ends assms(1))
  note r = this [unfolded ends_ok_def]
  have w: "ends_ok run_no_group env (waitForReplicaGtid j gtid n) (\<lambda>_. True)" for j n
    unfolding waitForReplicaGtid_def
    by (rule ends_tryP [where R = "\<lambda>x. x = 0"], rule ends_ctxP, rule ends_ok_ask [OF assms(1)]) auto
  have "ends run_no_group env (awaitGtid m gtid j) (\<lambda>x. fst x = None)" for j
    unfolding awaitGtid_def
    by (rule ends_bindP [OF w [unfolded ends_ok_def]])
      (auto simp: syncDone_def intro!: ends_bindP [OF r] split: sum.splits)
  then show ?thesis
    unfolding syncReplica_def
    by (intro ends_bindP [OF ClientForIndex_ends [OF assms, unfolded ends_ok_def]]) (auto split: sum.splits)
qed

lemma joinFirst_ends:
  assumes "\<And>p. p \<in> set ts \<Longrightarrow> ends run_no_group env p (\<lambda>x. fst x = None)"
  shows "ends_ok (run_group env) env (joinFirst ts) (\<lambda>_. True)"
  unfolding joinFirst_def ends_ok_def by (rule ends_Group) (auto simp: assms)

lemma wait_ends:
  assumes "cooperative env" "switchable v106 m"
  shows "ends_ok (run_group env) env (waitForReplicaSync m) (\<lambda>_. True)"
proof -
  from assms(2) obtain cur where cur: "ms_CurrentPrimaryPodIndex (m_Status m) = Some cur"
    by (rule switchableD)
  have v: "ends_ok rg env (systemVariable c v) (\<lambda>_. True)" for rg :: "call list \<Rightarrow> join \<Rightarrow> repl_task list \<Rightarrow> _" and c v
    unfolding systemVariable_def ends_ok_def
    by (rule ends_bindP [where R = "\<lambda>_. True"], rule ends_ask [OF assms(1)]) (auto split: sum.split)
  show ?thesis
    unfolding waitForReplicaSync_def cur option.case
    by (rule ifPrimaryReady_ends [OF assms], rule ends_try, rule ends_ctxP [OF v], rule joinFirst_ends)
      (auto simp: replicaIndexes_def intro!: syncReplica_ends assms)
qed

lemma configureNewPrimary_ends:
  assumes "cooperative env" "switchable v106 m"
  shows "ends_ok rg env (configureNewPrimary m) (\<lambda>_. True)"
proof -
  from assms(2) obtain cur where p: "valid_replica m" "0 \<le> primaryPodIndex m" "primaryPodIndex m < m_Replicas m"
    by (rule switchableD)
  show ?thesis
    unfolding configureNewPrimary_def newPrimaryClient_def
    by (rule ends_tryP, rule ends_ctxP, rule ends_ctxP, rule ClientForIndex_ends [OF assms(1) p(2,3)])
      (auto intro!: ends_ctxP ConfigurePrimary_ends assms p)
qed

lemma connectReplica_ends:
  assumes "cooperative env" "switchable v106 m" "0 \<le> i" "i < m_Replicas m"
  shows "ends run_no_group env (connectReplica domain v106 m i) (\<lambda>x. fst x = None)"
proof -
  from assms(2) obtain b where p: "valid_replica m" "v106 (sp_Image (m_Spec m)) = Inr b" by (rule switchableD)
  have conf: "ends_ok run_no_group env (ConfigureReplica domain v106 m c i pi rst) (\<lambda>_. True)" for c pi rst
    using assms(1) p by (rule ConfigureReplica_ends)
  have g: "ends run_no_group env (ask as_pod (GetPod k)) (\<lambda>x. \<not> isl x)" for k
    by (rule ends_ask [OF assms(1)]) (auto split: sum.splits)
  show ?thesis
    unfolding connectReplica_def
    by (rule ends_bindP [OF g])
      (auto simp: isl_def split: sum.splits
        intro!: ends_bindP [OF ClientForIndex_ends [OF assms(1,3,4), unfolded ends_ok_def]]
          ends_bindP [OF conf [unfolded ends_ok_def]])
qed

lemma connect_ends:
  assumes "cooperative env" "switchable v106 m"
  shows "ends_ok (run_group env) env (connectReplicasToNewPrimary domain v106 m) (\<lambda>_. True)"
proof -
  from assms(2) obtain cur where cur: "ms_CurrentPrimaryPodIndex (m_Status m) = Some cur" by (rule switchableD)
  show ?thesis
    unfolding connectReplicasToNewPrimary_def cur option.case
    by (rule joinFirst_ends) (auto simp: replicaIndexes_def intro!: connectReplica_ends assms)
qed

lemma change_ends:
  assumes "cooperative env" "switchable v106 m"
  shows "ends_ok rg env (changePrimaryToReplica domain v106 m) (\<lambda>_. True)"
proof -
  from assms(2) obtain cur b where cur: "ms_CurrentPrimaryPodIndex (m_Status m) = Some cur"
    and p: "valid_replica m" "v106 (sp_Image (m_Spec m)) = Inr b" by (rule switchableD)
  show ?thesis
    unfolding changePrimaryToReplica_def cur option.case
    by (rule ifPrimaryReady_ends [OF assms], rule ends_try)
      (auto intro!: ends_ctxP execSql_ends ConfigureReplica_ends assms p)
qed

subsection \<open>The whole switchover\<close>

lemma runPhase_ends:
  "ends_ok rg env (snd p m) (\<lambda>_. True) \<Longrightarrow> ends_ok rg env (runPhase m p) (\<lambda>_. True)"
  unfolding runPhase_def ends_ok_def
  by (erule ends_bindP) (auto simp: phase_error_def split: sum.splits)

lemma phases_end:
  assumes "cooperative env" "switchable v106 m" "p \<in> set (phases domain v106)"
  shows "ends_ok (run_group env) env (snd p m) (\<lambda>_. True)"
  using assms(3) lock_ends [OF assms(1,2)] read_only_ends [OF assms(1,2)] wait_ends [OF assms(1,2)]
    configureNewPrimary_ends [OF assms(1,2)] connect_ends [OF assms(1,2)] change_ends [OF assms(1,2)]
  by (auto simp: phases_def)

lemma patchStatus_ends:
  assumes "cooperative env"
  shows "ends rg env (patchStatus m f) (\<lambda>x. x = (m\<lparr>m_Status := f (m_Status m)\<rparr>, Inr ()))"
proof -
  let ?m = "m\<lparr>m_Status := f (m_Status m)\<rparr>"
  have "ends rg env (ask as_mariadb (PatchStatus ?m)) (\<lambda>x. x = Inr ?m)"
    by (rule ends_ask [OF assms]) simp
  then show ?thesis unfolding patchStatus_def Let_def by (rule ends_bindP) simp
qed

lemma switchable_switching [simp]: "switchable v106 (switchingPatch M m) \<longleftrightarrow> switchable v106 m"
  by (simp add: switchable_def switchingPatch_def SetPrimarySwitching_def MariaDBStatus_SetCondition_def
      set_conditions_def valid_replica_def replicaOf_def primaryPodIndex_def primaryOf_def MariaDB_Replication_def Let_def
      split: option.split)

lemma gtid_reached_switching: "gtid_reached (switchingPatch M m) g i t \<longleftrightarrow> gtid_reached m g i t"
  by (simp add: gtid_reached_def replicaOf_def MariaDB_Replication_def switchingPatch_def)

lemma switching_cur [simp]:
  "ms_CurrentPrimaryPodIndex (m_Status (switchingPatch M m)) = ms_CurrentPrimaryPodIndex (m_Status m)"
  "m_Spec (switchingPatch M m) = m_Spec m"
  by (simp_all add: switchingPatch_def SetPrimarySwitching_def MariaDBStatus_SetCondition_def set_conditions_def Let_def)

lemma shouldReconcileSwitchover_switching:
  assumes "meta_ok M"
  shows "shouldReconcileSwitchover M (switchingPatch M m) \<longleftrightarrow> shouldReconcileSwitchover M m"
proof -
  have c: "FindStatusCondition M (m_Conditions (switchingPatch M m)) ty = FindStatusCondition M (m_Conditions m) ty"
    if "ty \<noteq> ''PrimarySwitched''" "ty \<noteq> ''Ready''" for ty
    using that mdb_status.look_set [OF assms]
    by (simp add: switchingPatch_def SetPrimarySwitching_def Let_def mdb_status.look_def)
  have "IsStatusConditionFalse M (m_Conditions (switchingPatch M m)) ty \<longleftrightarrow> IsStatusConditionFalse M (m_Conditions m) ty"
    if "ty \<noteq> ''PrimarySwitched''" "ty \<noteq> ''Ready''" for ty
    using mdb_status.look_false [OF assms] c [OF that] by (simp add: mdb_status.look_def)
  moreover have "primaryPodIndex (switchingPatch M m) = primaryPodIndex m"
    by (simp add: primaryPodIndex_def primaryOf_def MariaDB_Replication_def)
  moreover have "ms_ReplicationStatus (m_Status (switchingPatch M m)) = ms_ReplicationStatus (m_Status m)"
    by (simp add: switchingPatch_def SetPrimarySwitching_def MariaDBStatus_SetCondition_def set_conditions_def Let_def)
  ultimately show ?thesis
    by (simp add: shouldReconcileSwitchover_def IsRestoringBackup_def IsResizingStorage_def IsMaxScaleEnabled_def
        MariaDB_HasConfiguredReplica_def split: option.split)
qed

lemma switchover_ends:
  assumes "cooperative env" "switchable v106 mdb" "shouldReconcileSwitchover M mdb"
  shows "ends (run_group env) env (reconcileSwitchover M domain v106 mdb)
    (\<lambda>x. x = (switchedPatch M (primaryPodIndex mdb) (switchingPatch M mdb), Inr ()))"
proof -
  let ?m = "switchingPatch M mdb"
  have ph: "ends_ok (run_group env) env (seqP (map (runPhase ?m) (phases domain v106))) (\<lambda>_. True)"
    by (rule ends_seqP) (auto intro!: runPhase_ends phases_end assms(1,2))
  have mark: "ends (run_group env) env (markSwitched M (primaryPodIndex mdb) ?m)
      (\<lambda>x. x = (switchedPatch M (primaryPodIndex mdb) ?m, Inr ()))"
    unfolding markSwitched_def by (rule ends_bindP [OF patchStatus_ends [OF assms(1)]]) (simp add: switchedPatch_def)
  have "ends (run_group env) env (runPhases M domain v106 (primaryPodIndex mdb) ?m)
      (\<lambda>x. x = (switchedPatch M (primaryPodIndex mdb) ?m, Inr ()))"
    unfolding runPhases_def by (rule ends_bindP [OF ph [unfolded ends_ok_def]]) (auto intro: mark split: sum.splits)
  then show ?thesis
    using assms(3) unfolding reconcileSwitchover_def Let_def
    by (auto intro!: ends_bindP [OF patchStatus_ends [OF assms(1)]] simp: switchingPatch_def)
qed

text \<open>
  C4: a switchover completes. When a switchover is due, the current and the desired primary are among
  the replicas, the replica section is one the admission webhook accepts and the image's version can
  be read, then against an API server that stores what it is sent and databases that answer, whether the
  old primary is ready or not, with replicas that reach the GTID, \<^verbatim>\<open>reconcileSwitchover\<close> returns no error and leaves
  the desired index as the current primary, no longer switching and with the spec unchanged; the
  next reconciliation finds nothing to switch.
\<close>

theorem switchover_completes:
  assumes "meta_ok M" "cooperative env" "switchable v106 mdb" "shouldReconcileSwitchover M mdb"
  shows "\<exists>t m'. go_run env (reconcileSwitchover M domain v106 mdb) = Some (t, (m', Inr ())) \<and>
    ms_CurrentPrimaryPodIndex (m_Status m') = Some (primaryPodIndex mdb) \<and> m_Spec m' = m_Spec mdb \<and>
    \<not> IsSwitchingPrimary M m' \<and> \<not> shouldReconcileSwitchover M m'"
proof -
  let ?m = "switchedPatch M (primaryPodIndex mdb) (switchingPatch M mdb)"
  obtain t where "go_run env (reconcileSwitchover M domain v106 mdb) = Some (t, (?m, Inr ()))"
    using switchover_ends [OF assms(2-4)] unfolding ends_def go_run_def by blast
  moreover have spec: "m_Spec ?m = m_Spec mdb"
    by (simp add: switchedPatch_def switchingPatch_def)
  moreover have "primaryPodIndex ?m = primaryPodIndex mdb"
    using spec by (simp add: primaryPodIndex_def primaryOf_def MariaDB_Replication_def)
  ultimately show ?thesis
    using switchedPatch_status [OF assms(1)] by (auto simp: shouldReconcileSwitchover_def)
qed

text \<open>
  C34: a failed read of the primary's GTID goes unnoticed. \<^verbatim>\<open>SystemVariable\<close> returns the empty string and
  no error when its query fails, so a switchover with ready Pods during which every such query fails
  completes all the same, and what every replica has been waited for is the empty GTID, which is reached at once: the new
  primary is opened for writes without any guarantee that it has the old one's transactions.
\<close>

theorem switchover_ignores_gtid_error:
  assumes "cooperative env" "\<forall>h i v. isl (as_text (env h (Sql i (SystemVariable v))))"
    and "\<forall>h k pod. as_pod (env h (GetPod k)) = Inr pod \<longrightarrow> PodReady pod"
    and "switchable v106 mdb" "shouldReconcileSwitchover M mdb"
  shows "\<exists>t m' cur. go_run env (reconcileSwitchover M domain v106 mdb) = Some (t, (m', Inr ())) \<and>
    ms_CurrentPrimaryPodIndex (m_Status mdb) = Some cur \<and>
    (\<forall>i. 0 \<le> i \<and> i < m_Replicas mdb \<and> i \<noteq> cur \<longrightarrow> gtid_reached mdb '''' i t)"
proof -
  obtain t m' where run: "go_run env (reconcileSwitchover M domain v106 mdb) = Some (t, (m', Inr ()))"
    using switchover_ends [OF assms(1,4,5)] unfolding ends_def go_run_def by blast
  have ex: "go_exec (reconcileSwitchover M domain v106 mdb) t (m', Inr ())" using run by (rule go_run_exec)
  have env: "\<exists>h. r = env h c" if "(c, r) \<in> set t" for c r
    using go_run_answered [OF run] that by (auto simp: answered_def)
  from switchover_opens [OF ex assms(5)] obtain pre e post where t: "t = pre @ e # post" "writable (fst e)" by blast
  from switchover_safe_run [OF ex [unfolded t(1)] t(2)] obtain r server pre' cur
    where pre: "pre = (PatchStatus (switchingPatch M mdb), r) # pre'" "as_mariadb r = Inr server"
      and cur: "ms_CurrentPrimaryPodIndex (m_Status server) = Some cur" and f: "fenced server cur pre'" by blast
  have sub: "set pre' \<subseteq> set t" using t pre by auto
  have goods: "good c r" if "(c, r) \<in> set t" for c r
    using env [OF that] assms(1) unfolding cooperative_def by blast
  moreover have "(PatchStatus (switchingPatch M mdb), r) \<in> set t" using pre(1) t(1) by simp
  ultimately have "good (PatchStatus (switchingPatch M mdb)) r" by blast
  with pre(2) have server: "server = switchingPatch M mdb" by simp
  have "\<not> seen_unready server cur pre'"
  proof
    assume "seen_unready server cur pre'"
    then obtain r' pod where "(GetPod (podKey server cur), r') \<in> set t" "as_pod r' = Inr pod" "\<not> PodReady pod"
      using sub by (auto simp: seen_unready_def)
    with env [OF this(1)] assms(3) show False by blast
  qed
  with f obtain g where g: "read_gtid cur pre' g"
    and all: "\<forall>i. 0 \<le> i \<and> i < m_Replicas server \<and> i \<noteq> cur \<longrightarrow> gtid_reached server g i pre'"
    by (auto simp: fenced_def)
  have "g = ''''"
  proof -
    from g obtain r' where r': "(Sql cur (SystemVariable ''gtid_binlog_pos''), r') \<in> set t"
      "g = (case as_text r' of Inl e \<Rightarrow> '''' | Inr v \<Rightarrow> v)" using sub by (auto simp: read_gtid_def)
    from env [OF r'(1)] assms(2) have "isl (as_text r')" by blast
    with r'(2) show ?thesis by (auto simp: isl_def)
  qed
  with all server cur run gtid_reached_mono [OF _ sub] show ?thesis
    by (auto simp: gtid_reached_switching)
qed

subsection \<open>A concrete switchover\<close>

text \<open>Two replicas, the primary to move from index 0 to index 1, and an environment in which every
  call succeeds.\<close>

definition switchoverMariaDB :: MariaDB where
  "switchoverMariaDB = exampleMariaDB
     \<lparr>m_Spec := exampleSpec\<lparr>sp_Replicas := 2, sp_Replication := Some (zeroReplication\<lparr>rp_Enabled := True,
         rp_Primary := Some \<lparr>pr_PodIndex = Some 1, pr_AutomaticFailover = None, pr_AutomaticFailoverDelay = None\<rparr>\<rparr>)\<rparr>,
      m_Status := exampleStatus\<lparr>ms_CurrentPrimaryPodIndex := Some 0,
         ms_ReplicationStatus := Some [(''mdb-1'', ReplicationStateSlave)]\<rparr>\<rparr>"

definition readyPod :: "NamespacedName \<Rightarrow> Pod" where
  "readyPod k = \<lparr>pod_Name = nn_Name k, pod_Namespace = nn_Namespace k, pod_Labels = [],
     pod_Annotations = [], pod_NodeName = ''node'',
     pod_Phase = ''Running'', pod_Conditions = [(''Ready'', ConditionTrue)]\<rparr>"

fun okEnv :: "call list \<Rightarrow> call \<Rightarrow> answer" where
  "okEnv h (GetPod k) = APod (Inr (readyPod k))"
| "okEnv h (PatchStatus m) = AMariaDB (Inr m)"
| "okEnv h (Sql i (SystemVariable v)) = AText (Inr ''0-10-5'')"
| "okEnv h (Sql i (MasterGtidWait g n)) = AInt (Inr 0)"
| "okEnv h (Sql i (UserExists u k)) = AInt (Inr 1)"
| "okEnv h (ReconcilePassword k s b) = AText (Inr ''secret'')"
| "okEnv h (SecretKeyRef k s) = AText (Inr ''secret'')"
| "okEnv h _ = AUnit (Inr ())"

lemma okEnv_cooperative: "cooperative okEnv"
  unfolding cooperative_def
proof (intro allI)
  fix h c show "good c (okEnv h c)"
  proof (cases c)
    case (Sql i s)
    then show ?thesis by (cases s) auto
  qed (auto simp: readyPod_def PodReady_def PodReadyCondition_def)
qed

lemma switchoverMariaDB_ready:
  "switchable (\<lambda>_. Inr True) switchoverMariaDB" "shouldReconcileSwitchover list_meta switchoverMariaDB"
proof -
  have p: "primaryPodIndex switchoverMariaDB = 1"
    by (simp add: switchoverMariaDB_def replication_defs PrimaryReplication_FillWithDefaults_def)
  show "switchable (\<lambda>_. Inr True) switchoverMariaDB"
    using p by (simp add: switchable_def valid_replica_def switchoverMariaDB_def replication_defs
        ReplicaReplication_Validate_def WaitPoint_Validate_def Gtid_Validate_def example_defs)
  show "shouldReconcileSwitchover list_meta switchoverMariaDB"
    using p by (simp add: shouldReconcileSwitchover_def switchoverMariaDB_def example_defs
        IsMaxScaleEnabled_def IsRestoringBackup_def IsResizingStorage_def MariaDB_HasConfiguredReplica_def
        ReplicationStatus_HasConfiguredReplica_def list_meta_def find_condition_def)
qed

theorem switchover_completes_witness:
  "\<exists>t m'. go_run okEnv (reconcileSwitchover list_meta ''cluster.local'' (\<lambda>_. Inr True) switchoverMariaDB) =
      Some (t, (m', Inr ())) \<and> \<not> shouldReconcileSwitchover list_meta m'"
  using switchover_completes [OF meta_ok_list_meta okEnv_cooperative switchoverMariaDB_ready] by blast

definition gtidFailEnv :: "call list \<Rightarrow> call \<Rightarrow> answer" where
  "gtidFailEnv h c = (case c of Sql i (SystemVariable v) \<Rightarrow> AText (Inl (ErrExt ''connection lost'')) | _ \<Rightarrow> okEnv h c)"

lemma gtidFailEnv_cooperative: "cooperative gtidFailEnv"
proof -
  have "good c (okEnv h c)" for h c using okEnv_cooperative by (auto simp: cooperative_def)
  moreover have "gtidFailEnv h c = okEnv h c \<or> (\<exists>i v. c = Sql i (SystemVariable v))" for h c
    by (auto simp: gtidFailEnv_def split: call.split sql_stmt.split)
  ultimately show ?thesis unfolding cooperative_def by (metis good.simps(6))
qed

theorem switchover_ignores_gtid_error_witness:
  "\<exists>t m'. go_run gtidFailEnv (reconcileSwitchover list_meta ''cluster.local'' (\<lambda>_. Inr True) switchoverMariaDB) =
     Some (t, (m', Inr ())) \<and> gtid_reached switchoverMariaDB '''' 1 t"
proof -
  have "\<forall>h i v. isl (as_text (gtidFailEnv h (Sql i (SystemVariable v))))"
    by (simp add: gtidFailEnv_def)
  moreover have "\<forall>h k pod. as_pod (gtidFailEnv h (GetPod k)) = Inr pod \<longrightarrow> PodReady pod"
    by (simp add: gtidFailEnv_def readyPod_def PodReady_def PodReadyCondition_def)
  note switchover_ignores_gtid_error [OF gtidFailEnv_cooperative calculation this switchoverMariaDB_ready]
  then
  obtain t m' cur where *: "go_run gtidFailEnv (reconcileSwitchover list_meta ''cluster.local'' (\<lambda>_. Inr True)
       switchoverMariaDB) = Some (t, (m', Inr ()))" "ms_CurrentPrimaryPodIndex (m_Status switchoverMariaDB) = Some cur"
     "\<forall>i. 0 \<le> i \<and> i < m_Replicas switchoverMariaDB \<and> i \<noteq> cur \<longrightarrow> gtid_reached switchoverMariaDB '''' i t"
    by blast
  then have "gtid_reached switchoverMariaDB '''' 1 t" by (simp add: switchoverMariaDB_def example_defs)
  with *(1) show ?thesis by blast
qed

lemma switchoverMariaDB_run:
  "\<exists>t m'. go_exec (reconcileSwitchover list_meta ''cluster.local'' (\<lambda>_. Inr True) switchoverMariaDB) t (m', Inr ())"
  using switchover_ends [OF okEnv_cooperative switchoverMariaDB_ready, where domain = "''cluster.local''"]
  unfolding ends_def by (metis go_run_def go_run_exec)

theorem switchover_safe_witness:
  "\<exists>pre e post m' server pre' r. go_exec (reconcileSwitchover list_meta ''cluster.local'' (\<lambda>_. Inr True) switchoverMariaDB)
      (pre @ e # post) (m', Inr ()) \<and> writable (fst e) \<and>
    pre = (PatchStatus (switchingPatch list_meta switchoverMariaDB), r) # pre' \<and>
    fst e = Sql (primaryPodIndex server) DisableReadOnly \<and> (\<exists>cur. fenced server cur pre')"
proof -
  obtain t m' where run: "go_exec (reconcileSwitchover list_meta ''cluster.local'' (\<lambda>_. Inr True) switchoverMariaDB) t (m', Inr ())"
    using switchoverMariaDB_run by blast
  from switchover_opens [OF run switchoverMariaDB_ready(2)] obtain pre e post where t: "t = pre @ e # post" "writable (fst e)"
    by blast
  from switchover_safe [OF run [unfolded t(1)] t(2)] run t show ?thesis by blast
qed


theorem ConfigureReplica_safe_witness:
  "\<exists>t. go_exec (ConfigureReplica ''cluster.local'' (\<lambda>_. Inr True) switchoverMariaDB 1 1 0 True :: unit result repl) t (Inr ()) \<and>
    (\<forall>e \<in> set t. \<not> writable (fst e) \<and> on_pod 1 (fst e))"
proof -
  have "valid_replica switchoverMariaDB" "(\<lambda>_. Inr True :: bool result) (sp_Image (m_Spec switchoverMariaDB)) = Inr True"
    using switchoverMariaDB_ready(1) by (simp_all add: switchable_def)
  from ConfigureReplica_ends [OF okEnv_cooperative this] obtain t where
    "go_run okEnv (ConfigureReplica ''cluster.local'' (\<lambda>_. Inr True) switchoverMariaDB 1 1 0 True :: unit result repl) = Some (t, Inr ())"
    unfolding ends_ok_def ends_def go_run_def by (fastforce split: sum.splits)
  then have run: "go_exec (ConfigureReplica ''cluster.local'' (\<lambda>_. Inr True) switchoverMariaDB 1 1 0 True :: unit result repl) t (Inr ())"
    by (rule go_run_exec)
  with ConfigureReplica_safe [OF run] show ?thesis by blast
qed

end
