(* ===== verification/Health.thy ===== *)
theory Health
  imports Operator_Calls
begin

text \<open>
  \<^verbatim>\<open>pkg/health\<close>: is a StatefulSet healthy, and which Pod can take over from the primary. Pods are listed
  by the labels of their owner, so the call carries the owner's key; names of Pods in a namespace are
  distinct, so the unstable sort of the source has one outcome.
\<close>

definition ErrNoHealthyInstancesAvailable :: go_error where
  "ErrNoHealthyInstancesAvailable = ErrNew ''no healthy instances available''"

datatype EndpointPolicy = EndpointPolicyAll | EndpointPolicyAtLeastOne | EndpointPolicyOther string

record HealthOpts =
  ho_DesiredReplicas :: int
  ho_Port :: "int option"
  ho_EndpointPolicy :: "EndpointPolicy option"

type_synonym HealthOpt = "HealthOpts \<Rightarrow> HealthOpts"

definition WithDesiredReplicas :: "int \<Rightarrow> HealthOpt" where
  "WithDesiredReplicas r ho = ho\<lparr>ho_DesiredReplicas := r\<rparr>"

definition WithPort :: "int \<Rightarrow> HealthOpt" where
  "WithPort p ho = ho\<lparr>ho_Port := Some p\<rparr>"

definition WithEndpointPolicy :: "EndpointPolicy \<Rightarrow> HealthOpt" where
  "WithEndpointPolicy e ho = ho\<lparr>ho_EndpointPolicy := Some e\<rparr>"

definition ignoring :: "go_error \<Rightarrow> bool result" where
  "ignoring e = (case IgnoreNotFound e of None \<Rightarrow> Inr False | Some e' \<Rightarrow> Inl e')"

definition readyEndpoints :: "EndpointSlice \<Rightarrow> int" where
  "readyEndpoints s = int (length (filter (\<lambda>r. Deref r False) (es_Ready s)))"

text \<open>The loop over the slices: the first one with the port decides.\<close>

fun checkSlices :: "int \<Rightarrow> EndpointPolicy \<Rightarrow> int \<Rightarrow> EndpointSlice list \<Rightarrow> bool result" where
  "checkSlices port policy desired [] = Inr False"
| "checkSlices port policy desired (s # slices) =
     (if Some port \<notin> set (es_Ports s) then checkSlices port policy desired slices
      else case policy of
        EndpointPolicyAll \<Rightarrow> Inr (readyEndpoints s = desired)
      | EndpointPolicyAtLeastOne \<Rightarrow> Inr (readyEndpoints s > 0)
      | EndpointPolicyOther _ \<Rightarrow> Inl (ErrNew ''unsupported EndpointPolicy''))"

definition IsStatefulSetHealthy :: "NamespacedName \<Rightarrow> HealthOpt list \<Rightarrow> ('g, 'u, bool result) op" where
  "IsStatefulSetHealthy serviceKey opts =
     bindP (ask as_sts (GetStatefulSet serviceKey)) (\<lambda>x. case x of
       Inl e \<Rightarrow> Ret (ignoring e)
     | Inr sts \<Rightarrow>
         let healthOpts = applyOpts opts \<lparr>ho_DesiredReplicas = sts_Spec_Replicas sts, ho_Port = None,
               ho_EndpointPolicy = Some EndpointPolicyAll\<rparr>
         in if sts_ReadyReplicas sts \<noteq> ho_DesiredReplicas healthOpts then Ret (Inr False)
            else case (ho_Port healthOpts, ho_EndpointPolicy healthOpts) of
              (Some port, Some policy) \<Rightarrow>
                bindP (ask as_slices (ListEndpointSlices serviceKey)) (\<lambda>y. case y of
                  Inl e \<Rightarrow> Ret (ignoring e)
                | Inr slices \<Rightarrow> Ret (checkSlices port policy (ho_DesiredReplicas healthOpts) slices))
            | _ \<Rightarrow> Ret (Inr True))"

subsection \<open>Pods that can take over\<close>

definition sortPodList :: "Pod list \<Rightarrow> Pod list" where
  "sortPodList items = sort_key pod_Name items"

fun firstHealthy :: "int \<Rightarrow> (Pod \<Rightarrow> bool) \<Rightarrow> Pod list \<Rightarrow> int result" where
  "firstHealthy cur isHealthy [] = Inl ErrNoHealthyInstancesAvailable"
| "firstHealthy cur isHealthy (p # ps) =
     and_then (with_ctx ''error getting index for Pod'' (PodIndex (pod_Name p))) (\<lambda>index.
       if index = cur then firstHealthy cur isHealthy ps
       else if isHealthy p then Inr index
       else firstHealthy cur isHealthy ps)"

definition secondaryPodHealthyIndex :: "MariaDB \<Rightarrow> (Pod \<Rightarrow> bool) \<Rightarrow> ('g, 'u, int result) op" where
  "secondaryPodHealthyIndex mariadb isHealthy =
     (case ms_CurrentPrimaryPodIndex (m_Status mariadb) of
        None \<Rightarrow> Ret (Inl (ErrNew ''status.currentPrimaryPodIndex must be set''))
      | Some cur \<Rightarrow>
          tryP (ctxP ''error listing Pods'' (ask as_pods (ListPods (keyOf mariadb))))
            (\<lambda>items. Ret (firstHealthy cur isHealthy (sortPodList items))))"

definition SecondaryPodHealthyIndex :: "MariaDB \<Rightarrow> ('g, 'u, int result) op" where
  "SecondaryPodHealthyIndex mariadb = secondaryPodHealthyIndex mariadb PodReady"

definition ReplicaPodHealthyIndex :: "MariaDB \<Rightarrow> ('g, 'u, int result) op" where
  "ReplicaPodHealthyIndex mariadb =
     secondaryPodHealthyIndex mariadb (\<lambda>p. PodReady p \<and> MariaDB_IsConfiguredReplica mariadb (pod_Name p))"

fun firstReadyIndex :: "Pod list \<Rightarrow> int result" where
  "firstReadyIndex [] = Inl ErrNoHealthyInstancesAvailable"
| "firstReadyIndex (p # ps) =
     and_then (with_ctx ''error getting index for Pod'' (PodIndex (pod_Name p))) (\<lambda>index.
       if PodReady p then Inr index else firstReadyIndex ps)"

definition HealthyMaxScalePod :: "NamespacedName \<Rightarrow> ('g, 'u, int result) op" where
  "HealthyMaxScalePod maxscale =
     tryP (ctxP ''error listing Pods'' (ask as_pods (ListMaxScalePods maxscale)))
       (\<lambda>items. Ret (firstReadyIndex (sortPodList items)))"

definition IsServiceHealthy :: "NamespacedName \<Rightarrow> ('g, 'u, bool result) op" where
  "IsServiceHealthy serviceKey =
     bindP (ask as_slices (ListEndpointSlices serviceKey)) (\<lambda>y. case y of
       Inl e \<Rightarrow> Ret (ignoring e)
     | Inr slices \<Rightarrow> Ret (Inr (list_ex (\<lambda>s. readyEndpoints s > 0) slices)))"

subsection \<open>Laws\<close>

lemma firstHealthy_ok:
  "firstHealthy cur isHealthy ps = Inr i \<Longrightarrow>
     i \<noteq> cur \<and> (\<exists>p \<in> set ps. PodIndex (pod_Name p) = Inr i \<and> isHealthy p)"
  by (induction ps) (auto split: if_splits)

lemma firstHealthy_first:
  "firstHealthy cur isHealthy ps = Inr i \<Longrightarrow>
     \<exists>us p vs. ps = us @ p # vs \<and> PodIndex (pod_Name p) = Inr i \<and> isHealthy p \<and>
       (\<forall>u \<in> set us. PodIndex (pod_Name u) = Inr cur \<or> \<not> isHealthy u)"
proof (induction ps)
  case (Cons p ps)
  then obtain k where k: "PodIndex (pod_Name p) = Inr k" by auto
  show ?case
  proof (cases "k = cur \<or> \<not> isHealthy p")
    case True
    with Cons k obtain us q vs where "ps = us @ q # vs" "PodIndex (pod_Name q) = Inr i" "isHealthy q"
      "\<forall>u \<in> set us. PodIndex (pod_Name u) = Inr cur \<or> \<not> isHealthy u" by (auto split: if_splits)
    with True k have "p # ps = (p # us) @ q # vs \<and> PodIndex (pod_Name q) = Inr i \<and> isHealthy q \<and>
      (\<forall>u \<in> set (p # us). PodIndex (pod_Name u) = Inr cur \<or> \<not> isHealthy u)" by auto
    then show ?thesis by blast
  next
    case False
    with Cons.prems k have "p # ps = [] @ p # ps \<and> PodIndex (pod_Name p) = Inr i \<and> isHealthy p" by simp
    then show ?thesis by (metis empty_iff list.set(1))
  qed
qed simp

lemma firstHealthy_complete:
  assumes "\<forall>p \<in> set ps. \<exists>k. PodIndex (pod_Name p) = Inr k"
  shows "(\<exists>i. firstHealthy cur isHealthy ps = Inr i) \<longleftrightarrow>
    (\<exists>p \<in> set ps. PodIndex (pod_Name p) \<noteq> Inr cur \<and> isHealthy p)"
  using assms
proof (induction ps)
  case (Cons p ps)
  then obtain k where "PodIndex (pod_Name p) = Inr k" by auto
  with Cons show ?case by (cases "k = cur \<or> \<not> isHealthy p") auto
qed simp

lemma firstHealthy_sorted:
  assumes "firstHealthy cur isHealthy (sortPodList items) = Inr i"
  shows "i \<noteq> cur \<and> (\<exists>p \<in> set items. PodIndex (pod_Name p) = Inr i \<and> isHealthy p \<and>
    (\<forall>q \<in> set items. pod_Name q < pod_Name p \<longrightarrow> PodIndex (pod_Name q) = Inr cur \<or> \<not> isHealthy q))"
proof -
  from firstHealthy_first [OF assms] obtain us p vs where l: "sortPodList items = us @ p # vs"
    and p: "PodIndex (pod_Name p) = Inr i" "isHealthy p" and us: "\<forall>u \<in> set us. PodIndex (pod_Name u) = Inr cur \<or> \<not> isHealthy u"
    by blast
  have s: "set (sortPodList items) = set items" by (simp add: sortPodList_def)
  have "sorted (map pod_Name (us @ p # vs))" using l by (metis sortPodList_def sorted_sort_key)
  then have later: "\<forall>v \<in> set vs. pod_Name p \<le> pod_Name v" by (simp add: sorted_append)
  have "q \<in> set us" if "q \<in> set items" "pod_Name q < pod_Name p" for q
    using that later s l by (metis Un_iff insert_iff list.set(2) not_le order_less_irrefl set_append)
  moreover have "p \<in> set items" using l s by (metis in_set_conv_decomp)
  ultimately show ?thesis using us p firstHealthy_ok [OF assms] by blast
qed

lemma exec_secondary_iff:
  "exec grp (secondaryPodHealthyIndex m isHealthy) t (Inr i) \<longleftrightarrow>
     (\<exists>cur r items. ms_CurrentPrimaryPodIndex (m_Status m) = Some cur \<and> t = [(ListPods (keyOf m), r)] \<and>
       as_pods r = Inr items \<and> firstHealthy cur isHealthy (sortPodList items) = Inr i)"
  by (auto simp: secondaryPodHealthyIndex_def exec_tryP_Inr eq_commute [of "Inr i"] split: option.splits)

lemmas exec_secondary = exec_secondary_iff [THEN iffD1]

lemma all_calls_secondary:
  "P (ListPods (keyOf m)) \<Longrightarrow> all_calls G P (secondaryPodHealthyIndex m isHealthy)"
  by (auto simp: secondaryPodHealthyIndex_def intro!: all_calls_tryP all_calls_ctxP split: option.split)


lemma exec_IsStatefulSetHealthy:
  "exec grp (IsStatefulSetHealthy key [WithDesiredReplicas n, WithPort p, WithEndpointPolicy pol]) t (Inr True) \<longleftrightarrow>
    (\<exists>r1 r2 sts slices s. t = [(GetStatefulSet key, r1), (ListEndpointSlices key, r2)] \<and>
      as_sts r1 = Inr sts \<and> sts_ReadyReplicas sts = n \<and> as_slices r2 = Inr slices \<and>
      find (\<lambda>s. Some p \<in> set (es_Ports s)) slices = Some s \<and>
      (pol = EndpointPolicyAll \<and> readyEndpoints s = n \<or> pol = EndpointPolicyAtLeastOne \<and> readyEndpoints s > 0))"
proof -
  have "checkSlices p pol n slices = Inr True \<longleftrightarrow>
      (\<exists>s. find (\<lambda>s. Some p \<in> set (es_Ports s)) slices = Some s \<and>
        (pol = EndpointPolicyAll \<and> readyEndpoints s = n \<or> pol = EndpointPolicyAtLeastOne \<and> readyEndpoints s > 0))" for slices
    by (induction slices) (auto split: EndpointPolicy.splits)
  moreover have "\<not> ignoring e = Inr True" for e
    by (auto simp: ignoring_def split: option.split)
  ultimately show ?thesis
    unfolding IsStatefulSetHealthy_def exec_ask_bind exec_case_sum
    by (auto simp: Let_def applyOpts_def WithDesiredReplicas_def WithPort_def WithEndpointPolicy_def exec_ask_bind
        exec_case_sum eq_commute [of "Inr True"])
qed

text \<open>
  C32: the health of a StatefulSet as the replication controller asks for it. The answer is yes exactly
  when the StatefulSet was read with as many ready replicas as desired, the endpoint slices of its
  service were read, and the first slice that has the port satisfies the policy; in all other cases,
  missing objects included, the answer is no or an error.
\<close>

theorem IsStatefulSetHealthy_iff:
  "exec grp (IsStatefulSetHealthy key [WithDesiredReplicas n, WithPort p, WithEndpointPolicy pol]) t (Inr True) \<longleftrightarrow>
    (\<exists>r1 r2 sts slices s. t = [(GetStatefulSet key, r1), (ListEndpointSlices key, r2)] \<and>
      as_sts r1 = Inr sts \<and> sts_ReadyReplicas sts = n \<and> as_slices r2 = Inr slices \<and>
      find (\<lambda>s. Some p \<in> set (es_Ports s)) slices = Some s \<and>
      (pol = EndpointPolicyAll \<and> readyEndpoints s = n \<or> pol = EndpointPolicyAtLeastOne \<and> readyEndpoints s > 0))"
  by (rule exec_IsStatefulSetHealthy)

text \<open>
  The Pod chosen to take over from the primary. It is not the current primary, it was listed, is
  ready and is a configured replica, and every listed Pod whose name sorts before it is the primary or
  not eligible.
\<close>

theorem ReplicaPodHealthyIndex_correct:
  assumes "exec grp (ReplicaPodHealthyIndex m) t (Inr i)"
  shows "\<exists>cur r items p. ms_CurrentPrimaryPodIndex (m_Status m) = Some cur \<and> i \<noteq> cur \<and>
    t = [(ListPods (keyOf m), r)] \<and> as_pods r = Inr items \<and> p \<in> set items \<and> PodIndex (pod_Name p) = Inr i \<and>
    PodReady p \<and> MariaDB_IsConfiguredReplica m (pod_Name p) \<and>
    (\<forall>q \<in> set items. pod_Name q < pod_Name p \<longrightarrow>
       PodIndex (pod_Name q) = Inr cur \<or> \<not> (PodReady q \<and> MariaDB_IsConfiguredReplica m (pod_Name q)))"
  using firstHealthy_sorted [of _ "\<lambda>p. PodReady p \<and> MariaDB_IsConfiguredReplica m (pod_Name p)"]
    exec_secondary [OF assms [unfolded ReplicaPodHealthyIndex_def]] by blast

definition listedPod :: "string \<Rightarrow> Pod" where
  "listedPod n = \<lparr>pod_Name = n, pod_Namespace = ''ns'', pod_Labels = [], pod_Annotations = [], pod_NodeName = ''node'',
     pod_Phase = ''Running'', pod_Conditions = [(''Ready'', ConditionTrue)]\<rparr>"

definition replicaMariaDB :: MariaDB where
  "replicaMariaDB = exampleMariaDB\<lparr>m_Status := exampleStatus\<lparr>ms_CurrentPrimaryPodIndex := Some 0,
     ms_ReplicationStatus := Some [(''mdb-0'', ReplicationStateMaster), (''mdb-1'', ReplicationStateSlave)]\<rparr>\<rparr>"

theorem ReplicaPodHealthyIndex_correct_witness:
  "exec no_group (ReplicaPodHealthyIndex replicaMariaDB :: (unit, unit, int result) op)
     [(ListPods (keyOf replicaMariaDB), APods (Inr [listedPod ''mdb-1'', listedPod ''mdb-0'']))] (Inr 1) \<and> (1::int) \<noteq> 0"
proof -
  have "firstHealthy 0 (\<lambda>p. PodReady p \<and> MariaDB_IsConfiguredReplica replicaMariaDB (pod_Name p))
      (sortPodList [listedPod ''mdb-1'', listedPod ''mdb-0'']) = Inr 1"
    by code_simp
  then have "exec no_group (ReplicaPodHealthyIndex replicaMariaDB :: (unit, unit, int result) op)
     [(ListPods (keyOf replicaMariaDB), APods (Inr [listedPod ''mdb-1'', listedPod ''mdb-0'']))] (Inr 1)"
    by (simp add: ReplicaPodHealthyIndex_def exec_secondary_iff) (simp add: replicaMariaDB_def)
  from ReplicaPodHealthyIndex_correct [OF this] this show ?thesis by simp
qed

end
