(* ===== verification/Replication_Controller.thy ===== *)
theory Replication_Controller
  imports Switchover_Live Health
begin

text \<open>
  \<^verbatim>\<open>pkg/controller/replication/controller.go\<close>: the reconciliation of replication. A cluster that is
  switching goes straight to the switchover; otherwise a healthy StatefulSet is required, every Pod
  that is not configured yet is configured as the primary or as a replica, and a switchover is
  started when the desired primary is another one.
\<close>

definition NewReplicationClientSet :: "MariaDB \<Rightarrow> unit result" where
  "NewReplicationClientSet mariadb =
     (if \<not> rp_Enabled (MariaDB_Replication mariadb)
      then Inl (ErrNew ''mariadb.spec.replication is required to create a replicationClientSet'') else Inr ())"

definition reconcileReplicationInPod ::
    "string \<Rightarrow> (string \<Rightarrow> bool result) \<Rightarrow> MariaDB \<Rightarrow> int \<Rightarrow> unit result repl" where
  "reconcileReplicationInPod domain v106 mariadb index =
     (case ms_CurrentPrimaryPodIndex (m_Status mariadb) of
        None \<Rightarrow> Ret (Inl nil_dereference)
      | Some primary \<Rightarrow>
          if primary = index
          then tryP (ctxP ''error getting current primary client'' (currentPrimaryClient mariadb))
                 (\<lambda>client. ConfigurePrimary mariadb client index)
          else tryP (ctxP ''error getting replica client'' (ClientForIndex mariadb index))
                 (\<lambda>client. ConfigureReplica domain v106 mariadb client index primary False))"

text \<open>The body of the loop over the Pods.\<close>

definition configurePod :: "string \<Rightarrow> (string \<Rightarrow> bool result) \<Rightarrow> MariaDB \<Rightarrow> int \<Rightarrow> unit result repl" where
  "configurePod domain v106 mariadb i =
     (let pod = PodName (m_ObjectMeta mariadb) i;
          status = ms_ReplicationStatus (m_Status mariadb);
          inPod = ctxP ''error configuring replication in Pod'' (reconcileReplicationInPod domain v106 mariadb i)
      in seqP
        [if status = None then inPod else Ret (Inr ()),
         case map_of (status_entries status) pod of
           None \<Rightarrow> inPod
         | Some state \<Rightarrow> if state = ReplicationStateNotConfigured then inPod else Ret (Inr ())])"

definition reconcileReplication ::
    "meta_api \<Rightarrow> string \<Rightarrow> (string \<Rightarrow> bool result) \<Rightarrow> MariaDB \<Rightarrow> CtrlResult result repl" where
  "reconcileReplication M domain v106 mariadb =
     (if IsSwitchingPrimary M mariadb then Ret (Inr zeroResult)
      else if ms_CurrentPrimaryPodIndex (m_Status mariadb) = None then Ret (Inr (requeueAfter second))
      else tryP (forP (replicaIndexes mariadb) (configurePod domain v106 mariadb)) (\<lambda>_. Ret (Inr zeroResult)))"

text \<open>\<^verbatim>\<open>ctrl.Result{}, r.reconcileSwitchover(...)\<close>\<close>

definition switchoverResult ::
    "meta_api \<Rightarrow> string \<Rightarrow> (string \<Rightarrow> bool result) \<Rightarrow> MariaDB \<Rightarrow> (MariaDB \<times> CtrlResult result) repl" where
  "switchoverResult M domain v106 mdb =
     bindP (reconcileSwitchover M domain v106 mdb)
       (\<lambda>(m, x). Ret (m, case x of Inl e \<Rightarrow> Inl e | Inr _ \<Rightarrow> Inr zeroResult))"

definition healthOpts :: "MariaDB \<Rightarrow> HealthOpt list" where
  "healthOpts mdb = [WithDesiredReplicas (m_Replicas mdb), WithPort (sp_Port (m_Spec mdb)),
     WithEndpointPolicy EndpointPolicyAll]"

text \<open>What follows the health check.\<close>

definition reconcileHealthy ::
    "meta_api \<Rightarrow> string \<Rightarrow> (string \<Rightarrow> bool result) \<Rightarrow> MariaDB \<Rightarrow> (MariaDB \<times> CtrlResult result) repl" where
  "reconcileHealthy M domain v106 mdb =
     (case NewReplicationClientSet mdb of
        Inl e \<Rightarrow> Ret (mdb, Inl (ErrCtx ''error creating mariadb clientset'' e))
      | Inr _ \<Rightarrow>
          bindP (reconcileReplication M domain v106 mdb) (\<lambda>x. case x of
            Inl e \<Rightarrow> Ret (mdb, Inl e)
          | Inr res \<Rightarrow> if res \<noteq> zeroResult then Ret (mdb, Inr res) else switchoverResult M domain v106 mdb))"

definition Reconcile ::
    "meta_api \<Rightarrow> string \<Rightarrow> (string \<Rightarrow> bool result) \<Rightarrow> MariaDB \<Rightarrow> (MariaDB \<times> CtrlResult result) repl" where
  "Reconcile M domain v106 mdb =
     (if \<not> rp_Enabled (MariaDB_Replication mdb) then Ret (mdb, Inr zeroResult)
      else if \<not> IsMaxScaleEnabled mdb \<and> IsSwitchingPrimary M mdb
      then (case NewReplicationClientSet mdb of
              Inl e \<Rightarrow> Ret (mdb, Inl (ErrCtx ''error creating mariadb clientset'' e))
            | Inr _ \<Rightarrow> switchoverResult M domain v106 mdb)
      else bindP (IsStatefulSetHealthy (keyOf mdb) (healthOpts mdb)) (\<lambda>h. case h of
             Inl e \<Rightarrow> Ret (mdb, Inl (ErrCtx ''error checking MariaDB health'' e))
           | Inr healthy \<Rightarrow>
               if \<not> healthy then Ret (mdb, Inr (requeueAfter second))
               else reconcileHealthy M domain v106 mdb))"

subsection \<open>Who may be opened for writes\<close>

text \<open>The Pod has no entry in the replication status or one that says it is not configured.\<close>

definition unconfigured :: "MariaDB \<Rightarrow> int \<Rightarrow> bool" where
  "unconfigured m i \<longleftrightarrow>
     map_of (status_entries (ms_ReplicationStatus (m_Status m))) (PodName (m_ObjectMeta m) i)
       \<in> {None, Some ReplicationStateNotConfigured}"

lemma quiet_event: "go_exec p t y \<Longrightarrow> go_calls quiet p \<Longrightarrow> e \<in> set t \<Longrightarrow> \<not> writable (fst e)"
  by (drule (1) go_exec_calls) (auto simp: quiet_def)

lemma currentPrimaryClient_quiet: "go_calls quiet (ctxP msg (currentPrimaryClient m))"
  unfolding currentPrimaryClient_def by (auto split: option.split intro!: all_calls_ctxP ClientForIndex_calls)

lemma ConfigurePrimary_event:
  assumes "go_exec (ConfigurePrimary m c i) t x" "e \<in> set t" "writable (fst e)"
  shows "fst e = Sql c DisableReadOnly"
  using go_exec_calls [OF assms(1) ConfigurePrimary_opens] assms(2,3) by (auto simp: quiet_def)

lemma currentPrimaryClient_ok:
  "exec grp (currentPrimaryClient m) t (Inr c) \<Longrightarrow> ms_CurrentPrimaryPodIndex (m_Status m) = Some c"
  by (auto simp: currentPrimaryClient_def dest: exec_ClientForIndex_ok split: option.splits)

lemma reconcileReplicationInPod_writable:
  assumes "go_exec (reconcileReplicationInPod domain v106 m i) t x" "e \<in> set t" "writable (fst e)"
  shows "ms_CurrentPrimaryPodIndex (m_Status m) = Some i \<and> fst e = Sql i DisableReadOnly"
proof (cases "ms_CurrentPrimaryPodIndex (m_Status m) = Some i")
  case True
  then have "go_exec (tryP (ctxP ''error getting current primary client'' (currentPrimaryClient m))
      (\<lambda>client. ConfigurePrimary m client i) :: unit result repl) t x"
    using assms(1) by (simp add: reconcileReplicationInPod_def)
  from exec_tryP_event [OF this assms(2)] obtain t1 t2 c
    where c: "go_exec (ctxP ''error getting current primary client'' (currentPrimaryClient m) :: int result repl) t1 (Inr c)"
      and p: "go_exec (ConfigurePrimary m c i :: unit result repl) t2 x" "e \<in> set t2"
    using quiet_event [OF _ currentPrimaryClient_quiet] assms(3) by blast
  from c True have "c = i" by (auto dest: currentPrimaryClient_ok)
  with ConfigurePrimary_event [OF p assms(3)] True show ?thesis by simp
next
  case False
  then have "go_calls quiet (reconcileReplicationInPod domain v106 m i)"
    unfolding reconcileReplicationInPod_def
    by (auto split: option.split intro!: all_calls_tryP all_calls_ctxP ClientForIndex_calls ConfigureReplica_not_writable)
  from quiet_event [OF assms(1) this assms(2)] assms(3) show ?thesis by blast
qed

lemma configurePod_writable:
  assumes "go_exec (configurePod domain v106 m i) t x" "e \<in> set t" "writable (fst e)"
  shows "ms_CurrentPrimaryPodIndex (m_Status m) = Some i \<and> fst e = Sql i DisableReadOnly \<and> unconfigured m i"
proof -
  let ?inPod = "ctxP ''error configuring replication in Pod'' (reconcileReplicationInPod domain v106 m i)"
  from exec_seqP_event [OF assms(1) [unfolded configurePod_def Let_def] assms(2)] obtain t' y
    where "go_exec ?inPod t' y" "e \<in> set t'" and u: "unconfigured m i"
    by (auto simp: unconfigured_def split: option.splits if_splits)
  then obtain z where "go_exec (reconcileReplicationInPod domain v106 m i) t' z" "e \<in> set t'"
    by (blast dest: exec_ctxP_event)
  from reconcileReplicationInPod_writable [OF this assms(3)] u show ?thesis by blast
qed

lemma reconcileReplication_writable:
  assumes "go_exec (reconcileReplication M domain v106 m) t x" "e \<in> set t" "writable (fst e)"
  shows "\<not> IsSwitchingPrimary M m \<and> (\<exists>cur. ms_CurrentPrimaryPodIndex (m_Status m) = Some cur \<and> 0 \<le> cur \<and> cur < m_Replicas m \<and>
    fst e = Sql cur DisableReadOnly \<and> unconfigured m cur)"
proof -
  from assms(1,2) have ns: "\<not> IsSwitchingPrimary M m"
    and run: "go_exec (tryP (forP (replicaIndexes m) (configurePod domain v106 m)) (\<lambda>_. Ret (Inr zeroResult))) t x"
    by (auto simp: reconcileReplication_def split: if_splits)
  from exec_tryP_event [OF run assms(2)] obtain t1 y
    where "go_exec (forP (replicaIndexes m) (configurePod domain v106 m)) t1 y" "e \<in> set t1" by auto
  from exec_forP_event [OF this] obtain i t' z where i: "i \<in> set (replicaIndexes m)"
    and "go_exec (configurePod domain v106 m i) t' z" "e \<in> set t'" by blast
  from configurePod_writable [OF this(2,3) assms(3)] i ns show ?thesis by (auto simp: replicaIndexes_def)
qed

lemma switchoverResult_writable:
  assumes "go_exec (switchoverResult M domain v106 mdb) (pre @ e # post) (m', x)" "writable (fst e)"
  shows "shouldReconcileSwitchover M mdb \<and>
    (\<exists>r server pre' cur. pre = (PatchStatus (switchingPatch M mdb), r) # pre' \<and> as_mariadb r = Inr server \<and>
      fst e = Sql (primaryPodIndex server) DisableReadOnly \<and>
      ms_CurrentPrimaryPodIndex (m_Status server) = Some cur \<and> fenced server cur pre')"
proof -
  from exec_bindP_split [OF assms(1) [unfolded switchoverResult_def]]
  obtain post' m1 y where "go_exec (reconcileSwitchover M domain v106 mdb) (pre @ e # post') (m1, y)"
    by (auto simp: split_beta)
  from switchover_safe_run [OF this assms(2)] show ?thesis by blast
qed

lemma IsStatefulSetHealthy_quiet: "go_calls quiet (IsStatefulSetHealthy k opts :: bool result repl)"
  unfolding IsStatefulSetHealthy_def Let_def
  by (auto simp: quiet_def patches_status_def intro!: all_calls_bindP split: sum.split option.split)

lemma reconcileHealthy_writable:
  assumes "go_exec (reconcileHealthy M domain v106 mdb) (pre @ e # post) (m', x)" "writable (fst e)"
  shows "(\<not> IsSwitchingPrimary M mdb \<and> (\<exists>cur. ms_CurrentPrimaryPodIndex (m_Status mdb) = Some cur \<and>
        fst e = Sql cur DisableReadOnly \<and> unconfigured mdb cur)) \<or>
    (shouldReconcileSwitchover M mdb \<and>
      (\<exists>pre1 r server pre2 cur. pre = pre1 @ (PatchStatus (switchingPatch M mdb), r) # pre2 \<and> as_mariadb r = Inr server \<and>
        fst e = Sql (primaryPodIndex server) DisableReadOnly \<and>
        ms_CurrentPrimaryPodIndex (m_Status server) = Some cur \<and> fenced server cur pre2))"
proof -
  from assms(1) have "go_exec (bindP (reconcileReplication M domain v106 mdb) (\<lambda>x. case x of
        Inl e \<Rightarrow> Ret (mdb, Inl e)
      | Inr res \<Rightarrow> if res \<noteq> zeroResult then Ret (mdb, Inr res) else switchoverResult M domain v106 mdb)) (pre @ e # post) (m', x)"
    by (auto simp: reconcileHealthy_def split: sum.splits)
  from exec_bindP_split [OF this] show ?thesis
  proof (elim disjE exE conjE)
    fix post' y assume "go_exec (reconcileReplication M domain v106 mdb) (pre @ e # post') y"
    from reconcileReplication_writable [OF this _ assms(2)] show ?thesis by auto
  next
    fix t1 pre2 a assume pre: "pre = t1 @ pre2" and "go_exec (case a of Inl e \<Rightarrow> Ret (mdb, Inl e)
      | Inr res \<Rightarrow> if res \<noteq> zeroResult then Ret (mdb, Inr res) else switchoverResult M domain v106 mdb) (pre2 @ e # post) (m', x)"
    then have "go_exec (switchoverResult M domain v106 mdb) (pre2 @ e # post) (m', x)"
      by (auto split: sum.splits if_splits)
    from switchoverResult_writable [OF this assms(2)] pre show ?thesis by blast
  qed
qed

text \<open>
  C13: who may be opened for writes by the reconciliation of replication. In every run of \<^verbatim>\<open>Reconcile\<close> a
  call that makes a database writable is either the first configuration of the current primary, when no
  switchover is in progress, the Pod is not configured yet and the StatefulSet was found healthy; or a
  step of a switchover that is due, for the desired primary and after the old one was fenced.
\<close>

theorem replication_single_writer:
  assumes "go_exec (Reconcile M domain v106 mdb) (pre @ e # post) (m', x)" "writable (fst e)"
  shows "rp_Enabled (MariaDB_Replication mdb) \<and>
    ((\<not> IsSwitchingPrimary M mdb \<and>
      (\<exists>h pre2. pre = h @ pre2 \<and> go_exec (IsStatefulSetHealthy (keyOf mdb) (healthOpts mdb) :: bool result repl) h (Inr True)) \<and>
      (\<exists>cur. ms_CurrentPrimaryPodIndex (m_Status mdb) = Some cur \<and> fst e = Sql cur DisableReadOnly \<and> unconfigured mdb cur)) \<or>
     (shouldReconcileSwitchover M mdb \<and>
      (\<exists>pre1 r server pre2 cur. pre = pre1 @ (PatchStatus (switchingPatch M mdb), r) # pre2 \<and> as_mariadb r = Inr server \<and>
        fst e = Sql (primaryPodIndex server) DisableReadOnly \<and>
        ms_CurrentPrimaryPodIndex (m_Status server) = Some cur \<and> fenced server cur pre2)))"
proof -
  have en: "rp_Enabled (MariaDB_Replication mdb)"
    using assms(1) by (auto simp: Reconcile_def split: if_splits)
  show ?thesis
  proof (cases "\<not> IsMaxScaleEnabled mdb \<and> IsSwitchingPrimary M mdb")
    case True
    with assms(1) en have "go_exec (switchoverResult M domain v106 mdb) (pre @ e # post) (m', x)"
      by (auto simp: Reconcile_def NewReplicationClientSet_def)
    from switchoverResult_writable [OF this assms(2)] en show ?thesis
      by (metis append_Nil)
  next
    case False
    let ?rest = "\<lambda>h. case h of
        Inl e \<Rightarrow> Ret (mdb, Inl (ErrCtx ''error checking MariaDB health'' e))
      | Inr healthy \<Rightarrow> if \<not> healthy then Ret (mdb, Inr (requeueAfter second)) else reconcileHealthy M domain v106 mdb"
    from assms(1) en False have "go_exec (bindP (IsStatefulSetHealthy (keyOf mdb) (healthOpts mdb)) ?rest) (pre @ e # post) (m', x)"
      by (auto simp: Reconcile_def)
    from exec_bindP_split [OF this] show ?thesis
    proof (elim disjE exE conjE)
      fix post' y assume "go_exec (IsStatefulSetHealthy (keyOf mdb) (healthOpts mdb) :: bool result repl) (pre @ e # post') y"
      from quiet_event [OF this IsStatefulSetHealthy_quiet] assms(2) show ?thesis by auto
    next
      fix t1 pre2 a assume pre: "pre = t1 @ pre2"
        and h: "go_exec (IsStatefulSetHealthy (keyOf mdb) (healthOpts mdb) :: bool result repl) t1 a"
        and r: "go_exec (?rest a) (pre2 @ e # post) (m', x)"
      from r have a: "a = Inr True" and r': "go_exec (reconcileHealthy M domain v106 mdb) (pre2 @ e # post) (m', x)"
        by (auto split: sum.splits if_splits)
      from reconcileHealthy_writable [OF r' assms(2)] pre h a en show ?thesis by (metis append.assoc)
    qed
  qed
qed

lemma switchingMariaDB_run:
  "\<exists>t m' x. go_exec (Reconcile list_meta ''cluster.local'' (\<lambda>_. Inr True) (switchingPatch list_meta switchoverMariaDB)) t (m', x) \<and>
     (\<exists>pre e post. t = pre @ e # post \<and> writable (fst e))"
proof -
  let ?m = "switchingPatch list_meta switchoverMariaDB"
  have sw: "IsSwitchingPrimary list_meta ?m" by (rule switchingPatch_status [OF meta_ok_list_meta])
  have en: "rp_Enabled (MariaDB_Replication ?m)" "\<not> IsMaxScaleEnabled ?m"
    by (simp_all add: switchoverMariaDB_def replication_defs IsMaxScaleEnabled_def example_defs)
  have sh: "shouldReconcileSwitchover list_meta ?m"
    using switchoverMariaDB_ready(2)
    by (simp add: shouldReconcileSwitchover_switching [OF meta_ok_list_meta])
  have "switchable (\<lambda>_. Inr True) ?m" using switchoverMariaDB_ready(1) by simp
  from switchover_ends [OF okEnv_cooperative this sh, where domain = "''cluster.local''"] obtain t m' where
    run: "go_exec (reconcileSwitchover list_meta ''cluster.local'' (\<lambda>_. Inr True) ?m) t (m', Inr ())"
    unfolding ends_def by (metis go_run_def go_run_exec)
  then have "go_exec (switchoverResult list_meta ''cluster.local'' (\<lambda>_. Inr True) ?m) (t @ []) (m', Inr zeroResult)"
    unfolding switchoverResult_def by (rule exec_bindI) simp
  then have "go_exec (Reconcile list_meta ''cluster.local'' (\<lambda>_. Inr True) ?m) t (m', Inr zeroResult)"
    using sw en by (simp add: Reconcile_def NewReplicationClientSet_def)
  with switchover_opens [OF run sh] show ?thesis by blast
qed

theorem replication_single_writer_witness:
  "\<exists>pre e post m' x. go_exec (Reconcile list_meta ''cluster.local'' (\<lambda>_. Inr True) (switchingPatch list_meta switchoverMariaDB))
      (pre @ e # post) (m', x) \<and> writable (fst e) \<and> rp_Enabled (MariaDB_Replication (switchingPatch list_meta switchoverMariaDB))"
  using switchingMariaDB_run replication_single_writer by metis

text \<open>
  As long as the status has no replication map at all, every Pod is configured twice in a row: both
  tests of the loop hold, the one for the missing map and the one for the missing entry, so a successful
  configuration of a Pod is two complete ones, and for the primary the second one resets the replication
  position and the credentials once more.
\<close>

theorem configurePod_twice:
  assumes "ms_ReplicationStatus (m_Status m) = None"
  shows "go_exec (configurePod domain v106 m i) t (Inr ()) \<longleftrightarrow>
    (\<exists>t1 t2. t = t1 @ t2 \<and> go_exec (reconcileReplicationInPod domain v106 m i) t1 (Inr ()) \<and>
      go_exec (reconcileReplicationInPod domain v106 m i) t2 (Inr ()))"
  by (auto simp: configurePod_def Let_def assms exec_tryP_Inr)

theorem configurePod_twice_witness:
  "go_exec (configurePod ''cluster.local'' (\<lambda>_. Inr True) exampleMariaDB 0) [] (Inr ()) \<longleftrightarrow>
    (\<exists>t1 t2. [] = t1 @ t2 \<and> go_exec (reconcileReplicationInPod ''cluster.local'' (\<lambda>_. Inr True) exampleMariaDB 0) t1 (Inr ()) \<and>
      go_exec (reconcileReplicationInPod ''cluster.local'' (\<lambda>_. Inr True) exampleMariaDB 0) t2 (Inr ()))"
  by (rule configurePod_twice) (simp add: example_defs)

end
