(* ===== verification/Pod_Controllers.thy ===== *)
theory Pod_Controllers
  imports Switchover Health
begin

text \<open>
  \<^verbatim>\<open>internal/controller/pod_controller.go\<close> and the two controllers it hands a Pod to,
  \<^verbatim>\<open>pod_replication_controller.go\<close> and \<^verbatim>\<open>pod_galera_controller.go\<close>: automatic failover. The Pod controller
  knows them by the interface \<^verbatim>\<open>PodReadinessController\<close>, which is a locale here. An operation returns the
  object as it is afterwards with its error.
\<close>

type_synonym ('g, 'u) on_mariadb = "('g, 'u, MariaDB \<times> unit result) op"

definition ErrDelayAutomaticFailover :: go_error where
  "ErrDelayAutomaticFailover = ErrNew ''delaying automatic failover''"

text \<open>\<^verbatim>\<open>patch\<close> and \<^verbatim>\<open>patchStatus\<close> with their error context.\<close>

definition patchMariaDB :: "MariaDB \<Rightarrow> (MariaDB \<Rightarrow> MariaDB) \<Rightarrow> ('g, 'u) on_mariadb" where
  "patchMariaDB mariadb patcher =
     (let mariadb' = patcher mariadb in
      bindP (ask as_mariadb (PatchMariaDB mariadb')) (\<lambda>x. case x of
        Inl e \<Rightarrow> Ret (mariadb', Inl (ErrCtx ''error patching MariaDB'' e))
      | Inr server \<Rightarrow> Ret (server, Inr ())))"

definition patchStatusCtx :: "MariaDB \<Rightarrow> (MariaDBStatus \<Rightarrow> MariaDBStatus) \<Rightarrow> ('g, 'u) on_mariadb" where
  "patchStatusCtx mariadb patcher =
     bindP (patchStatus mariadb patcher) (\<lambda>(m, x). Ret (m, with_ctx ''error patching MariaDB status'' x))"

subsection \<open>Replication\<close>

definition shouldReconcile :: "meta_api \<Rightarrow> MariaDB \<Rightarrow> bool" where
  "shouldReconcile M mariadb =
     (if IsMaxScaleEnabled mariadb \<or> IsRestoringBackup M mariadb \<or> IsSuspended mariadb then False
      else rp_Enabled (MariaDB_Replication mariadb) \<and> primaryAutomaticFailover mariadb \<and>
           MariaDB_HasConfiguredReplica mariadb)"

definition clearFailing :: "MariaDBStatus \<Rightarrow> MariaDBStatus" where
  "clearFailing status = status\<lparr>ms_CurrentPrimaryFailingSince := None\<rparr>"

definition Replication_ReconcilePodReady :: "Pod \<Rightarrow> MariaDB \<Rightarrow> ('g, 'u) on_mariadb" where
  "Replication_ReconcilePodReady pod mariadb =
     (case ms_CurrentPrimaryPodIndex (m_Status mariadb) of
        None \<Rightarrow> Ret (mariadb, Inr ())
      | Some cur \<Rightarrow>
          (case PodIndex (pod_Name pod) of
             Inl e \<Rightarrow> Ret (mariadb, Inl (ErrCtx ''error getting Pod index'' e))
           | Inr index \<Rightarrow>
               if index \<noteq> cur then Ret (mariadb, Inr ())
               else if ms_CurrentPrimaryFailingSince (m_Status mariadb) \<noteq> None
               then patchStatusCtx mariadb clearFailing
               else Ret (mariadb, Inr ())))"

text \<open>The parts of \<^verbatim>\<open>ReconcilePodNotReady\<close>: recording since when the primary fails, the delay, and the
  choice and announcement of a new primary.\<close>

definition markFailing :: "int \<Rightarrow> MariaDB \<Rightarrow> ('g, 'u) on_mariadb" where
  "markFailing now mariadb =
     (if ms_CurrentPrimaryFailingSince (m_Status mariadb) = None
      then bindP (patchStatusCtx mariadb (\<lambda>status. status\<lparr>ms_CurrentPrimaryFailingSince := Some now\<rparr>))
             (\<lambda>(m, x). Ret (m, with_ctx ''error patching MariaDB'' x))
      else Ret (mariadb, Inr ()))"

definition checkDelay :: "int \<Rightarrow> MariaDB \<Rightarrow> unit result" where
  "checkDelay now mariadb =
     (let automaticFailoverDelay = GetAutomaticFailoverDelay mariadb in
      if automaticFailoverDelay > 0
      then (case ms_CurrentPrimaryFailingSince (m_Status mariadb) of
              None \<Rightarrow> Inl nil_dereference
            | Some since \<Rightarrow> if since + automaticFailoverDelay > now then Inl ErrDelayAutomaticFailover else Inr ())
      else Inr ())"


definition switchTo :: "meta_api \<Rightarrow> MariaDB \<Rightarrow> int \<Rightarrow> ('g, 'u) on_mariadb" where
  "switchTo M mariadb toIndex =
     bindP (patchMariaDB mariadb (setPodIndex toIndex)) (\<lambda>(m1, x1).
     bindP (patchStatusCtx m1 (\<lambda>status. clearFailing (SetPrimarySwitching (MariaDBStatus_SetCondition M) m1 status))) (\<lambda>(m2, x2).
     Ret (m2, bundleErrors ''error patching MariaDB'' [x1, x2])))"

definition failover :: "meta_api \<Rightarrow> int \<Rightarrow> MariaDB \<Rightarrow> ('g, 'u) on_mariadb" where
  "failover M now mariadb =
     (case checkDelay now mariadb of
        Inl e \<Rightarrow> Ret (mariadb, Inl e)
      | Inr _ \<Rightarrow>
          bindP (ReplicaPodHealthyIndex mariadb) (\<lambda>i. case i of
            Inl e \<Rightarrow> Ret (mariadb, Inl (ErrCtx ''error getting healthy replica'' e))
          | Inr toIndex \<Rightarrow> switchTo M mariadb toIndex))"

definition Replication_ReconcilePodNotReady :: "meta_api \<Rightarrow> Pod \<Rightarrow> MariaDB \<Rightarrow> ('g, 'u) on_mariadb" where
  "Replication_ReconcilePodNotReady M pod mariadb =
     (if \<not> shouldReconcile M mariadb then Ret (mariadb, Inr ())
      else case ms_CurrentPrimaryPodIndex (m_Status mariadb) of
        None \<Rightarrow> Ret (mariadb, Inr ())
      | Some cur \<Rightarrow>
          (case PodIndex (pod_Name pod) of
             Inl e \<Rightarrow> Ret (mariadb, Inl (ErrCtx ''error getting Pod index'' e))
           | Inr index \<Rightarrow>
               if index \<noteq> cur then Ret (mariadb, Inr ())
               else bindP (ask as_time Now) (\<lambda>now.
                 bindP (markFailing now mariadb) (\<lambda>(m, x). case x of
                   Inl e \<Rightarrow> Ret (m, Inl e)
                 | Inr _ \<Rightarrow> failover M now m))))"

subsection \<open>Galera\<close>

text \<open>\<^verbatim>\<open>mdb.Spec.Galera.Primary.PodIndex = toIndex\<close>\<close>

definition setGaleraPodIndex :: "int \<Rightarrow> MariaDB \<Rightarrow> MariaDB" where
  "setGaleraPodIndex toIndex m =
     (let g = Deref (sp_Galera (m_Spec m)) zeroGalera in
      m\<lparr>m_Spec := (m_Spec m)\<lparr>sp_Galera := Some (g\<lparr>g_Primary := (g_Primary g)\<lparr>pg_PodIndex := Some toIndex\<rparr>\<rparr>)\<rparr>\<rparr>)"

definition Galera_shouldReconcile :: "meta_api \<Rightarrow> MariaDB \<Rightarrow> bool" where
  "Galera_shouldReconcile M mariadb =
     (if \<not> IsGaleraEnabled mariadb \<or> IsMaxScaleEnabled mariadb \<or> IsRestoringBackup M mariadb \<or> IsSuspended mariadb then False
      else Deref (pg_AutomaticFailover (g_Primary (Deref (sp_Galera (m_Spec mariadb)) zeroGalera))) False \<and>
           HasGaleraConfiguredCondition M mariadb \<and> HasGaleraReadyCondition M mariadb)"

definition Galera_ReconcilePodReady :: "meta_api \<Rightarrow> Pod \<Rightarrow> MariaDB \<Rightarrow> ('g, 'u) on_mariadb" where
  "Galera_ReconcilePodReady M pod mariadb =
     (if \<not> Galera_shouldReconcile M mariadb then Ret (mariadb, Inr ())
      else case ms_CurrentPrimaryPodIndex (m_Status mariadb) of
        None \<Rightarrow> Ret (mariadb, Inr ())
      | Some cur \<Rightarrow>
          bindP (ask as_pod (GetPod (podKey mariadb cur))) (\<lambda>p. case p of
            Inl e \<Rightarrow> Ret (mariadb, Inl (ErrCtx ''error getting current primary Pod'' e))
          | Inr currentPrimaryPod \<Rightarrow>
              if PodReady currentPrimaryPod then Ret (mariadb, Inr ())
              else (case PodIndex (pod_Name pod) of
                 Inl e \<Rightarrow> Ret (mariadb, Inl (ErrCtx ''error getting Pod index'' e))
               | Inr toIndex \<Rightarrow>
                   if cur = toIndex then Ret (mariadb, Inr ())
                   else patchMariaDB mariadb (setGaleraPodIndex toIndex))))"

definition Galera_ReconcilePodNotReady :: "meta_api \<Rightarrow> Pod \<Rightarrow> MariaDB \<Rightarrow> ('g, 'u) on_mariadb" where
  "Galera_ReconcilePodNotReady M pod mariadb =
     (if \<not> Galera_shouldReconcile M mariadb then Ret (mariadb, Inr ())
      else case ms_CurrentPrimaryPodIndex (m_Status mariadb) of
        None \<Rightarrow> Ret (mariadb, Inr ())
      | Some cur \<Rightarrow>
          (case PodIndex (pod_Name pod) of
             Inl e \<Rightarrow> Ret (mariadb, Inl (ErrCtx ''error getting Pod index'' e))
           | Inr index \<Rightarrow>
               if index \<noteq> cur then Ret (mariadb, Inr ())
               else bindP (SecondaryPodHealthyIndex mariadb) (\<lambda>i. case i of
                   Inl e \<Rightarrow> Ret (mariadb, Inl (ErrCtx ''error getting healthy replica'' e))
                 | Inr toIndex \<Rightarrow> patchMariaDB mariadb (setGaleraPodIndex toIndex))))"

subsection \<open>The Pod controller\<close>

definition readyResult :: "unit result \<Rightarrow> CtrlResult" where
  "readyResult x = (case x of Inl e \<Rightarrow> requeue | Inr _ \<Rightarrow> zeroResult)"

definition notReadyResult :: "unit result \<Rightarrow> CtrlResult" where
  "notReadyResult x =
     (case x of Inl e \<Rightarrow> if e = ErrDelayAutomaticFailover then requeueAfter second else requeue | Inr _ \<Rightarrow> zeroResult)"

definition ignoredResult :: "go_error \<Rightarrow> CtrlResult result" where
  "ignoredResult e = (case IgnoreNotFound e of None \<Rightarrow> Inr zeroResult | Some e' \<Rightarrow> Inl e')"

definition PodController_Reconcile ::
    "(Pod \<Rightarrow> MariaDB \<Rightarrow> ('g, 'u) on_mariadb) \<Rightarrow> (Pod \<Rightarrow> MariaDB \<Rightarrow> ('g, 'u) on_mariadb) \<Rightarrow> NamespacedName \<Rightarrow>
     ('g, 'u, CtrlResult result) op" where
  "PodController_Reconcile ready notReady key =
     bindP (ask as_pod (GetPod key)) (\<lambda>p. case p of
       Inl e \<Rightarrow> Ret (ignoredResult e)
     | Inr pod \<Rightarrow>
         bindP (MariaDBFromAnnotation (pod_Namespace pod) (pod_Annotations pod)) (\<lambda>x. case x of
           Inl e \<Rightarrow> Ret (if e = ErrMariaDBAnnotationNotFound then Inr zeroResult else ignoredResult e)
         | Inr mariadb \<Rightarrow>
             if PodReady pod then bindP (ready pod mariadb) (\<lambda>(_, r). Ret (Inr (readyResult r)))
             else bindP (notReady pod mariadb) (\<lambda>(_, r). Ret (Inr (notReadyResult r)))))"

definition podHasChanged :: "Pod \<Rightarrow> Pod \<Rightarrow> bool" where
  "podHasChanged oldPod newPod = (PodReady oldPod \<noteq> PodReady newPod)"

subsection \<open>The interface of the two controllers\<close>

text \<open>What the Pod controller may rely on: a readiness controller reads the cluster and patches the
  MariaDB object, and does nothing else.\<close>

fun harmless :: "call \<Rightarrow> bool" where
  "harmless (GetPod k) = True"
| "harmless (ListPods k) = True"
| "harmless (GetMariaDB k) = True"
| "harmless (PatchStatus m) = True"
| "harmless (PatchMariaDB m) = True"
| "harmless Now = True"
| "harmless c = False"

locale pod_readiness =
  fixes ready :: "Pod \<Rightarrow> MariaDB \<Rightarrow> ('g, 'u) on_mariadb"
    and notReady :: "Pod \<Rightarrow> MariaDB \<Rightarrow> ('g, 'u) on_mariadb"
  assumes ready_harmless: "all_calls G harmless (ready pod m)"
    and notReady_harmless: "all_calls G harmless (notReady pod m)"
begin

lemma reconcile_harmless: "all_calls G harmless (PodController_Reconcile ready notReady key)"
  unfolding PodController_Reconcile_def
  by (auto intro!: all_calls_bindP all_calls_MariaDBFromAnnotation ready_harmless notReady_harmless split: sum.split)

lemma reconcile_error:
  assumes "exec grp (PodController_Reconcile ready notReady key) t (Inl e)"
  shows "\<not> IsNotFound e \<and> (\<forall>c \<in> fst ` set t. \<exists>k. c = GetPod k \<or> c = GetMariaDB k)"
proof -
  have ig: "Inl e = ignoredResult e' \<longleftrightarrow> e' = e \<and> \<not> IsNotFound e" for e'
    by (auto simp: ignoredResult_def IgnoreNotFound_def)
  have ok: "\<not> exec grp (bindP p (\<lambda>(a, r). Ret (Inr (f r)))) t' (Inl e)" for p :: "('g, 'u) on_mariadb" and f and t'
    by (auto simp: exec_bind split: prod.splits)
  show ?thesis
    using assms
    by (auto simp: PodController_Reconcile_def exec_ask_bind exec_case_sum exec_MariaDBFromAnnotation_bind ig ok
        split: if_splits)
qed

lemma reconcile_run:
  assumes "exec grp ((if PodReady pod then ready else notReady) pod m) t1 (m1, r1)"
    and "map_of (pod_Annotations pod) MariadbAnnotation = Some n"
  shows "exec grp (PodController_Reconcile ready notReady key)
    ((GetPod key, APod (Inr pod)) # (GetMariaDB \<lparr>nn_Name = n, nn_Namespace = pod_Namespace pod\<rparr>, AMariaDB (Inr m)) # t1)
    (Inr (if PodReady pod then readyResult r1 else notReadyResult r1))"
proof -
  have "exec grp (bindP p (\<lambda>(a, r). Ret (Inr (f r)))) (t1 @ []) (Inr (f r1))"
    if "exec grp p t1 (m1, r1)" for p :: "('g, 'u) on_mariadb" and f
    using that by (rule exec_bindI) simp
  with assms show ?thesis
    by (auto simp: PodController_Reconcile_def exec_ask_bind exec_MariaDBFromAnnotation_bind)
qed

end

lemma patchMariaDB_harmless: "all_calls G harmless (patchMariaDB m f)"
  by (auto simp: patchMariaDB_def Let_def intro!: all_calls_bindP split: sum.split)

lemma patchStatus_harmless: "all_calls G harmless (patchStatus m f)"
  by (auto simp: patchStatus_def Let_def intro!: all_calls_bindP split: sum.split)

lemma patchStatusCtx_harmless: "all_calls G harmless (patchStatusCtx m f)"
  unfolding patchStatusCtx_def by (auto intro!: all_calls_bindP patchStatus_harmless)

lemmas patches_harmless = patchMariaDB_harmless patchStatusCtx_harmless

lemma failover_harmless: "all_calls G harmless (failover M now m)"
  unfolding failover_def switchTo_def ReplicaPodHealthyIndex_def
  by (auto split: sum.split intro!: all_calls_bindP all_calls_secondary patches_harmless)

interpretation replication_pods: pod_readiness Replication_ReconcilePodReady "Replication_ReconcilePodNotReady M" for M
proof
  show "all_calls G harmless (Replication_ReconcilePodReady pod m)" for G pod m
    unfolding Replication_ReconcilePodReady_def
    by (auto split: option.split sum.split intro!: patches_harmless)
  show "all_calls G harmless (Replication_ReconcilePodNotReady M pod m)" for G pod m
    unfolding Replication_ReconcilePodNotReady_def markFailing_def
    by (auto split: option.split sum.split prod.split intro!: all_calls_bindP patches_harmless failover_harmless)
qed

interpretation galera_pods: pod_readiness "Galera_ReconcilePodReady M" "Galera_ReconcilePodNotReady M" for M
proof
  show "all_calls G harmless (Galera_ReconcilePodReady M pod m)" for G pod m
    unfolding Galera_ReconcilePodReady_def
    by (auto split: option.split sum.split intro!: all_calls_bindP patches_harmless)
  show "all_calls G harmless (Galera_ReconcilePodNotReady M pod m)" for G pod m
    unfolding Galera_ReconcilePodNotReady_def SecondaryPodHealthyIndex_def
    by (auto split: option.split sum.split intro!: all_calls_bindP all_calls_secondary patches_harmless)
qed

text \<open>
  What the Pod controller can do, with either of its readiness controllers. Every call of every run
  reads the API or the clock or patches the MariaDB object; in particular no database is contacted and no
  Pod is deleted. It returns an error only when reading the Pod or the MariaDB object failed, and then
  nothing was patched.
\<close>

theorem PodController_only_patches:
  assumes "p \<in> {PodController_Reconcile Replication_ReconcilePodReady (Replication_ReconcilePodNotReady M) key,
      PodController_Reconcile (Galera_ReconcilePodReady M) (Galera_ReconcilePodNotReady M) key}"
    and "go_exec (p :: (call, answer, 'u, CtrlResult result) go) t x"
  shows "(\<forall>c \<in> fst ` set t. harmless c) \<and>
    (isl x \<longrightarrow> (\<forall>c \<in> fst ` set t. \<exists>k. c = GetPod k \<or> c = GetMariaDB k))"
proof -
  have "go_calls harmless p"
    using assms(1) replication_pods.reconcile_harmless galera_pods.reconcile_harmless by blast
  from go_exec_calls [OF assms(2) this] have "\<forall>c \<in> fst ` set t. harmless c" by blast
  moreover have "\<forall>c \<in> fst ` set t. \<exists>k. c = GetPod k \<or> c = GetMariaDB k" if "isl x"
  proof -
    from that obtain e where "x = Inl e" by (auto simp: isl_def)
    with assms show ?thesis
      using replication_pods.reconcile_error galera_pods.reconcile_error by blast
  qed
  ultimately show ?thesis by blast
qed

theorem PodController_only_patches_witness:
  "go_exec (PodController_Reconcile Replication_ReconcilePodReady (Replication_ReconcilePodNotReady list_meta)
       \<lparr>nn_Name = ''mdb-0'', nn_Namespace = ''ns''\<rparr> :: (call, answer, unit, CtrlResult result) go)
     [(GetPod \<lparr>nn_Name = ''mdb-0'', nn_Namespace = ''ns''\<rparr>, APod (Inl (ErrNotFound ''mdb-0'')))] (Inr zeroResult) \<and>
   harmless (GetPod \<lparr>nn_Name = ''mdb-0'', nn_Namespace = ''ns''\<rparr>)"
proof -
  have "go_exec (PodController_Reconcile Replication_ReconcilePodReady (Replication_ReconcilePodNotReady list_meta)
       \<lparr>nn_Name = ''mdb-0'', nn_Namespace = ''ns''\<rparr> :: (call, answer, unit, CtrlResult result) go)
     [(GetPod \<lparr>nn_Name = ''mdb-0'', nn_Namespace = ''ns''\<rparr>, APod (Inl (ErrNotFound ''mdb-0'')))] (Inr zeroResult)"
    by (simp add: PodController_Reconcile_def exec_ask_bind ignoredResult_def IgnoreNotFound_def)
  from this PodController_only_patches [OF insertI1 this] show ?thesis by simp
qed

subsection \<open>Failover\<close>

lemma exec_patchStatus_iff:
  "exec grp (patchStatus m f) t (m', x) \<longleftrightarrow>
     (\<exists>r. t = [(PatchStatus (m\<lparr>m_Status := f (m_Status m)\<rparr>), r)] \<and>
        ((\<exists>e. as_mariadb r = Inl e \<and> m' = m\<lparr>m_Status := f (m_Status m)\<rparr> \<and> x = Inl e) \<or>
         (as_mariadb r = Inr m' \<and> x = Inr ())))"
  by (auto simp: patchStatus_def Let_def exec_ask_bind exec_case_sum)

lemma exec_patchStatusCtx:
  "exec grp (patchStatusCtx m f) t (m', x) \<longleftrightarrow>
     (\<exists>r. t = [(PatchStatus (m\<lparr>m_Status := f (m_Status m)\<rparr>), r)] \<and>
        ((\<exists>e. as_mariadb r = Inl e \<and> m' = m\<lparr>m_Status := f (m_Status m)\<rparr> \<and>
            x = Inl (ErrCtx ''error patching MariaDB status'' e)) \<or>
         (as_mariadb r = Inr m' \<and> x = Inr ())))"
  by (auto simp: patchStatusCtx_def exec_bind_Ret_prod exec_patchStatus_iff)

lemma exec_patchMariaDB:
  "exec grp (patchMariaDB m f) t (m', x) \<longleftrightarrow>
     (\<exists>r. t = [(PatchMariaDB (f m), r)] \<and>
        ((\<exists>e. as_mariadb r = Inl e \<and> m' = f m \<and> x = Inl (ErrCtx ''error patching MariaDB'' e)) \<or>
         (as_mariadb r = Inr m' \<and> x = Inr ())))"
  by (auto simp: patchMariaDB_def Let_def exec_ask_bind exec_case_sum)

text \<open>The object the failover works on: the one given, or what the API server answered when the failure
  was recorded.\<close>

lemma exec_markFailing:
  assumes "exec grp (markFailing now m) t (m1, Inr ())"
  shows "if ms_CurrentPrimaryFailingSince (m_Status m) = None
    then \<exists>r. t = [(PatchStatus (m\<lparr>m_Status := (m_Status m)\<lparr>ms_CurrentPrimaryFailingSince := Some now\<rparr>\<rparr>), r)] \<and> as_mariadb r = Inr m1
    else t = [] \<and> m1 = m"
  using assms
  by (auto simp: markFailing_def exec_bind_Ret_prod exec_patchStatusCtx eq_commute [of "Inr ()"] split: if_splits)

lemma checkDelay_ok:
  "checkDelay now m = Inr () \<longleftrightarrow> GetAutomaticFailoverDelay m > 0 \<longrightarrow>
     (\<exists>since. ms_CurrentPrimaryFailingSince (m_Status m) = Some since \<and> since + GetAutomaticFailoverDelay m \<le> now)"
  by (auto simp: checkDelay_def Let_def split: option.splits)

lemma failover_patch:
  assumes "exec grp (failover M now m :: ('g, 'u) on_mariadb) t (m', x)" "(PatchMariaDB d, r) \<in> set t"
  shows "checkDelay now m = Inr () \<and>
    (\<exists>i t1. exec grp (ReplicaPodHealthyIndex m :: ('g, 'u, int result) op) t1 (Inr i) \<and> set t1 \<subseteq> set t \<and> d = setPodIndex i m)"
proof -
  from assms have ok: "checkDelay now m = Inr ()"
    by (auto simp: failover_def split: sum.splits)
  then have "exec grp (bindP (ReplicaPodHealthyIndex m) (\<lambda>i. case i of
        Inl e \<Rightarrow> Ret (m, Inl (ErrCtx ''error getting healthy replica'' e))
      | Inr toIndex \<Rightarrow> switchTo M m toIndex) :: ('g, 'u) on_mariadb) t (m', x)"
    using assms(1) by (simp add: failover_def)
  then obtain t1 t2 y where t: "t = t1 @ t2" and h: "exec grp (ReplicaPodHealthyIndex m :: ('g, 'u, int result) op) t1 y"
    and s: "exec grp ((case y of Inl e \<Rightarrow> Ret (m, Inl (ErrCtx ''error getting healthy replica'' e))
      | Inr toIndex \<Rightarrow> switchTo M m toIndex) :: ('g, 'u) on_mariadb) t2 (m', x)"
    unfolding exec_bind by blast
  have "(PatchMariaDB d, r) \<notin> set t1"
    using h by (auto simp: ReplicaPodHealthyIndex_def secondaryPodHealthyIndex_def exec_simps split: option.splits)
  with assms(2) t have e: "(PatchMariaDB d, r) \<in> set t2" by simp
  with s obtain i where y: "y = Inr i" by (cases y) auto
  with s e have "d = setPodIndex i m"
    by (auto simp: switchTo_def exec_bind exec_patchMariaDB exec_patchStatusCtx split: prod.splits)
  with ok h t y show ?thesis by auto
qed

text \<open>
  C12: an automatic failover is never hasty. In every run of the reconciliation of a Pod that is not
  ready, a new primary is written to the spec only when failover is enabled for the cluster, which is not
  suspended, restoring or behind MaxScale and has a configured replica; the Pod is the current primary;
  the configured delay has passed since the primary was first seen failing; and the new primary is a
  ready, configured replica that is not the old primary.
\<close>

theorem failover_safe:
  assumes "exec grp (Replication_ReconcilePodNotReady M pod m :: ('g, 'u) on_mariadb) t (m', x)" "(PatchMariaDB d, r) \<in> set t"
  shows "shouldReconcile M m \<and> (\<exists>cur m1 now i p items rn rl.
    ms_CurrentPrimaryPodIndex (m_Status m) = Some cur \<and> PodIndex (pod_Name pod) = Inr cur \<and>
    (ms_CurrentPrimaryFailingSince (m_Status m) \<noteq> None \<longrightarrow> m1 = m) \<and>
    (Now, rn) \<in> set t \<and> now = as_time rn \<and>
    (GetAutomaticFailoverDelay m1 > 0 \<longrightarrow> (\<exists>since. ms_CurrentPrimaryFailingSince (m_Status m1) = Some since \<and>
      since + GetAutomaticFailoverDelay m1 \<le> now)) \<and>
    (ListPods (keyOf m1), rl) \<in> set t \<and> as_pods rl = Inr items \<and> p \<in> set items \<and> PodIndex (pod_Name p) = Inr i \<and>
    PodReady p \<and> MariaDB_IsConfiguredReplica m1 (pod_Name p) \<and> Some i \<noteq> ms_CurrentPrimaryPodIndex (m_Status m1) \<and>
    d = setPodIndex i m1)"
proof -
  from assms have sh: "shouldReconcile M m" by (auto simp: Replication_ReconcilePodNotReady_def split: if_splits)
  from assms sh obtain cur where cur: "ms_CurrentPrimaryPodIndex (m_Status m) = Some cur" "PodIndex (pod_Name pod) = Inr cur"
    by (auto simp: Replication_ReconcilePodNotReady_def split: option.splits sum.splits if_splits)
  from assms(1) sh cur obtain rn t' where t: "t = (Now, rn) # t'" and b: "exec grp (bindP (markFailing (as_time rn) m) (\<lambda>(m, x). case x of
       Inl e \<Rightarrow> Ret (m, Inl e) | Inr _ \<Rightarrow> failover M (as_time rn) m) :: ('g, 'u) on_mariadb) t' (m', x)"
    by (auto simp: Replication_ReconcilePodNotReady_def exec_ask_bind)
  from b obtain t1 t2 m1 y where t': "t' = t1 @ t2" and mk: "exec grp (markFailing (as_time rn) m :: ('g, 'u) on_mariadb) t1 (m1, y)"
    and f: "exec grp ((case y of Inl e \<Rightarrow> Ret (m1, Inl e) | Inr _ \<Rightarrow> failover M (as_time rn) m1) :: ('g, 'u) on_mariadb) t2 (m', x)"
    unfolding exec_bind by auto
  have "(PatchMariaDB d, r) \<notin> set t1"
    using mk by (auto simp: markFailing_def exec_bind exec_patchStatusCtx split: if_splits)
  with assms(2) t t' have e: "(PatchMariaDB d, r) \<in> set t2" by simp
  with f have y: "y = Inr ()" and f': "exec grp (failover M (as_time rn) m1 :: ('g, 'u) on_mariadb) t2 (m', x)"
    by (auto split: sum.splits)
  from failover_patch [OF f' e] obtain i t3 where delay: "checkDelay (as_time rn) m1 = Inr ()"
    and h: "exec grp (ReplicaPodHealthyIndex m1 :: ('g, 'u, int result) op) t3 (Inr i)" "set t3 \<subseteq> set t2" and d: "d = setPodIndex i m1"
    by blast
  from exec_secondary [OF h(1) [unfolded ReplicaPodHealthyIndex_def]] obtain cur1 rl items where
    c1: "ms_CurrentPrimaryPodIndex (m_Status m1) = Some cur1" "t3 = [(ListPods (keyOf m1), rl)]" "as_pods rl = Inr items"
    and fh: "firstHealthy cur1 (\<lambda>p. PodReady p \<and> MariaDB_IsConfiguredReplica m1 (pod_Name p)) (sortPodList items) = Inr i" by blast
  from firstHealthy_sorted [OF fh] obtain p where p: "i \<noteq> cur1" "p \<in> set items" "PodIndex (pod_Name p) = Inr i" "PodReady p"
    "MariaDB_IsConfiguredReplica m1 (pod_Name p)" by blast
  have "(ListPods (keyOf m1), rl) \<in> set t" using t t' h(2) c1(2) by auto
  moreover have "ms_CurrentPrimaryFailingSince (m_Status m) \<noteq> None \<longrightarrow> m1 = m"
    using exec_markFailing [OF mk [unfolded y]] by auto
  moreover have "(Now, rn) \<in> set t" using t by simp
  ultimately show ?thesis
    using sh cur c1 p d delay [unfolded checkDelay_ok] by (intro conjI exI) (assumption | simp)+
qed

text \<open>What the failover announces: the object it leaves when the API server stores what it is sent.\<close>

definition announced :: "meta_api \<Rightarrow> int \<Rightarrow> MariaDB \<Rightarrow> MariaDB" where
  "announced M i m = (let m1 = setPodIndex i m in
     m1\<lparr>m_Status := clearFailing (SetPrimarySwitching (MariaDBStatus_SetCondition M) m1 (m_Status m1))\<rparr>)"

lemma exec_switchTo:
  "exec grp (switchTo M m i)
     [(PatchMariaDB (setPodIndex i m), AMariaDB (Inr (setPodIndex i m))),
      (PatchStatus (announced M i m), AMariaDB (Inr (announced M i m)))] (announced M i m, Inr ())"
  by (simp add: switchTo_def patchMariaDB_def patchStatusCtx_def patchStatus_def Let_def announced_def ask_def
      bundleErrors_def exec_Call)

lemma failover_run:
  assumes "shouldReconcile M m" "ms_CurrentPrimaryPodIndex (m_Status m) = Some cur" "PodIndex (pod_Name pod) = Inr cur"
    and "ms_CurrentPrimaryFailingSince (m_Status m) = Some since" "since + GetAutomaticFailoverDelay m \<le> now"
    and "firstHealthy cur (\<lambda>p. PodReady p \<and> MariaDB_IsConfiguredReplica m (pod_Name p)) (sortPodList items) = Inr i"
  shows "exec grp (Replication_ReconcilePodNotReady M pod m)
    [(Now, ATime now), (ListPods (keyOf m), APods (Inr items)),
     (PatchMariaDB (setPodIndex i m), AMariaDB (Inr (setPodIndex i m))),
     (PatchStatus (announced M i m), AMariaDB (Inr (announced M i m)))] (announced M i m, Inr ())"
proof -
  have "checkDelay now m = Inr ()" using assms(4,5) by (auto simp: checkDelay_ok)
  then show ?thesis
    using assms exec_switchTo [of grp M m i]
    by (simp add: Replication_ReconcilePodNotReady_def markFailing_def failover_def ReplicaPodHealthyIndex_def
        secondaryPodHealthyIndex_def tryP_def ctxP_def ask_def exec_Call)
qed

definition failingMariaDB :: MariaDB where
  "failingMariaDB = replicaMariaDB
     \<lparr>m_Spec := exampleSpec\<lparr>sp_Replication := Some (zeroReplication\<lparr>rp_Enabled := True\<rparr>)\<rparr>,
      m_Status := (m_Status replicaMariaDB)\<lparr>ms_CurrentPrimaryFailingSince := Some 0\<rparr>\<rparr>"

lemma failingMariaDB_ready:
  "shouldReconcile list_meta failingMariaDB" "ms_CurrentPrimaryPodIndex (m_Status failingMariaDB) = Some 0"
  "PodIndex (pod_Name (listedPod ''mdb-0'')) = Inr 0" "ms_CurrentPrimaryFailingSince (m_Status failingMariaDB) = Some 0"
  "0 + GetAutomaticFailoverDelay failingMariaDB \<le> 7"
  "firstHealthy 0 (\<lambda>p. PodReady p \<and> MariaDB_IsConfiguredReplica failingMariaDB (pod_Name p))
     (sortPodList [listedPod ''mdb-1'']) = Inr 1"
proof -
  show "shouldReconcile list_meta failingMariaDB"
    by (simp add: shouldReconcile_def failingMariaDB_def replicaMariaDB_def replication_defs IsMaxScaleEnabled_def
        IsRestoringBackup_def IsSuspended_def MariaDB_HasConfiguredReplica_def ReplicationStatus_HasConfiguredReplica_def
        example_defs list_meta_def find_condition_def)
  show "ms_CurrentPrimaryPodIndex (m_Status failingMariaDB) = Some 0"
    "ms_CurrentPrimaryFailingSince (m_Status failingMariaDB) = Some 0"
    by (simp_all add: failingMariaDB_def replicaMariaDB_def)
  show "0 + GetAutomaticFailoverDelay failingMariaDB \<le> 7"
    by (simp add: GetAutomaticFailoverDelay_def failingMariaDB_def replication_defs)
  show "PodIndex (pod_Name (listedPod ''mdb-0'')) = Inr 0" by code_simp
  show "firstHealthy 0 (\<lambda>p. PodReady p \<and> MariaDB_IsConfiguredReplica failingMariaDB (pod_Name p))
     (sortPodList [listedPod ''mdb-1'']) = Inr 1" by code_simp
qed

theorem failover_safe_witness:
  "\<exists>t. exec no_group (Replication_ReconcilePodNotReady list_meta (listedPod ''mdb-0'') failingMariaDB :: (unit, unit) on_mariadb)
      t (announced list_meta 1 failingMariaDB, Inr ()) \<and> shouldReconcile list_meta failingMariaDB \<and>
    (\<exists>r. (PatchMariaDB (setPodIndex 1 failingMariaDB), r) \<in> set t)"
proof -
  note run = failover_run [OF failingMariaDB_ready, of no_group]
  from run failover_safe [OF run] show ?thesis by fastforce
qed

end
