(* ===== verification/Replication_System.thy ===== *)
theory Replication_System
  imports Mariadb_Webhook Replication_Controller Pod_Controllers
begin

text \<open>
  The parts that together move the primary role of a replicated cluster, as one system: the replication
  controller (\<^verbatim>\<open>pkg/controller/replication\<close>), the Pod controller that announces a failover
  (\<^verbatim>\<open>internal/controller/pod_replication_controller.go\<close>) and the admission webhook
  (\<^verbatim>\<open>internal/webhook/v1alpha1/mariadb_webhook.go\<close>). First an abstract specification of a handover, which
  speaks only of the set of databases that accept writes, and the refinement: every run of a switchover
  is one of its executions. Then the system of the three parts with its invariant, and what a failover
  leaves behind when only one of its two patches is stored.
\<close>

section \<open>Handover of the primary role\<close>

text \<open>The databases that may accept writes, followed through a trace. A statement that turns off
  read-only mode is counted whatever it answers, as a failed answer does not say that it was not executed;
  one that turns it on is counted only when it succeeded.\<close>

fun effect :: "call \<times> answer \<Rightarrow> int set \<Rightarrow> int set" where
  "effect (Sql i (SetSystemVariable k v), r) W =
     (if k = ''read_only'' \<and> v = ''0'' then insert i W
      else if k = ''read_only'' \<and> v = ''1'' \<and> as_unit r = Inr () then W - {i} else W)"
| "effect _ W = W"

definition writers :: "int set \<Rightarrow> (call, answer) trace \<Rightarrow> int set" where
  "writers W t = fold effect t W"

lemma writers_simps [simp]:
  "writers W [] = W" "writers W (e # t) = writers (effect e W) t" "writers W (t @ u) = writers (writers W t) u"
  by (simp_all add: writers_def)

text \<open>The specification: databases may be closed at any time, and only the one named may be opened, when
  no other is open.\<close>

inductive handover :: "int \<Rightarrow> int set \<Rightarrow> int set \<Rightarrow> bool" for new where
  stay: "handover new W W"
| close: "handover new W (W - {i})"
| open_new: "W \<subseteq> {new} \<Longrightarrow> handover new W (insert new W)"

lemma handover_single:
  assumes "(handover new)\<^sup>*\<^sup>* W W'" "W \<subseteq> {old} \<or> W \<subseteq> {new}"
  shows "W' \<subseteq> {old} \<or> W' \<subseteq> {new}"
  using assms by (induction rule: rtranclp_induct) (auto elim!: handover.cases)

subsection \<open>What a trace does to the writers\<close>

lemma effect_cases:
  "effect e W = W \<or> (\<exists>i. effect e W = W - {i}) \<or> (writable (fst e) \<and> (\<exists>i. fst e = Sql i DisableReadOnly \<and> effect e W = insert i W))"
  by (cases "(e, W)" rule: effect.cases) auto

lemma effect_closed: "\<not> writable (fst e) \<Longrightarrow> effect e W \<subseteq> W"
  using effect_cases [of e W] by auto

lemma effect_open: "fst e = Sql i DisableReadOnly \<Longrightarrow> effect e W = insert i W"
  by (cases e) simp

text \<open>\<open>opens_only n t\<close>: no database but that of Pod \<open>n\<close> is opened in the trace.\<close>

definition opens_only :: "int \<Rightarrow> (call, answer) trace \<Rightarrow> bool" where
  "opens_only n t \<longleftrightarrow> (\<forall>e \<in> set t. writable (fst e) \<longrightarrow> fst e = Sql n DisableReadOnly)"

lemma writers_opens_only: "opens_only n t \<Longrightarrow> writers W t \<subseteq> insert n W"
proof (induction t arbitrary: W)
  case (Cons e t)
  have "effect e W \<subseteq> insert n W"
    using Cons.prems effect_closed [of e W] effect_open [of e n W] by (auto simp: opens_only_def)
  moreover have "writers (effect e W) t \<subseteq> insert n (effect e W)" using Cons by (simp add: opens_only_def)
  ultimately show ?case by auto
qed auto

lemma writers_not_opened: "\<forall>e \<in> set t. \<not> writable (fst e) \<Longrightarrow> writers W t \<subseteq> W"
proof (induction t arbitrary: W)
  case (Cons e t)
  then show ?case using effect_closed [of e W] Cons.IH [of "effect e W"] by auto
qed simp

lemma writers_closed_once:
  assumes "opens_only n t" "done_ok (Sql c EnableReadOnly) t"
  shows "writers W t \<subseteq> insert n (W - {c})"
proof -
  from assms(2) obtain r u v where r: "as_unit r = Inr ()" and t: "t = u @ (Sql c EnableReadOnly, r) # v"
    unfolding done_ok_def by (meson split_list)
  have "writers W u \<subseteq> insert n W" "writers (writers W u - {c}) v \<subseteq> insert n (writers W u - {c})"
    using assms(1) t by (auto simp: opens_only_def intro!: writers_opens_only [unfolded opens_only_def])
  with t r show ?thesis by auto
qed

subsection \<open>Every switchover is a handover\<close>

lemma switchover_opens_only:
  assumes "go_exec (reconcileSwitchover M domain v106 mdb) ((PatchStatus (switchingPatch M mdb), r) # t) (m', x)"
    and "as_mariadb r = Inr server"
  shows "opens_only (primaryPodIndex server) t"
proof -
  have "fst e = Sql (primaryPodIndex server) DisableReadOnly" if "e \<in> set t" "writable (fst e)" for e
  proof -
    from that(1) obtain u v where "t = u @ e # v" by (meson split_list)
    with assms(1) have "go_exec (reconcileSwitchover M domain v106 mdb) (((PatchStatus (switchingPatch M mdb), r) # u) @ e # v) (m', x)"
      by simp
    from switchover_safe_run [OF this that(2)] assms(2) show ?thesis by auto
  qed
  then show ?thesis by (simp add: opens_only_def)
qed

text \<open>When a database is opened, no other one is open: the old primary was seen not ready, or it has been
  closed.\<close>

lemma switchover_open_alone:
  assumes "go_exec (reconcileSwitchover M domain v106 mdb) ((PatchStatus (switchingPatch M mdb), r) # pre @ e # post) (m', x)"
    and "as_mariadb r = Inr server" "ms_CurrentPrimaryPodIndex (m_Status server) = Some cur" "\<not> seen_unready server cur pre"
    and "W \<subseteq> {cur} \<or> W \<subseteq> {primaryPodIndex server}" "writable (fst e)"
  shows "writers W pre \<subseteq> {primaryPodIndex server}"
proof -
  have "go_exec (reconcileSwitchover M domain v106 mdb) (((PatchStatus (switchingPatch M mdb), r) # pre) @ e # post) (m', x)"
    using assms(1) by simp
  from switchover_safe_run [OF this assms(6)] assms(2-4) have "done_ok (Sql cur EnableReadOnly) pre"
    by (auto simp: fenced_def)
  moreover have "opens_only (primaryPodIndex server) pre"
    using switchover_opens_only [OF assms(1,2)] by (simp add: opens_only_def)
  ultimately have "writers W pre \<subseteq> insert (primaryPodIndex server) (W - {cur})" by (intro writers_closed_once)
  with assms(5) show ?thesis by auto
qed

lemma handover_prefix:
  assumes "go_exec (reconcileSwitchover M domain v106 mdb) ((PatchStatus (switchingPatch M mdb), r) # pre @ post) (m', x)"
    and "as_mariadb r = Inr server" "ms_CurrentPrimaryPodIndex (m_Status server) = Some cur" "\<not> seen_unready server cur (pre @ post)"
    and "W \<subseteq> {cur} \<or> W \<subseteq> {primaryPodIndex server}"
  shows "(handover (primaryPodIndex server))\<^sup>*\<^sup>* W (writers W pre)"
  using assms(1,4)
proof (induction pre arbitrary: post rule: rev_induct)
  case (snoc e pre)
  let ?new = "primaryPodIndex server"
  have run: "go_exec (reconcileSwitchover M domain v106 mdb) ((PatchStatus (switchingPatch M mdb), r) # pre @ e # post) (m', x)"
    using snoc.prems(1) by simp
  have "(handover ?new)\<^sup>*\<^sup>* W (writers W pre)" using snoc.IH [of "e # post"] snoc.prems by simp
  moreover have "handover ?new (writers W pre) (effect e (writers W pre))"
    using effect_cases [of e "writers W pre"]
  proof (elim disjE exE conjE)
    fix i assume "writable (fst e)" "fst e = Sql i DisableReadOnly" "effect e (writers W pre) = insert i (writers W pre)"
    moreover from this(1) have "writers W pre \<subseteq> {?new}"
      using snoc.prems(2) by (intro switchover_open_alone [OF run assms(2,3) _ assms(5)]) (auto simp: seen_unready_def)
    moreover have "i = ?new"
      using switchover_opens_only [OF run assms(2)] calculation by (auto simp: opens_only_def)
    ultimately show ?thesis by (simp add: handover.open_new)
  qed (simp_all add: handover.intros)
  ultimately show ?case by simp
qed simp

lemma switchover_ends_single:
  assumes "go_exec (reconcileSwitchover M domain v106 mdb) ((PatchStatus (switchingPatch M mdb), r) # t) (m', x)"
    and "as_mariadb r = Inr server" "ms_CurrentPrimaryPodIndex (m_Status server) = Some cur" "\<not> seen_unready server cur t"
    and "W \<subseteq> {cur} \<or> W \<subseteq> {primaryPodIndex server}" "shouldReconcileSwitchover M mdb" "x = Inr ()"
  shows "writers W t \<subseteq> {primaryPodIndex server}"
proof -
  from switchover_opens [OF assms(1) [unfolded assms(7)] assms(6)] obtain pre e post where
    eq: "(PatchStatus (switchingPatch M mdb), r) # t = pre @ e # post" and e: "writable (fst e)" by blast
  then obtain pre' where t: "t = pre' @ e # post" by (cases pre) auto
  note run = assms(1) [unfolded t]
  have "writers W pre' \<subseteq> {primaryPodIndex server}"
    using assms(4) unfolding t by (intro switchover_open_alone [OF run assms(2,3) _ assms(5) e]) (auto simp: seen_unready_def)
  moreover have "opens_only (primaryPodIndex server) (e # post)"
    using switchover_opens_only [OF assms(1,2)] unfolding t by (auto simp: opens_only_def)
  then have "writers (writers W pre') (e # post) \<subseteq> insert (primaryPodIndex server) (writers W pre')"
    by (rule writers_opens_only)
  ultimately show ?thesis using t by auto
qed



section \<open>The announcement of a failover\<close>

text \<open>What the failover of the Pod controller announces is a switchover for the replication controller: the
  object is switching, its desired primary is the chosen replica, and the switchover is due.\<close>

lemma announced_switching:
  "announced M i m = (switchingPatch M (setPodIndex i m))\<lparr>m_Status := clearFailing (m_Status (switchingPatch M (setPodIndex i m)))\<rparr>"
  by (simp add: announced_def switchingPatch_def Let_def)

lemma clearFailing_simps [simp]:
  "ms_Conditions (clearFailing s) = ms_Conditions s" "ms_CurrentPrimaryPodIndex (clearFailing s) = ms_CurrentPrimaryPodIndex s"
  "ms_ReplicationStatus (clearFailing s) = ms_ReplicationStatus s"
  by (simp_all add: clearFailing_def)

lemma Replication_setPodIndex:
  "MariaDB_Replication (setPodIndex i m) =
     (MariaDB_Replication m)\<lparr>rp_Primary := Some (PrimaryReplication_FillWithDefaults ((primaryOf m)\<lparr>pr_PodIndex := Some i\<rparr>))\<rparr>"
proof -
  have "Replication_FillWithDefaults (x\<lparr>rp_Primary := Some p\<rparr>) =
      (Replication_FillWithDefaults x)\<lparr>rp_Primary := Some (PrimaryReplication_FillWithDefaults p)\<rparr>" for x p
    by (cases x) (simp add: Replication_FillWithDefaults_def)
  then show ?thesis
    by (simp add: MariaDB_Replication_def [of "setPodIndex i m"] setPodIndex_def)
      (simp add: MariaDB_Replication_def Replication_FillWithDefaults_idem)
qed

lemma setPodIndex_simps [simp]:
  "primaryPodIndex (setPodIndex i m) = i" "replicaOf (setPodIndex i m) = replicaOf m"
  "rp_Enabled (MariaDB_Replication (setPodIndex i m)) = rp_Enabled (MariaDB_Replication m)"
  "IsMaxScaleEnabled (setPodIndex i m) = IsMaxScaleEnabled m" "m_Status (setPodIndex i m) = m_Status m"
  "m_Replicas (setPodIndex i m) = m_Replicas m" "sp_Image (m_Spec (setPodIndex i m)) = sp_Image (m_Spec m)"
proof -
  show "primaryPodIndex (setPodIndex i m) = i"
    unfolding primaryPodIndex_def primaryOf_def Replication_setPodIndex
    by (simp add: PrimaryReplication_FillWithDefaults_def or_default_def)
  show "replicaOf (setPodIndex i m) = replicaOf m" unfolding replicaOf_def Replication_setPodIndex by simp
  show "rp_Enabled (MariaDB_Replication (setPodIndex i m)) = rp_Enabled (MariaDB_Replication m)"
    unfolding Replication_setPodIndex by simp
qed (simp_all add: IsMaxScaleEnabled_def setPodIndex_def)

lemma announced_due:
  assumes "meta_ok M" "shouldReconcile M m" "\<not> IsResizingStorage M m" "ms_CurrentPrimaryPodIndex (m_Status m) = Some cur" "i \<noteq> cur"
  shows "IsSwitchingPrimary M (announced M i m)" "shouldReconcileSwitchover M (announced M i m)"
    "rp_Enabled (MariaDB_Replication (announced M i m))" "\<not> IsMaxScaleEnabled (announced M i m)" "primaryPodIndex (announced M i m) = i"
proof -
  let ?s = "switchingPatch M (setPodIndex i m)"
  have same: "m_Spec (announced M i m) = m_Spec (setPodIndex i m)" "m_Conditions (announced M i m) = m_Conditions ?s"
    "ms_ReplicationStatus (m_Status (announced M i m)) = ms_ReplicationStatus (m_Status ?s)"
    "ms_CurrentPrimaryPodIndex (m_Status (announced M i m)) = ms_CurrentPrimaryPodIndex (m_Status ?s)" "m_Spec ?s = m_Spec (setPodIndex i m)"
    by (simp_all add: announced_switching switchingPatch_def)
  then have eqs: "IsMaxScaleEnabled (announced M i m) = IsMaxScaleEnabled ?s" "IsRestoringBackup M (announced M i m) = IsRestoringBackup M ?s"
    "IsResizingStorage M (announced M i m) = IsResizingStorage M ?s" "IsSwitchingPrimary M (announced M i m) = IsSwitchingPrimary M ?s"
    "MariaDB_HasConfiguredReplica (announced M i m) = MariaDB_HasConfiguredReplica ?s"
    "MariaDB_Replication (announced M i m) = MariaDB_Replication (setPodIndex i m)"
    "MariaDB_Replication ?s = MariaDB_Replication (setPodIndex i m)" "IsMaxScaleEnabled ?s = IsMaxScaleEnabled (setPodIndex i m)"
    by (simp_all add: MariaDB_Replication_def IsMaxScaleEnabled_def IsRestoringBackup_def IsResizingStorage_def
        MariaDB_HasConfiguredReplica_def IsSwitchingPrimary_def)
  show "IsSwitchingPrimary M (announced M i m)"
    unfolding eqs by (rule switchingPatch_status(1) [OF assms(1)])
  show "rp_Enabled (MariaDB_Replication (announced M i m))" "\<not> IsMaxScaleEnabled (announced M i m)"
    using assms(2) unfolding eqs setPodIndex_simps by (auto simp: shouldReconcile_def split: if_splits)
  have idx: "primaryPodIndex (announced M i m) = primaryPodIndex ?s" "primaryPodIndex ?s = primaryPodIndex (setPodIndex i m)"
    unfolding primaryPodIndex_def primaryOf_def eqs by simp_all
  then show "primaryPodIndex (announced M i m) = i" by simp
  have "shouldReconcileSwitchover M (setPodIndex i m)"
    using assms(2-5) by (auto simp: shouldReconcileSwitchover_def shouldReconcile_def IsRestoringBackup_def IsResizingStorage_def
        MariaDB_HasConfiguredReplica_def split: if_splits)
  then have "shouldReconcileSwitchover M ?s" by (simp add: shouldReconcileSwitchover_switching [OF assms(1)])
  then show "shouldReconcileSwitchover M (announced M i m)"
    unfolding shouldReconcileSwitchover_def eqs(1-3,5) idx same(4) by simp
qed

lemma announced_switchable:
  assumes "switchable v106 m" "0 \<le> i" "i < m_Replicas m"
  shows "switchable v106 (announced M i m)"
proof -
  have spec: "m_Spec (announced M i m) = m_Spec (setPodIndex i m)" by (simp add: announced_switching switchingPatch_def)
  then have rp: "MariaDB_Replication (announced M i m) = MariaDB_Replication (setPodIndex i m)" by (simp add: MariaDB_Replication_def)
  have "primaryPodIndex (announced M i m) = i" "replicaOf (announced M i m) = replicaOf m"
    using setPodIndex_simps(1,2) [of i m] unfolding replicaOf_def primaryOf_def primaryPodIndex_def rp .
  moreover have "ms_CurrentPrimaryPodIndex (m_Status (announced M i m)) = ms_CurrentPrimaryPodIndex (m_Status m)"
    by (simp add: announced_switching switchingPatch_def SetPrimarySwitching_def MariaDBStatus_SetCondition_def set_conditions_def Let_def)
  ultimately show ?thesis
    using assms spec by (auto simp: switchable_def valid_replica_def setPodIndex_def split: option.splits)
qed

section \<open>The system\<close>

text \<open>
  The API server, as the controllers see it. A patch of the status subresource changes the status and
  nothing else; a patch of the object changes the spec and nothing else, and is stored only when the
  webhook admits it (\<open>adm\<close>, of the new and the old object). The answer to a patch is the stored object,
  or an error with the object unchanged. \<open>served\<close> says that a trace is answered this way from the stored
  object \<open>m\<close> on, \<open>stored\<close> is the object it leaves.
\<close>

fun stored :: "MariaDB \<Rightarrow> (call, answer) trace \<Rightarrow> MariaDB" where
  "stored m [] = m"
| "stored m ((c, r) # t) =
     stored (case c of
         PatchStatus d \<Rightarrow> if isl (as_mariadb r) then m else m\<lparr>m_Status := m_Status d\<rparr>
       | PatchMariaDB d \<Rightarrow> if isl (as_mariadb r) then m else m\<lparr>m_Spec := m_Spec d\<rparr>
       | _ \<Rightarrow> m) t"

fun served :: "(MariaDB \<Rightarrow> MariaDB \<Rightarrow> bool) \<Rightarrow> MariaDB \<Rightarrow> (call, answer) trace \<Rightarrow> bool" where
  "served adm m [] = True"
| "served adm m ((c, r) # t) =
     ((\<forall>s. as_mariadb r = Inr s \<longrightarrow> (\<forall>d. (c = PatchStatus d \<or> c = PatchMariaDB d) \<longrightarrow> s = stored m [(c, r)]) \<and>
        (\<forall>d. c = PatchMariaDB d \<longrightarrow> adm s m)) \<and>
      served adm (stored m [(c, r)]) t)"

lemma stored_append: "stored m (t @ u) = stored (stored m t) u"
  by (induction t arbitrary: m) auto

lemma served_append: "served adm m (t @ u) \<longleftrightarrow> served adm m t \<and> served adm (stored m t) u"
  by (induction t arbitrary: m) auto

text \<open>A trace that patches nothing leaves the object, one without SQL statements the writers.\<close>

lemma stored_quiet: "\<forall>e \<in> set t. \<not> patches_status (fst e) \<Longrightarrow> stored m t = m"
  by (induction t) (auto simp: patches_status_def split: call.splits)

lemma writers_no_sql: "\<forall>e \<in> set t. \<forall>i s. fst e \<noteq> Sql i s \<Longrightarrow> writers W t = W"
proof (induction t arbitrary: W)
  case (Cons e t)
  moreover have "effect e W = W" using Cons.prems by (cases "(e, W)" rule: effect.cases) auto
  ultimately show ?case by simp
qed simp

text \<open>
  The steps: a run of the replication controller during which the current primary is never seen not
  ready; a run of the Pod controller for a Pod that is not ready; and an update of the spec by a user that
  the webhook admits and that keeps replication enabled.
\<close>

inductive system_step ::
    "meta_api \<Rightarrow> (MariaDB \<Rightarrow> MariaDB \<Rightarrow> bool) \<Rightarrow> string \<Rightarrow> (string \<Rightarrow> bool result) \<Rightarrow> int set \<times> MariaDB \<Rightarrow> int set \<times> MariaDB \<Rightarrow> bool"
  for M adm domain v106 where
  reconcile: "go_exec (Reconcile M domain v106 m) t (m', x) \<Longrightarrow> served adm m t \<Longrightarrow>
    (\<forall>cur. ms_CurrentPrimaryPodIndex (m_Status m) = Some cur \<longrightarrow> \<not> seen_unready m cur t) \<Longrightarrow>
    system_step M adm domain v106 (W, m) (writers W t, stored m t)"
| pod_not_ready: "go_exec (Replication_ReconcilePodNotReady M pod m :: (MariaDB \<times> unit result) repl) t (m', x) \<Longrightarrow> served adm m t \<Longrightarrow>
    system_step M adm domain v106 (W, m) (writers W t, stored m t)"
| update: "adm new m \<Longrightarrow> m_Status new = m_Status m \<Longrightarrow> rp_Enabled (MariaDB_Replication new) \<Longrightarrow>
    system_step M adm domain v106 (W, m) (W, new)"

text \<open>The invariant: the writers are the current primary alone, or, during a switchover, the desired one
  alone.\<close>

definition single_writer :: "meta_api \<Rightarrow> int set \<times> MariaDB \<Rightarrow> bool" where
  "single_writer M = (\<lambda>(W, m). rp_Enabled (MariaDB_Replication m) \<and>
     (\<exists>cur. ms_CurrentPrimaryPodIndex (m_Status m) = Some cur \<and>
       (W \<subseteq> {cur} \<or> (IsSwitchingPrimary M m \<and> W \<subseteq> {primaryPodIndex m}))))"

subsection \<open>Each part keeps the invariant\<close>

lemma spec_fields:
  assumes "m_Spec a = m_Spec b"
  shows "MariaDB_Replication a = MariaDB_Replication b" "primaryPodIndex a = primaryPodIndex b"
  using assms by (simp_all add: primaryPodIndex_def primaryOf_def MariaDB_Replication_def)

lemma single_writer_status:
  assumes "single_writer M (W, m)" "ms_CurrentPrimaryPodIndex s = ms_CurrentPrimaryPodIndex (m_Status m)"
    and "IsSwitchingPrimary M m \<Longrightarrow> IsSwitchingPrimary M (m\<lparr>m_Status := s\<rparr>)"
  shows "single_writer M (W, m\<lparr>m_Status := s\<rparr>)"
  using assms spec_fields [of "m\<lparr>m_Status := s\<rparr>" m] by (auto simp: single_writer_def)

lemma stored_switching: "m\<lparr>m_Status := m_Status (switchingPatch M m)\<rparr> = switchingPatch M m"
  by (simp add: switchingPatch_def)

lemma switchingPatch_same:
  "ms_CurrentPrimaryPodIndex (m_Status (switchingPatch M m)) = ms_CurrentPrimaryPodIndex (m_Status m)"
  "primaryPodIndex (switchingPatch M m) = primaryPodIndex m"
  "MariaDB_Replication (switchingPatch M m) = MariaDB_Replication m"
  "seen_unready (switchingPatch M m) cur t \<longleftrightarrow> seen_unready m cur t"
  by (simp_all add: switchingPatch_def SetPrimarySwitching_def MariaDBStatus_SetCondition_def set_conditions_def Let_def
      primaryPodIndex_def primaryOf_def MariaDB_Replication_def seen_unready_def podKey_def)

lemma switchedPatch_same:
  "m_Spec (switchedPatch M i m) = m_Spec m" "m\<lparr>m_Status := m_Status (switchedPatch M i m)\<rparr> = switchedPatch M i m"
  by (simp_all add: switchedPatch_def)

text \<open>The object a switchover leaves: unchanged when the first patch failed, switching when anything after
  it failed, and with the new primary when it succeeded.\<close>

lemma switchover_stored:
  assumes "go_exec (reconcileSwitchover M domain v106 m) t (m', x)" "served adm m t" "shouldReconcileSwitchover M m"
  shows "(x \<noteq> Inr () \<and> stored m t = m \<and> (\<forall>W. writers W t = W)) \<or>
    (\<exists>r t'. t = (PatchStatus (switchingPatch M m), r) # t' \<and> as_mariadb r = Inr (switchingPatch M m) \<and>
      stored m t = (if x = Inr () then switchedPatch M (primaryPodIndex m) (switchingPatch M m) else switchingPatch M m))"
proof -
  let ?s = "switchingPatch M m"
  from reconcileSwitchover_run [OF assms(1,3)] obtain r t' where t: "t = (PatchStatus ?s, r) # t'"
    and alt: "(\<exists>e. as_mariadb r = Inl e \<and> t' = [] \<and> x \<noteq> Inr ()) \<or>
      (\<exists>server. as_mariadb r = Inr server \<and> go_exec (runPhases M domain v106 (primaryPodIndex m) server) t' (m', x))" by blast
  from alt show ?thesis
  proof (elim disjE exE conjE)
    fix e assume "as_mariadb r = Inl e" "t' = []" "x \<noteq> Inr ()"
    then show ?thesis using t by simp
  next
    fix server assume r: "as_mariadb r = Inr server" and ph: "go_exec (runPhases M domain v106 (primaryPodIndex m) server) t' (m', x)"
    from assms(2) r have server: "server = ?s" by (simp add: t stored_switching)
    have quiet: "stored ?s t1 = ?s" if "go_exec (seqP (map (runPhase ?s) (phases domain v106))) t1 y" for t1 y
      using phases_no_patch [OF that] by (intro stored_quiet) blast
    from runPhases_run [OF ph [unfolded server]] show ?thesis
    proof (elim disjE exE conjE)
      fix e assume "x = Inl e" "go_exec (seqP (map (runPhase ?s) (phases domain v106))) t' (Inl e)"
      from this(1) quiet [OF this(2)] show ?thesis using t r server by (auto simp: stored_switching)
    next
      fix t1 t2 assume t': "t' = t1 @ t2" and ok: "go_exec (seqP (map (runPhase ?s) (phases domain v106))) t1 (Inr ())"
        and mk: "go_exec (markSwitched M (primaryPodIndex m) ?s) t2 (m', x)"
      from markSwitched_run [OF mk] obtain r2 where t2: "t2 = [(PatchStatus (switchedPatch M (primaryPodIndex m) ?s), r2)]"
        and x: "x = (case as_mariadb r2 of Inl e \<Rightarrow> Inl (ErrCtx ''error patching MariaDB status'' e) | Inr s \<Rightarrow> Inr ())" by blast
      from t t' t2 quiet [OF ok] have "stored m t = (if isl (as_mariadb r2) then ?s else switchedPatch M (primaryPodIndex m) ?s)"
        using r server by (simp add: stored_switching stored_append switchedPatch_same)
      with x t r server show ?thesis by (cases "as_mariadb r2") auto
    qed
  qed
qed

lemma switchover_keeps:
  assumes "meta_ok M" "go_exec (reconcileSwitchover M domain v106 m) t (m', x)" "served adm m t" "single_writer M (W, m)"
    and "\<forall>cur. ms_CurrentPrimaryPodIndex (m_Status m) = Some cur \<longrightarrow> \<not> seen_unready m cur t"
  shows "single_writer M (writers W t, stored m t)"
proof (cases "shouldReconcileSwitchover M m")
  case True
  let ?s = "switchingPatch M m"
  from assms(4) obtain cur where cur: "ms_CurrentPrimaryPodIndex (m_Status m) = Some cur" and en: "rp_Enabled (MariaDB_Replication m)"
    and W: "W \<subseteq> {cur} \<or> W \<subseteq> {primaryPodIndex ?s}" by (auto simp: single_writer_def switchingPatch_same)
  from switchover_stored [OF assms(2,3) True] consider (same) "stored m t = m" "\<forall>W. writers W t = W"
    | (ran) r t' where "t = (PatchStatus ?s, r) # t'" "as_mariadb r = Inr ?s"
      "stored m t = (if x = Inr () then switchedPatch M (primaryPodIndex m) ?s else ?s)" by blast
  then show ?thesis
  proof cases
    case same
    with assms(4) show ?thesis by simp
  next
    case ran
    note t = ran(1) and r = ran(2) and alt = ran(3)
    have unready: "\<not> seen_unready ?s cur t'" 
      using assms(5) cur t unfolding switchingPatch_same(4) by (auto simp: seen_unready_def)
    note run = assms(2) [unfolded t]
    have cur': "ms_CurrentPrimaryPodIndex (m_Status ?s) = Some cur" using cur by (simp add: switchingPatch_same)
    have "(handover (primaryPodIndex ?s))\<^sup>*\<^sup>* W (writers W t')"
      using handover_prefix [of M domain v106 m r t' "[]", OF _ r cur' _ W] run unready by simp
    from handover_single [OF this W] have single: "writers W t \<subseteq> {cur} \<or> writers W t \<subseteq> {primaryPodIndex ?s}"
      using t by simp
    show ?thesis
    proof (cases "x = Inr ()")
      case False
      with alt have "stored m t = ?s" by simp
      with single cur en switchingPatch_status(1) [OF assms(1), of m] show ?thesis
        by (auto simp: single_writer_def switchingPatch_same)
    next
      case x: True
      with alt have st: "stored m t = switchedPatch M (primaryPodIndex m) ?s" by simp
      have "writers W t \<subseteq> {primaryPodIndex m}"
        using switchover_ends_single [OF run r cur' unready W True x] t by (simp add: switchingPatch_same)
      moreover have "rp_Enabled (MariaDB_Replication (stored m t))"
        using en unfolding st spec_fields(1) [OF switchedPatch_same(1)] switchingPatch_same(3) .
      ultimately show ?thesis
        using switchedPatch_status(2) [OF assms(1)] by (auto simp: single_writer_def st)
    qed
  qed
next
  case False
  with assms(2) have "t = []" by (simp add: reconcileSwitchover_def)
  with assms(4) show ?thesis by simp
qed

lemma reconcileReplication_keeps:
  assumes "go_exec (reconcileReplication M domain v106 m) t x" "single_writer M (W, m)"
  shows "single_writer M (writers W t, m) \<and> (\<forall>e \<in> set t. \<not> patches_status (fst e))"
proof (cases "IsSwitchingPrimary M m")
  case True
  with assms show ?thesis by (simp add: reconcileReplication_def)
next
  case False
  with assms(2) obtain cur where cur: "ms_CurrentPrimaryPodIndex (m_Status m) = Some cur" "W \<subseteq> {cur}"
    by (auto simp: single_writer_def)
  have "opens_only cur t"
    using reconcileReplication_writable [OF assms(1)] cur(1) by (fastforce simp: opens_only_def)
  from writers_opens_only [OF this, of W] have "writers W t \<subseteq> {cur}" using cur(2) by auto
  moreover have "go_calls (\<lambda>c. \<not> patches_status c) (reconcileReplication M domain v106 m)"
  proof -
    have "go_calls (\<lambda>c. \<not> patches_status c) (ConfigurePrimary m c i)" for c i
      by (rule ConfigurePrimary_calls) (auto simp: patches_status_def)
    moreover have "go_calls (\<lambda>c. \<not> patches_status c) (ConfigureReplica domain v106 m c i p b)" for c i p b
      by (rule ConfigureReplica_calls) (auto simp: patches_status_def)
    ultimately show ?thesis
      unfolding reconcileReplication_def configurePod_def reconcileReplicationInPod_def currentPrimaryClient_def Let_def
      by (auto split: option.split intro!: all_calls_tryP all_calls_forP all_calls_seqP all_calls_ctxP ClientForIndex_calls
          simp: patches_status_def)
  qed
  from go_exec_calls [OF assms(1) this] have "\<forall>e \<in> set t. \<not> patches_status (fst e)" .
  ultimately show ?thesis using assms(2) cur(1) by (auto simp: single_writer_def)
qed

lemma switchoverResult_exec:
  "go_exec (switchoverResult M domain v106 m) t (m', x) \<Longrightarrow> \<exists>y. go_exec (reconcileSwitchover M domain v106 m) t (m', y)"
  by (auto simp: switchoverResult_def exec_bind_Ret_prod)

text \<open>A run of \<^verbatim>\<open>Reconcile\<close> is a part that neither patches nor opens any database but that of the current
  primary, then a switchover or nothing.\<close>

lemma Reconcile_parts:
  assumes "go_exec (Reconcile M domain v106 m) t (m', x)"
  shows "\<exists>h c s y. t = h @ c @ s \<and> (\<forall>e \<in> set h. quiet (fst e)) \<and> (c = [] \<or> go_exec (reconcileReplication M domain v106 m) c y) \<and>
    (s = [] \<or> (\<exists>z. go_exec (reconcileSwitchover M domain v106 m) s (m', z)))"
proof -
  consider (off) "\<not> rp_Enabled (MariaDB_Replication m)"
    | (switching) "rp_Enabled (MariaDB_Replication m)" "\<not> IsMaxScaleEnabled m" "IsSwitchingPrimary M m"
    | (healthy) "rp_Enabled (MariaDB_Replication m)" "\<not> (\<not> IsMaxScaleEnabled m \<and> IsSwitchingPrimary M m)" by blast
  then show ?thesis
  proof cases
    case off
    with assms have "t = []" by (simp add: Reconcile_def)
    then show ?thesis by (intro exI [of _ "[]"]) simp
  next
    case switching
    with assms have "go_exec (switchoverResult M domain v106 m) t (m', x)" by (simp add: Reconcile_def NewReplicationClientSet_def)
    then have "\<exists>z. go_exec (reconcileSwitchover M domain v106 m) t (m', z)" by (rule switchoverResult_exec)
    then show ?thesis by (intro exI [of _ "[]"] exI [of _ t]) simp
  next
    case healthy
    let ?rest = "\<lambda>x. case x of Inl e \<Rightarrow> Ret (m, Inl e)
      | Inr res \<Rightarrow> if res \<noteq> zeroResult then Ret (m, Inr res) else switchoverResult M domain v106 m"
    from assms healthy obtain h u a where t: "t = h @ u" and h: "go_exec (IsStatefulSetHealthy (keyOf m) (healthOpts m) :: bool result repl) h a"
      and u: "go_exec (case a of Inl e \<Rightarrow> Ret (m, Inl (ErrCtx ''error checking MariaDB health'' e))
        | Inr healthy \<Rightarrow> if \<not> healthy then Ret (m, Inr (requeueAfter second)) else reconcileHealthy M domain v106 m) u (m', x)"
      by (auto simp: Reconcile_def exec_bind)
    have q: "\<forall>e \<in> set h. quiet (fst e)" using go_exec_calls [OF h IsStatefulSetHealthy_quiet] .
    from u consider "u = []" | "go_exec (reconcileHealthy M domain v106 m) u (m', x)" by (auto split: sum.splits if_splits)
    then show ?thesis
    proof cases
      case 1
      then have "t = h @ [] @ []" using t by simp
      with q show ?thesis by blast
    next
      case 2
      with healthy(1) have "go_exec (bindP (reconcileReplication M domain v106 m) ?rest) u (m', x)"
        by (auto simp: reconcileHealthy_def NewReplicationClientSet_def)
      then obtain c s y where "u = c @ s" "go_exec (reconcileReplication M domain v106 m) c y" "go_exec (?rest y) s (m', x)"
        unfolding exec_bind by blast
      moreover from this(3) have "s = [] \<or> (\<exists>z. go_exec (reconcileSwitchover M domain v106 m) s (m', z))"
        by (auto split: sum.splits if_splits dest: switchoverResult_exec)
      ultimately show ?thesis using t q by blast
    qed
  qed
qed

lemma Reconcile_keeps:
  assumes "meta_ok M" "go_exec (Reconcile M domain v106 m) t (m', x)" "served adm m t" "single_writer M (W, m)"
    and "\<forall>cur. ms_CurrentPrimaryPodIndex (m_Status m) = Some cur \<longrightarrow> \<not> seen_unready m cur t"
  shows "single_writer M (writers W t, stored m t)"
proof -
  from Reconcile_parts [OF assms(2)] obtain h c s y where t: "t = h @ c @ s" and h: "\<forall>e \<in> set h. quiet (fst e)"
    and c: "c = [] \<or> go_exec (reconcileReplication M domain v106 m) c y"
    and s: "s = [] \<or> (\<exists>z. go_exec (reconcileSwitchover M domain v106 m) s (m', z))" by blast
  have "writers W h \<subseteq> W"
    using h by (intro writers_not_opened) (simp add: quiet_def)
  then have sw: "single_writer M (writers W h, m)" using assms(4) by (auto simp: single_writer_def)
  have sh: "stored m h = m" using h by (intro stored_quiet) (simp add: quiet_def)
  from c have "single_writer M (writers W (h @ c), m) \<and> stored m (h @ c) = m"
    using reconcileReplication_keeps [OF _ sw, of domain v106 c y] sw sh by (auto simp: stored_append stored_quiet)
  moreover from this assms(3) have "served adm m s" using t by (simp add: served_append stored_append)
  moreover have "\<forall>cur. ms_CurrentPrimaryPodIndex (m_Status m) = Some cur \<longrightarrow> \<not> seen_unready m cur s"
    using assms(5) t by (auto simp: seen_unready_def)
  ultimately have "single_writer M (writers (writers W (h @ c)) s, stored m s)" "stored m (h @ c) = m"
    using s switchover_keeps [OF assms(1)] by auto
  moreover have "t = (h @ c) @ s" using t by simp
  ultimately show ?thesis by (simp only: writers_simps stored_append)
qed

text \<open>What the Pod controller sends: the time of the failure, the index of the new primary, the switching
  condition, each on top of what is stored.\<close>

lemma SetPrimarySwitching_same:
  "ms_CurrentPrimaryPodIndex (SetPrimarySwitching (MariaDBStatus_SetCondition M) m s) = ms_CurrentPrimaryPodIndex s"
  by (simp add: SetPrimarySwitching_def MariaDBStatus_SetCondition_def set_conditions_def Let_def)

lemma IsSwitchingPrimary_status:
  "IsSwitchingPrimary M (a\<lparr>m_Status := s\<rparr>) = IsSwitchingPrimary M (b\<lparr>m_Status := s\<rparr>)"
  "IsSwitchingPrimary M (a\<lparr>m_Status := clearFailing s\<rparr>) = IsSwitchingPrimary M (a\<lparr>m_Status := s\<rparr>)"
  "IsSwitchingPrimary M (a\<lparr>m_Status := (m_Status a)\<lparr>ms_CurrentPrimaryFailingSince := f\<rparr>\<rparr>) = IsSwitchingPrimary M a"
  by (simp_all add: IsSwitchingPrimary_def)

lemma stored_setPodIndex: "m\<lparr>m_Spec := m_Spec (setPodIndex i m)\<rparr> = setPodIndex i m"
  by (simp add: setPodIndex_def)

text \<open>The interface of admission: what it promises the system is that the desired primary stays while a
  switchover is in progress.\<close>

locale admission =
  fixes M :: meta_api and adm :: "MariaDB \<Rightarrow> MariaDB \<Rightarrow> bool"
  assumes meta: "meta_ok M"
    and keeps_primary: "adm new old \<Longrightarrow> rp_Enabled (MariaDB_Replication old) \<Longrightarrow> IsSwitchingPrimary M old \<Longrightarrow>
      primaryPodIndex new = primaryPodIndex old"
begin

lemma update_keeps:
  assumes "single_writer M (W, m)" "adm new m" "m_Status new = m_Status m" "rp_Enabled (MariaDB_Replication new)"
  shows "single_writer M (W, new)"
proof -
  have "IsSwitchingPrimary M new = IsSwitchingPrimary M m" using assms(3) by (simp add: IsSwitchingPrimary_def)
  with assms keeps_primary [OF assms(2)] show ?thesis by (auto simp: single_writer_def)
qed

lemma markFailing_keeps:
  assumes "go_exec (markFailing now m :: (MariaDB \<times> unit result) repl) t (m1, y)" "served adm m t" "single_writer M (W, m)"
  shows "single_writer M (W, stored m t) \<and> (y = Inr () \<longrightarrow> stored m t = m1) \<and> (\<forall>e \<in> set t. \<forall>i s. fst e \<noteq> Sql i s)"
proof (cases "ms_CurrentPrimaryFailingSince (m_Status m) = None")
  case True
  let ?s = "(m_Status m)\<lparr>ms_CurrentPrimaryFailingSince := Some now\<rparr>"
  from assms(1) True obtain r where t: "t = [(PatchStatus (m\<lparr>m_Status := ?s\<rparr>), r)]"
    and y: "y = Inr () \<longrightarrow> as_mariadb r = Inr m1"
    by (auto simp: markFailing_def exec_bind_Ret_prod exec_patchStatusCtx split: sum.splits)
  have "single_writer M (W, m\<lparr>m_Status := ?s\<rparr>)"
    by (rule single_writer_status [OF assms(3)]) (simp_all add: IsSwitchingPrimary_status)
  with t y assms(2,3) show ?thesis by (cases "as_mariadb r") auto
next
  case False
  with assms show ?thesis by (auto simp: markFailing_def)
qed

lemma switchTo_keeps:
  assumes "go_exec (switchTo M m i :: (MariaDB \<times> unit result) repl) t (m', x)" "served adm m t" "single_writer M (W, m)"
  shows "single_writer M (W, stored m t) \<and> (\<forall>e \<in> set t. \<forall>i s. fst e \<noteq> Sql i s)"
proof -
  let ?d = "setPodIndex i m"
  let ?sw = "\<lambda>a. clearFailing (SetPrimarySwitching (MariaDBStatus_SetCondition M) a (m_Status a))"
  from assms(1) obtain r1 r2 m1 where
    t: "t = [(PatchMariaDB ?d, r1), (PatchStatus (m1\<lparr>m_Status := ?sw m1\<rparr>), r2)]"
    and m1: "m1 = (case as_mariadb r1 of Inl e \<Rightarrow> ?d | Inr s \<Rightarrow> s)"
    by (auto simp: switchTo_def exec_bind exec_patchMariaDB exec_patchStatusCtx split: prod.splits sum.splits)
  let ?b = "stored m [(PatchMariaDB ?d, r1)]"
  have b: "single_writer M (W, ?b) \<and> m_Status m1 = m_Status ?b"
  proof (cases "as_mariadb r1")
    case (Inl e)
    with m1 assms(3) show ?thesis by simp
  next
    case (Inr s)
    then have s: "?b = ?d" "s = ?d" "adm ?d m" using assms(2) t by (auto simp: stored_setPodIndex)
    have "rp_Enabled (MariaDB_Replication ?d)" using assms(3) unfolding single_writer_def by (simp only: setPodIndex_simps) simp
    then have "single_writer M (W, ?d)" using s by (intro update_keeps [OF assms(3)]) simp_all
    with s m1 Inr show ?thesis by simp
  qed
  have sw: "IsSwitchingPrimary M (?b\<lparr>m_Status := ?sw m1\<rparr>)"
    using switchingPatch_status(1) [OF meta, of m1]
    unfolding IsSwitchingPrimary_status(2) switchingPatch_def IsSwitchingPrimary_status(1) [of M _ ?b m1] .
  have "single_writer M (W, ?b\<lparr>m_Status := ?sw m1\<rparr>)"
    by (rule single_writer_status [OF b [THEN conjunct1]]) (simp only: b clearFailing_simps SetPrimarySwitching_same, rule sw)
  with b t show ?thesis by auto
qed

lemma failover_keeps:
  assumes "go_exec (failover M now m :: (MariaDB \<times> unit result) repl) t (m', x)" "served adm m t" "single_writer M (W, m)"
  shows "single_writer M (W, stored m t) \<and> (\<forall>e \<in> set t. \<forall>i s. fst e \<noteq> Sql i s)"
proof -
  let ?rest = "\<lambda>i. case i of Inl e \<Rightarrow> Ret (m, Inl (ErrCtx ''error getting healthy replica'' e)) | Inr toIndex \<Rightarrow> switchTo M m toIndex"
  from assms(1) consider "t = []" | "go_exec (bindP (ReplicaPodHealthyIndex m) ?rest :: (MariaDB \<times> unit result) repl) t (m', x)"
    by (auto simp: failover_def split: sum.splits)
  then show ?thesis
  proof cases
    case 2
    then obtain t1 t2 y where t: "t = t1 @ t2" and h: "go_exec (ReplicaPodHealthyIndex m :: int result repl) t1 y"
      and r: "go_exec (?rest y :: (MariaDB \<times> unit result) repl) t2 (m', x)" unfolding exec_bind by blast
    have "\<forall>e \<in> set t1. \<not> patches_status (fst e) \<and> (\<forall>i s. fst e \<noteq> Sql i s)"
      using h by (auto simp: ReplicaPodHealthyIndex_def secondaryPodHealthyIndex_def exec_simps patches_status_def split: option.splits)
    moreover from this have "stored m t1 = m" by (intro stored_quiet) blast
    moreover have "single_writer M (W, stored m t2) \<and> (\<forall>e \<in> set t2. \<forall>i s. fst e \<noteq> Sql i s)"
      using r assms(2,3) t calculation(2) by (cases y) (auto simp: served_append dest: switchTo_keeps)
    ultimately show ?thesis by (auto simp: t stored_append)
  qed (use assms(3) in simp)
qed

lemma pod_not_ready_keeps:
  assumes "go_exec (Replication_ReconcilePodNotReady M pod m :: (MariaDB \<times> unit result) repl) t (m', x)" "served adm m t" "single_writer M (W, m)"
  shows "single_writer M (writers W t, stored m t)"
proof (cases "t = []")
  case False
  from assms(1) False obtain rn t' where t: "t = (Now, rn) # t'"
    and b: "go_exec (bindP (markFailing (as_time rn) m) (\<lambda>(m, x). case x of Inl e \<Rightarrow> Ret (m, Inl e)
       | Inr _ \<Rightarrow> failover M (as_time rn) m) :: (MariaDB \<times> unit result) repl) t' (m', x)"
    by (auto simp: Replication_ReconcilePodNotReady_def exec_ask_bind split: if_splits option.splits sum.splits)
  from b obtain t1 t2 m1 y where t': "t' = t1 @ t2" and mk: "go_exec (markFailing (as_time rn) m :: (MariaDB \<times> unit result) repl) t1 (m1, y)"
    and f: "go_exec ((case y of Inl e \<Rightarrow> Ret (m1, Inl e) | Inr _ \<Rightarrow> failover M (as_time rn) m1) :: (MariaDB \<times> unit result) repl) t2 (m', x)"
    unfolding exec_bind by auto
  have sv: "served adm m t1" "served adm (stored m t1) t2" using assms(2) t t' by (simp_all add: served_append)
  note k1 = markFailing_keeps [OF mk sv(1) assms(3)]
  have k2: "single_writer M (W, stored (stored m t1) t2) \<and> (\<forall>e \<in> set t2. \<forall>i s. fst e \<noteq> Sql i s)"
    using f sv(2) k1 by (cases y) (auto dest: failover_keeps)
  have "writers W t = W" using k1 k2 t t' by (intro writers_no_sql) auto
  with k2 t t' show ?thesis by (simp add: stored_append)
qed (use assms(3) in simp)

lemma step_keeps:
  "system_step M adm domain v106 s s' \<Longrightarrow> single_writer M s \<Longrightarrow> single_writer M s'"
  by (induction rule: system_step.induct) (auto intro: Reconcile_keeps [OF meta] pod_not_ready_keeps update_keeps)

lemma reachable_keeps:
  "(system_step M adm domain v106)\<^sup>*\<^sup>* s s' \<Longrightarrow> single_writer M s \<Longrightarrow> single_writer M s'"
  by (induction rule: rtranclp_induct) (auto intro: step_keeps)

end

text \<open>The webhook provides it.\<close>

definition webhook :: "meta_api \<Rightarrow> quantity_api \<Rightarrow> (IntOrString \<Rightarrow> int \<Rightarrow> bool \<Rightarrow> int result) \<Rightarrow> (MariaDB \<Rightarrow> MariaDB \<Rightarrow> unit result) \<Rightarrow>
    MariaDB \<Rightarrow> MariaDB \<Rightarrow> bool" where
  "webhook M Q scaled immutable new old \<longleftrightarrow> MariaDB_ValidateUpdate M Q scaled immutable old new = Inr ()"

lemma webhook_keeps_primary:
  assumes "webhook M Q scaled immutable new old" "rp_Enabled (MariaDB_Replication old)" "IsSwitchingPrimary M old"
  shows "primaryPodIndex new = primaryPodIndex old"
  using assms by (auto simp: webhook_def MariaDB_ValidateUpdate_def validatePrimarySwitchover_def split: if_splits)

lemma webhook_admission: "meta_ok M \<Longrightarrow> admission M (webhook M Q scaled immutable)"
  by unfold_locales (auto intro: webhook_keeps_primary)

interpretation list_webhook: admission list_meta "webhook list_meta Q scaled immutable" for Q scaled immutable
  by (rule webhook_admission) (rule meta_ok_list_meta)


lemma served_quiet: "\<forall>e \<in> set t. \<not> patches_status (fst e) \<Longrightarrow> served adm m t"
proof (induction t arbitrary: m)
  case (Cons e t)
  have "stored m [e] = m" by (rule stored_quiet) (use Cons.prems in simp)
  with Cons show ?case by (cases e) (auto simp: patches_status_def)
qed simp

text \<open>A switchover whose patches are answered with what they send is served.\<close>

lemma switchover_served:
  assumes "go_exec (reconcileSwitchover M domain v106 m) t (m', Inr ())" "shouldReconcileSwitchover M m"
    and "\<And>d r. (PatchStatus d, r) \<in> set t \<Longrightarrow> as_mariadb r = Inr d"
  shows "served adm m t"
proof -
  let ?s = "switchingPatch M m"
  from reconcileSwitchover_run [OF assms(1,2)] obtain r t' server where t: "t = (PatchStatus ?s, r) # t'"
    and r: "as_mariadb r = Inr server" and ph: "go_exec (runPhases M domain v106 (primaryPodIndex m) server) t' (m', Inr ())" by auto
  have server: "server = ?s" using assms(3) [of ?s r] t r by simp
  from runPhases_run [OF ph [unfolded server]] obtain t1 t2 where t': "t' = t1 @ t2"
    and ok: "go_exec (seqP (map (runPhase ?s) (phases domain v106))) t1 (Inr ())"
    and mk: "go_exec (markSwitched M (primaryPodIndex m) ?s) t2 (m', Inr ())" by auto
  from markSwitched_run [OF mk] obtain r2 where t2: "t2 = [(PatchStatus (switchedPatch M (primaryPodIndex m) ?s), r2)]" by blast
  have "as_mariadb r2 = Inr (switchedPatch M (primaryPodIndex m) ?s)" by (rule assms(3)) (simp add: t t' t2)
  moreover have "stored ?s t1 = ?s" "served adm ?s t1"
    using phases_no_patch [OF ok] by (auto intro: stored_quiet served_quiet)
  ultimately show ?thesis
    using r server by (simp add: t t' t2 served_append stored_switching switchedPatch_same)
qed

lemma switching_run:
  assumes "meta_ok M" "cooperative env" "switchable v106 m" "shouldReconcileSwitchover M m" "rp_Enabled (MariaDB_Replication m)"
    and "IsSwitchingPrimary M m" "\<forall>h k pod. as_pod (env h (GetPod k)) = Inr pod \<longrightarrow> PodReady pod"
  shows "\<exists>W' m'. system_step M adm domain v106 (W, m) (W', m') \<and> ms_CurrentPrimaryPodIndex (m_Status m') = Some (primaryPodIndex m)"
proof -
  obtain t m' where run: "go_run env (reconcileSwitchover M domain v106 m) = Some (t, (m', Inr ()))"
    using switchover_ends [OF assms(2-4)] unfolding ends_def go_run_def by blast
  have env: "\<exists>h. r = env h c" if "(c, r) \<in> set t" for c r
    using go_run_answered [OF run] that by (auto simp: answered_def)
  have patches: "as_mariadb r = Inr d" if "(PatchStatus d, r) \<in> set t" for d r
    using env [OF that] assms(2) unfolding cooperative_def by (metis good.simps(2))
  note ex = go_run_exec [OF run]
  note sv = switchover_served [OF ex assms(4) patches]
  have "\<not> IsMaxScaleEnabled m" using assms(4) by (auto simp: shouldReconcileSwitchover_def split: if_splits)
  moreover have "go_exec (switchoverResult M domain v106 m) (t @ []) (m', Inr zeroResult)"
    unfolding switchoverResult_def by (rule exec_bindI [OF ex]) simp
  ultimately have rec: "go_exec (Reconcile M domain v106 m) t (m', Inr zeroResult)"
    using assms(5,6) by (simp add: Reconcile_def NewReplicationClientSet_def)
  have "\<not> seen_unready m cur t" for cur
    using env assms(7) by (fastforce simp: seen_unready_def)
  then have "system_step M adm domain v106 (W, m) (writers W t, stored m t)"
    using rec sv by (intro system_step.reconcile) auto
  moreover have "ms_CurrentPrimaryPodIndex (m_Status (stored m t)) = Some (primaryPodIndex m)"
    using switchover_stored [OF ex sv assms(4)] switchedPatch_status(2) [OF assms(1)] by auto
  ultimately show ?thesis by blast
qed


subsection \<open>A failover stored by half\<close>

text \<open>The status of an announcement on top of the old spec, as the API server has it when the patch of the
  spec failed and the patch of the status succeeded.\<close>

definition half_announced :: "meta_api \<Rightarrow> int \<Rightarrow> MariaDB \<Rightarrow> MariaDB" where
  "half_announced M i m = m\<lparr>m_Status := m_Status (announced M i m)\<rparr>"

lemma half_failover_run:
  assumes "shouldReconcile M m" "ms_CurrentPrimaryPodIndex (m_Status m) = Some cur" "PodIndex (pod_Name pod) = Inr cur"
    and "ms_CurrentPrimaryFailingSince (m_Status m) = Some since" "since + GetAutomaticFailoverDelay m \<le> now"
    and "firstHealthy cur (\<lambda>p. PodReady p \<and> MariaDB_IsConfiguredReplica m (pod_Name p)) (sortPodList items) = Inr i"
  shows "\<exists>err. exec grp (Replication_ReconcilePodNotReady M pod m)
    [(Now, ATime now), (ListPods (keyOf m), APods (Inr items)), (PatchMariaDB (setPodIndex i m), AMariaDB (Inl e)),
     (PatchStatus (announced M i m), AMariaDB (Inr (half_announced M i m)))] (half_announced M i m, Inl err)"
proof -
  have "checkDelay now m = Inr ()" using assms(4,5) by (auto simp: checkDelay_ok)
  then show ?thesis
    using assms
    by (simp add: Replication_ReconcilePodNotReady_def markFailing_def failover_def ReplicaPodHealthyIndex_def
        secondaryPodHealthyIndex_def switchTo_def patchMariaDB_def patchStatusCtx_def patchStatus_def announced_def bundleErrors_def
        Let_def tryP_def ctxP_def ask_def exec_Call)
qed

text \<open>
  C39: a failover that is stored by half cannot be undone by the operator. The Pod controller sends the
  index of the new primary and the switching condition as two patches and sends the second one even when
  the first one failed. When it does, the cluster is marked as switching while its desired primary is
  still the current one: no switchover is due, every reconciliation of replication ends at once without a
  call, and the webhook rejects every update of the desired primary, the next attempt of the Pod
  controller included.
\<close>

theorem half_failover_sticks:
  assumes "meta_ok M" "shouldReconcile M m" "ms_CurrentPrimaryPodIndex (m_Status m) = Some (primaryPodIndex m)"
    and "PodIndex (pod_Name pod) = Inr (primaryPodIndex m)"
    and "ms_CurrentPrimaryFailingSince (m_Status m) = Some since" "since + GetAutomaticFailoverDelay m \<le> now"
    and "firstHealthy (primaryPodIndex m) (\<lambda>p. PodReady p \<and> MariaDB_IsConfiguredReplica m (pod_Name p)) (sortPodList items) = Inr i"
  shows "\<exists>t m' err. go_exec (Replication_ReconcilePodNotReady M pod m :: (MariaDB \<times> unit result) repl) t (m', Inl err) \<and>
    served (webhook M Q scaled immutable) m t \<and> m' = stored m t \<and> IsSwitchingPrimary M m' \<and> \<not> IsReady M m' \<and>
    Reconcile M domain v106 m' = Ret (m', Inr zeroResult) \<and>
    (\<forall>new. webhook M Q scaled immutable new m' \<longrightarrow> primaryPodIndex new = primaryPodIndex m)"
proof -
  let ?m = "half_announced M i m"
  let ?t = "[(Now, ATime now), (ListPods (keyOf m), APods (Inr items)), (PatchMariaDB (setPodIndex i m), AMariaDB (Inl (ErrExt ''conflict''))),
     (PatchStatus (announced M i m), AMariaDB (Inr ?m))]"
  have spec: "MariaDB_Replication ?m = MariaDB_Replication m" "primaryPodIndex ?m = primaryPodIndex m"
    by (rule spec_fields; simp add: half_announced_def)+
  have en: "rp_Enabled (MariaDB_Replication m)" "\<not> IsMaxScaleEnabled m"
    using assms(2) by (auto simp: shouldReconcile_def split: if_splits)
  have status: "m_Status ?m = clearFailing (m_Status (switchingPatch M (setPodIndex i m)))"
    by (simp add: half_announced_def announced_switching)
  have sw: "IsSwitchingPrimary M ?m" "\<not> IsReady M ?m"
    using switchingPatch_status [OF assms(1), of "setPodIndex i m"] by (simp_all add: IsSwitchingPrimary_def IsReady_def status)
  have "ms_CurrentPrimaryPodIndex (m_Status ?m) = Some (primaryPodIndex ?m)"
    using assms(3) by (simp add: status spec switchingPatch_same)
  then have "\<not> shouldReconcileSwitchover M ?m" by (simp add: shouldReconcileSwitchover_def)
  moreover have "\<not> IsMaxScaleEnabled ?m" using en(2) by (simp add: half_announced_def IsMaxScaleEnabled_def)
  ultimately have idle: "Reconcile M domain v106 ?m = Ret (?m, Inr zeroResult)"
    using en(1) sw(1) spec(1)
    by (simp add: Reconcile_def NewReplicationClientSet_def switchoverResult_def reconcileSwitchover_def)
  have rejects: "\<forall>new. webhook M Q scaled immutable new ?m \<longrightarrow> primaryPodIndex new = primaryPodIndex m"
    using webhook_keeps_primary [of M Q scaled immutable _ ?m] en(1) sw(1) spec by simp
  obtain err where "go_exec (Replication_ReconcilePodNotReady M pod m :: (MariaDB \<times> unit result) repl) ?t (?m, Inl err)"
    using half_failover_run [OF assms(2-7)] by blast
  moreover have "served (webhook M Q scaled immutable) m ?t" "?m = stored m ?t" by (simp_all add: half_announced_def)
  ultimately show ?thesis using sw idle rejects by blast
qed

theorem half_failover_sticks_witness:
  "\<exists>t m' err. go_exec (Replication_ReconcilePodNotReady list_meta (listedPod ''mdb-0'') failingMariaDB :: (MariaDB \<times> unit result) repl)
      t (m', Inl err) \<and> IsSwitchingPrimary list_meta m' \<and> Reconcile list_meta ''cluster.local'' (\<lambda>_. Inr True) m' = Ret (m', Inr zeroResult) \<and>
    (\<forall>new. webhook list_meta text_quantity int_scaler (\<lambda>_ _. Inr ()) new m' \<longrightarrow> primaryPodIndex new = 0)"
proof -
  have p: "primaryPodIndex failingMariaDB = 0"
    by (simp add: failingMariaDB_def replication_defs PrimaryReplication_FillWithDefaults_def)
  have cur: "ms_CurrentPrimaryPodIndex (m_Status failingMariaDB) = Some (primaryPodIndex failingMariaDB)"
    "PodIndex (pod_Name (listedPod ''mdb-0'')) = Inr (primaryPodIndex failingMariaDB)"
    "firstHealthy (primaryPodIndex failingMariaDB) (\<lambda>p. PodReady p \<and> MariaDB_IsConfiguredReplica failingMariaDB (pod_Name p))
       (sortPodList [listedPod ''mdb-1'']) = Inr 1"
    unfolding p by (rule failingMariaDB_ready)+
  from half_failover_sticks [OF meta_ok_list_meta failingMariaDB_ready(1) cur(1,2) failingMariaDB_ready(4,5) cur(3)]
  show ?thesis unfolding p by blast
qed

end
