(* ===== verification/Rolling_Update.thy ===== *)
theory Rolling_Update
  imports Switchover Health
begin

text \<open>
  \<^verbatim>\<open>internal/controller/mariadb_controller_update.go\<close>: the rolling update of the Pods of a cluster, replicas
  first and the primary last, one Pod per reconciliation. An operation that may change the MariaDB object
  returns the object as it is afterwards. What the operator reads of a MaxScale object is whether it is
  ready. The rendering of configuration into annotations is not modelled.
\<close>

definition ErrSkipReconciliationPhase :: go_error where
  "ErrSkipReconciliationPhase = ErrNew ''skipping reconciliation phase''"

definition shouldReconcileUpdates :: "meta_api \<Rightarrow> MariaDB \<Rightarrow> bool" where
  "shouldReconcileUpdates M mdb =
     (if IsRestoringBackup M mdb \<or> IsResizingStorage M mdb \<or> IsSwitchingPrimary M mdb \<or> HasGaleraNotReadyCondition M mdb then False
      else us_Type (sp_UpdateStrategy (m_Spec mdb)) = ReplicasFirstPrimaryLastUpdateType)"

definition getStatefulSetRevision :: "MariaDB \<Rightarrow> ('g, 'u, string result) op" where
  "getStatefulSetRevision mdb =
     tryP (ask as_sts (GetStatefulSet (keyOf mdb))) (\<lambda>sts. Ret (Inr (sts_UpdateRevision sts)))"

subsection \<open>Pods by role\<close>

record podRoleSet =
  prs_replicas :: "Pod list"
  prs_primary :: Pod

definition getStalePodNames :: "string \<Rightarrow> podRoleSet \<Rightarrow> string list" where
  "getStalePodNames updateRevision p =
     map pod_Name (filter (\<lambda>r. \<not> PodUpdated r updateRevision) (prs_replicas p)) @
     (if PodUpdated (prs_primary p) updateRevision then [] else [pod_Name (prs_primary p)])"

text \<open>The loop over the listed Pods: the last one with the primary's name, and the others.\<close>

definition splitRoles :: "string \<Rightarrow> Pod list \<Rightarrow> Pod option \<times> Pod list" where
  "splitRoles currentPrimary items =
     (find (\<lambda>p. pod_Name p = currentPrimary) (rev items), filter (\<lambda>p. pod_Name p \<noteq> currentPrimary) items)"

text \<open>A non-zero result of \<^verbatim>\<open>getPodsByRole\<close> ends the reconciliation: \<open>Inl\<close>.\<close>

definition getPodsByRole :: "MariaDB \<Rightarrow> ('g, 'u, (CtrlResult + podRoleSet) result) op" where
  "getPodsByRole mdb =
     (let currentPrimary = Deref (ms_CurrentPrimary (m_Status mdb)) '''' in
      if currentPrimary = '''' then Ret (Inr (Inl (requeueAfter second)))
      else if m_Replicas mdb = 0 then Ret (Inr (Inl (requeueAfter (5 * second))))
      else tryP (ctxP ''error listing Pods'' (ask as_pods (ListPods (keyOf mdb)))) (\<lambda>items.
        if int (length items) \<noteq> m_Replicas mdb then Ret (Inr (Inl (requeueAfter second)))
        else (case splitRoles currentPrimary items of (primary, replicas) \<Rightarrow>
          if IsHAEnabled mdb \<and> replicas = [] then Ret (Inl (ErrNew ''no replica Pods found''))
          else (case primary of
             None \<Rightarrow> Ret (Inl (ErrNew ''primary Pod not found''))
           | Some p \<Rightarrow> Ret (Inr (Inr \<lparr>prs_replicas = rev (sort_key pod_Name replicas), prs_primary = p\<rparr>))))))"

subsection \<open>Waiting and updating\<close>

definition maxScaleKey :: "ObjectReference \<Rightarrow> string \<Rightarrow> NamespacedName" where
  "maxScaleKey ref namespace =
     \<lparr>nn_Name = or_Name ref, nn_Namespace = if or_Namespace ref \<noteq> '''' then or_Namespace ref else namespace\<rparr>"

definition waitForReadyStatus :: "MariaDB \<Rightarrow> ('g, 'u, CtrlResult result) op" where
  "waitForReadyStatus mdb =
     tryP (ask as_sts (GetStatefulSet (keyOf mdb))) (\<lambda>sts.
       if sts_ReadyReplicas sts \<noteq> m_Replicas mdb then Ret (Inr (requeueAfter second))
       else (case sp_MaxScaleRef (m_Spec mdb) of
          None \<Rightarrow> Ret (Inr zeroResult)
        | Some ref \<Rightarrow> tryP (ask as_bool (GetMaxScale (maxScaleKey ref (m_Namespace mdb))))
            (\<lambda>isReady. Ret (Inr (if isReady then zeroResult else requeueAfter second)))))"

definition waitForConfiguredReplica :: "MariaDB \<Rightarrow> unit result" where
  "waitForConfiguredReplica mdb =
     (if \<not> rp_Enabled (MariaDB_Replication mdb) then Inr ()
      else if \<not> MariaDB_HasConfiguredReplica mdb then Inl ErrSkipReconciliationPhase
      else Inr ())"

definition podKeyOf :: "Pod \<Rightarrow> NamespacedName" where
  "podKeyOf pod = \<lparr>nn_Name = pod_Name pod, nn_Namespace = pod_Namespace pod\<rparr>"

definition pollUntilPodUpdated :: "NamespacedName \<Rightarrow> NamespacedName \<Rightarrow> string \<Rightarrow> ('g, 'u, unit result) op" where
  "pollUntilPodUpdated mariadbKey key updateRevision =
     PollWithMariaDB minute mariadbKey
       (tryP (ctxP ''error getting Pod'' (ask as_pod (GetPod key))) (\<lambda>pod.
          Ret (if PodUpdated pod updateRevision then Inr () else Inl (ErrNew ''Pod stale''))))"

definition updatePod :: "NamespacedName \<Rightarrow> Pod \<Rightarrow> string \<Rightarrow> ('g, 'u, unit result) op" where
  "updatePod mariadbKey pod updateRevision =
     tryP (ctxP ''error deleting Pod'' (ask as_unit (DeletePod (podKeyOf pod)))) (\<lambda>_.
     ctxP ''error waiting for Pod to be updated'' (pollUntilPodUpdated mariadbKey (podKeyOf pod) updateRevision))"

subsection \<open>Moving the primary away first\<close>

definition shouldTriggerSwitchover :: "meta_api \<Rightarrow> MariaDB \<Rightarrow> bool" where
  "shouldTriggerSwitchover M mariadb =
     (if IsMaxScaleEnabled mariadb \<or> IsRestoringBackup M mariadb then False
      else rp_Enabled (MariaDB_Replication mariadb) \<and> primaryAutomaticFailover mariadb \<and> MariaDB_HasConfiguredReplica mariadb)"

text \<open>\<^verbatim>\<open>MariaDBReconciler.patch\<close>\<close>

definition patchObject :: "MariaDB \<Rightarrow> (MariaDB \<Rightarrow> MariaDB) \<Rightarrow> ('g, 'u, MariaDB \<times> unit result) op" where
  "patchObject mariadb patcher =
     (let mariadb' = patcher mariadb in
      bindP (ask as_mariadb (PatchMariaDB mariadb')) (\<lambda>x. case x of
        Inl e \<Rightarrow> Ret (mariadb', Inl e) | Inr server \<Rightarrow> Ret (server, Inr ())))"

definition triggerSwitchover :: "meta_api \<Rightarrow> MariaDB \<Rightarrow> ('g, 'u, MariaDB \<times> unit result) op" where
  "triggerSwitchover M mariadb =
     (if \<not> shouldTriggerSwitchover M mariadb then Ret (mariadb, Inr ())
      else case ms_CurrentPrimaryPodIndex (m_Status mariadb) of
        None \<Rightarrow> Ret (mariadb, Inl (ErrNew ''status.currentPrimaryPodIndex must be set''))
      | Some _ \<Rightarrow>
          bindP (ReplicaPodHealthyIndex mariadb) (\<lambda>i. case i of
            Inl e \<Rightarrow> Ret (mariadb, Inl (ErrCtx ''error getting healthy replica'' e))
          | Inr toIndex \<Rightarrow>
              bindP (patchObject mariadb (setPodIndex toIndex)) (\<lambda>(m, x). case x of
                Inl e \<Rightarrow> Ret (m, Inl e)
              | Inr _ \<Rightarrow> Ret (m, Inl ErrSkipReconciliationPhase))))"

subsection \<open>One reconciliation\<close>

text \<open>The last part of \<^verbatim>\<open>reconcileUpdates\<close>, for the primary Pod; the part from the stale Pods on, where the
  loop over the replicas returns at the first stale one; and the whole.\<close>

definition updatePrimary :: "meta_api \<Rightarrow> MariaDB \<Rightarrow> string \<Rightarrow> Pod \<Rightarrow> ('g, 'u, MariaDB \<times> CtrlResult result) op" where
  "updatePrimary M mdb updateRevision primaryPod =
     (if PodUpdated primaryPod updateRevision then Ret (mdb, Inr zeroResult)
      else case waitForConfiguredReplica mdb of
        Inl e \<Rightarrow> Ret (mdb, Inl e)
      | Inr _ \<Rightarrow>
          bindP (triggerSwitchover M mdb) (\<lambda>(m, x). case x of
            Inl e \<Rightarrow> Ret (m, Inl e)
          | Inr _ \<Rightarrow>
              bindP (ctxP ''error updating primary Pod'' (updatePod (keyOf mdb) primaryPod updateRevision)) (\<lambda>y.
                Ret (m, case y of Inl e \<Rightarrow> Inl e | Inr _ \<Rightarrow> Inr zeroResult))))"

definition updateStale :: "meta_api \<Rightarrow> MariaDB \<Rightarrow> string \<Rightarrow> podRoleSet \<Rightarrow> ('g, 'u, MariaDB \<times> CtrlResult result) op" where
  "updateStale M mdb updateRevision roles =
     (if getStalePodNames updateRevision roles = [] then Ret (mdb, Inr zeroResult)
      else bindP (waitForReadyStatus mdb) (\<lambda>w. case w of
        Inl e \<Rightarrow> Ret (mdb, Inl e)
      | Inr res \<Rightarrow>
          if res \<noteq> zeroResult then Ret (mdb, Inr res)
          else (case find (\<lambda>p. \<not> PodUpdated p updateRevision) (prs_replicas roles) of
             Some replicaPod \<Rightarrow>
               bindP (ctxP ''error updating replica Pod'' (updatePod (keyOf mdb) replicaPod updateRevision)) (\<lambda>y.
                 Ret (mdb, case y of Inl e \<Rightarrow> Inl e | Inr _ \<Rightarrow> Inr requeue))
           | None \<Rightarrow> updatePrimary M mdb updateRevision (prs_primary roles))))"

definition reconcileUpdates :: "meta_api \<Rightarrow> MariaDB \<Rightarrow> ('g, 'u, MariaDB \<times> CtrlResult result) op" where
  "reconcileUpdates M mdb =
     (if \<not> shouldReconcileUpdates M mdb then Ret (mdb, Inr zeroResult)
      else bindP (getStatefulSetRevision mdb) (\<lambda>x. case x of
        Inl e \<Rightarrow> Ret (mdb, Inl e)
      | Inr updateRevision \<Rightarrow>
          if updateRevision = '''' then Ret (mdb, Inr (requeueAfter second))
          else bindP (getPodsByRole mdb) (\<lambda>y. case y of
            Inl e \<Rightarrow> Ret (mdb, Inl e)
          | Inr (Inl res) \<Rightarrow> Ret (mdb, Inr res)
          | Inr (Inr roles) \<Rightarrow> updateStale M mdb updateRevision roles)))"

subsection \<open>One Pod at a time\<close>

definition no_delete :: "call \<Rightarrow> bool" where
  "no_delete c = (case c of DeletePod k \<Rightarrow> False | _ \<Rightarrow> True)"

lemma no_delete_simps [simp]:
  "\<not> no_delete (DeletePod k)" "no_delete (GetPod k)" "no_delete (ListPods k)" "no_delete (GetMariaDB k)" "no_delete (PatchMariaDB m)"
  "no_delete (GetMaxScale k)" "no_delete (GetStatefulSet k)" "no_delete Tick"
  by (simp_all add: no_delete_def)

text \<open>A trace with exactly one deletion, of the given Pod.\<close>

definition only_delete :: "NamespacedName \<Rightarrow> (call, answer) trace \<Rightarrow> bool" where
  "only_delete k t \<longleftrightarrow> (\<exists>pre r post. t = pre @ (DeletePod k, r) # post \<and> (\<forall>e \<in> set (pre @ post). no_delete (fst e)))"

abbreviation quiet_trace :: "(call, answer) trace \<Rightarrow> bool" where
  "quiet_trace t \<equiv> \<forall>e \<in> set t. no_delete (fst e)"

lemma only_delete_after: "quiet_trace t1 \<Longrightarrow> only_delete k t2 \<Longrightarrow> only_delete k (t1 @ t2)"
proof -
  assume "quiet_trace t1" "only_delete k t2"
  then obtain pre r post where "t1 @ t2 = (t1 @ pre) @ (DeletePod k, r) # post" "\<forall>e \<in> set ((t1 @ pre) @ post). no_delete (fst e)"
    unfolding only_delete_def by fastforce
  then show ?thesis unfolding only_delete_def by blast
qed

lemma updatePod_deletes:
  assumes "go_exec (updatePod key pod updateRevision :: (call, answer, 'u, unit result) go) t x"
  shows "only_delete (podKeyOf pod) t"
proof -
  let ?poll = "ctxP ''error waiting for Pod to be updated'' (pollUntilPodUpdated key (podKeyOf pod) updateRevision)
    :: (call, answer, 'u, unit result) go"
  have "quiet_trace u" if "go_exec ?poll u y" for u y
  proof (rule go_exec_calls [OF that])
    show "go_calls no_delete ?poll"
      unfolding pollUntilPodUpdated_def by (auto intro!: all_calls_ctxP all_calls_PollWithMariaDB all_calls_tryP)
  qed
  with assms obtain r u where "t = [] @ (DeletePod (podKeyOf pod), r) # u" "quiet_trace ([] @ u)"
    unfolding updatePod_def exec_tryP by (fastforce simp: exec_ctxP)
  then show ?thesis unfolding only_delete_def by blast
qed

lemma triggerSwitchover_run:
  assumes "exec grp (triggerSwitchover M m) t (m', x)"
  shows "quiet_trace t" "x = Inr () \<Longrightarrow> t = [] \<and> m' = m \<and> \<not> shouldTriggerSwitchover M m"
  using assms
  by (auto simp: triggerSwitchover_def ReplicaPodHealthyIndex_def secondaryPodHealthyIndex_def patchObject_def Let_def
      exec_simps exec_case_sum split: if_splits option.splits prod.splits)

type_synonym 'u update_op = "(call, answer, 'u, MariaDB \<times> CtrlResult result) go"

lemma updatePrimary_run:
  assumes "go_exec (updatePrimary M mdb updateRevision p :: 'u update_op) t (m', x)"
  shows "quiet_trace t \<or> only_delete (podKeyOf p) t \<and> \<not> PodUpdated p updateRevision \<and>
    waitForConfiguredReplica mdb = Inr () \<and> \<not> shouldTriggerSwitchover M mdb"
proof (cases "PodUpdated p updateRevision \<or> waitForConfiguredReplica mdb \<noteq> Inr ()")
  case True
  with assms have "t = []" by (auto simp: updatePrimary_def split: if_splits sum.splits)
  then show ?thesis by simp
next
  case False
  with assms obtain t1 t2 m1 y where t: "t = t1 @ t2"
    and s: "go_exec (triggerSwitchover M mdb :: (call, answer, 'u, MariaDB \<times> unit result) go) t1 (m1, y)"
    and u: "go_exec ((case y of Inl e \<Rightarrow> Ret (m1, Inl e) | Inr _ \<Rightarrow>
        bindP (ctxP ''error updating primary Pod'' (updatePod (keyOf mdb) p updateRevision)) (\<lambda>y.
          Ret (m1, case y of Inl e \<Rightarrow> Inl e | Inr _ \<Rightarrow> Inr zeroResult))) :: 'u update_op) t2 (m', x)"
    by (auto simp: updatePrimary_def exec_bind)
  show ?thesis
  proof (cases y)
    case (Inl e)
    with u t triggerSwitchover_run(1) [OF s] show ?thesis by simp
  next
    case (Inr z)
    with triggerSwitchover_run(2) [OF s] have "t1 = []" "\<not> shouldTriggerSwitchover M mdb" by auto
    moreover from u Inr have "only_delete (podKeyOf p) t2"
      by (auto simp: exec_bind_Ret exec_ctxP dest!: updatePod_deletes)
    ultimately show ?thesis using False t by simp
  qed
qed

lemma find_None_all: "find P xs = None \<Longrightarrow> \<forall>x \<in> set xs. \<not> P x"
  by (simp add: find_None_iff)

lemma find_Some_member: "find P xs = Some x \<Longrightarrow> x \<in> set xs \<and> P x"
  by (induction xs) (auto split: if_splits)

lemma updateStale_run:
  assumes "go_exec (updateStale M mdb updateRevision roles :: 'u update_op) t (m', x)"
  shows "quiet_trace t \<or> (\<exists>r sts t' p. t = (GetStatefulSet (keyOf mdb), r) # t' \<and> as_sts r = Inr sts \<and>
    sts_ReadyReplicas sts = m_Replicas mdb \<and> only_delete (podKeyOf p) t' \<and> \<not> PodUpdated p updateRevision \<and>
    (p \<in> set (prs_replicas roles) \<or> p = prs_primary roles \<and> (\<forall>q \<in> set (prs_replicas roles). PodUpdated q updateRevision) \<and>
      waitForConfiguredReplica mdb = Inr () \<and> \<not> shouldTriggerSwitchover M mdb))"
proof (cases "getStalePodNames updateRevision roles = []")
  case True
  with assms show ?thesis by (simp add: updateStale_def)
next
  case False
  let ?go = "(case find (\<lambda>p. \<not> PodUpdated p updateRevision) (prs_replicas roles) of
             Some replicaPod \<Rightarrow>
               bindP (ctxP ''error updating replica Pod'' (updatePod (keyOf mdb) replicaPod updateRevision)) (\<lambda>y.
                 Ret (mdb, case y of Inl e \<Rightarrow> Inl e | Inr _ \<Rightarrow> Inr requeue))
           | None \<Rightarrow> updatePrimary M mdb updateRevision (prs_primary roles)) :: 'u update_op"
  from assms False obtain t1 t2 w where t: "t = t1 @ t2"
    and w: "go_exec (waitForReadyStatus mdb :: (call, answer, 'u, CtrlResult result) go) t1 w"
    and g: "w = Inr zeroResult \<and> go_exec ?go t2 (m', x) \<or> t2 = []"
    by (auto simp: updateStale_def exec_bind exec_case_sum split: if_splits)
  have q1: "quiet_trace t1"
    using w by (auto simp: waitForReadyStatus_def exec_tryP split: if_splits option.splits)
  show ?thesis
  proof (cases "t2 = []")
    case True
    with q1 t show ?thesis by simp
  next
    case t2: False
    with g have wz: "w = Inr zeroResult" and run: "go_exec ?go t2 (m', x)" by auto
    from w wz obtain r sts t1' where t1: "t1 = (GetStatefulSet (keyOf mdb), r) # t1'" and sts: "as_sts r = Inr sts"
      "sts_ReadyReplicas sts = m_Replicas mdb"
      by (auto simp: waitForReadyStatus_def exec_tryP_Inr zeroResult_def second_def split: if_splits)
    have "quiet_trace t2 \<or> (\<exists>p. only_delete (podKeyOf p) t2 \<and> \<not> PodUpdated p updateRevision \<and>
        (p \<in> set (prs_replicas roles) \<or> p = prs_primary roles \<and> (\<forall>q \<in> set (prs_replicas roles). PodUpdated q updateRevision) \<and>
          waitForConfiguredReplica mdb = Inr () \<and> \<not> shouldTriggerSwitchover M mdb))"
    proof (cases "find (\<lambda>p. \<not> PodUpdated p updateRevision) (prs_replicas roles)")
      case None
      with run updatePrimary_run [of M mdb updateRevision "prs_primary roles" t2 m' x] find_None_all [OF None]
      show ?thesis by auto
    next
      case (Some p)
      then have "p \<in> set (prs_replicas roles)" "\<not> PodUpdated p updateRevision" by (auto dest: find_Some_member)
      moreover from run Some have "only_delete (podKeyOf p) t2" by (auto simp: exec_bind_Ret exec_ctxP dest!: updatePod_deletes)
      ultimately show ?thesis by blast
    qed
    then show ?thesis
    proof (elim disjE exE conjE)
      fix p assume "only_delete (podKeyOf p) t2"
      then have "only_delete (podKeyOf p) (t1' @ t2)" using q1 t1 by (intro only_delete_after) auto
      moreover assume "\<not> PodUpdated p updateRevision" "p \<in> set (prs_replicas roles)"
      ultimately show ?thesis using t t1 sts by auto
    next
      fix p assume "only_delete (podKeyOf p) t2"
      then have "only_delete (podKeyOf p) (t1' @ t2)" using q1 t1 by (intro only_delete_after) auto
      moreover assume "\<not> PodUpdated p updateRevision" "p = prs_primary roles" "\<forall>q \<in> set (prs_replicas roles). PodUpdated q updateRevision"
        "waitForConfiguredReplica mdb = Inr ()" "\<not> shouldTriggerSwitchover M mdb"
      ultimately show ?thesis using t t1 sts by auto
    qed (use q1 t in auto)
  qed
qed

lemma getPodsByRole_run:
  assumes "exec grp (getPodsByRole mdb) t (Inr (Inr roles))"
  shows "\<exists>r items cur. t = [(ListPods (keyOf mdb), r)] \<and> as_pods r = Inr items \<and> int (length items) = m_Replicas mdb \<and>
    ms_CurrentPrimary (m_Status mdb) = Some cur \<and> prs_primary roles \<in> set items \<and> pod_Name (prs_primary roles) = cur \<and>
    set (prs_replicas roles) = {p \<in> set items. pod_Name p \<noteq> cur}"
  using assms
  by (cases "ms_CurrentPrimary (m_Status mdb)")
    (auto simp: getPodsByRole_def Let_def splitRoles_def exec_tryP_Inr
      split: if_splits option.splits dest!: find_Some_member)

text \<open>
  C11: a rolling update replaces at most one Pod per reconciliation, and only a stale one of a complete
  cluster whose StatefulSet has just reported all replicas ready. The primary Pod is only replaced when
  every other Pod is up to date and, in a replication cluster, another Pod is configured as a replica and
  no automatic switchover could have moved the primary away first: a primary that can be switched is never
  deleted by an update.
\<close>

theorem update_replicas_first:
  assumes "go_exec (reconcileUpdates M mdb :: 'u update_op) t (m', x)" "(DeletePod k, r) \<in> set t"
  shows "shouldReconcileUpdates M mdb \<and> (\<exists>r0 sts0 rl items r1 sts1 t' pod cur.
    t = (GetStatefulSet (keyOf mdb), r0) # (ListPods (keyOf mdb), rl) # (GetStatefulSet (keyOf mdb), r1) # t' \<and>
    as_sts r0 = Inr sts0 \<and> as_pods rl = Inr items \<and> int (length items) = m_Replicas mdb \<and>
    as_sts r1 = Inr sts1 \<and> sts_ReadyReplicas sts1 = m_Replicas mdb \<and> only_delete (podKeyOf pod) t' \<and>
    pod \<in> set items \<and> \<not> PodUpdated pod (sts_UpdateRevision sts0) \<and> ms_CurrentPrimary (m_Status mdb) = Some cur \<and>
    (pod_Name pod = cur \<longrightarrow>
      (\<forall>p \<in> set items. pod_Name p \<noteq> cur \<longrightarrow> PodUpdated p (sts_UpdateRevision sts0)) \<and>
      (rp_Enabled (MariaDB_Replication mdb) \<longrightarrow> MariaDB_HasConfiguredReplica mdb) \<and> \<not> shouldTriggerSwitchover M mdb))"
proof -
  from assms have sh: "shouldReconcileUpdates M mdb" by (auto simp: reconcileUpdates_def split: if_splits)
  from assms sh obtain r0 sts0 t1 where t: "t = (GetStatefulSet (keyOf mdb), r0) # t1" and sts0: "as_sts r0 = Inr sts0"
    and e: "go_exec (bindP (getPodsByRole mdb) (\<lambda>y. case y of
            Inl e \<Rightarrow> Ret (mdb, Inl e)
          | Inr (Inl res) \<Rightarrow> Ret (mdb, Inr res)
          | Inr (Inr roles) \<Rightarrow> updateStale M mdb (sts_UpdateRevision sts0) roles) :: 'u update_op) t1 (m', x)"
    by (auto simp: reconcileUpdates_def getStatefulSetRevision_def exec_bind [of _ "tryP _ _"] exec_tryP exec_case_sum split: if_splits)
  from e obtain u1 u2 y where t1: "t1 = u1 @ u2"
    and g: "go_exec (getPodsByRole mdb :: (call, answer, 'u, (CtrlResult + podRoleSet) result) go) u1 y"
    and s: "go_exec ((case y of Inl e \<Rightarrow> Ret (mdb, Inl e) | Inr (Inl res) \<Rightarrow> Ret (mdb, Inr res)
          | Inr (Inr roles) \<Rightarrow> updateStale M mdb (sts_UpdateRevision sts0) roles) :: 'u update_op) u2 (m', x)"
    unfolding exec_bind by blast
  have "quiet_trace u1"
    using g by (auto simp: getPodsByRole_def Let_def exec_tryP exec_ctxP split: if_splits prod.splits option.splits)
  with assms(2) t t1 have d: "(DeletePod k, r) \<in> set u2" by auto
  with s obtain roles where y: "y = Inr (Inr roles)"
    and s': "go_exec (updateStale M mdb (sts_UpdateRevision sts0) roles :: 'u update_op) u2 (m', x)"
    by (auto split: sum.splits)
  from getPodsByRole_run [OF g [unfolded y]] obtain rl items cur where u1: "u1 = [(ListPods (keyOf mdb), rl)]"
    and items: "as_pods rl = Inr items" "int (length items) = m_Replicas mdb" "ms_CurrentPrimary (m_Status mdb) = Some cur"
      "prs_primary roles \<in> set items" "pod_Name (prs_primary roles) = cur"
    and reps: "set (prs_replicas roles) = {p \<in> set items. pod_Name p \<noteq> cur}" by blast
  have "\<not> quiet_trace u2" using d by force
  with updateStale_run [OF s'] obtain r1 sts1 t' p where u2: "u2 = (GetStatefulSet (keyOf mdb), r1) # t'" "as_sts r1 = Inr sts1"
    "sts_ReadyReplicas sts1 = m_Replicas mdb" "only_delete (podKeyOf p) t'" "\<not> PodUpdated p (sts_UpdateRevision sts0)"
    and p: "p \<in> set (prs_replicas roles) \<or> p = prs_primary roles \<and> (\<forall>q \<in> set (prs_replicas roles). PodUpdated q (sts_UpdateRevision sts0)) \<and>
      waitForConfiguredReplica mdb = Inr () \<and> \<not> shouldTriggerSwitchover M mdb" by blast
  have "p \<in> set items" using p reps items by auto
  moreover have "pod_Name p = cur \<longrightarrow> (\<forall>q \<in> set items. pod_Name q \<noteq> cur \<longrightarrow> PodUpdated q (sts_UpdateRevision sts0)) \<and>
      (rp_Enabled (MariaDB_Replication mdb) \<longrightarrow> MariaDB_HasConfiguredReplica mdb) \<and> \<not> shouldTriggerSwitchover M mdb"
    using p reps by (auto simp: waitForConfiguredReplica_def split: if_splits)
  ultimately show ?thesis using sh t t1 u1 u2 sts0 items by auto
qed

definition updatingMariaDB :: MariaDB where
  "updatingMariaDB = exampleMariaDB\<lparr>
     m_Spec := exampleSpec\<lparr>sp_UpdateStrategy := zeroUpdateStrategy\<lparr>us_Type := ReplicasFirstPrimaryLastUpdateType\<rparr>\<rparr>,
     m_Status := exampleStatus\<lparr>ms_CurrentPrimary := Some ''mdb-0''\<rparr>\<rparr>"

definition labelledPod :: "string \<Rightarrow> string \<Rightarrow> Pod" where
  "labelledPod n rv = \<lparr>pod_Name = n, pod_Namespace = ''default'', pod_Labels = [(''controller-revision-hash'', rv)],
     pod_Annotations = [], pod_NodeName = ''node'', pod_Phase = ''Running'', pod_Conditions = []\<rparr>"

text \<open>A cluster in which the third Pod and the primary are stale, and Pods cannot be deleted.\<close>

fun updateEnv :: "call list \<Rightarrow> call \<Rightarrow> answer" where
  "updateEnv h (GetStatefulSet k) = AStatefulSet (Inr \<lparr>sts_Spec_Replicas = 3, sts_Status_Replicas = 3, sts_ReadyReplicas = 3,
     sts_UpdateRevision = ''v2'', sts_Annotations = []\<rparr>)"
| "updateEnv h (ListPods k) = APods (Inr [labelledPod ''mdb-0'' ''v1'', labelledPod ''mdb-1'' ''v2'', labelledPod ''mdb-2'' ''v1''])"
| "updateEnv h _ = AUnit (Inl (ErrExt ''forbidden''))"

lemma updatingMariaDB_run:
  "\<exists>t r x. go_run updateEnv (reconcileUpdates list_meta updatingMariaDB :: unit update_op) = Some (t, updatingMariaDB, x) \<and>
     (DeletePod (podKeyOf (labelledPod ''mdb-2'' ''v1'')), r) \<in> set t"
proof -
  have sh: "shouldReconcileUpdates list_meta updatingMariaDB"
    by (simp add: shouldReconcileUpdates_def updatingMariaDB_def example_defs IsRestoringBackup_def IsResizingStorage_def
        IsSwitchingPrimary_def HasGaleraNotReadyCondition_def list_meta_def find_condition_def)
  have up: "PodUpdated (labelledPod n rv) rv' \<longleftrightarrow> rv = rv'" for n rv rv'
    by (simp add: PodUpdated_def labelledPod_def)
  have srt: "sort_key pod_Name [labelledPod ''mdb-1'' ''v2'', labelledPod ''mdb-2'' ''v1''] =
      [labelledPod ''mdb-1'' ''v2'', labelledPod ''mdb-2'' ''v1'']" by code_simp
  have nm: "pod_Name (labelledPod n rv) = n" for n rv by (simp add: labelledPod_def)
  have st: "ms_CurrentPrimary (m_Status updatingMariaDB) = Some ''mdb-0''" "m_Replicas updatingMariaDB = 3"
    "sp_MaxScaleRef (m_Spec updatingMariaDB) = None"
    by (simp_all add: updatingMariaDB_def example_defs)
  show ?thesis
    using sh
    by (simp add: go_run_def reconcileUpdates_def getStatefulSetRevision_def getPodsByRole_def Let_def splitRoles_def updateStale_def
        getStalePodNames_def waitForReadyStatus_def updatePod_def run_simps up srt nm st)
qed

theorem update_replicas_first_witness:
  "\<exists>t x. go_exec (reconcileUpdates list_meta updatingMariaDB :: unit update_op) t (updatingMariaDB, x) \<and>
     shouldReconcileUpdates list_meta updatingMariaDB \<and> (\<exists>r. (DeletePod (podKeyOf (labelledPod ''mdb-2'' ''v1'')), r) \<in> set t)"
proof -
  obtain t r x where run: "go_run updateEnv (reconcileUpdates list_meta updatingMariaDB :: unit update_op) = Some (t, updatingMariaDB, x)"
    and d: "(DeletePod (podKeyOf (labelledPod ''mdb-2'' ''v1'')), r) \<in> set t" using updatingMariaDB_run by blast
  from update_replicas_first [OF go_run_exec [OF run] d] go_run_exec [OF run] d show ?thesis by blast
qed

end
