(* ===== verification/Datastructures.thy ===== *)
theory Datastructures
  imports Go_Prelude "HOL-Library.AList"
begin

text \<open>
  \<^verbatim>\<open>pkg/datastructures\<close>: string-indexed collections and slice helpers. A Go map is an association
  list with distinct keys (\<open>index_inv\<close>); the order of the list stands for the order in which Go
  happens to iterate, and the theorems hold for every order.
\<close>

subsection \<open>Index\<close>

type_synonym 'a Index = "(string \<times> 'a) list"

definition ErrNotFoundInIndex :: go_error where
  "ErrNotFoundInIndex = ErrNew ''not found in Index''"

fun NewIndex_loop :: "'a Index \<Rightarrow> 'a list \<Rightarrow> ('a \<Rightarrow> string) \<Rightarrow> 'a Index" where
  "NewIndex_loop idx [] getID = idx"
| "NewIndex_loop idx (item # items) getID =
     NewIndex_loop (AList.update (getID item) item idx) items getID"

definition NewIndex :: "'a list \<Rightarrow> ('a \<Rightarrow> string) \<Rightarrow> 'a Index" where
  "NewIndex items getID = NewIndex_loop [] items getID"

definition Get :: "'a Index \<Rightarrow> string \<Rightarrow> 'a result" where
  "Get idx key = (case map_of idx key of Some found \<Rightarrow> Inr found | None \<Rightarrow> Inl ErrNotFoundInIndex)"

definition Keys :: "'a Index \<Rightarrow> string list" where
  "Keys idx = map fst idx"

fun AllExists :: "'a Index \<Rightarrow> string list \<Rightarrow> bool" where
  "AllExists idx [] = True"
| "AllExists idx (i # is) = (if map_of idx i = None then False else AllExists idx is)"

definition Has :: "'a Index \<Rightarrow> string \<Rightarrow> bool" where
  "Has idx key = AllExists idx [key]"

definition Filter_index :: "'a Index \<Rightarrow> string list \<Rightarrow> 'a Index" where
  "Filter_index idx keys =
     (let filterIdx = NewIndex keys (\<lambda>s. s)
      in foldl (\<lambda>newIdx (k, v). if map_of filterIdx k \<noteq> None then AList.update k v newIdx else newIdx)
           [] idx)"

record DiffResult =
  Added :: "string list"
  Deleted :: "string list"
  Rest :: "string list"

definition add_key :: "string \<Rightarrow> string list \<Rightarrow> string list" where
  "add_key k ks = (if k \<in> set ks then ks else ks @ [k])"

text \<open>The two loops of \<^verbatim>\<open>Diff\<close>: collect the keys of one index that the other lacks, and put the
  common ones into the set of processed keys.\<close>

fun Diff_loop :: "string list \<Rightarrow> 'p Index \<Rightarrow> string list \<Rightarrow> string list \<Rightarrow>
    string list \<times> string list" where
  "Diff_loop [] other only processed = (only, processed)"
| "Diff_loop (k # ks) other only processed =
     (if map_of other k = None then Diff_loop ks other (only @ [k]) processed
      else Diff_loop ks other only (add_key k processed))"

definition Diff :: "'c Index \<Rightarrow> 'p Index \<Rightarrow> DiffResult" where
  "Diff current previous =
     (let (added, processed) = Diff_loop (map fst current) previous [] [];
          (deleted, processed') = Diff_loop (map fst previous) current [] processed
      in \<lparr>Added = sort added, Deleted = sort deleted, Rest = sort processed'\<rparr>)"

subsection \<open>Slices\<close>

fun Merge_loop :: "'a list \<Rightarrow> 'a list list \<Rightarrow> 'a list" where
  "Merge_loop result [] = result"
| "Merge_loop result (s # ss) = Merge_loop (result @ s) ss"

definition Merge :: "'a list list \<Rightarrow> 'a list" where
  "Merge slices = Merge_loop [] slices"

fun Unique_loop :: "'a list \<Rightarrow> 'a list \<Rightarrow> 'a list" where
  "Unique_loop result [] = result"
| "Unique_loop result (e # es) =
     (if e \<in> set result then Unique_loop result es else Unique_loop (result @ [e]) es)"

text \<open>The map of elements seen holds exactly the elements of the result, so it is read off it.\<close>

definition Unique :: "'a list \<Rightarrow> 'a list" where
  "Unique elements = Unique_loop [] elements"

fun Find :: "'a list \<Rightarrow> ('a \<Rightarrow> bool) \<Rightarrow> 'a option" where
  "Find [] fn = None"
| "Find (el # els) fn = (if fn el then Some el else Find els fn)"

definition AnyEl :: "'a list \<Rightarrow> ('a \<Rightarrow> bool) \<Rightarrow> bool" where
  "AnyEl elements fn \<longleftrightarrow> Find elements fn \<noteq> None"

fun Remove_loop :: "'a list \<Rightarrow> 'a list \<Rightarrow> ('a \<Rightarrow> bool) \<Rightarrow> 'a list" where
  "Remove_loop result [] fn = result"
| "Remove_loop result (e # es) fn = Remove_loop (if fn e then result else result @ [e]) es fn"

definition Remove :: "'a list \<Rightarrow> ('a \<Rightarrow> bool) \<Rightarrow> 'a list" where
  "Remove elements fn = Remove_loop [] elements fn"

subsection \<open>The map interface of an index\<close>

text \<open>What a client of an index relies on: reading a key after a write, and the invariant every
  operation keeps.\<close>

locale keyed_store =
  fixes empty_store :: 'm
    and put :: "'k \<Rightarrow> 'v \<Rightarrow> 'm \<Rightarrow> 'm"
    and get :: "'m \<Rightarrow> 'k \<Rightarrow> 'v option"
    and inv_store :: "'m \<Rightarrow> bool"
  assumes get_empty: "get empty_store k = None"
    and get_put: "inv_store m \<Longrightarrow> get (put k v m) k' = (if k' = k then Some v else get m k')"
    and inv_empty: "inv_store empty_store"
    and inv_put: "inv_store m \<Longrightarrow> inv_store (put k v m)"
begin

fun put_all :: "('x \<Rightarrow> 'k) \<Rightarrow> ('x \<Rightarrow> 'v) \<Rightarrow> 'm \<Rightarrow> 'x list \<Rightarrow> 'm" where
  "put_all key val m [] = m"
| "put_all key val m (x # xs) = put_all key val (put (key x) (val x) m) xs"

lemma inv_put_all: "inv_store m \<Longrightarrow> inv_store (put_all key val m xs)"
  by (induction xs arbitrary: m) (auto simp: inv_put)

lemma get_put_all:
  "inv_store m \<Longrightarrow> get (put_all key val m xs) k =
    (case find (\<lambda>x. key x = k) (rev xs) of Some x \<Rightarrow> Some (val x) | None \<Rightarrow> get m k)"
proof (induction xs arbitrary: m)
  case (Cons x xs)
  then show ?case by (auto simp: get_put inv_put find_append_case split: option.splits)
qed simp

lemma put_all_keys:
  "inv_store m \<Longrightarrow> get (put_all key val m xs) k \<noteq> None \<longleftrightarrow> k \<in> key ` set xs \<or> get m k \<noteq> None"
  by (induction xs arbitrary: m) (auto simp: get_put inv_put)

end

definition index_inv :: "'a Index \<Rightarrow> bool" where
  "index_inv idx \<longleftrightarrow> distinct (map fst idx)"

interpretation ix: keyed_store "[]" AList.update map_of index_inv
  by unfold_locales (auto simp: update_conv' index_inv_def distinct_update)

lemma NewIndex_loop_put_all: "NewIndex_loop idx items getID = ix.put_all getID (\<lambda>x. x) idx items"
  by (induction items arbitrary: idx) auto

lemma NewIndex_inv: "index_inv (NewIndex items getID)"
  by (simp add: NewIndex_def NewIndex_loop_put_all ix.inv_put_all ix.inv_empty)

lemma map_of_NewIndex:
  "map_of (NewIndex items getID) k = find (\<lambda>x. getID x = k) (rev items)"
  by (simp add: NewIndex_def NewIndex_loop_put_all ix.get_put_all ix.inv_empty split: option.splits)

lemma map_of_NewIndex_dom:
  "map_of (NewIndex items getID) k \<noteq> None \<longleftrightarrow> k \<in> getID ` set items"
  unfolding NewIndex_def NewIndex_loop_put_all
  using ix.put_all_keys [OF ix.inv_empty, of getID "\<lambda>x. x" items k] by simp

text \<open>An index built from a list answers, for every key, the last item of the list with that
  key, and \<^verbatim>\<open>Get\<close> fails exactly for the keys no item has.\<close>

theorem Get_NewIndex:
  "Get (NewIndex items getID) key =
    (case find (\<lambda>x. getID x = key) (rev items) of
       Some x \<Rightarrow> Inr x | None \<Rightarrow> Inl ErrNotFoundInIndex) \<and>
   (Get (NewIndex items getID) key = Inl ErrNotFoundInIndex \<longleftrightarrow> key \<notin> getID ` set items)"
  using map_of_NewIndex_dom [of items getID key] map_of_NewIndex [of items getID key]
  by (auto simp: Get_def split: option.splits)

lemma AllExists_iff: "AllExists idx keys \<longleftrightarrow> set keys \<subseteq> fst ` set idx"
  by (induction keys) (auto simp: map_of_eq_None_iff)

lemma Filter_index_eq:
  assumes "index_inv idx"
  shows "Filter_index idx keys = filter (\<lambda>(k, v). k \<in> set keys) idx"
proof -
  let ?step = "\<lambda>newIdx (k, v). if k \<in> set keys then AList.update k v newIdx else newIdx"
  have in_keys: "map_of (NewIndex keys (\<lambda>s. s)) k \<noteq> None \<longleftrightarrow> k \<in> set keys" for k
    using map_of_NewIndex_dom [of keys "\<lambda>s. s" k] by simp
  have "foldl ?step acc idx = acc @ filter (\<lambda>(k, v). k \<in> set keys) idx"
    if "distinct (map fst idx)" "fst ` set acc \<inter> fst ` set idx = {}" for acc
    using that
  proof (induction idx arbitrary: acc)
    case (Cons kv idx)
    obtain k v where kv: "kv = (k, v)" by (cases kv)
    have "AList.update k v acc = acc @ [(k, v)]" if "k \<notin> fst ` set acc"
      using that by (induction acc) auto
    with Cons kv show ?case by auto
  qed simp
  from this [of "[]"] assms show ?thesis
    unfolding Filter_index_def Let_def in_keys by (simp add: index_inv_def)
qed

lemma set_add_key [simp]: "set (add_key k ks) = insert k (set ks)"
  by (auto simp: add_key_def)

lemma distinct_add_key [simp]: "distinct ks \<Longrightarrow> distinct (add_key k ks)"
  by (auto simp: add_key_def)

lemma Diff_loop_eq:
  "Diff_loop ks other only processed =
    (only @ filter (\<lambda>k. map_of other k = None) ks,
     fold add_key (filter (\<lambda>k. map_of other k \<noteq> None) ks) processed)"
  by (induction ks arbitrary: only processed) auto

lemma set_fold_add_key [simp]: "set (fold add_key ks p) = set ks \<union> set p"
  by (induction ks arbitrary: p) auto

lemma distinct_fold_add_key [simp]: "distinct p \<Longrightarrow> distinct (fold add_key ks p)"
  by (induction ks arbitrary: p) auto

text \<open>\<^verbatim>\<open>Diff\<close> splits the keys of two indexes into those only the current one has, those only
  the previous one has and those both have, each sorted and without repetition, whatever the
  iteration order of the two maps.\<close>

theorem Diff_correct:
  assumes "index_inv current" and "index_inv previous"
  shows "set (Added (Diff current previous)) = fst ` set current - fst ` set previous \<and>
    set (Deleted (Diff current previous)) = fst ` set previous - fst ` set current \<and>
    set (Rest (Diff current previous)) = fst ` set current \<inter> fst ` set previous \<and>
    sorted (Added (Diff current previous)) \<and> sorted (Deleted (Diff current previous)) \<and>
    sorted (Rest (Diff current previous)) \<and>
    distinct (Added (Diff current previous) @ Deleted (Diff current previous) @
      Rest (Diff current previous))"
  using assms
  by (auto simp: Diff_def Diff_loop_eq index_inv_def map_of_eq_None_iff intro: rev_image_eqI)

theorem Diff_correct_witness:
  "index_inv [(''b'', 1::nat), (''a'', 2)] \<and> index_inv [(''b'', True), (''c'', False)] \<and>
    Diff [(''b'', 1::nat), (''a'', 2)] [(''b'', True), (''c'', False)] =
      \<lparr>Added = [''a''], Deleted = [''c''], Rest = [''b'']\<rparr> \<and>
    set (Rest (Diff [(''b'', 1::nat), (''a'', 2)] [(''b'', True), (''c'', False)])) = {''b''}"
proof -
  have 1: "index_inv [(''b'', 1::nat), (''a'', 2)]" by (simp add: index_inv_def)
  have 2: "index_inv [(''b'', True), (''c'', False)]" by (simp add: index_inv_def)
  have 3: "Diff [(''b'', 1::nat), (''a'', 2)] [(''b'', True), (''c'', False)] =
      \<lparr>Added = [''a''], Deleted = [''c''], Rest = [''b'']\<rparr>"
    by (simp add: Diff_def add_key_def)
  show ?thesis using 1 2 3 Diff_correct [OF 1 2] by auto
qed

lemma Merge_eq: "Merge slices = concat slices"
proof -
  have "Merge_loop result ss = result @ concat ss" for result :: "'a list" and ss
    by (induction ss arbitrary: result) auto
  then show ?thesis by (simp add: Merge_def)
qed

lemma Unique_loop_spec:
  "distinct result \<Longrightarrow> distinct (Unique_loop result es) \<and>
    set (Unique_loop result es) = set result \<union> set es \<and>
    prefix result (Unique_loop result es)"
proof (induction es arbitrary: result)
  case (Cons e es)
  show ?case
  proof (cases "e \<in> set result")
    case True
    with Cons show ?thesis by auto
  next
    case False
    with Cons.prems have "distinct (result @ [e])" by simp
    with Cons.IH [of "result @ [e]"] False show ?thesis by (auto dest: append_prefixD)
  qed
qed simp

lemma Unique_loop_rev:
  "Unique_loop result es = result @ rev (remdups (rev (filter (\<lambda>e. e \<notin> set result) es)))"
proof (induction es arbitrary: result)
  case (Cons e es)
  have "remdups (xs @ [e]) = remdups (filter (\<lambda>x. x \<noteq> e) xs) @ [e]" for xs
    by (induction xs) auto
  with Cons show ?case by (auto simp: rev_filter filter_filter conj_commute intro: arg_cong)
qed simp

lemma Find_eq_find: "Find els fn = find fn els"
  by (induction els) auto

lemma Remove_eq: "Remove els fn = filter (\<lambda>e. \<not> fn e) els"
proof -
  have "Remove_loop result es fn = result @ filter (\<lambda>e. \<not> fn e) es" for result es
    by (induction es arbitrary: result) auto
  then show ?thesis by (simp add: Remove_def)
qed

end
