(* ===== verification/Recovery_Status.thy ===== *)
theory Recovery_Status
  imports Galera_Types Datastructures
begin

text \<open>
  \<^verbatim>\<open>pkg/controller/galera/recovery_status.go\<close>: the state of a Galera cluster recovery (what is known
  about each Pod, the bootstrap in progress) and the choice of the Pod to bootstrap from. The lock of
  the source serialises the operations, each of which is one step here; \<^verbatim>\<open>time.Now()\<close> is the
  argument \<open>now\<close>.
\<close>

record bootstrapSource_t =
  src_bootstrap :: "Bootstrap option"
  src_pod :: string

definition newRecoveryStatus :: "MariaDB \<Rightarrow> GaleraRecoveryStatus" where
  "newRecoveryStatus mariadb =
     (let inner = zeroGaleraRecoveryStatus;
          galeraRecovery = Deref (ms_GaleraRecovery (m_Status mariadb)) zeroGaleraRecoveryStatus;
          inner = (if gs_State galeraRecovery \<noteq> None then inner\<lparr>gs_State := gs_State galeraRecovery\<rparr> else inner);
          inner = (if gs_Recovered galeraRecovery \<noteq> None
                   then inner\<lparr>gs_Recovered := gs_Recovered galeraRecovery\<rparr> else inner);
          inner = (if gs_Bootstrap galeraRecovery \<noteq> None
                   then inner\<lparr>gs_Bootstrap := gs_Bootstrap galeraRecovery\<rparr> else inner)
      in if gs_PodsRestarted galeraRecovery \<noteq> None
         then inner\<lparr>gs_PodsRestarted := gs_PodsRestarted galeraRecovery\<rparr> else inner)"

text \<open>Reading a nil map gives no entry; a write allocates it first.\<close>

definition map_read :: "(string \<Rightarrow> 'v option option) option \<Rightarrow> string \<Rightarrow> 'v option option" where
  "map_read m pod = Deref m (\<lambda>_. None) pod"

definition map_write :: "(string \<Rightarrow> 'v option option) option \<Rightarrow> string \<Rightarrow> 'v option \<Rightarrow>
    (string \<Rightarrow> 'v option option) option" where
  "map_write m pod v = Some ((Deref m (\<lambda>_. None))(pod := Some v))"

text \<open>The value of \<^verbatim>\<open>m[pod]\<close>: nil when the key is missing.\<close>

definition map_get :: "(string \<Rightarrow> 'v option option) option \<Rightarrow> string \<Rightarrow> 'v option" where
  "map_get m pod = (case map_read m pod of None \<Rightarrow> None | Some v \<Rightarrow> v)"

definition setState :: "string \<Rightarrow> GaleraState option \<Rightarrow> GaleraRecoveryStatus \<Rightarrow> GaleraRecoveryStatus" where
  "setState pod state rs = rs\<lparr>gs_State := map_write (gs_State rs) pod state\<rparr>"

definition rs_state :: "GaleraRecoveryStatus \<Rightarrow> string \<Rightarrow> GaleraState option \<times> bool" where
  "rs_state rs pod = (map_get (gs_State rs) pod, map_read (gs_State rs) pod \<noteq> None)"

definition setRecovered :: "string \<Rightarrow> Bootstrap option \<Rightarrow> GaleraRecoveryStatus \<Rightarrow> GaleraRecoveryStatus" where
  "setRecovered pod bootstrap rs = rs\<lparr>gs_Recovered := map_write (gs_Recovered rs) pod bootstrap\<rparr>"

definition rs_recovered :: "GaleraRecoveryStatus \<Rightarrow> string \<Rightarrow> Bootstrap option \<times> bool" where
  "rs_recovered rs pod = (map_get (gs_Recovered rs) pod, map_read (gs_Recovered rs) pod \<noteq> None)"

definition rs_reset :: "GaleraRecoveryStatus \<Rightarrow> GaleraRecoveryStatus" where
  "rs_reset rs = zeroGaleraRecoveryStatus"

definition setBootstrapping :: "int \<Rightarrow> string \<Rightarrow> GaleraRecoveryStatus \<Rightarrow> GaleraRecoveryStatus" where
  "setBootstrapping now pod rs = rs\<lparr>gs_Bootstrap := Some \<lparr>gb_Time = Some now, gb_Pod = Some pod\<rparr>\<rparr>"

definition isBootstrapping :: "GaleraRecoveryStatus \<Rightarrow> bool" where
  "isBootstrapping rs = (gs_Bootstrap rs \<noteq> None)"

definition bootstrapTimeout :: "int \<Rightarrow> MariaDB \<Rightarrow> GaleraRecoveryStatus \<Rightarrow> bool" where
  "bootstrapTimeout now mdb rs =
     (case gs_Bootstrap rs of
        None \<Rightarrow> False
      | Some b \<Rightarrow>
          (case gb_Time b of
             None \<Rightarrow> False
           | Some t \<Rightarrow>
               let galera = Deref (sp_Galera (m_Spec mdb)) zeroGalera;
                   rcv = Deref (g_Recovery galera) zeroGaleraRecovery;
                   timeout = Deref (gr_ClusterBootstrapTimeout rcv) (10 * minute);
                   deadline = t + timeout
               in now > deadline))"

definition setPodsRestarted :: "bool \<Rightarrow> GaleraRecoveryStatus \<Rightarrow> GaleraRecoveryStatus" where
  "setPodsRestarted restarted rs = rs\<lparr>gs_PodsRestarted := Some restarted\<rparr>"

definition podsRestarted :: "GaleraRecoveryStatus \<Rightarrow> bool" where
  "podsRestarted rs = Deref (gs_PodsRestarted rs) False"

text \<open>The replica count is not negative (the API schema); a negative one would make the source panic.\<close>

definition getPodNames :: "MariaDB \<Rightarrow> string list" where
  "getPodNames mdb = map (PodName (m_ObjectMeta mdb)) [0..m_Replicas mdb - 1]"

definition validSeqno :: "GaleraRecoverer option \<Rightarrow> bool" where
  "validSeqno r = (case r of None \<Rightarrow> False | Some x \<Rightarrow> GetSeqno x \<ge> 0)"

definition shouldSkipRecoverer :: "GaleraRecoverer option \<Rightarrow> bool" where
  "shouldSkipRecoverer r =
     (case r of None \<Rightarrow> False
      | Some x \<Rightarrow> GetUUID x = ''00000000-0000-0000-0000-000000000000'' \<and> GetSeqno x = - 1)"

text \<open>The loop of \<^verbatim>\<open>isComplete\<close> over the Pods, with its counter and flag; \<open>None\<close> is the early return
  of true at a Pod that is safe to bootstrap.\<close>

fun isComplete_loop :: "GaleraRecoveryStatus \<Rightarrow> string list \<Rightarrow> nat \<Rightarrow> bool \<Rightarrow> (nat \<times> bool) option" where
  "isComplete_loop rs [] numSkippedPods complete = Some (numSkippedPods, complete)"
| "isComplete_loop rs (p # ps) numSkippedPods complete =
     (let state = map_get (gs_State rs) p;
          recovered = map_get (gs_Recovered rs) p
      in if (case state of None \<Rightarrow> False | Some s \<Rightarrow> gs_SafeToBootstrap s) then None
         else if shouldSkipRecoverer (map_option RecBootstrap recovered)
         then isComplete_loop rs ps (numSkippedPods + 1) complete
         else if validSeqno (map_option RecState state) \<or> validSeqno (map_option RecBootstrap recovered)
         then isComplete_loop rs ps numSkippedPods complete
         else isComplete_loop rs ps numSkippedPods False)"

definition isComplete :: "MariaDB \<Rightarrow> GaleraRecoveryStatus \<Rightarrow> bool" where
  "isComplete mdb rs =
     (let pods = getPodNames mdb in
      if length pods = 0 then False
      else case isComplete_loop rs pods 0 True of
        None \<Rightarrow> True
      | Some (numSkippedPods, complete) \<Rightarrow>
          if numSkippedPods = length pods then False else complete)"

text \<open>The update of the current source by one recorded position.\<close>

definition better_state :: "string \<Rightarrow> GaleraState option \<Rightarrow> (GaleraRecoverer \<times> string) option \<Rightarrow>
    (GaleraRecoverer \<times> string) option" where
  "better_state p state cur =
     (case state of
        None \<Rightarrow> cur
      | Some s \<Rightarrow> if validSeqno (Some (RecState s)) \<and> GaleraState_Compare s (map_option fst cur) \<ge> 0
                 then Some (RecState s, p) else cur)"

definition better_bootstrap :: "string \<Rightarrow> Bootstrap option \<Rightarrow> (GaleraRecoverer \<times> string) option \<Rightarrow>
    (GaleraRecoverer \<times> string) option" where
  "better_bootstrap p recovered cur =
     (case recovered of
        None \<Rightarrow> cur
      | Some b \<Rightarrow> if validSeqno (Some (RecBootstrap b)) \<and> Bootstrap_Compare b (map_option fst cur) \<ge> 0
                 then Some (RecBootstrap b, p) else cur)"

text \<open>The loop of \<^verbatim>\<open>bootstrapSource\<close>: \<open>Inl\<close> is the early return at a Pod that is safe to
  bootstrap.\<close>

fun bootstrapSource_loop :: "GaleraRecoveryStatus \<Rightarrow> string list \<Rightarrow> (GaleraRecoverer \<times> string) option \<Rightarrow>
    bootstrapSource_t + (GaleraRecoverer \<times> string) option" where
  "bootstrapSource_loop rs [] cur = Inr cur"
| "bootstrapSource_loop rs (p # ps) cur =
     (let state = map_get (gs_State rs) p;
          recovered = map_get (gs_Recovered rs) p
      in case state of
           Some s \<Rightarrow>
             if gs_SafeToBootstrap s
             then Inl \<lparr>src_bootstrap = Some \<lparr>b_UUID = gs_UUID s, b_Seqno = gs_Seqno s\<rparr>, src_pod = p\<rparr>
             else if shouldSkipRecoverer (map_option RecBootstrap recovered)
             then bootstrapSource_loop rs ps cur
             else bootstrapSource_loop rs ps (better_bootstrap p recovered (better_state p state cur))
         | None \<Rightarrow>
             if shouldSkipRecoverer (map_option RecBootstrap recovered)
             then bootstrapSource_loop rs ps cur
             else bootstrapSource_loop rs ps (better_bootstrap p recovered (better_state p state cur)))"

definition bootstrapSource ::
    "MariaDB \<Rightarrow> string option \<Rightarrow> GaleraRecoveryStatus \<Rightarrow> bootstrapSource_t result" where
  "bootstrapSource mdb forceBootstrapInPod rs =
     (let pods = getPodNames mdb in
      case forceBootstrapInPod of
        Some forced \<Rightarrow>
          (case Find pods (\<lambda>pod. pod = forced) of
             Some pod \<Rightarrow> Inr \<lparr>src_bootstrap = None, src_pod = pod\<rparr>
           | None \<Rightarrow> Inl (ErrNew ''Pod used to forcefully bootstrap not found''))
      | None \<Rightarrow>
          if \<not> isComplete mdb rs then Inl (ErrNew ''recovery status not completed'')
          else case bootstrapSource_loop rs pods None of
            Inl src \<Rightarrow> Inr src
          | Inr None \<Rightarrow> Inl (ErrNew ''bootstrap source not found'')
          | Inr (Some (currentSource, currentPod)) \<Rightarrow>
              Inr \<lparr>src_bootstrap = Some \<lparr>b_UUID = GetUUID currentSource, b_Seqno = GetSeqno currentSource\<rparr>,
                   src_pod = currentPod\<rparr>)"

subsection \<open>Completeness\<close>

definition safe_pod :: "GaleraRecoveryStatus \<Rightarrow> string \<Rightarrow> bool" where
  "safe_pod rs p \<longleftrightarrow> (\<exists>s. map_get (gs_State rs) p = Some s \<and> gs_SafeToBootstrap s)"

definition skipped_pod :: "GaleraRecoveryStatus \<Rightarrow> string \<Rightarrow> bool" where
  "skipped_pod rs p \<longleftrightarrow> shouldSkipRecoverer (map_option RecBootstrap (map_get (gs_Recovered rs) p))"

text \<open>The recorded positions of a Pod: its state file and the position its recovery Job printed.\<close>

definition positions :: "GaleraRecoveryStatus \<Rightarrow> string \<Rightarrow> GaleraRecoverer set" where
  "positions rs p = (RecState ` {s. map_get (gs_State rs) p = Some s}) \<union>
     (RecBootstrap ` {b. map_get (gs_Recovered rs) p = Some b})"

definition located_pod :: "GaleraRecoveryStatus \<Rightarrow> string \<Rightarrow> bool" where
  "located_pod rs p \<longleftrightarrow> (\<exists>x \<in> positions rs p. 0 \<le> GetSeqno x)"

lemma validSeqno_simps [simp]:
  "\<not> validSeqno None" "validSeqno (Some x) \<longleftrightarrow> 0 \<le> GetSeqno x"
  by (simp_all add: validSeqno_def)

lemma located_pod_iff:
  "located_pod rs p \<longleftrightarrow> validSeqno (map_option RecState (map_get (gs_State rs) p)) \<or>
     validSeqno (map_option RecBootstrap (map_get (gs_Recovered rs) p))"
  by (cases "map_get (gs_State rs) p"; cases "map_get (gs_Recovered rs) p")
    (auto simp: located_pod_def positions_def)

lemma isComplete_loop_eq:
  "isComplete_loop rs ps n c =
     (if \<exists>p \<in> set ps. safe_pod rs p then None
      else Some (n + length (filter (skipped_pod rs) ps),
                 c \<and> (\<forall>p \<in> set ps. skipped_pod rs p \<or> located_pod rs p)))"
proof (induction ps arbitrary: n c)
  case (Cons p ps)
  have safe: "(case map_get (gs_State rs) p of None \<Rightarrow> False | Some s \<Rightarrow> gs_SafeToBootstrap s) \<longleftrightarrow> safe_pod rs p"
    by (auto simp: safe_pod_def split: option.splits)
  show ?case
    by (simp add: Cons.IH Let_def safe skipped_pod_def [symmetric] located_pod_iff [symmetric])
qed simp

lemma isComplete_iff:
  "isComplete mdb rs \<longleftrightarrow>
     (let pods = getPodNames mdb in
      (\<exists>p \<in> set pods. safe_pod rs p) \<or>
      (\<exists>p \<in> set pods. \<not> skipped_pod rs p) \<and> (\<forall>p \<in> set pods. skipped_pod rs p \<or> located_pod rs p))"
proof -
  have "length (filter P xs) = length xs \<longleftrightarrow> (\<forall>x \<in> set xs. P x)" for P and xs :: "string list"
    by (metis filter_True length_filter_less nat_neq_iff)
  then show ?thesis
    by (auto simp: isComplete_def isComplete_loop_eq Let_def)
qed

subsection \<open>The bootstrap source\<close>

text \<open>What the loop keeps: the current source is a recorded, valid position of a Pod that is neither
  skipped nor safe to bootstrap, and no position seen so far is beyond it.\<close>

definition source_inv :: "GaleraRecoveryStatus \<Rightarrow> string set \<Rightarrow> (GaleraRecoverer \<times> string) option \<Rightarrow> bool" where
  "source_inv rs seen cur \<longleftrightarrow>
     (\<forall>p \<in> seen. skipped_pod rs p \<or>
        (\<forall>x \<in> positions rs p. 0 \<le> GetSeqno x \<longrightarrow> (\<exists>y q. cur = Some (y, q) \<and> GetSeqno x \<le> GetSeqno y))) \<and>
     (\<forall>y q. cur = Some (y, q) \<longrightarrow>
        q \<in> seen \<and> \<not> skipped_pod rs q \<and> y \<in> positions rs q \<and> 0 \<le> GetSeqno y)"

lemma source_inv_skip:
  "source_inv rs seen cur \<Longrightarrow> skipped_pod rs p \<Longrightarrow> source_inv rs (insert p seen) cur"
  by (auto simp: source_inv_def)

lemma better_inv:
  assumes inv: "source_inv rs seen cur" and skip: "\<not> skipped_pod rs p"
  shows "source_inv rs (insert p seen)
    (better_bootstrap p (map_get (gs_Recovered rs) p) (better_state p (map_get (gs_State rs) p) cur))"
proof -
  let ?cur = "better_state p (map_get (gs_State rs) p) cur"
  let ?new = "better_bootstrap p (map_get (gs_Recovered rs) p) ?cur"
  have grow: "\<exists>y' q'. c' = Some (y', q') \<and> GetSeqno x \<le> GetSeqno y'"
    if "\<exists>y q. cur = Some (y, q) \<and> GetSeqno x \<le> GetSeqno y" "c' = ?cur \<or> c' = ?new" for x c'
    using that by (fastforce simp: better_state_def better_bootstrap_def state_rec.cmp_ge boot_rec.cmp_ge
        split: option.splits if_splits)
  have here: "\<exists>y q. ?new = Some (y, q) \<and> GetSeqno x \<le> GetSeqno y"
    if "x \<in> positions rs p" "0 \<le> GetSeqno x" for x
    using that by (auto simp: positions_def better_state_def better_bootstrap_def state_rec.cmp_ge boot_rec.cmp_ge
        split: option.splits if_splits; force)
  have cur: "q \<in> insert p seen \<and> \<not> skipped_pod rs q \<and> y \<in> positions rs q \<and> 0 \<le> GetSeqno y"
    if "?new = Some (y, q)" for y q
    using that inv skip by (auto simp: source_inv_def positions_def better_state_def better_bootstrap_def
        split: option.splits if_splits)
  show ?thesis
    unfolding source_inv_def
  proof (intro conjI ballI allI impI)
    fix r assume r: "r \<in> insert p seen"
    show "skipped_pod rs r \<or> (\<forall>x \<in> positions rs r. 0 \<le> GetSeqno x \<longrightarrow>
        (\<exists>y q. ?new = Some (y, q) \<and> GetSeqno x \<le> GetSeqno y))"
      using r inv here grow [where c' = ?new] by (fastforce simp: source_inv_def)
  qed (use cur in blast)+
qed

lemma bootstrapSource_loop_eq:
  "bootstrapSource_loop rs (p # ps) cur =
     (if safe_pod rs p
      then Inl \<lparr>src_bootstrap = map_option (\<lambda>s. \<lparr>b_UUID = gs_UUID s, b_Seqno = gs_Seqno s\<rparr>) (map_get (gs_State rs) p),
                src_pod = p\<rparr>
      else if skipped_pod rs p then bootstrapSource_loop rs ps cur
      else bootstrapSource_loop rs ps
        (better_bootstrap p (map_get (gs_Recovered rs) p) (better_state p (map_get (gs_State rs) p) cur)))"
  by (auto simp: Let_def safe_pod_def skipped_pod_def split: option.splits)

declare bootstrapSource_loop.simps(2) [simp del]

lemma bootstrapSource_loop_spec:
  assumes "source_inv rs seen cur"
  shows "case bootstrapSource_loop rs ps cur of
      Inl src \<Rightarrow> src_pod src \<in> set ps \<and> safe_pod rs (src_pod src) \<and>
        src_bootstrap src = map_option (\<lambda>s. \<lparr>b_UUID = gs_UUID s, b_Seqno = gs_Seqno s\<rparr>)
          (map_get (gs_State rs) (src_pod src))
    | Inr cur' \<Rightarrow> (\<forall>p \<in> set ps. \<not> safe_pod rs p) \<and> source_inv rs (seen \<union> set ps) cur'"
  using assms
proof (induction ps arbitrary: seen cur)
  case (Cons p ps)
  show ?case
  proof (cases "safe_pod rs p")
    case False
    define cur' where "cur' = (if skipped_pod rs p then cur
      else better_bootstrap p (map_get (gs_Recovered rs) p) (better_state p (map_get (gs_State rs) p) cur))"
    have step: "bootstrapSource_loop rs (p # ps) cur = bootstrapSource_loop rs ps cur'"
      using False by (simp add: bootstrapSource_loop_eq cur'_def)
    have "source_inv rs (insert p seen) cur'"
      using Cons.prems by (simp add: cur'_def source_inv_skip better_inv)
    from Cons.IH [OF this] False show ?thesis
      unfolding step by (auto split: sum.splits)
  qed (simp add: bootstrapSource_loop_eq)
qed simp

lemma source_inv_start: "source_inv rs {} None"
  by (simp add: source_inv_def)

text \<open>
  C1: bootstrapping without a forced Pod is possible exactly when the recovery status is complete,
  and then the Pod chosen belongs to the cluster and either declares itself safe to bootstrap, with
  the position of its own state file, or no Pod does and the chosen Pod is not one that needs a full
  transfer, its position is one recorded for it, and no Pod that may be bootstrapped has a recorded
  position with a higher sequence number: no committed write is lost by the choice.
\<close>

theorem bootstrapSource_max_seqno:
  "(isComplete mdb rs \<longleftrightarrow> (\<exists>src. bootstrapSource mdb None rs = Inr src)) \<and>
   (\<forall>src. bootstrapSource mdb None rs = Inr src \<longrightarrow>
      src_pod src \<in> set (getPodNames mdb) \<and>
      ((\<exists>s. map_get (gs_State rs) (src_pod src) = Some s \<and> gs_SafeToBootstrap s \<and>
          src_bootstrap src = Some \<lparr>b_UUID = gs_UUID s, b_Seqno = gs_Seqno s\<rparr>) \<or>
       (\<forall>p \<in> set (getPodNames mdb). \<not> safe_pod rs p) \<and> \<not> skipped_pod rs (src_pod src) \<and>
       (\<exists>x \<in> positions rs (src_pod src). 0 \<le> GetSeqno x \<and>
          src_bootstrap src = Some \<lparr>b_UUID = GetUUID x, b_Seqno = GetSeqno x\<rparr> \<and>
          (\<forall>p \<in> set (getPodNames mdb). skipped_pod rs p \<or>
             (\<forall>y \<in> positions rs p. GetSeqno y \<le> GetSeqno x)))))"
proof -
  let ?pods = "getPodNames mdb"
  note spec = bootstrapSource_loop_spec [OF source_inv_start [of rs], of ?pods]
  show ?thesis
  proof (cases "isComplete mdb rs")
    case True
    show ?thesis
    proof (cases "bootstrapSource_loop rs ?pods None")
      case (Inl src)
      with True spec show ?thesis
        by (auto simp: bootstrapSource_def Let_def safe_pod_def)
    next
      case (Inr cur)
      with spec have unsafe: "\<forall>p \<in> set ?pods. \<not> safe_pod rs p" and inv: "source_inv rs (set ?pods) cur"
        by simp_all
      from True unsafe obtain p where "p \<in> set ?pods" "\<not> skipped_pod rs p" "located_pod rs p"
        by (auto simp: isComplete_iff Let_def)
      with inv obtain y q where cur: "cur = Some (y, q)"
        unfolding source_inv_def located_pod_def by blast
      with inv have "GetSeqno x \<le> GetSeqno y" if "p \<in> set ?pods" "\<not> skipped_pod rs p" "x \<in> positions rs p" for p x
        using that by (cases "0 \<le> GetSeqno x") (fastforce simp: source_inv_def)+
      with True Inr cur inv unsafe show ?thesis
        by (auto simp: bootstrapSource_def Let_def source_inv_def)
    qed
  qed (simp add: bootstrapSource_def)
qed

text \<open>A status after the recovery Jobs of three Pods: the second has the highest sequence number,
  the third needs a full transfer.\<close>

definition exampleRecovery :: GaleraRecoveryStatus where
  "exampleRecovery =
     setRecovered ''mdb-2'' (Some \<lparr>b_UUID = ''00000000-0000-0000-0000-000000000000'', b_Seqno = - 1\<rparr>)
      (setRecovered ''mdb-1'' (Some \<lparr>b_UUID = ''u'', b_Seqno = 9\<rparr>)
       (setState ''mdb-0'' (Some \<lparr>gs_Version = ''2.1'', gs_UUID = ''u'', gs_Seqno = 7, gs_SafeToBootstrap = False\<rparr>)
        zeroGaleraRecoveryStatus))"

lemma example_pods: "getPodNames exampleMariaDB = [''mdb-0'', ''mdb-1'', ''mdb-2'']"
proof -
  have "[0..2::int] = [0, 1, 2]" by (simp add: upto.simps)
  then show ?thesis
    by (simp add: getPodNames_def example_defs PodName_def Itoa_def utoa.simps digit_char_simps)
qed

lemmas recovery_ops = setState_def setRecovered_def map_write_def map_read_def map_get_def
  zeroGaleraRecoveryStatus_def

lemma example_source:
  "bootstrapSource exampleMariaDB None exampleRecovery =
     Inr \<lparr>src_bootstrap = Some \<lparr>b_UUID = ''u'', b_Seqno = 9\<rparr>, src_pod = ''mdb-1''\<rparr>"
  by (simp add: bootstrapSource_def isComplete_def example_pods exampleRecovery_def recovery_ops
      shouldSkipRecoverer_def bootstrapSource_loop.simps better_state_def better_bootstrap_def
      GaleraState_Compare_def Bootstrap_Compare_def)

theorem bootstrapSource_max_seqno_witness:
  "bootstrapSource exampleMariaDB None exampleRecovery =
     Inr \<lparr>src_bootstrap = Some \<lparr>b_UUID = ''u'', b_Seqno = 9\<rparr>, src_pod = ''mdb-1''\<rparr> \<and>
   isComplete exampleMariaDB exampleRecovery \<and> ''mdb-1'' \<in> set (getPodNames exampleMariaDB)"
  using bootstrapSource_max_seqno [of exampleMariaDB exampleRecovery] by (auto simp: example_source)

text \<open>
  A forced bootstrap overrides the recorded positions. It succeeds exactly when the named Pod is
  one of the cluster's, whatever the status says, and then uses that Pod with no recorded position.
\<close>

theorem bootstrapSource_forced:
  "bootstrapSource mdb (Some forced) rs =
     (if forced \<in> set (getPodNames mdb) then Inr \<lparr>src_bootstrap = None, src_pod = forced\<rparr>
      else Inl (ErrNew ''Pod used to forcefully bootstrap not found''))"
proof -
  have "Find xs (\<lambda>pod. pod = forced) = (if forced \<in> set xs then Some forced else None)" for xs
    by (induction xs) auto
  then show ?thesis by (simp add: bootstrapSource_def Let_def)
qed

text \<open>The accessors of the recovery status form a keyed store per map.\<close>

lemma setState_simps [simp]:
  "map_get (gs_State (setState p s rs)) q = (if q = p then s else map_get (gs_State rs) q)"
  "gs_Recovered (setState p s rs) = gs_Recovered rs" "gs_Bootstrap (setState p s rs) = gs_Bootstrap rs"
  "gs_PodsRestarted (setState p s rs) = gs_PodsRestarted rs"
  by (auto simp: setState_def map_get_def map_write_def map_read_def)

lemma setRecovered_simps [simp]:
  "map_get (gs_Recovered (setRecovered p b rs)) q = (if q = p then b else map_get (gs_Recovered rs) q)"
  "gs_State (setRecovered p b rs) = gs_State rs" "gs_Bootstrap (setRecovered p b rs) = gs_Bootstrap rs"
  "gs_PodsRestarted (setRecovered p b rs) = gs_PodsRestarted rs"
  by (auto simp: setRecovered_def map_get_def map_write_def map_read_def)

text \<open>
  Loading the status of the resource and writing it back changes nothing, the map accessors
  return what was last stored for the Pod and report that it is present, and a reset or a fresh
  status is never bootstrapping, never complete and has no restarted Pods.
\<close>

theorem recoveryStatus_store:
  "newRecoveryStatus mdb = Deref (ms_GaleraRecovery (m_Status mdb)) zeroGaleraRecoveryStatus \<and>
   rs_state (setState p s rs) q = (if q = p then (s, True) else rs_state rs q) \<and>
   rs_recovered (setRecovered p b rs) q = (if q = p then (b, True) else rs_recovered rs q) \<and>
   rs_recovered (setState p s rs) q = rs_recovered rs q \<and> rs_state (setRecovered p b rs) q = rs_state rs q \<and>
   \<not> isBootstrapping (rs_reset rs) \<and> \<not> isComplete mdb (rs_reset rs) \<and> \<not> podsRestarted (rs_reset rs) \<and>
   isBootstrapping (setBootstrapping now p rs) \<and>
   \<not> bootstrapTimeout now mdb (rs_reset rs)"
proof -
  have new: "newRecoveryStatus mdb = Deref (ms_GaleraRecovery (m_Status mdb)) zeroGaleraRecoveryStatus"
    by (cases "Deref (ms_GaleraRecovery (m_Status mdb)) zeroGaleraRecoveryStatus")
      (auto simp: newRecoveryStatus_def zeroGaleraRecoveryStatus_def Let_def)
  have "\<not> isComplete mdb (rs_reset rs)"
    by (auto simp: isComplete_iff Let_def rs_reset_def zeroGaleraRecoveryStatus_def safe_pod_def
        skipped_pod_def located_pod_def positions_def map_get_def map_read_def shouldSkipRecoverer_def)
  with new show ?thesis
    by (auto simp: rs_state_def rs_recovered_def setState_def setRecovered_def map_get_def map_write_def
        map_read_def isBootstrapping_def rs_reset_def zeroGaleraRecoveryStatus_def podsRestarted_def
        setBootstrapping_def bootstrapTimeout_def)
qed

text \<open>The Pod to bootstrap is one of the cluster's.\<close>

lemma bootstrapSource_member:
  assumes "bootstrapSource mdb forced rs = Inr src"
  shows "src_pod src \<in> set (getPodNames mdb)"
proof (cases forced)
  case None
  note spec = bootstrapSource_loop_spec [OF source_inv_start [of rs], of "getPodNames mdb"]
  from assms None spec show ?thesis
    by (cases "bootstrapSource_loop rs (getPodNames mdb) None")
      (auto simp: bootstrapSource_def Let_def source_inv_def split: if_splits option.splits)
next
  case (Some f)
  with assms show ?thesis
    by (auto simp: bootstrapSource_def Let_def Find_eq_find find_Some_iff split: option.splits)
qed

end
