(* ===== verification/Galera_Recovery.thy ===== *)
theory Galera_Recovery
  imports Recovery_Status Switchover
begin

text \<open>
  \<^verbatim>\<open>pkg/controller/galera/recovery.go\<close> with its client set (\<^verbatim>\<open>clientset.go\<close>): recovering a Galera cluster
  that has lost its quorum. The operator collects the position of every Pod, from the agents or from
  recovery Jobs, chooses the Pod to bootstrap, and restarts the Pods, the chosen one first. The client of
  an agent is its index; an agent's answer 404 to a request to disable the bootstrap is \<open>ErrNotFound\<close>. The
  builder of the recovery Job is the argument \<open>buildJob\<close>, the UUID parser the argument \<open>uuid_ok\<close>. A context
  with a timeout bounds the attempts of the polls made under it.
\<close>

text \<open>What a goroutine wants recorded in the shared recovery status.\<close>

datatype rs_update = NoUpdate | SetState string GaleraState | SetRecovered string Bootstrap

fun applyUpdate :: "rs_update \<Rightarrow> GaleraRecoveryStatus \<Rightarrow> GaleraRecoveryStatus" where
  "applyUpdate NoUpdate rs = rs"
| "applyUpdate (SetState pod s) rs = setState pod (Some s) rs"
| "applyUpdate (SetRecovered pod b) rs = setRecovered pod (Some b) rs"

type_synonym 'a galera = "(call, answer, rs_update, 'a) go"
type_synonym galera_task = "(call, answer, rs_update) task"

definition recoveryOf :: "MariaDB \<Rightarrow> GaleraRecovery" where
  "recoveryOf m = Deref (g_Recovery (Deref (sp_Galera (m_Spec m)) zeroGalera)) zeroGaleraRecovery"

definition agentOf :: "MariaDB \<Rightarrow> GaleraAgent" where
  "agentOf m = g_Agent (Deref (sp_Galera (m_Spec m)) zeroGalera)"

definition onPod :: "MariaDB \<Rightarrow> string \<Rightarrow> NamespacedName" where
  "onPod m pod = \<lparr>nn_Name = pod, nn_Namespace = m_Namespace m\<rparr>"

subsection \<open>Agent clients\<close>

definition secretKey :: "MariaDB \<Rightarrow> SecretKeySelector \<Rightarrow> string \<Rightarrow> ('g, 'u, unit result) op" where
  "secretKey m ref msg = tryP (ctxP msg (ask as_text (SecretKeyRef ref (m_Namespace m)))) (\<lambda>_. Ret (Inr ()))"

definition newAgentClientSet :: "MariaDB \<Rightarrow> ('g, 'u, unit result) op" where
  "newAgentClientSet m =
     (let k = Deref (ga_KubernetesAuth (agentOf m)) \<lparr>ka_Enabled = False, ka_AuthDelegatorRoleName = ''''\<rparr>;
          b = Deref (ga_BasicAuth (agentOf m)) \<lparr>ba_Enabled = False, ba_Username = '''',
                ba_PasswordSecretKeyRef = \<lparr>sk_Name = '''', sk_Key = '''', sk_Generate = False\<rparr>\<rparr>;
          ref = ba_PasswordSecretKeyRef b;
          cert = nn_Name (TLSClientCertSecretKey m)
      in seqP
        ([if ka_Enabled k then Ret (Inr ())
          else if ba_Enabled b \<and> ref \<noteq> \<lparr>sk_Name = '''', sk_Key = '''', sk_Generate = False\<rparr>
          then secretKey m \<lparr>ss_Name = sk_Name ref, ss_Key = sk_Key ref\<rparr> ''error getting agent password''
          else Ret (Inr ())] @
         (if IsTLSEnabled m
          then [secretKey m (TLSCABundleSecretKeyRef m) ''error reading TLS CA bundle'',
                secretKey m \<lparr>ss_Name = cert, ss_Key = ''tls.crt''\<rparr> ''error reading TLS cert'',
                secretKey m \<lparr>ss_Name = cert, ss_Key = ''tls.key''\<rparr> ''error reading TLS key'']
          else []) @
         [if \<not> IsGaleraEnabled m
          then Ret (Inl (ErrNew ''mariadb.spec.galera.enabled should be enabled to create an agent agentClientSet''))
          else Ret (Inr ())]))"

definition agentForIndex :: "MariaDB \<Rightarrow> int \<Rightarrow> ('g, 'u, int result) op" where
  "agentForIndex m index =
     (case validateIndex m index of
        Inl e \<Rightarrow> Ret (Inl (ErrCtx ''invalid index'' e))
      | Inr _ \<Rightarrow> tryP (ctxP ''error creating client'' (ask as_unit (AgentConnect index))) (\<lambda>_. Ret (Inr index)))"

text \<open>\<^verbatim>\<open>statefulset.PodIndex\<close> and the client for it, each with its error context.\<close>

definition agentFor :: "string \<Rightarrow> string \<Rightarrow> MariaDB \<Rightarrow> string \<Rightarrow> ('g, 'u, int result) op" where
  "agentFor indexMsg clientMsg m pod =
     (case PodIndex pod of
        Inl e \<Rightarrow> Ret (Inl (ErrCtx indexMsg e))
      | Inr i \<Rightarrow> ctxP clientMsg (agentForIndex m i))"

abbreviation agentForPod :: "MariaDB \<Rightarrow> string \<Rightarrow> ('g, 'u, int result) op" where
  "agentForPod \<equiv> agentFor ''error getting index for Pod'' ''error getting client for Pod''"

subsection \<open>Waiting\<close>

definition podHealthy :: "NamespacedName \<Rightarrow> int \<Rightarrow> ('g, 'u, unit result) op" where
  "podHealthy key client =
     tryP (ctxP ''error getting Pod'' (ask as_pod (GetPod key))) (\<lambda>pod.
       if pod_Phase pod \<noteq> ''Running'' then Ret (Inl (ErrNew ''Pod not running''))
       else tryP (ctxP ''error getting Galera health'' (ask as_bool (Agent client AgentHealth)))
         (\<lambda>healthy. Ret (if healthy then Inr () else Inl (ErrNew ''Galera not healthy''))))"

definition pollUntilPodHealthy :: "int \<Rightarrow> MariaDB \<Rightarrow> NamespacedName \<Rightarrow> ('g, 'u, unit result) op" where
  "pollUntilPodHealthy timeout m key =
     tryP (agentForPod m (nn_Name key)) (\<lambda>client. PollWithMariaDB timeout (keyOf m) (podHealthy key client))"

definition ensurePodHealthy :: "int \<Rightarrow> MariaDB \<Rightarrow> NamespacedName \<Rightarrow> ('g, 'u, unit result) op" where
  "ensurePodHealthy timeout m key =
     bindP (pollUntilPodHealthy (30 * second) m key) (\<lambda>x. case x of
       Inr _ \<Rightarrow> Ret (Inr ())
     | Inl _ \<Rightarrow>
         tryP (ctxP ''error getting Pod'' (ask as_pod (GetPod key))) (\<lambda>_.
         tryP (ctxP ''error deleting Pod'' (ask as_unit (DeletePod key))) (\<lambda>_.
         pollUntilPodHealthy timeout m key)))"

definition pollUntilPodDeleted :: "int \<Rightarrow> MariaDB \<Rightarrow> NamespacedName \<Rightarrow> ('g, 'u, unit result) op" where
  "pollUntilPodDeleted timeout m key =
     PollWithMariaDB timeout (keyOf m)
       (tryP (ctxP ''error getting Pod'' (ask as_pod (GetPod key))) (\<lambda>_.
        ctxP ''error deleting Pod'' (ask as_unit (DeletePod key))))"

definition podSynced :: "MariaDB \<Rightarrow> NamespacedName \<Rightarrow> ('g, 'u, unit result) op" where
  "podSynced m key =
     tryP (ctxP ''error getting Pod'' (ask as_pod (GetPod key))) (\<lambda>_.
     case PodIndex (nn_Name key) of
       Inl e \<Rightarrow> Ret (Inl (ErrCtx ''error getting Pod index'' e))
     | Inr i \<Rightarrow>
         tryP (ctxP ''error getting SQL client'' (ClientForIndex m i)) (\<lambda>client.
         tryP (ctxP ''error checking Pod sync'' (IsPodSynced client)) (\<lambda>synced.
         Ret (if synced then Inr () else Inl (ErrNew ''Pod not synced'')))))"

definition pollUntilPodSynced :: "int \<Rightarrow> MariaDB \<Rightarrow> NamespacedName \<Rightarrow> ('g, 'u, unit result) op" where
  "pollUntilPodSynced timeout m key = PollWithMariaDB timeout (keyOf m) (podSynced m key)"

definition patchStatefulSetReplicas :: "int \<Rightarrow> MariaDB \<Rightarrow> int \<Rightarrow> ('g, 'u, unit result) op" where
  "patchStatefulSetReplicas timeout m replicas =
     tryP (ctxP ''error getting StatefulSet'' (ask as_sts (GetStatefulSet (keyOf m)))) (\<lambda>_.
     tryP (ctxP ''error patching StatefulSet'' (ask as_unit (PatchStatefulSetReplicas (keyOf m) replicas))) (\<lambda>_.
     PollWithMariaDB timeout (keyOf m)
       (tryP (ctxP ''error getting StatefulSet'' (ask as_sts (GetStatefulSet (keyOf m)))) (\<lambda>sts.
          Ret (if sts_Status_Replicas sts = replicas then Inr ()
               else Inl (ErrNew ''waiting for StatefulSet Pods''))))))"

subsection \<open>Collecting positions\<close>

definition getPods :: "MariaDB \<Rightarrow> ('g, 'u, Pod list result) op" where
  "getPods m =
     tryP (ctxP ''error listing Pods'' (ask as_pods (ListPods (keyOf m))))
       (\<lambda>items. Ret (Inr (sort_key pod_Name (filter (\<lambda>p. pod_NodeName p \<noteq> '''') items))))"

definition podRecoveryTimeout :: "MariaDB \<Rightarrow> int" where
  "podRecoveryTimeout m = Deref (gr_PodRecoveryTimeout (recoveryOf m)) (5 * minute)"

definition reported :: "rs_update result \<Rightarrow> go_error option \<times> rs_update" where
  "reported x = (case x of Inl e \<Rightarrow> (Some e, NoUpdate) | Inr u \<Rightarrow> (None, u))"

definition fetchState :: "MariaDB \<Rightarrow> Pod \<Rightarrow> galera_task" where
  "fetchState m pod =
     bindP (tryP (agentForPod m (pod_Name pod)) (\<lambda>client.
         ctxP ''error getting Galera state for Pod'' (PollValue (podRecoveryTimeout m) (keyOf m) NoUpdate
           (tryP (ensurePodHealthy (podRecoveryTimeout m) m (onPod m (pod_Name pod))) (\<lambda>_.
            tryP (ctxP ''error getting Galera state for Pod'' (ask as_state (Agent client AgentGetState))) (\<lambda>s.
            Ret (Inr (case s of None \<Rightarrow> NoUpdate | Some state \<Rightarrow> SetState (pod_Name pod) state))))))))
       (\<lambda>x. Ret (reported x))"

definition joinAll :: "galera_task list \<Rightarrow> GaleraRecoveryStatus \<Rightarrow> (GaleraRecoveryStatus \<times> unit result) galera" where
  "joinAll ts rs =
     Group WaitAll ts (\<lambda>(err, us). Ret (fold applyUpdate us rs, case err of None \<Rightarrow> Inr () | Some e \<Rightarrow> Inl e))"

definition getGaleraState :: "MariaDB \<Rightarrow> Pod list \<Rightarrow> GaleraRecoveryStatus \<Rightarrow> (GaleraRecoveryStatus \<times> unit result) galera" where
  "getGaleraState m pods rs =
     joinAll (map (fetchState m) (filter (\<lambda>p. \<not> snd (rs_state rs (pod_Name p))) pods)) rs"

definition ensureJob :: "NamespacedName \<Rightarrow> ('g, 'u, unit result) op" where
  "ensureJob key =
     bindP (ask as_job (GetJob key)) (\<lambda>x. case x of
       Inl e \<Rightarrow> if IsNotFound e then ask as_unit (CreateJob key) else Ret (Inl e)
     | Inr _ \<Rightarrow> Ret (Inr ()))"

definition getJobLogs :: "NamespacedName \<Rightarrow> ('g, 'u, string result) op" where
  "getJobLogs key =
     tryP (ctxP ''error getting Job'' (ask as_job (GetJob key))) (\<lambda>_.
     tryP (ctxP ''error listing Pods'' (ask as_names (ListJobPods key))) (\<lambda>names.
     case names of
       [] \<Rightarrow> Ret (Inl (ErrNew ''no Pods were found''))
     | n # _ \<Rightarrow> ctxP ''error getting Pod logs'' (ask as_text (PodLogs n))))"

definition jobPosition :: "(string \<Rightarrow> bool) \<Rightarrow> NamespacedName \<Rightarrow> ('g, 'u, Bootstrap result) op" where
  "jobPosition uuid_ok key =
     tryP (ctxP ''error getting recovery Job for Pod'' (ask as_job (GetJob key))) (\<lambda>job.
       if \<not> IsJobComplete (Some job) then Ret (Inl (ErrNew ''recovery Job not complete''))
       else tryP (ctxP ''error getting logs from recovery Job'' (getJobLogs key)) (\<lambda>logs.
         Ret (with_ctx ''error unmarshalling recovery logs from Job'' (Bootstrap_Unmarshal uuid_ok logs))))"

definition recoverPod :: "(string \<Rightarrow> bool) \<Rightarrow> (MariaDB \<Rightarrow> Pod \<Rightarrow> unit result) \<Rightarrow> MariaDB \<Rightarrow> Pod \<Rightarrow> galera_task" where
  "recoverPod uuid_ok buildJob m pod =
     (let key = RecoveryJobKey m (pod_Name pod) in
      case buildJob m pod of
        Inl e \<Rightarrow> Ret (Some (ErrCtx ''error building recovery Job for Pod'' e), NoUpdate)
      | Inr _ \<Rightarrow>
          bindP (tryP (ctxP ''error ensuring recovery Job for Pod'' (ensureJob key)) (\<lambda>_.
              bindP (ctxP ''error performing recovery in Pod'' (PollValue (podRecoveryTimeout m) (keyOf m) NoUpdate
                  (tryP (jobPosition uuid_ok key) (\<lambda>b. Ret (Inr (SetRecovered (pod_Name pod) b))))))
                (\<lambda>x. bindP (ask as_unit (DeleteJob key)) (\<lambda>_. Ret x))))
            (\<lambda>x. Ret (reported x)))"

definition recoverGaleraState ::
    "(string \<Rightarrow> bool) \<Rightarrow> (MariaDB \<Rightarrow> Pod \<Rightarrow> unit result) \<Rightarrow> MariaDB \<Rightarrow> Pod list \<Rightarrow> GaleraRecoveryStatus \<Rightarrow>
     (GaleraRecoveryStatus \<times> unit result) galera" where
  "recoverGaleraState uuid_ok buildJob m pods rs =
     bindP (patchStatefulSetReplicas (Deref (gr_ClusterDownscaleTimeout (recoveryOf m)) (5 * minute)) m 0) (\<lambda>x. case x of
       Inl e \<Rightarrow> Ret (rs, Inl (ErrCtx ''error downscaling cluster'' e))
     | Inr _ \<Rightarrow>
         bindP (joinAll (map (recoverPod uuid_ok buildJob m) (filter (\<lambda>p. \<not> snd (rs_recovered rs (pod_Name p))) pods)) rs)
           (\<lambda>y. bindP (patchStatefulSetReplicas (Deref (gr_ClusterUpscaleTimeout (recoveryOf m)) (5 * minute)) m (m_Replicas m))
             (\<lambda>_. Ret y)))"

subsection \<open>Choosing and restarting\<close>

definition isZeroStatus :: "GaleraRecoveryStatus \<Rightarrow> bool" where
  "isZeroStatus rs = (gs_State rs = None \<and> gs_Recovered rs = None \<and> gs_Bootstrap rs = None \<and> gs_PodsRestarted rs = None)"

definition patchRecoveryStatus :: "MariaDB \<Rightarrow> GaleraRecoveryStatus \<Rightarrow> ('g, 'u, MariaDB \<times> unit result) op" where
  "patchRecoveryStatus m rs =
     patchStatus m (\<lambda>status. status\<lparr>ms_GaleraRecovery := if isZeroStatus rs then None else Some rs\<rparr>)"

definition startBootstrap :: "MariaDB \<Rightarrow> string \<Rightarrow> GaleraRecoveryStatus \<Rightarrow> (MariaDB \<times> GaleraRecoveryStatus \<times> unit result) galera" where
  "startBootstrap m pod rs =
     bindP (ask as_time Now) (\<lambda>now.
     let rs' = setBootstrapping now pod rs in
     bindP (patchRecoveryStatus m rs') (\<lambda>(m', x). Ret (m', rs', x)))"

text \<open>The last stage of \<^verbatim>\<open>recoverCluster\<close>, its middle, and the whole.\<close>

definition recoverPositions ::
    "(string \<Rightarrow> bool) \<Rightarrow> (MariaDB \<Rightarrow> Pod \<Rightarrow> unit result) \<Rightarrow> MariaDB \<Rightarrow> Pod list \<Rightarrow> GaleraRecoveryStatus \<Rightarrow>
     (MariaDB \<times> GaleraRecoveryStatus \<times> unit result) galera" where
  "recoverPositions uuid_ok buildJob m pods rs =
     bindP (recoverGaleraState uuid_ok buildJob m pods rs) (\<lambda>(rs, x1).
     bindP (patchRecoveryStatus m rs) (\<lambda>(m, x2).
     case bundleErrors ''error performing recovery'' [x1, x2] of
       Inl e \<Rightarrow> Ret (m, rs, Inl e)
     | Inr _ \<Rightarrow>
         (case bootstrapSource m None rs of
            Inl e \<Rightarrow> Ret (m, rs, Inl (ErrCtx ''error getting bootstrap source'' e))
          | Inr src \<Rightarrow> bindP (startBootstrap m (src_pod src) rs)
              (\<lambda>(m, rs, x). Ret (m, rs, with_ctx ''error patching recovery status'' x)))))"

definition recoverCluster ::
    "(string \<Rightarrow> bool) \<Rightarrow> (MariaDB \<Rightarrow> Pod \<Rightarrow> unit result) \<Rightarrow> MariaDB \<Rightarrow> Pod list \<Rightarrow> GaleraRecoveryStatus \<Rightarrow>
     (MariaDB \<times> GaleraRecoveryStatus \<times> unit result) galera" where
  "recoverCluster uuid_ok buildJob m pods rs =
     (case gr_ForceClusterBootstrapInPod (recoveryOf m) of
        Some forced \<Rightarrow>
          (case bootstrapSource m (Some forced) rs of
             Inl e \<Rightarrow> Ret (m, rs, Inl (ErrCtx ''error getting source to forcefully bootstrap'' e))
           | Inr src \<Rightarrow> startBootstrap m (src_pod src) rs)
      | None \<Rightarrow>
          bindP (getGaleraState m pods rs) (\<lambda>(rs, x1).
          bindP (patchRecoveryStatus m rs) (\<lambda>(m, x2).
          case bundleErrors ''error getting state'' [x1, x2] of
            Inl e \<Rightarrow> Ret (m, rs, Inl e)
          | Inr _ \<Rightarrow>
              (case bootstrapSource m None rs of
                 Inr src \<Rightarrow> startBootstrap m (src_pod src) rs
               | Inl _ \<Rightarrow> recoverPositions uuid_ok buildJob m pods rs))))"

definition enableBootstrapWithSource :: "int \<Rightarrow> MariaDB \<Rightarrow> bootstrapSource_t \<Rightarrow> ('g, 'u, unit result) op" where
  "enableBootstrapWithSource timeout m src =
     tryP (agentForPod m (src_pod src)) (\<lambda>client.
     ctxP ''error enabling bootstrap in Pod'' (PollWithMariaDB timeout (keyOf m)
       (tryP (ensurePodHealthy timeout m (onPod m (src_pod src))) (\<lambda>_.
        ask as_unit (Agent client (AgentEnableBootstrap (src_bootstrap src)))))))"

definition disableBootstrapInPod :: "int \<Rightarrow> MariaDB \<Rightarrow> NamespacedName \<Rightarrow> ('g, 'u, unit result) op" where
  "disableBootstrapInPod timeout m key =
     tryP (agentFor ''error getting Pod index'' ''error getting agent client'' m (nn_Name key)) (\<lambda>client.
     ctxP ''error disabling bootstrap in Pod'' (PollWithMariaDB timeout (keyOf m)
       (tryP (ensurePodHealthy timeout m key) (\<lambda>_.
        bindP (ask as_unit (Agent client AgentDisableBootstrap))
          (\<lambda>x. Ret (case x of Inl e \<Rightarrow> if IsNotFound e then Inr () else Inl e | Inr _ \<Rightarrow> Inr ()))))))"

definition restartPod :: "int \<Rightarrow> MariaDB \<Rightarrow> bootstrapSource_t \<Rightarrow> string \<Rightarrow> ('g, 'u, unit result) op" where
  "restartPod timeout m src pod =
     tryP (if pod = src_pod src
           then ctxP ''error enabling bootstrap in Pod'' (enableBootstrapWithSource timeout m src)
           else ctxP ''error disabling bootstrap in Pod'' (disableBootstrapInPod timeout m (onPod m pod))) (\<lambda>_.
     ctxP ''error restarting Pod'' (PollWithMariaDB timeout (keyOf m)
       (tryP (ctxP ''error deleting Pod'' (pollUntilPodDeleted timeout m (onPod m pod))) (\<lambda>_.
        ctxP ''error waiting for Pod to be synced'' (pollUntilPodSynced timeout m (onPod m pod))))))"

definition restartOrder :: "MariaDB \<Rightarrow> string \<Rightarrow> string list" where
  "restartOrder m bootstrapPod = bootstrapPod # filter (\<lambda>n. n \<noteq> bootstrapPod) (getPodNames m)"

definition restartPods :: "MariaDB \<Rightarrow> GaleraRecoveryStatus \<Rightarrow> (MariaDB \<times> GaleraRecoveryStatus \<times> unit result) galera" where
  "restartPods m rs =
     (case bootstrapSource m (gr_ForceClusterBootstrapInPod (recoveryOf m)) rs of
        Inl e \<Rightarrow> Ret (m, rs, Inl (ErrCtx ''error getting source to forcefully bootstrap'' e))
      | Inr src \<Rightarrow>
          if src_pod src = '''' then Ret (m, rs, Inl (ErrNew ''unable to restart Pods. Cluster hasn't been bootstrapped''))
          else bindP (forP (restartOrder m (src_pod src))
                 (restartPod (Deref (gr_PodSyncTimeout (recoveryOf m)) (5 * minute)) m src)) (\<lambda>x. case x of
            Inl e \<Rightarrow> Ret (m, rs, Inl e)
          | Inr _ \<Rightarrow>
              let rs' = setPodsRestarted True rs in
              bindP (patchRecoveryStatus m rs') (\<lambda>(m', y). Ret (m', rs', with_ctx ''error patching recovery status'' y))))"

definition resetRecovery :: "MariaDB \<Rightarrow> GaleraRecoveryStatus \<Rightarrow> (MariaDB \<times> GaleraRecoveryStatus \<times> unit result) galera" where
  "resetRecovery m rs =
     (let rs' = rs_reset rs in bindP (patchRecoveryStatus m rs') (\<lambda>(m', x). Ret (m', rs', x)))"

text \<open>A stage that runs when a condition holds; its error ends the recovery.\<close>

definition stage :: "bool \<Rightarrow> string \<Rightarrow> (MariaDB \<times> GaleraRecoveryStatus \<times> unit result) galera \<Rightarrow> MariaDB \<Rightarrow> GaleraRecoveryStatus \<Rightarrow>
    (MariaDB \<Rightarrow> GaleraRecoveryStatus \<Rightarrow> (MariaDB \<times> CtrlResult result) galera) \<Rightarrow> (MariaDB \<times> CtrlResult result) galera" where
  "stage b msg p m rs k =
     (if b then bindP p (\<lambda>(m', rs', x). case x of Inl e \<Rightarrow> Ret (m', Inl (ErrCtx msg e)) | Inr _ \<Rightarrow> k m' rs')
      else k m rs)"

text \<open>The stages of \<^verbatim>\<open>reconcileRecovery\<close>, and the whole.\<close>

definition recoveryStages ::
    "(string \<Rightarrow> bool) \<Rightarrow> (MariaDB \<Rightarrow> Pod \<Rightarrow> unit result) \<Rightarrow> MariaDB \<Rightarrow> Pod list \<Rightarrow> (MariaDB \<times> CtrlResult result) galera" where
  "recoveryStages uuid_ok buildJob m pods =
     bindP (ask as_time Now) (\<lambda>now.
     let rs = newRecoveryStatus m in
     stage (bootstrapTimeout now m rs) ''error resetting recovery'' (resetRecovery m rs) m rs (\<lambda>m rs.
     stage (\<not> isBootstrapping rs) ''error recovering cluster'' (recoverCluster uuid_ok buildJob m pods rs) m rs (\<lambda>m rs.
     stage (\<not> podsRestarted rs) ''error restarting Pods'' (restartPods m rs) m rs (\<lambda>m rs.
     Ret (m, Inr zeroResult)))))"

definition reconcileRecovery ::
    "(string \<Rightarrow> bool) \<Rightarrow> (MariaDB \<Rightarrow> Pod \<Rightarrow> unit result) \<Rightarrow> MariaDB \<Rightarrow> (MariaDB \<times> CtrlResult result) galera" where
  "reconcileRecovery uuid_ok buildJob m =
     bindP (ctxP ''error getting Pods'' (getPods m)) (\<lambda>x. case x of
       Inl e \<Rightarrow> Ret (m, Inl e)
     | Inr pods \<Rightarrow>
         if pods = [] then Ret (m, Inr (requeueAfter (5 * second)))
         else bindP (ctxP ''error getting agent client'' (newAgentClientSet m)) (\<lambda>y. case y of
           Inl e \<Rightarrow> Ret (m, Inl e)
         | Inr _ \<Rightarrow> recoveryStages uuid_ok buildJob m pods))"

subsection \<open>Which agent calls are made where\<close>

text \<open>A call that leaves the cluster's membership alone: it enables no bootstrap and deletes no Pod but
  those of \<open>D\<close>.\<close>

definition boot_ok :: "(int \<Rightarrow> Bootstrap option \<Rightarrow> bool) \<Rightarrow> (NamespacedName \<Rightarrow> bool) \<Rightarrow> call \<Rightarrow> bool" where
  "boot_ok E D c = (case c of Agent i (AgentEnableBootstrap b) \<Rightarrow> E i b | DeletePod k \<Rightarrow> D k | _ \<Rightarrow> True)"

lemma boot_ok_simps [simp]:
  "boot_ok E D (Agent i (AgentEnableBootstrap b)) = E i b"
  "boot_ok E D (DeletePod k) = D k"
  "boot_ok E D (Agent i AgentHealth)" "boot_ok E D (Agent i AgentGetState)" "boot_ok E D (Agent i AgentDisableBootstrap)"
  "boot_ok E D (GetPod k)" "boot_ok E D (ListPods k)" "boot_ok E D (GetStatefulSet k)" "boot_ok E D (PatchStatefulSetReplicas k n)"
  "boot_ok E D (GetMariaDB k)" "boot_ok E D (PatchStatus m)" "boot_ok E D (GetJob k)" "boot_ok E D (CreateJob k)"
  "boot_ok E D (DeleteJob k)" "boot_ok E D (ListJobPods k)" "boot_ok E D (PodLogs s)" "boot_ok E D (SqlConnect i)"
  "boot_ok E D (SqlStatus i s)" "boot_ok E D (AgentConnect i)" "boot_ok E D (SecretKeyRef r s)" "boot_ok E D Now" "boot_ok E D Tick"
  by (simp_all add: boot_ok_def)

lemmas calls_intros = all_calls_bindP all_calls_tryP all_calls_ctxP all_calls_forP all_calls_seqP
  all_calls_PollValue all_calls_PollWithMariaDB

lemma agentFor_calls: "all_calls G (boot_ok E D) (agentFor a b m pod)"
  by (auto simp: agentFor_def agentForIndex_def intro!: calls_intros split: sum.split)

lemma ensurePodHealthy_calls: "D key \<Longrightarrow> all_calls G (boot_ok E D) (ensurePodHealthy timeout m key)"
  unfolding ensurePodHealthy_def pollUntilPodHealthy_def podHealthy_def
  by (auto intro!: calls_intros agentFor_calls split: sum.split)

lemma pollUntilPodDeleted_calls: "D key \<Longrightarrow> all_calls G (boot_ok E D) (pollUntilPodDeleted timeout m key)"
  unfolding pollUntilPodDeleted_def by (auto intro!: calls_intros)

lemma pollUntilPodSynced_calls: "all_calls G (boot_ok E D) (pollUntilPodSynced timeout m key)"
  unfolding pollUntilPodSynced_def podSynced_def IsPodSynced_def IsPodHealthy_def ClientForIndex_def
  by (auto intro!: calls_intros split: sum.split)

lemma patchStatefulSetReplicas_calls: "all_calls G (boot_ok E D) (patchStatefulSetReplicas timeout m n)"
  unfolding patchStatefulSetReplicas_def by (auto intro!: calls_intros)

lemma patchRecoveryStatus_calls: "all_calls G (boot_ok E D) (patchRecoveryStatus m rs)"
  unfolding patchRecoveryStatus_def patchStatus_def Let_def by (auto intro!: calls_intros split: sum.split)

text \<open>The two ways of learning a Pod's position.\<close>

lemma fetchState_calls: "D (onPod m (pod_Name p)) \<Longrightarrow> all_calls G (boot_ok E D) (fetchState m p)"
  unfolding fetchState_def by (auto intro!: calls_intros agentFor_calls ensurePodHealthy_calls)

lemma recoverPod_calls: "all_calls G (boot_ok E D) (recoverPod uuid_ok buildJob m p)"
  unfolding recoverPod_def Let_def jobPosition_def getJobLogs_def ensureJob_def
  by (auto intro!: calls_intros split: sum.split list.split)

lemma getGaleraState_calls:
  "(\<And>p. p \<in> set pods \<Longrightarrow> D (onPod m (pod_Name p))) \<Longrightarrow> go_calls (boot_ok E D) (getGaleraState m pods rs)"
  unfolding getGaleraState_def joinAll_def by (auto intro!: fetchState_calls)

lemma recoverGaleraState_calls: "go_calls (boot_ok E D) (recoverGaleraState uuid_ok buildJob m pods rs)"
  unfolding recoverGaleraState_def joinAll_def
  by (auto intro!: calls_intros patchStatefulSetReplicas_calls recoverPod_calls split: sum.split)

lemma startBootstrap_calls: "go_calls (boot_ok E D) (startBootstrap m pod rs)"
  unfolding startBootstrap_def Let_def by (auto intro!: calls_intros patchRecoveryStatus_calls)

lemma recoverCluster_calls:
  assumes "\<And>p. p \<in> set pods \<Longrightarrow> D (onPod m (pod_Name p))"
  shows "go_calls (boot_ok E D) (recoverCluster uuid_ok buildJob m pods rs)"
  unfolding recoverCluster_def recoverPositions_def
  by (auto intro!: calls_intros patchRecoveryStatus_calls startBootstrap_calls getGaleraState_calls recoverGaleraState_calls assms
      split: sum.split option.split)

lemma all_calls_agentFor:
  assumes "\<And>i. PodIndex pod = Inr i \<Longrightarrow> 0 \<le> i \<Longrightarrow> i < m_Replicas m \<Longrightarrow> all_calls G (boot_ok E D) (f i)"
  shows "all_calls G (boot_ok E D) (tryP (agentFor a b m pod) f)"
  using assms
  by (auto simp: agentFor_def agentForIndex_def validateIndex_def tryP_def ctxP_def ask_def bindP_assoc
      split: sum.split intro!: calls_intros)

text \<open>Restarting a Pod enables the bootstrap only in the source, with its position, and deletes only that
  Pod.\<close>

definition enables_source :: "MariaDB \<Rightarrow> bootstrapSource_t \<Rightarrow> int \<Rightarrow> Bootstrap option \<Rightarrow> bool" where
  "enables_source m src i b \<longleftrightarrow> PodIndex (src_pod src) = Inr i \<and> 0 \<le> i \<and> i < m_Replicas m \<and> b = src_bootstrap src"

lemma enableBootstrap_calls:
  "D (onPod m (src_pod src)) \<Longrightarrow> all_calls G (boot_ok (enables_source m src) D) (enableBootstrapWithSource timeout m src)"
  unfolding enableBootstrapWithSource_def
  by (rule all_calls_agentFor) (auto simp: enables_source_def intro!: calls_intros ensurePodHealthy_calls)

lemma disableBootstrap_calls: "D key \<Longrightarrow> all_calls G (boot_ok E D) (disableBootstrapInPod timeout m key)"
  unfolding disableBootstrapInPod_def by (auto intro!: calls_intros agentFor_calls ensurePodHealthy_calls)

lemma restartPod_calls:
  "D (onPod m n) \<Longrightarrow> all_calls G (boot_ok (enables_source m src) D) (restartPod timeout m src n)"
  unfolding restartPod_def
  by (auto intro!: calls_intros enableBootstrap_calls disableBootstrap_calls pollUntilPodDeleted_calls pollUntilPodSynced_calls)

lemma restartPods_calls:
  assumes "bootstrapSource m (gr_ForceClusterBootstrapInPod (recoveryOf m)) rs = Inr src"
    and "\<And>n. n \<in> set (restartOrder m (src_pod src)) \<Longrightarrow> D (onPod m n)"
  shows "go_calls (boot_ok (enables_source m src) D) (restartPods m rs)"
  unfolding restartPods_def assms(1) Let_def
  by (auto intro!: calls_intros restartPod_calls patchRecoveryStatus_calls assms(2) split: sum.split)

text \<open>A stage that has run, or not.\<close>

lemma exec_stage:
  assumes "exec grp (stage b msg p m rs k) t x"
  shows "\<exists>t1 t2. t = t1 @ t2 \<and> (t1 = [] \<or> (\<exists>y. exec grp p t1 y)) \<and> (t2 = [] \<or> (\<exists>m' rs'. exec grp (k m' rs') t2 x))"
proof (cases b)
  case True
  with assms obtain t1 t2 y where t: "t = t1 @ t2" and p: "exec grp p t1 y"
    and k: "exec grp (case y of (m', rs', z) \<Rightarrow> case z of Inl e \<Rightarrow> Ret (m', Inl (ErrCtx msg e)) | Inr _ \<Rightarrow> k m' rs') t2 x"
    unfolding stage_def by (auto simp: exec_bind)
  obtain m' rs' z where "y = (m', rs', z)" by (cases y)
  with k have "t2 = [] \<or> exec grp (k m' rs') t2 x" by (cases z) auto
  with t p show ?thesis by blast
next
  case False
  with assms have "exec grp (k m rs) t x" by (simp add: stage_def)
  then show ?thesis by (metis append_Nil)
qed

text \<open>The requests to enable the bootstrap in a trace: which Pod, with which position.\<close>

definition bootstraps :: "(call, answer) trace \<Rightarrow> (int \<times> Bootstrap option) set" where
  "bootstraps t = {(i, b). \<exists>r. (Agent i (AgentEnableBootstrap b), r) \<in> set t}"

lemma bootstraps_append [simp]: "bootstraps (t1 @ t2) = bootstraps t1 \<union> bootstraps t2"
  by (auto simp: bootstraps_def)

lemma bootstraps_Nil [simp]: "bootstraps [] = {}"
  by (simp add: bootstraps_def)

abbreviation no_boot :: "call \<Rightarrow> bool" where
  "no_boot \<equiv> boot_ok (\<lambda>_ _. False) (\<lambda>_. True)"

lemma no_boot_run: "go_exec p t x \<Longrightarrow> go_calls no_boot p \<Longrightarrow> bootstraps t = {}"
  using go_exec_calls [of p t x no_boot] by (fastforce simp: bootstraps_def)

lemma restartPods_bootstraps:
  assumes "go_exec (restartPods m rs) t x" "bootstraps t \<noteq> {}"
  shows "\<exists>src i. bootstrapSource m (gr_ForceClusterBootstrapInPod (recoveryOf m)) rs = Inr src \<and>
    PodIndex (src_pod src) = Inr i \<and> 0 \<le> i \<and> i < m_Replicas m \<and> bootstraps t = {(i, src_bootstrap src)}"
proof -
  obtain src where src: "bootstrapSource m (gr_ForceClusterBootstrapInPod (recoveryOf m)) rs = Inr src"
    using assms by (cases "bootstrapSource m (gr_ForceClusterBootstrapInPod (recoveryOf m)) rs") (auto simp: restartPods_def)
  have "\<forall>e \<in> set t. boot_ok (enables_source m src) (\<lambda>_. True) (fst e)"
    using restartPods_calls [OF src] by (rule go_exec_calls [OF assms(1)]) simp
  then have e: "enables_source m src i b" if "(i, b) \<in> bootstraps t" for i b using that by (fastforce simp: bootstraps_def)
  from assms(2) obtain i b where "(i, b) \<in> bootstraps t" by auto
  with e have i: "PodIndex (src_pod src) = Inr i" "0 \<le> i" "i < m_Replicas m" "(i, src_bootstrap src) \<in> bootstraps t"
    by (auto simp: enables_source_def)
  have "p = (i, src_bootstrap src)" if "p \<in> bootstraps t" for p
    using e [of "fst p" "snd p"] that i(1) by (cases p) (simp add: enables_source_def)
  with i(4) have "bootstraps t = {(i, src_bootstrap src)}" by blast
  with src i show ?thesis by blast
qed

lemma getPods_calls: "all_calls G (boot_ok E D) (getPods m)"
  unfolding getPods_def by (auto intro!: calls_intros)

lemma newAgentClientSet_calls: "all_calls G (boot_ok E D) (newAgentClientSet m)"
  unfolding newAgentClientSet_def secretKey_def Let_def by (auto intro!: calls_intros split: if_splits)

definition boots_in_restart :: "(call, answer) trace \<Rightarrow> bool" where
  "boots_in_restart t \<longleftrightarrow>
     (\<exists>t1 t2. t = t1 @ t2 \<and> bootstraps t1 = {} \<and> (t2 = [] \<or> (\<exists>m rs y. go_exec (restartPods m rs) t2 y)))"

lemma boots_in_restart_Nil: "boots_in_restart []"
  by (simp add: boots_in_restart_def)

lemma boots_in_restart_after:
  assumes "go_exec p t1 y \<or> t1 = []" "go_calls no_boot p" "t2 = [] \<or> boots_in_restart t2"
  shows "boots_in_restart (t1 @ t2)"
proof -
  have "bootstraps t1 = {}" using assms(1) no_boot_run [OF _ assms(2)] by auto
  moreover have "boots_in_restart t2" using assms(3) boots_in_restart_Nil by auto
  ultimately show ?thesis unfolding boots_in_restart_def by (metis append.assoc bootstraps_append Un_empty_left)
qed

lemma stages_boot:
  assumes "go_exec (stage b1 msg1 (resetRecovery m rs) m rs (\<lambda>m rs.
      stage (b2 rs) msg2 (recoverCluster uuid_ok buildJob m pods rs) m rs (\<lambda>m rs.
      stage (b3 rs) msg3 (restartPods m rs) m rs (\<lambda>m rs. Ret (m, Inr zeroResult))))) t x"
  shows "boots_in_restart t"
proof -
  have last: "boots_in_restart u"
    if "go_exec (stage b msg (restartPods m rs) m rs (\<lambda>m rs. Ret (m, Inr zeroResult))) u x" for u b msg m rs
    using exec_stage [OF that] unfolding boots_in_restart_def by (metis append_Nil append_Nil2 bootstraps_Nil exec_Ret)
  have mid: "boots_in_restart u"
    if "go_exec (stage b msg (recoverCluster uuid_ok buildJob m pods rs) m rs (\<lambda>m rs.
      stage (b3 rs) msg3 (restartPods m rs) m rs (\<lambda>m rs. Ret (m, Inr zeroResult)))) u x" for u b msg m rs
    using exec_stage [OF that] last by (auto intro!: boots_in_restart_after recoverCluster_calls)
  have "go_calls no_boot (resetRecovery m rs)"
    unfolding resetRecovery_def Let_def by (auto intro!: calls_intros patchRecoveryStatus_calls)
  with exec_stage [OF assms] mid show ?thesis by (auto intro!: boots_in_restart_after)
qed

lemma recoveryStages_boot:
  assumes "go_exec (recoveryStages uuid_ok buildJob m pods) t x"
  shows "boots_in_restart t"
proof -
  from assms obtain r u where "t = [(Now, r)] @ u" and "boots_in_restart u"
    unfolding recoveryStages_def Let_def exec_ask_bind by (auto dest: stages_boot)
  moreover have "go_exec (ask as_time Now :: int galera) [(Now, r)] (as_time r)" by simp
  ultimately show ?thesis using boots_in_restart_after [of "ask as_time Now" "[(Now, r)]" "as_time r" u] by simp
qed

lemma reconcileRecovery_boot:
  assumes "go_exec (reconcileRecovery uuid_ok buildJob mdb) t x"
  shows "boots_in_restart t"
proof -
  let ?set = "ctxP ''error getting agent client'' (newAgentClientSet mdb) :: unit result galera"
  let ?rest = "\<lambda>pods y. case y of Inl e \<Rightarrow> Ret (mdb, Inl e) | Inr _ \<Rightarrow> recoveryStages uuid_ok buildJob mdb pods"
  have client: "boots_in_restart u" if "go_exec (bindP ?set (?rest pods)) u x" for u pods
  proof -
    from that obtain u1 u2 z where u: "u = u1 @ u2" and s: "go_exec ?set u1 z" and r: "go_exec (?rest pods z) u2 x"
      unfolding exec_bind by blast
    have "u2 = [] \<or> boots_in_restart u2" using r recoveryStages_boot by (cases z) auto
    with s show ?thesis unfolding u
      by (intro boots_in_restart_after [of ?set]) (auto intro!: all_calls_ctxP newAgentClientSet_calls)
  qed
  let ?pods = "ctxP ''error getting Pods'' (getPods mdb) :: Pod list result galera"
  from assms obtain t1 t2 y where t: "t = t1 @ t2" and a: "go_exec ?pods t1 y"
    and b: "go_exec (case y of Inl e \<Rightarrow> Ret (mdb, Inl e) | Inr pods \<Rightarrow>
       if pods = [] then Ret (mdb, Inr (requeueAfter (5 * second))) else bindP ?set (?rest pods)) t2 x"
    unfolding reconcileRecovery_def exec_bind [of _ ?pods] by blast
  have "t2 = [] \<or> boots_in_restart t2" using b client by (cases y) (auto split: if_splits)
  with a show ?thesis unfolding t by (intro boots_in_restart_after [of ?pods]) (auto intro!: all_calls_ctxP getPods_calls)
qed


subsection \<open>The order of the restarts\<close>

text \<open>In a trace: the Pod was deleted, and a later answer of its database says it is in sync.\<close>

definition resynced :: "MariaDB \<Rightarrow> string \<Rightarrow> (call, answer) trace \<Rightarrow> bool" where
  "resynced m n t \<longleftrightarrow> (\<exists>t1 t2 i r1 r2. t = t1 @ t2 \<and> (DeletePod (onPod m n), r1) \<in> set t1 \<and> as_unit r1 = Inr () \<and>
     PodIndex n = Inr i \<and> (SqlStatus i ''wsrep_local_state_comment'', r2) \<in> set t2 \<and> as_text r2 = Inr ''Synced'')"

text \<open>The agent of the source has enabled the bootstrap, and then the Pod was restarted and is in sync.\<close>

definition bootstrapped :: "MariaDB \<Rightarrow> bootstrapSource_t \<Rightarrow> (call, answer) trace \<Rightarrow> bool" where
  "bootstrapped m src t \<longleftrightarrow> (\<exists>t1 t2 i r. t = t1 @ t2 \<and> PodIndex (src_pod src) = Inr i \<and>
     (Agent i (AgentEnableBootstrap (src_bootstrap src)), r) \<in> set t1 \<and> as_unit r = Inr () \<and> resynced m (src_pod src) t2)"

lemma resynced_mono: "resynced m n t \<Longrightarrow> resynced m n (t1 @ t @ t2)"
proof -
  assume "resynced m n t"
  then obtain u1 u2 i r1 r2 where "t = u1 @ u2" "(DeletePod (onPod m n), r1) \<in> set u1" "as_unit r1 = Inr ()" "PodIndex n = Inr i"
    "(SqlStatus i ''wsrep_local_state_comment'', r2) \<in> set u2" "as_text r2 = Inr ''Synced''" unfolding resynced_def by blast
  then have "t1 @ t @ t2 = (t1 @ u1) @ (u2 @ t2) \<and> (DeletePod (onPod m n), r1) \<in> set (t1 @ u1) \<and> as_unit r1 = Inr () \<and>
     PodIndex n = Inr i \<and> (SqlStatus i ''wsrep_local_state_comment'', r2) \<in> set (u2 @ t2) \<and> as_text r2 = Inr ''Synced''" by simp
  then show ?thesis unfolding resynced_def by blast
qed

lemma bootstrapped_mono: "bootstrapped m src t \<Longrightarrow> bootstrapped m src (t1 @ t @ t2)"
proof -
  assume "bootstrapped m src t"
  then obtain u1 u2 i r where "t = u1 @ u2" "PodIndex (src_pod src) = Inr i"
    "(Agent i (AgentEnableBootstrap (src_bootstrap src)), r) \<in> set u1" "as_unit r = Inr ()" "resynced m (src_pod src) u2"
    unfolding bootstrapped_def by blast
  moreover from this(5) have "resynced m (src_pod src) (u2 @ t2)" using resynced_mono [of m _ u2 "[]"] by simp
  ultimately have "t1 @ t @ t2 = (t1 @ u1) @ (u2 @ t2) \<and> PodIndex (src_pod src) = Inr i \<and>
    (Agent i (AgentEnableBootstrap (src_bootstrap src)), r) \<in> set (t1 @ u1) \<and> as_unit r = Inr () \<and> resynced m (src_pod src) (u2 @ t2)"
    by simp
  then show ?thesis unfolding bootstrapped_def by blast
qed

lemma mariadb_gone_append [simp]: "mariadb_gone key (t1 @ t2) \<longleftrightarrow> mariadb_gone key t1 \<or> mariadb_gone key t2"
  by (auto simp: mariadb_gone_def)

lemma pollUntilPodDeleted_ok:
  assumes "exec grp (pollUntilPodDeleted timeout m key) t (Inr ())"
  shows "mariadb_gone (keyOf m) t \<or> (\<exists>r. (DeletePod key, r) \<in> set t \<and> as_unit r = Inr ())"
  using exec_PollWithMariaDB_ok [OF assms [unfolded pollUntilPodDeleted_def]] by (auto simp: exec_tryP_Inr)

lemma IsPodSynced_ok:
  assumes "exec grp (IsPodSynced i) t (Inr True)"
  shows "\<exists>r. (SqlStatus i ''wsrep_local_state_comment'', r) \<in> set t \<and> as_text r = Inr ''Synced''"
  using assms by (auto simp: IsPodSynced_def IsPodHealthy_def exec_tryP_Inr split: if_splits)

lemma pollUntilPodSynced_ok:
  assumes "exec grp (pollUntilPodSynced timeout m key) t (Inr ())"
  shows "mariadb_gone (keyOf m) t \<or>
    (\<exists>i r. PodIndex (nn_Name key) = Inr i \<and> (SqlStatus i ''wsrep_local_state_comment'', r) \<in> set t \<and> as_text r = Inr ''Synced'')"
proof -
  have "\<exists>i r. PodIndex (nn_Name key) = Inr i \<and> (SqlStatus i ''wsrep_local_state_comment'', r) \<in> set u \<and> as_text r = Inr ''Synced''"
    if "exec grp (podSynced m key) u (Inr ())" for u
    using that by (auto simp: podSynced_def exec_tryP_Inr dest!: exec_ClientForIndex_ok IsPodSynced_ok split: sum.splits if_splits)
  with exec_PollWithMariaDB_ok [OF assms [unfolded pollUntilPodSynced_def]] show ?thesis by fastforce
qed

lemma agentFor_ok: "exec grp (agentFor a b m n) t (Inr i) \<Longrightarrow> PodIndex n = Inr i"
  by (auto simp: agentFor_def agentForIndex_def validateIndex_def exec_tryP_Inr split: sum.splits if_splits)

lemma enableBootstrap_ok:
  assumes "exec grp (enableBootstrapWithSource timeout m src) t (Inr ())"
  shows "mariadb_gone (keyOf m) t \<or> (\<exists>i r. PodIndex (src_pod src) = Inr i \<and>
    (Agent i (AgentEnableBootstrap (src_bootstrap src)), r) \<in> set t \<and> as_unit r = Inr ())"
proof -
  from assms obtain t1 t2 i where t: "t = t1 @ t2" and i: "PodIndex (src_pod src) = Inr i"
    and p: "exec grp (PollWithMariaDB timeout (keyOf m) (tryP (ensurePodHealthy timeout m (onPod m (src_pod src))) (\<lambda>_.
        ask as_unit (Agent i (AgentEnableBootstrap (src_bootstrap src)))))) t2 (Inr ())"
    by (auto simp: enableBootstrapWithSource_def exec_tryP_Inr dest: agentFor_ok)
  from exec_PollWithMariaDB_ok [OF p] t i show ?thesis by (auto simp: exec_tryP_Inr)
qed

text \<open>A restart that succeeded, unless the MariaDB object was found gone.\<close>

lemma restartPod_ok:
  assumes "exec grp (restartPod timeout m src n) t (Inr ())"
  shows "mariadb_gone (keyOf m) t \<or> resynced m n t \<and> (n = src_pod src \<longrightarrow> bootstrapped m src t)"
proof -
  let ?restart = "tryP (ctxP ''error deleting Pod'' (pollUntilPodDeleted timeout m (onPod m n))) (\<lambda>_.
        ctxP ''error waiting for Pod to be synced'' (pollUntilPodSynced timeout m (onPod m n)))"
  from assms obtain t1 t2 where t: "t = t1 @ t2"
    and en: "n = src_pod src \<Longrightarrow> exec grp (enableBootstrapWithSource timeout m src) t1 (Inr ())"
    and p: "exec grp (PollWithMariaDB timeout (keyOf m) ?restart) t2 (Inr ())"
    by (auto simp: restartPod_def exec_tryP_Inr split: if_splits)
  show ?thesis
  proof (cases "mariadb_gone (keyOf m) t")
    case False
    with exec_PollWithMariaDB_ok [OF p] t obtain u1 u2 u3 where u: "t2 = u1 @ u2 @ u3"
      and d: "exec grp (pollUntilPodDeleted timeout m (onPod m n)) u2 (Inr ())"
      and s: "exec grp (pollUntilPodSynced timeout m (onPod m n)) u3 (Inr ())"
      by (auto simp: exec_tryP_Inr)
    from pollUntilPodDeleted_ok [OF d] pollUntilPodSynced_ok [OF s] False t u have "resynced m n (u2 @ u3)"
      unfolding resynced_def by (auto simp: onPod_def) blast
    then have r: "resynced m n t2" using resynced_mono [of m n "u2 @ u3" u1 "[]"] u by simp
    have "bootstrapped m src t" if "n = src_pod src"
      using enableBootstrap_ok [OF en [OF that]] False t r that unfolding bootstrapped_def by auto
    with r show ?thesis using resynced_mono [of m n t2 t1 "[]"] t by simp
  qed simp
qed

lemma restartPod_deletes:
  assumes "go_exec (restartPod timeout m src n) t x" "(DeletePod k, r) \<in> set t"
  shows "k = onPod m n"
proof -
  have "go_calls (boot_ok (enables_source m src) (\<lambda>k. k = onPod m n)) (restartPod timeout m src n)"
    by (rule restartPod_calls) simp
  from go_exec_calls [OF assms(1) this] assms(2) show ?thesis by fastforce
qed

lemma onPod_inject [simp]: "onPod m n = onPod m n' \<longleftrightarrow> n = n'"
  by (simp add: onPod_def)

lemma restarts_in_order:
  assumes "go_exec (forP (restartOrder m (src_pod src)) (restartPod timeout m src) :: unit result galera)
    (pre @ (DeletePod (onPod m n), r) # post) x"
  shows "mariadb_gone (keyOf m) pre \<or>
    (\<forall>n' \<in> set (takeWhile (\<lambda>z. z \<noteq> n) (restartOrder m (src_pod src))). resynced m n' pre) \<and>
    (n \<noteq> src_pod src \<longrightarrow> bootstrapped m src pre)"
proof (cases "mariadb_gone (keyOf m) pre")
  case False
  have "resynced m n' pre \<and> (n' = src_pod src \<longrightarrow> bootstrapped m src pre)"
    if n': "n' \<in> set (takeWhile (\<lambda>z. z \<noteq> n) (restartOrder m (src_pod src)))" for n'
  proof -
    have "\<exists>t1 t2 t3. pre = t1 @ t2 @ t3 \<and> go_exec (restartPod timeout m src n' :: unit result galera) t2 (Inr ())"
      by (rule exec_forP_guard [OF assms _ n']) (auto dest: restartPod_deletes)
    then obtain t1 t2 t3 where "pre = t1 @ t2 @ t3" "go_exec (restartPod timeout m src n' :: unit result galera) t2 (Inr ())" by blast
    with restartPod_ok [OF this(2)] False show ?thesis by (auto intro: resynced_mono bootstrapped_mono)
  qed
  moreover have "src_pod src \<in> set (takeWhile (\<lambda>z. z \<noteq> n) (restartOrder m (src_pod src)))" if "n \<noteq> src_pod src"
    using that by (simp add: restartOrder_def)
  ultimately show ?thesis by blast
qed simp

lemma restartPods_run:
  assumes "go_exec (restartPods m rs) (pre @ (DeletePod k, r) # post) x"
  shows "\<exists>src post' y. bootstrapSource m (gr_ForceClusterBootstrapInPod (recoveryOf m)) rs = Inr src \<and>
    go_exec (forP (restartOrder m (src_pod src)) (restartPod (Deref (gr_PodSyncTimeout (recoveryOf m)) (5 * minute)) m src)
      :: unit result galera) (pre @ (DeletePod k, r) # post') y"
proof -
  let ?done = "(\<lambda>x. case x of Inl e \<Rightarrow> Ret (m, rs, Inl e)
     | Inr _ \<Rightarrow> let rs' = setPodsRestarted True rs in
         bindP (patchRecoveryStatus m rs') (\<lambda>(m', y). Ret (m', rs', with_ctx ''error patching recovery status'' y)))
       :: unit result \<Rightarrow> (MariaDB \<times> GaleraRecoveryStatus \<times> unit result) galera"
  have quiet: "(DeletePod k, r) \<notin> set t" if "go_exec (?done a) t y" for a t y
  proof -
    have "go_calls (boot_ok (\<lambda>_ _. False) (\<lambda>_. False)) (?done a)"
      by (auto simp: Let_def intro!: calls_intros patchRecoveryStatus_calls split: sum.split)
    from go_exec_calls [OF that this] show ?thesis by fastforce
  qed
  from assms obtain src where src: "bootstrapSource m (gr_ForceClusterBootstrapInPod (recoveryOf m)) rs = Inr src"
    and e: "go_exec (bindP (forP (restartOrder m (src_pod src))
        (restartPod (Deref (gr_PodSyncTimeout (recoveryOf m)) (5 * minute)) m src)) ?done) (pre @ (DeletePod k, r) # post) x"
    unfolding restartPods_def by (auto split: sum.splits if_splits)
  from exec_bindP_split [OF e] quiet src show ?thesis by (metis in_set_conv_decomp)
qed

text \<open>
  C9: the Pods are restarted one after the other, the bootstrap Pod first. Before \<^verbatim>\<open>restartPods\<close> deletes a
  Pod, every Pod before it in the restart order has been deleted and has reported to be in sync since;
  and a Pod other than the chosen one is only deleted after the agent of the chosen one has enabled the
  bootstrap and that Pod was restarted and is in sync. The exception is a MariaDB object found gone
  meanwhile. Only Pods of the cluster are deleted.
\<close>

theorem restartPods_in_order:
  assumes "go_exec (restartPods m rs) (pre @ (DeletePod k, r) # post) x"
  shows "\<exists>src n. bootstrapSource m (gr_ForceClusterBootstrapInPod (recoveryOf m)) rs = Inr src \<and>
    n \<in> set (getPodNames m) \<and> k = onPod m n \<and>
    (mariadb_gone (keyOf m) pre \<or>
      (\<forall>n' \<in> set (takeWhile (\<lambda>z. z \<noteq> n) (restartOrder m (src_pod src))). resynced m n' pre) \<and>
      (n \<noteq> src_pod src \<longrightarrow> bootstrapped m src pre))"
proof -
  from restartPods_run [OF assms] obtain src post' y timeout
    where src: "bootstrapSource m (gr_ForceClusterBootstrapInPod (recoveryOf m)) rs = Inr src"
    and e: "go_exec (forP (restartOrder m (src_pod src)) (restartPod timeout m src) :: unit result galera)
      (pre @ (DeletePod k, r) # post') y" by blast
  from exec_forP_event [OF e, of "(DeletePod k, r)"] obtain n t z where n: "n \<in> set (restartOrder m (src_pod src))"
    and "go_exec (restartPod timeout m src n :: unit result galera) t z" "(DeletePod k, r) \<in> set t" by auto
  then have k: "k = onPod m n" by (blast dest: restartPod_deletes)
  from n bootstrapSource_member [OF src] have "n \<in> set (getPodNames m)" by (auto simp: restartOrder_def)
  with src k restarts_in_order [OF e [unfolded k]] show ?thesis by blast
qed

subsection \<open>The recovery completes\<close>

text \<open>What the operator relies on: the API server holds the MariaDB object and stores what it is sent, Pods
  run, agents are healthy and do what they are asked, and a restarted Pod joins the cluster.\<close>

fun galera_good :: "call \<Rightarrow> answer \<Rightarrow> bool" where
  "galera_good (GetMariaDB k) r = (\<exists>m. r = AMariaDB (Inr m))"
| "galera_good (PatchStatus m) r = (as_mariadb r = Inr m)"
| "galera_good (GetPod k) r = (\<exists>p. as_pod r = Inr p \<and> pod_Phase p = ''Running'')"
| "galera_good (ListPods k) r = (\<exists>p ps. as_pods r = Inr (p # ps) \<and> pod_NodeName p \<noteq> '''')"
| "galera_good (DeletePod k) r = (as_unit r = Inr ())"
| "galera_good (AgentConnect i) r = (as_unit r = Inr ())"
| "galera_good (Agent i AgentHealth) r = (as_bool r = Inr True)"
| "galera_good (Agent i (AgentEnableBootstrap b)) r = (as_unit r = Inr ())"
| "galera_good (Agent i AgentDisableBootstrap) r = (as_unit r = Inr () \<or> (\<exists>e. as_unit r = Inl e \<and> IsNotFound e))"
| "galera_good (SqlConnect i) r = (as_unit r = Inr ())"
| "galera_good (SqlStatus i v) r =
     (as_text r = Inr (if v = ''wsrep_cluster_status'' then ''Primary'' else ''Synced''))"
| "galera_good (SecretKeyRef s ns) r = (\<not> isl (as_text r))"
| "galera_good c r = True"

definition galera_cooperative :: "(call, answer) env \<Rightarrow> bool" where
  "galera_cooperative env \<longleftrightarrow> (\<forall>h c. galera_good c (env h c))"

lemma galera_answer: "galera_cooperative env \<Longrightarrow> galera_good c (env h c)"
  by (simp add: galera_cooperative_def)

lemma galera_ask:
  "galera_cooperative env \<Longrightarrow> (\<And>r. galera_good c r \<Longrightarrow> (case sel r of Inl _ \<Rightarrow> False | Inr a \<Rightarrow> Q a)) \<Longrightarrow>
    ends_ok rg env (ask sel c) Q"
  by (auto simp: galera_cooperative_def ends_ok_def ends_def)

lemma galera_poll:
  assumes "galera_cooperative env" "ends_ok rg env fn Q"
  shows "ends_ok rg env (PollWithMariaDB timeout key fn) Q"
  using galera_answer [OF assms(1), of "GetMariaDB key"] by (intro ends_PollWithMariaDB [OF _ assms(2)]) simp

lemmas ends_then = ends_tryP [where R = "\<lambda>_. True"]

definition pod_of :: "MariaDB \<Rightarrow> string \<Rightarrow> int \<Rightarrow> bool" where
  "pod_of m n i \<longleftrightarrow> PodIndex n = Inr i \<and> 0 \<le> i \<and> i < m_Replicas m"

lemma getPodNames_pod_of:
  assumes "m_Replicas m < 2 ^ 31" "n \<in> set (getPodNames m)"
  shows "\<exists>i. pod_of m n i"
proof -
  from assms(2) obtain i where "n = PodName (m_ObjectMeta m) i" "0 \<le> i" "i < m_Replicas m"
    by (auto simp: getPodNames_def)
  with PodIndex_PodName_int64 [of i "m_ObjectMeta m"] assms(1) show ?thesis by (auto simp: pod_of_def)
qed

lemma agentFor_ends: "galera_cooperative env \<Longrightarrow> pod_of m n i \<Longrightarrow> ends_ok rg env (agentFor a b m n) (\<lambda>j. j = i)"
  by (auto simp: agentFor_def agentForIndex_def validateIndex_def pod_of_def intro!: ends_ctxP ends_then galera_ask)

lemma ensurePodHealthy_ends:
  assumes "galera_cooperative env" "pod_of m (nn_Name key) i"
  shows "ends_ok rg env (ensurePodHealthy timeout m key) (\<lambda>_. True)"
proof -
  have pod: "ends_ok rg env (ask as_pod (GetPod key)) (\<lambda>p. pod_Phase p = ''Running'')"
    by (rule galera_ask [OF assms(1)]) (auto split: sum.split)
  have "ends_ok rg env (podHealthy key j) (\<lambda>_. True)" for j
    unfolding podHealthy_def
    by (rule ends_tryP [OF ends_ctxP [OF pod]])
      (auto intro!: ends_tryP [where R = "\<lambda>b. b"] ends_ctxP galera_ask [OF assms(1)])
  then have "ends_ok rg env (pollUntilPodHealthy t m key) (\<lambda>_. True)" for t
    unfolding pollUntilPodHealthy_def
    by (intro ends_tryP [OF agentFor_ends [OF assms]] galera_poll [OF assms(1)])
  then show ?thesis unfolding ensurePodHealthy_def ends_ok_def
    by (rule ends_bindP) (auto split: sum.splits)
qed

lemma restartPod_ends:
  assumes "galera_cooperative env" "pod_of m n i"
  shows "ends_ok rg env (restartPod timeout m src n) (\<lambda>_. True)"
proof -
  note c = assms(1) and key = assms(2)
  have h: "ends_ok rg env (ensurePodHealthy timeout m (onPod m n)) (\<lambda>_. True)"
    by (rule ensurePodHealthy_ends [OF c, where i = i]) (simp add: onPod_def key)
  have pod: "ends_ok rg env (ask as_pod (GetPod (onPod m n))) (\<lambda>_. True)"
    by (rule galera_ask [OF c]) (auto split: sum.split)
  have en: "ends_ok rg env (enableBootstrapWithSource timeout m src) (\<lambda>_. True)" if "n = src_pod src"
    unfolding enableBootstrapWithSource_def
    by (rule ends_tryP [OF agentFor_ends [OF c key [unfolded that]]])
      (use h that in \<open>auto intro!: ends_ctxP galera_poll c ends_then galera_ask\<close>)
  have dis: "ends_ok rg env (disableBootstrapInPod timeout m (onPod m n)) (\<lambda>_. True)"
    unfolding disableBootstrapInPod_def
  proof (rule ends_tryP)
    show "ends_ok rg env (agentFor ''error getting Pod index'' ''error getting agent client'' m (nn_Name (onPod m n))) (\<lambda>j. j = i)"
      by (rule agentFor_ends [OF c]) (simp add: onPod_def key)
    fix j
    have "ends rg env (ask as_unit (Agent j AgentDisableBootstrap)) (\<lambda>x. x = Inr () \<or> (\<exists>e. x = Inl e \<and> IsNotFound e))"
      using galera_answer [OF c, of "Agent j AgentDisableBootstrap"] by (simp add: ends_def)
    then have "ends_ok rg env (bindP (ask as_unit (Agent j AgentDisableBootstrap))
        (\<lambda>x. Ret (case x of Inl e \<Rightarrow> if IsNotFound e then Inr () else Inl e | Inr _ \<Rightarrow> Inr ()))) (\<lambda>_. True)"
      unfolding ends_ok_def by (rule ends_bindP) auto
    then show "ends_ok rg env (ctxP ''error disabling bootstrap in Pod'' (PollWithMariaDB timeout (keyOf m)
       (tryP (ensurePodHealthy timeout m (onPod m n)) (\<lambda>_. bindP (ask as_unit (Agent j AgentDisableBootstrap))
          (\<lambda>x. Ret (case x of Inl e \<Rightarrow> if IsNotFound e then Inr () else Inl e | Inr _ \<Rightarrow> Inr ())))))) (\<lambda>_. True)"
      by (intro ends_ctxP galera_poll [OF c] ends_then [OF h])
  qed
  have del: "ends_ok rg env (pollUntilPodDeleted timeout m (onPod m n)) (\<lambda>_. True)"
    unfolding pollUntilPodDeleted_def
    by (intro galera_poll [OF c] ends_then ends_ctxP pod galera_ask [OF c]) simp
  have "ends_ok rg env (IsPodHealthy i) (\<lambda>b. b)"
    unfolding IsPodHealthy_def
    by (rule ends_tryP [where R = "\<lambda>s. s = ''Primary''"]) (auto intro!: ends_ctxP galera_ask [OF c])
  then have "ends_ok rg env (IsPodSynced i) (\<lambda>b. b)"
    unfolding IsPodSynced_def
    by (rule ends_tryP [OF ends_ctxP])
      (auto intro!: ends_ctxP ends_tryP [where R = "\<lambda>s. s = ''Synced''"] galera_ask [OF c])

  then have "ends_ok rg env (podSynced m (onPod m n)) (\<lambda>_. True)"
    unfolding podSynced_def using key
    by (auto simp: onPod_def pod_of_def ClientForIndex_def validateIndex_def
        intro!: ends_then ends_tryP [where R = "\<lambda>j. j = i"] ends_tryP [where R = "\<lambda>b. b"] ends_ctxP pod [unfolded onPod_def] galera_ask [OF c])
  then have "ends_ok rg env (pollUntilPodSynced timeout m (onPod m n)) (\<lambda>_. True)"
    unfolding pollUntilPodSynced_def by (rule galera_poll [OF c])
  with en dis del show ?thesis unfolding restartPod_def by (auto intro!: ends_then ends_ctxP galera_poll [OF c])
qed

lemma patchRecoveryStatus_ends:
  assumes "galera_cooperative env"
  shows "ends rg env (patchRecoveryStatus m rs) (\<lambda>(m', x). x = Inr () \<and> (\<exists>st. m' = m\<lparr>m_Status := st\<rparr>))"
proof -
  have "as_mariadb (env h (PatchStatus m')) = Inr m'" for h m'
    using galera_answer [OF assms, of "PatchStatus m'"] by simp
  then show ?thesis
    unfolding ends_def patchRecoveryStatus_def patchStatus_def Let_def by (auto simp: run_bindP)
qed

text \<open>The restart of a cluster whose bootstrap Pod is chosen.\<close>

lemma restartPods_ends:
  assumes "galera_cooperative env" "m_Replicas m < 2 ^ 31"
    and "bootstrapSource m (gr_ForceClusterBootstrapInPod (recoveryOf m)) rs = Inr src" "src_pod src \<noteq> ''''"
  shows "ends (run_group env) env (restartPods m rs)
    (\<lambda>(m', rs', x). x = Inr () \<and> rs' = setPodsRestarted True rs \<and> (\<exists>st. m' = m\<lparr>m_Status := st\<rparr>))"
proof -
  have "n \<in> set (restartOrder m (src_pod src)) \<Longrightarrow> \<exists>i. pod_of m n i" for n
    using getPodNames_pod_of [OF assms(2)] bootstrapSource_member [OF assms(3)] by (auto simp: restartOrder_def)
  then have "ends_ok (run_group env) env
      (forP (restartOrder m (src_pod src)) (restartPod timeout m src) :: unit result galera) (\<lambda>_. True)" for timeout
    by (intro ends_forP) (blast intro: restartPod_ends [OF assms(1)])
  moreover have "ends (run_group env) env (bindP (patchRecoveryStatus m rs') (\<lambda>(m', y). Ret (m', rs', with_ctx msg y)) :: _ galera)
      (\<lambda>(m', rs'', x). x = Inr () \<and> rs'' = rs' \<and> (\<exists>st. m' = m\<lparr>m_Status := st\<rparr>))" for rs' msg
    by (rule ends_bindP [OF patchRecoveryStatus_ends [OF assms(1)]]) auto
  ultimately show ?thesis
    using assms(4) unfolding restartPods_def assms(3) ends_ok_def Let_def
    by (auto intro!: ends_bindP [where R = "case_sum (\<lambda>_. False) (\<lambda>_. True)"] split: sum.splits)
qed

lemma not_gone:
  assumes "galera_cooperative env" "answered env t"
  shows "\<not> mariadb_gone key t"
proof
  assume "mariadb_gone key t"
  then obtain r e where "(GetMariaDB key, r) \<in> set t" and e: "as_mariadb r = Inl e" unfolding mariadb_gone_def by blast
  with assms(2) obtain h where "r = env h (GetMariaDB key)" unfolding answered_def by blast
  with galera_answer [OF assms(1), of "GetMariaDB key" h] e show False by auto
qed

lemma exec_forP_member:
  "exec grp (forP xs body) t (Inr ()) \<Longrightarrow> z \<in> set xs \<Longrightarrow> \<exists>t1 t2 t3. t = t1 @ t2 @ t3 \<and> exec grp (body z) t2 (Inr ())"
proof -
  have "forP xs body = seqP (map body xs)" by (induction xs) auto
  then show "exec grp (forP xs body) t (Inr ()) \<Longrightarrow> z \<in> set xs \<Longrightarrow> ?thesis"
    using exec_seqP_member [of grp "map body xs" t "body z"] by auto
qed

lemma PodName_nonempty: "n \<in> set (getPodNames m) \<Longrightarrow> n \<noteq> ''''"
  by (auto simp: getPodNames_def PodName_def)

lemma restartPods_success:
  assumes "go_exec (restartPods m rs) t (m', rs', Inr ())" "\<not> mariadb_gone (keyOf m) t"
    and "bootstrapSource m (gr_ForceClusterBootstrapInPod (recoveryOf m)) rs = Inr src"
  shows "bootstrapped m src t \<and> (\<forall>n \<in> set (getPodNames m). resynced m n t)"
proof -
  from assms(1) obtain t1 t2 timeout where t: "t = t1 @ t2"
    and r: "go_exec (forP (restartOrder m (src_pod src)) (restartPod timeout m src) :: unit result galera) t1 (Inr ())"
    unfolding restartPods_def assms(3) by (auto simp: exec_bind exec_case_sum split: if_splits)
  have ok: "resynced m n t1 \<and> (n = src_pod src \<longrightarrow> bootstrapped m src t1)" if "n \<in> set (restartOrder m (src_pod src))" for n
  proof -
    from exec_forP_member [OF r that] obtain u1 u2 u3
      where u: "t1 = u1 @ u2 @ u3" and "go_exec (restartPod timeout m src n :: unit result galera) u2 (Inr ())" by blast
    from restartPod_ok [OF this(2)] assms(2) t u show ?thesis by (auto intro: resynced_mono bootstrapped_mono)
  qed
  have "resynced m n t" if "n \<in> set (getPodNames m)" for n
    using ok [of n] that resynced_mono [of m n t1 "[]" t2] t by (cases "n = src_pod src") (auto simp: restartOrder_def)
  moreover have "bootstrapped m src t"
    using ok [of "src_pod src"] bootstrapped_mono [of m src t1 "[]" t2] t by (simp add: restartOrder_def)
  ultimately show ?thesis by blast
qed

lemma restartPods_total:
  assumes "galera_cooperative env" "m_Replicas m < 2 ^ 31"
    and "bootstrapSource m (gr_ForceClusterBootstrapInPod (recoveryOf m)) rs = Inr src"
  shows "\<exists>t m'. go_run env (restartPods m rs) = Some (t, m', setPodsRestarted True rs, Inr ()) \<and>
    go_exec (restartPods m rs) t (m', setPodsRestarted True rs, Inr ()) \<and>
    bootstrapped m src t \<and> (\<forall>n \<in> set (getPodNames m). resynced m n t)"
proof -
  have "src_pod src \<noteq> ''''" using bootstrapSource_member [OF assms(3)] by (rule PodName_nonempty)
  from restartPods_ends [OF assms this] obtain t m' where run: "go_run env (restartPods m rs) = Some (t, m', setPodsRestarted True rs, Inr ())"
    unfolding ends_def go_run_def by fastforce
  note e = go_run_exec [OF run]
  have "\<not> mariadb_gone (keyOf m) t" using not_gone [OF assms(1) go_run_answered [OF run]] .
  from restartPods_success [OF e this assms(3)] run e show ?thesis by blast
qed

text \<open>
  C16: the restart of a lost cluster completes. When a Pod to bootstrap can be chosen, and the agents, the
  databases and the API server do what they are asked, \<^verbatim>\<open>restartPods\<close> returns without an error and
  records that the Pods were restarted; by then the bootstrap was enabled in the chosen Pod, that Pod was
  restarted afterwards, and every Pod of the cluster was restarted and has reported to be in sync since.
\<close>

theorem restartPods_completes:
  assumes "galera_cooperative env" "m_Replicas m < 2 ^ 31"
    and "bootstrapSource m (gr_ForceClusterBootstrapInPod (recoveryOf m)) rs = Inr src"
  shows "\<exists>t m'. go_run env (restartPods m rs) = Some (t, m', setPodsRestarted True rs, Inr ()) \<and>
    bootstrapped m src t \<and> (\<forall>n \<in> set (getPodNames m). resynced m n t)"
  using restartPods_total [OF assms] by blast

subsection \<open>A cluster that waits for its restart\<close>

definition galeraMariaDB :: MariaDB where
  "galeraMariaDB = exampleMariaDB\<lparr>
     m_Spec := exampleSpec\<lparr>sp_Galera := Some (zeroGalera\<lparr>g_Enabled := True\<rparr>)\<rparr>,
     m_Status := exampleStatus\<lparr>ms_GaleraRecovery := Some (setBootstrapping 0 ''mdb-1'' exampleRecovery)\<rparr>\<rparr>"

definition recoverySource :: bootstrapSource_t where
  "recoverySource = \<lparr>src_bootstrap = Some \<lparr>b_UUID = ''u'', b_Seqno = 9\<rparr>, src_pod = ''mdb-1''\<rparr>"

fun galeraEnv :: "call list \<Rightarrow> call \<Rightarrow> answer" where
  "galeraEnv h (GetMariaDB k) = AMariaDB (Inr galeraMariaDB)"
| "galeraEnv h (PatchStatus m) = AMariaDB (Inr m)"
| "galeraEnv h (GetPod k) = APod (Inr \<lparr>pod_Name = nn_Name k, pod_Namespace = nn_Namespace k, pod_Labels = [], pod_Annotations = [],
      pod_NodeName = ''node'', pod_Phase = ''Running'', pod_Conditions = []\<rparr>)"
| "galeraEnv h (ListPods k) = APods (Inr [\<lparr>pod_Name = ''mdb-0'', pod_Namespace = nn_Namespace k, pod_Labels = [], pod_Annotations = [],
      pod_NodeName = ''node'', pod_Phase = ''Running'', pod_Conditions = []\<rparr>])"
| "galeraEnv h (Agent i AgentHealth) = ABool (Inr True)"
| "galeraEnv h (SqlStatus i v) = AText (Inr (if v = ''wsrep_cluster_status'' then ''Primary'' else ''Synced''))"
| "galeraEnv h (SecretKeyRef s ns) = AText (Inr ''secret'')"
| "galeraEnv h Now = ATime 1"
| "galeraEnv h _ = AUnit (Inr ())"

lemma galeraEnv_cooperative: "galera_cooperative galeraEnv"
  unfolding galera_cooperative_def
proof (intro allI)
  fix h c show "galera_good c (galeraEnv h c)"
  proof (cases c)
    case (Agent i a)
    then show ?thesis by (cases a) auto
  qed auto
qed

lemma galeraMariaDB_pods: "getPodNames galeraMariaDB = [''mdb-0'', ''mdb-1'', ''mdb-2'']" "m_Replicas galeraMariaDB = 3"
  using example_pods by (simp_all add: galeraMariaDB_def getPodNames_def example_defs)

lemma galeraMariaDB_recovery:
  "newRecoveryStatus galeraMariaDB = setBootstrapping 0 ''mdb-1'' exampleRecovery"
  "gr_ForceClusterBootstrapInPod (recoveryOf galeraMariaDB) = None"
  by (auto simp: galeraMariaDB_def newRecoveryStatus_def setBootstrapping_def exampleRecovery_def recovery_ops example_defs
      recoveryOf_def zeroGalera_def zeroGaleraRecovery_def)

lemma galeraMariaDB_source:
  "bootstrapSource galeraMariaDB (gr_ForceClusterBootstrapInPod (recoveryOf galeraMariaDB)) (newRecoveryStatus galeraMariaDB) =
     Inr recoverySource"
  unfolding galeraMariaDB_recovery recoverySource_def
  by (simp add: bootstrapSource_def isComplete_def galeraMariaDB_pods exampleRecovery_def recovery_ops setBootstrapping_def
      shouldSkipRecoverer_def bootstrapSource_loop.simps better_state_def better_bootstrap_def
      GaleraState_Compare_def Bootstrap_Compare_def)

theorem restartPods_completes_witness:
  "\<exists>t m'. go_run galeraEnv (restartPods galeraMariaDB (newRecoveryStatus galeraMariaDB)) =
       Some (t, m', setPodsRestarted True (newRecoveryStatus galeraMariaDB), Inr ()) \<and>
     bootstrapped galeraMariaDB recoverySource t \<and> resynced galeraMariaDB ''mdb-2'' t"
proof -
  have "m_Replicas galeraMariaDB < 2 ^ 31" by (simp add: galeraMariaDB_pods)
  from restartPods_completes [OF galeraEnv_cooperative this galeraMariaDB_source] show ?thesis
    by (auto simp: galeraMariaDB_pods)
qed

lemma galeraMariaDB_run:
  "\<exists>t m'. go_exec (restartPods galeraMariaDB (newRecoveryStatus galeraMariaDB)) t
       (m', setPodsRestarted True (newRecoveryStatus galeraMariaDB), Inr ()) \<and>
     bootstrapped galeraMariaDB recoverySource t \<and> resynced galeraMariaDB ''mdb-2'' t \<and> \<not> mariadb_gone (keyOf galeraMariaDB) t"
proof -
  have "m_Replicas galeraMariaDB < 2 ^ 31" by (simp add: galeraMariaDB_pods)
  from restartPods_total [OF galeraEnv_cooperative this galeraMariaDB_source] obtain t m' where
    *: "go_run galeraEnv (restartPods galeraMariaDB (newRecoveryStatus galeraMariaDB)) =
         Some (t, m', setPodsRestarted True (newRecoveryStatus galeraMariaDB), Inr ())"
    "bootstrapped galeraMariaDB recoverySource t" "\<forall>n \<in> set (getPodNames galeraMariaDB). resynced galeraMariaDB n t" by blast
  have "\<not> mariadb_gone (keyOf galeraMariaDB) t" using not_gone [OF galeraEnv_cooperative go_run_answered [OF *(1)]] .
  with *(2,3) go_run_exec [OF *(1)] show ?thesis by (auto simp: galeraMariaDB_pods)
qed

theorem restartPods_in_order_witness:
  "\<exists>pre r post x. go_exec (restartPods galeraMariaDB (newRecoveryStatus galeraMariaDB))
      (pre @ (DeletePod (onPod galeraMariaDB ''mdb-2''), r) # post) x \<and> bootstrapped galeraMariaDB recoverySource pre"
proof -
  obtain t x where run: "go_exec (restartPods galeraMariaDB (newRecoveryStatus galeraMariaDB)) t x"
    and r: "resynced galeraMariaDB ''mdb-2'' t" and ng: "\<not> mariadb_gone (keyOf galeraMariaDB) t"
    using galeraMariaDB_run by blast
  from r obtain r1 where "(DeletePod (onPod galeraMariaDB ''mdb-2''), r1) \<in> set t" unfolding resynced_def by fastforce
  then obtain pre post where t: "t = pre @ (DeletePod (onPod galeraMariaDB ''mdb-2''), r1) # post"
    by (meson split_list)
  from restartPods_in_order [OF run [unfolded t]] ng t galeraMariaDB_source
  have "bootstrapped galeraMariaDB recoverySource pre" by (auto simp: recoverySource_def mariadb_gone_def)
  with run t show ?thesis by blast
qed

text \<open>A run of the whole reconciliation of a cluster that is already bootstrapping.\<close>

lemma reconcileRecovery_restarting:
  assumes "go_exec (getPods m :: Pod list result galera) t1 (Inr pods)" "pods \<noteq> []"
    and "go_exec (newAgentClientSet m :: unit result galera) t2 (Inr ())"
    and "rs = newRecoveryStatus m" "\<not> bootstrapTimeout now m rs" "isBootstrapping rs" "\<not> podsRestarted rs"
    and "go_exec (restartPods m rs) t3 (m', rs', Inr ())"
  shows "go_exec (reconcileRecovery uuid_ok buildJob m) (t1 @ t2 @ (Now, ATime now) # t3) (m', Inr zeroResult)"
proof -
  have "go_exec (stage (\<not> podsRestarted rs) msg (restartPods m rs) m rs (\<lambda>m rs. Ret (m, Inr zeroResult))) (t3 @ []) (m', Inr zeroResult)" for msg
    using assms(7) unfolding stage_def by (simp del: append_Nil2) (rule exec_bindI [OF assms(8)], simp)
  with assms(4-6) have "go_exec (recoveryStages uuid_ok buildJob m pods) ((Now, ATime now) # t3) (m', Inr zeroResult)"
    unfolding recoveryStages_def Let_def exec_ask_bind by (auto simp: stage_def intro!: exI [where x = "ATime now"])
  with assms(1-3) show ?thesis
    unfolding reconcileRecovery_def by (intro exec_bindI [where a = "Inr pods"]) (auto intro!: exec_bindI [where a = "Inr ()"])
qed


subsection \<open>Scaling down and up\<close>

text \<open>The replica counts a run asks the StatefulSet to have, in order.\<close>

definition scales :: "(call, answer) trace \<Rightarrow> int list" where
  "scales t = [n. (PatchStatefulSetReplicas k n, r) \<leftarrow> t]"

lemma scales_append [simp]: "scales (t1 @ t2) = scales t1 @ scales t2"
  by (simp add: scales_def)

lemma scales_Nil [simp]: "scales [] = []"
  by (simp add: scales_def)

definition no_scale :: "call \<Rightarrow> bool" where
  "no_scale c = (case c of PatchStatefulSetReplicas k n \<Rightarrow> False | _ \<Rightarrow> True)"

lemma no_scale_run:
  assumes "\<forall>e \<in> set t. no_scale (fst e)"
  shows "scales t = []"
  using assms by (induction t) (auto simp: scales_def no_scale_def split: call.splits)

lemma patchStatefulSetReplicas_scales:
  assumes "go_exec (patchStatefulSetReplicas timeout m n :: unit result galera) t x"
  shows "scales t = [] \<or> scales t = [n]" and "x = Inr () \<Longrightarrow> scales t = [n]"
    and "x = Inr () \<Longrightarrow> mariadb_gone (keyOf m) t \<or> (\<exists>r sts. (GetStatefulSet (keyOf m), r) \<in> set t \<and> as_sts r = Inr sts \<and>
      sts_Status_Replicas sts = n)"
proof -
  let ?wait = "PollWithMariaDB timeout (keyOf m) (tryP (ctxP ''error getting StatefulSet'' (ask as_sts (GetStatefulSet (keyOf m))))
       (\<lambda>sts. Ret (if sts_Status_Replicas sts = n then Inr () else Inl (ErrNew ''waiting for StatefulSet Pods'')))) :: unit result galera"
  have w: "scales u = []" if "go_exec ?wait u y" for u y
  proof (rule no_scale_run)
    have "go_calls no_scale ?wait" by (auto simp: no_scale_def intro!: calls_intros)
    from go_exec_calls [OF that this] show "\<forall>e \<in> set u. no_scale (fst e)" .
  qed
  have ask: "\<exists>r. u = [(c, r)]" if "exec grp (ctxP msg (ask sel c)) u y" for grp msg sel c u and y :: "'x result"
    using that by (auto simp: exec_ctxP)
  let ?get = "ctxP ''error getting StatefulSet'' (ask as_sts (GetStatefulSet (keyOf m))) :: StatefulSet result galera"
  let ?patch = "ctxP ''error patching StatefulSet'' (ask as_unit (PatchStatefulSetReplicas (keyOf m) n)) :: unit result galera"
  from assms [unfolded patchStatefulSetReplicas_def exec_tryP]
  have "(isl x \<and> go_exec ?get t (map_sum id (\<lambda>_. undefined) x)) \<or> (\<exists>t1 t2 a. t = t1 @ t2 \<and> go_exec ?get t1 (Inr a) \<and>
      ((isl x \<and> go_exec ?patch t2 x) \<or> (\<exists>t3 t4. t2 = t3 @ t4 \<and> go_exec ?patch t3 (Inr ()) \<and> go_exec ?wait t4 x)))"
    by (elim disjE exE conjE) (auto simp del: exec_ctxP_Inr)
  then have cases: "(scales t = [] \<and> isl x) \<or> (scales t = [n] \<and> isl x) \<or> (\<exists>u1 u2. t = u1 @ u2 \<and> scales u1 = [n] \<and> go_exec ?wait u2 x)"
  proof (elim disjE exE conjE)
    fix t1 t2 a t3 t4 assume t: "t = t1 @ t2" "t2 = t3 @ t4" and "go_exec ?get t1 (Inr a)" "go_exec ?patch t3 (Inr ())"
    then have "scales (t1 @ t3) = [n]" by (auto dest!: ask simp: scales_def)
    moreover assume "go_exec ?wait t4 x"
    moreover have "t = (t1 @ t3) @ t4" using t by simp
    ultimately show ?thesis by blast
  qed (auto dest!: ask simp: scales_def)

  from cases w show "scales t = [] \<or> scales t = [n]" "x = Inr () \<Longrightarrow> scales t = [n]" by auto
  assume "x = Inr ()"
  with cases obtain u1 u2 where "t = u1 @ u2" "go_exec ?wait u2 (Inr ())" by auto
  with exec_PollWithMariaDB_ok [OF this(2)] show "mariadb_gone (keyOf m) t \<or> (\<exists>r sts. (GetStatefulSet (keyOf m), r) \<in> set t \<and>
      as_sts r = Inr sts \<and> sts_Status_Replicas sts = n)"
    by (auto simp: exec_tryP_Inr split: if_splits)
qed

text \<open>In a trace: the StatefulSet was seen with no Pods, or the MariaDB object was found gone.\<close>

definition seen_down :: "MariaDB \<Rightarrow> (call, answer) trace \<Rightarrow> bool" where
  "seen_down m t \<longleftrightarrow> mariadb_gone (keyOf m) t \<or>
     (\<exists>r sts. (GetStatefulSet (keyOf m), r) \<in> set t \<and> as_sts r = Inr sts \<and> sts_Status_Replicas sts = 0)"

lemma seen_down_mono: "seen_down m t1 \<Longrightarrow> seen_down m (t1 @ t2)"
  by (auto simp: seen_down_def)

definition downscaleTimeout :: "MariaDB \<Rightarrow> int" where
  "downscaleTimeout m = Deref (gr_ClusterDownscaleTimeout (recoveryOf m)) (5 * minute)"

abbreviation afterDownscale where
  "afterDownscale uuid_ok buildJob m pods rs \<equiv>
     bindP (joinAll (map (recoverPod uuid_ok buildJob m) (filter (\<lambda>p. \<not> snd (rs_recovered rs (pod_Name p))) pods)) rs)
       (\<lambda>y. bindP (patchStatefulSetReplicas (Deref (gr_ClusterUpscaleTimeout (recoveryOf m)) (5 * minute)) m (m_Replicas m)) (\<lambda>_. Ret y))"

lemma recoverGaleraState_split:
  "recoverGaleraState uuid_ok buildJob m pods rs =
     bindP (patchStatefulSetReplicas (downscaleTimeout m) m 0) (\<lambda>x. case x of
       Inl e \<Rightarrow> Ret (rs, Inl (ErrCtx ''error downscaling cluster'' e)) | Inr _ \<Rightarrow> afterDownscale uuid_ok buildJob m pods rs)"
  unfolding recoverGaleraState_def downscaleTimeout_def ..

lemma recovery_jobs_run:
  assumes "go_exec (recoverGaleraState uuid_ok buildJob m pods rs) (pre @ (CreateJob k, r) # post) x"
  shows "\<exists>t1 pre2. pre = t1 @ pre2 \<and> scales t1 = [0] \<and> seen_down m t1 \<and>
    go_exec (afterDownscale uuid_ok buildJob m pods rs) (pre2 @ (CreateJob k, r) # post) x"
proof -
  define jobless where "jobless = (\<lambda>c. \<forall>k. c \<noteq> CreateJob k)"
  have "go_calls jobless (patchStatefulSetReplicas timeout m n :: unit result galera)" for timeout n
    unfolding patchStatefulSetReplicas_def by (auto simp: jobless_def intro!: calls_intros)
  then have quiet: "(CreateJob k, r) \<notin> set u"
    if "go_exec (patchStatefulSetReplicas timeout m n :: unit result galera) u y" for timeout n u y
    using go_exec_calls [OF that] unfolding jobless_def by fastforce
  from exec_bindP_split [OF assms [unfolded recoverGaleraState_split]] obtain t1 pre2 a where pre: "pre = t1 @ pre2"
    and p: "go_exec (patchStatefulSetReplicas (downscaleTimeout m) m 0 :: unit result galera) t1 a"
    and k: "go_exec (case a of Inl e \<Rightarrow> Ret (rs, Inl (ErrCtx ''error downscaling cluster'' e))
        | Inr _ \<Rightarrow> afterDownscale uuid_ok buildJob m pods rs) (pre2 @ (CreateJob k, r) # post) x"
    using quiet by (metis in_set_conv_decomp)
  from k have a: "a = Inr ()" and k': "go_exec (afterDownscale uuid_ok buildJob m pods rs) (pre2 @ (CreateJob k, r) # post) x"
    by (cases a; auto)+
  from patchStatefulSetReplicas_scales(2,3) [OF p a] pre k' show ?thesis unfolding seen_down_def by blast
qed


text \<open>
  C40: what happens when the downscale is not complete in time: the recovery returns an error with the
  StatefulSet asked to have no replicas, and never asks for the replicas back, since the deferred upscale
  is only registered after the downscale has succeeded.
\<close>

theorem failed_downscale_stays_down:
  assumes "go_exec (recoverGaleraState uuid_ok buildJob m pods rs) t (rs', x)" "\<not> seen_down m t"
  shows "rs' = rs \<and> (\<exists>e. x = Inl (ErrCtx ''error downscaling cluster'' e)) \<and> (scales t = [] \<or> scales t = [0])"
proof -
  from assms(1) obtain t1 t2 a where t: "t = t1 @ t2"
    and p: "go_exec (patchStatefulSetReplicas (downscaleTimeout m) m 0 :: unit result galera) t1 a"
    and k: "go_exec (case a of Inl e \<Rightarrow> Ret (rs, Inl (ErrCtx ''error downscaling cluster'' e))
        | Inr _ \<Rightarrow> afterDownscale uuid_ok buildJob m pods rs) t2 (rs', x)"
    unfolding recoverGaleraState_split exec_bind [of _ "patchStatefulSetReplicas _ m 0"] by blast
  show ?thesis
  proof (cases a)
    case (Inl e)
    with k t patchStatefulSetReplicas_scales(1) [OF p] show ?thesis by simp
  next
    case (Inr u)
    then have "seen_down m t1" using patchStatefulSetReplicas_scales(3) [OF p] unfolding seen_down_def by simp
    with assms(2) t seen_down_mono show ?thesis by blast
  qed
qed

text \<open>Two API servers: both refuse to create the Job; the StatefulSet has no Pods, or keeps three.\<close>

fun downEnv :: "int \<Rightarrow> call list \<Rightarrow> call \<Rightarrow> answer" where
  "downEnv n h (GetMariaDB k) = AMariaDB (Inr galeraMariaDB)"
| "downEnv n h (GetStatefulSet k) = AStatefulSet (Inr 
      \<lparr>sts_Spec_Replicas = 0, sts_Status_Replicas = n, sts_ReadyReplicas = n, sts_UpdateRevision = '''', sts_Annotations = []\<rparr>)"
| "downEnv n h (PatchStatefulSetReplicas k i) = AUnit (Inr ())"
| "downEnv n h (GetJob k) = AJob (Inl (ErrNotFound ''job''))"
| "downEnv n h (CreateJob k) = AUnit (Inl (ErrExt ''quota exceeded''))"
| "downEnv n h _ = ATick True"

definition recoveryPod :: Pod where
  "recoveryPod = \<lparr>pod_Name = ''mdb-0'', pod_Namespace = ''default'', pod_Labels = [], pod_Annotations = [],
      pod_NodeName = ''node'', pod_Phase = ''Running'', pod_Conditions = []\<rparr>"

lemmas run_recovery = go_run_def recoverGaleraState_def patchStatefulSetReplicas_def PollWithMariaDB_def PollValue_unfold
  shouldPoll_def run_simps joinAll_def run_group_def recoverPod_def ensureJob_def Let_def reported_def

lemma refused_job_run:
  "\<exists>t r x. go_run (downEnv 0) (recoverGaleraState (\<lambda>_. True) (\<lambda>_ _. Inr ()) galeraMariaDB [recoveryPod] zeroGaleraRecoveryStatus) =
     Some (t, x) \<and> (CreateJob (RecoveryJobKey galeraMariaDB ''mdb-0''), r) \<in> set t"
  by (simp add: run_recovery galeraMariaDB_pods rs_recovered_def recovery_ops recoveryPod_def)

lemma stuck_downscale_run:
  "\<exists>t x. go_run (downEnv 3) (recoverGaleraState (\<lambda>_. True) (\<lambda>_ _. Inr ()) galeraMariaDB [recoveryPod] zeroGaleraRecoveryStatus) =
     Some (t, x) \<and> scales t = [0] \<and> \<not> seen_down galeraMariaDB t"
  by (simp add: run_recovery galeraMariaDB_pods rs_recovered_def recovery_ops recoveryPod_def scales_def seen_down_def mariadb_gone_def)


theorem failed_downscale_stays_down_witness:
  "\<exists>t e. go_exec (recoverGaleraState (\<lambda>_. True) (\<lambda>_ _. Inr ()) galeraMariaDB [recoveryPod] zeroGaleraRecoveryStatus) t
     (zeroGaleraRecoveryStatus, Inl (ErrCtx ''error downscaling cluster'' e)) \<and> scales t = [0]"
proof -
  obtain t rs' x where run: "go_run (downEnv 3) (recoverGaleraState (\<lambda>_. True) (\<lambda>_ _. Inr ()) galeraMariaDB [recoveryPod]
       zeroGaleraRecoveryStatus) = Some (t, rs', x)" and t: "scales t = [0]" "\<not> seen_down galeraMariaDB t"
    using stuck_downscale_run by auto
  from failed_downscale_stays_down [OF go_run_exec [OF run] t(2)] go_run_exec [OF run] t(1) show ?thesis by blast
qed

end
