(* ===== verification/Galera_Controller.thy ===== *)
theory Galera_Controller
  imports Galera_Recovery Pod_Controllers
begin

text \<open>
  The two controllers that decide when a Galera cluster is recovered: the Galera part of the MariaDB
  controller (\<^verbatim>\<open>pkg/controller/galera/controller.go\<close>), which runs the recovery and declares the cluster ready,
  and the monitor of the StatefulSet (\<^verbatim>\<open>internal/controller/statefulset_galera_controller.go\<close>), which declares
  it not ready. A poll that reaches its deadline ends with \<open>ctx_done\<close>; a request that is cut off by the
  deadline with \<open>deadline_exceeded\<close>.
\<close>

subsection \<open>GaleraReconciler\<close>

definition galeraPrimaryIndex :: "MariaDB \<Rightarrow> int" where
  "galeraPrimaryIndex m = Deref (pg_PodIndex (g_Primary (Deref (sp_Galera (m_Spec m)) zeroGalera))) 0"

definition Galera_shouldReconcileSwitchover :: "meta_api \<Rightarrow> MariaDB \<Rightarrow> bool" where
  "Galera_shouldReconcileSwitchover M mdb =
     (if IsMaxScaleEnabled mdb \<or> IsRestoringBackup M mdb \<or> IsUpdating M mdb \<or> IsResizingStorage M mdb then False
      else case ms_CurrentPrimaryPodIndex (m_Status mdb) of
        None \<Rightarrow> False
      | Some currentPodIndex \<Rightarrow> currentPodIndex \<noteq> galeraPrimaryIndex mdb)"

definition disableBootstrapAt :: "MariaDB \<Rightarrow> int \<Rightarrow> ('g, 'u, unit result) op" where
  "disableBootstrapAt mariadb i =
     tryP (ctxP ''error creating agent client'' (agentForIndex mariadb i)) (\<lambda>client.
     bindP (ask as_unit (Agent client AgentDisableBootstrap)) (\<lambda>x. Ret (case x of
         Inl e \<Rightarrow> if IsNotFound e then Inr () else Inl (ErrCtx ''error disabling bootstrap in Pod'' e)
       | Inr _ \<Rightarrow> Inr ())))"

definition disableBootstrap :: "MariaDB \<Rightarrow> ('g, 'u, unit result) op" where
  "disableBootstrap mariadb =
     tryP (ctxP ''error creating agent client set'' (newAgentClientSet mariadb)) (\<lambda>_.
     forP [0..m_Replicas mariadb - 1] (disableBootstrapAt mariadb))"

text \<open>The three parts of \<^verbatim>\<open>Reconcile\<close>: recovery, readiness, and the primary.\<close>

definition markGaleraReady :: "meta_api \<Rightarrow> StatefulSet \<Rightarrow> MariaDB \<Rightarrow> (MariaDB \<times> unit result) galera" where
  "markGaleraReady M sts mariadb =
     (if \<not> HasGaleraReadyCondition M mariadb \<and> sts_ReadyReplicas sts = m_Replicas mariadb
      then bindP (disableBootstrap mariadb) (\<lambda>x. case x of
          Inl e \<Rightarrow> Ret (mariadb, Inl e)
        | Inr _ \<Rightarrow>
            bindP (patchStatus mariadb (\<lambda>status. SetGaleraConfigured (MariaDBStatus_SetCondition M)
                (SetGaleraReady (MariaDBStatus_SetCondition M) status)))
              (\<lambda>(m, y). Ret (m, with_ctx ''error patching Galera status'' y)))
      else Ret (mariadb, Inr ()))"

definition switchGaleraPrimary :: "meta_api \<Rightarrow> MariaDB \<Rightarrow> (MariaDB \<times> unit result) galera" where
  "switchGaleraPrimary M mariadb =
     (if Galera_shouldReconcileSwitchover M mariadb
      then bindP (patchStatus mariadb (UpdateCurrentPrimary mariadb (galeraPrimaryIndex mariadb)))
             (\<lambda>(m, y). Ret (m, with_ctx ''error patching current primary status'' y))
      else Ret (mariadb, Inr ()))"

definition afterRecovery :: "meta_api \<Rightarrow> StatefulSet \<Rightarrow> MariaDB \<Rightarrow> (MariaDB \<times> CtrlResult result) galera" where
  "afterRecovery M sts mariadb =
     bindP (markGaleraReady M sts mariadb) (\<lambda>(m, x). case x of
       Inl e \<Rightarrow> Ret (m, Inl e)
     | Inr _ \<Rightarrow> bindP (switchGaleraPrimary M m) (\<lambda>(m, y). Ret (m, case y of Inl e \<Rightarrow> Inl e | Inr _ \<Rightarrow> Inr zeroResult)))"

definition Galera_Reconcile ::
    "meta_api \<Rightarrow> (string \<Rightarrow> bool) \<Rightarrow> (MariaDB \<Rightarrow> Pod \<Rightarrow> unit result) \<Rightarrow> MariaDB \<Rightarrow> (MariaDB \<times> CtrlResult result) galera" where
  "Galera_Reconcile M uuid_ok buildJob mariadb =
     (if \<not> IsGaleraEnabled mariadb then Ret (mariadb, Inr zeroResult)
      else bindP (ask as_sts (GetStatefulSet (keyOf mariadb))) (\<lambda>x. case x of
        Inl e \<Rightarrow> Ret (mariadb, Inl e)
      | Inr sts \<Rightarrow>
          bindP (if HasGaleraNotReadyCondition M mariadb then reconcileRecovery uuid_ok buildJob mariadb
                 else Ret (mariadb, Inr zeroResult)) (\<lambda>(m, r). case r of
            Inl e \<Rightarrow> Ret (m, Inl e)
          | Inr res \<Rightarrow> if res \<noteq> zeroResult then Ret (m, Inr res) else afterRecovery M sts m)))"

subsection \<open>StatefulSetGaleraReconciler\<close>

definition deadline_exceeded :: go_error where
  "deadline_exceeded = ErrExt ''context deadline exceeded''"

text \<open>\<^verbatim>\<open>wait.Interrupted\<close>; an error put in context with \<^verbatim>\<open>%v\<close> is not one.\<close>

definition Interrupted :: "go_error \<Rightarrow> bool" where
  "Interrupted e \<longleftrightarrow> e = ctx_done \<or> e = deadline_exceeded"

text \<open>\<^verbatim>\<open>wait.PollUntilContextCancel\<close> with a condition that may fail: the first error ends it.\<close>

primrec pollCondition :: "nat \<Rightarrow> ('g, 'u, bool result) op \<Rightarrow> ('g, 'u, unit result) op" where
  "pollCondition 0 condition = Ret (Inl ctx_done)"
| "pollCondition (Suc fuel) condition =
     bindP condition (\<lambda>x. case x of
       Inl e \<Rightarrow> Ret (Inl e)
     | Inr b \<Rightarrow> if b then Ret (Inr ())
         else Call Tick (\<lambda>r. if ctx_is_done r then Ret (Inl ctx_done) else pollCondition fuel condition))"

definition shouldPerformClusterRecovery :: "meta_api \<Rightarrow> MariaDB \<Rightarrow> bool" where
  "shouldPerformClusterRecovery M mdb =
     (if \<not> IsGaleraEnabled mdb \<or> \<not> gr_Enabled (recoveryOf mdb) then False
      else if IsRestoringBackup M mdb \<or> IsResizingStorage M mdb \<or> \<not> HasGaleraConfiguredCondition M mdb \<or> HasGaleraNotReadyCondition M mdb
      then False else True)"

definition monitorResult :: "MariaDB \<Rightarrow> CtrlResult" where
  "monitorResult mdb =
     (if \<not> gr_Enabled (recoveryOf mdb) then zeroResult
      else requeueAfter (Deref (gr_ClusterMonitorInterval (recoveryOf mdb)) (10 * second)))"

primrec readyClientOf :: "MariaDB \<Rightarrow> Pod list \<Rightarrow> ('g, 'u, int result) op" where
  "readyClientOf mariadb [] = Ret (Inl (ErrNew ''no Ready Pods were found''))"
| "readyClientOf mariadb (p # ps) =
     (if \<not> PodReady p then readyClientOf mariadb ps
      else case PodIndex (pod_Name p) of
        Inl e \<Rightarrow> Ret (Inl (ErrCtx ''error getting Pod index'' e))
      | Inr index \<Rightarrow> bindP (ClientForIndex mariadb index) (\<lambda>x. case x of
          Inr client \<Rightarrow> Ret (Inr client) | Inl _ \<Rightarrow> readyClientOf mariadb ps))"

definition readyClient :: "MariaDB \<Rightarrow> ('g, 'u, int result) op" where
  "readyClient mariadb = tryP (ctxP ''error listing Pods'' (ask as_pods (ListPods (keyOf mariadb)))) (readyClientOf mariadb)"

text \<open>The part of \<^verbatim>\<open>isHealthy\<close> that asks the databases.\<close>

definition hasMinSize :: "(IntOrString \<Rightarrow> int \<Rightarrow> bool \<Rightarrow> int result) \<Rightarrow> MariaDB \<Rightarrow> ('g, 'u, bool result) op" where
  "hasMinSize scaled mdb =
     tryP (readyClient mdb) (\<lambda>client.
     tryP (ask as_int (SqlStatus client ''wsrep_cluster_size'')) (\<lambda>clusterSize.
     Ret (with_ctx ''error checking min cluster size'' (HasMinClusterSize scaled clusterSize mdb (recoveryOf mdb)))))"

definition isHealthy ::
    "meta_api \<Rightarrow> (IntOrString \<Rightarrow> int \<Rightarrow> bool \<Rightarrow> int result) \<Rightarrow> NamespacedName \<Rightarrow> (string \<times> string) list \<Rightarrow> ('g, 'u, bool result) op" where
  "isHealthy M scaled key annotations =
     tryP (ctxP ''error getting MariaDB'' (MariaDBFromAnnotation (nn_Namespace key) annotations)) (\<lambda>mdb.
       if \<not> shouldPerformClusterRecovery M mdb then Ret (Inr True)
       else bindP (ask as_sts (GetStatefulSet key)) (\<lambda>x. case x of
         Inl _ \<Rightarrow> hasMinSize scaled mdb
       | Inr sts \<Rightarrow> if sts_ReadyReplicas sts = 0 then Ret (Inr False) else hasMinSize scaled mdb))"

definition pollUntilHealthyWithTimeout ::
    "meta_api \<Rightarrow> (IntOrString \<Rightarrow> int \<Rightarrow> bool \<Rightarrow> int result) \<Rightarrow> int \<Rightarrow> NamespacedName \<Rightarrow> (string \<times> string) list \<Rightarrow> ('g, 'u, bool result) op" where
  "pollUntilHealthyWithTimeout M scaled timeout key annotations =
     bindP (pollCondition (poll_fuel timeout) (isHealthy M scaled key annotations)) (\<lambda>x. Ret (case x of
       Inl e \<Rightarrow> if Interrupted e then Inr False else Inl (ErrCtx ''error polling health'' e)
     | Inr _ \<Rightarrow> Inr True))"

definition declareNotReady :: "meta_api \<Rightarrow> MariaDB \<Rightarrow> ('g, 'u, CtrlResult result) op" where
  "declareNotReady M mariadb =
     bindP (patchStatus mariadb (\<lambda>status. SetGaleraNotReady (MariaDBStatus_SetCondition M) (status\<lparr>ms_GaleraRecovery := None\<rparr>)))
       (\<lambda>(m, x). Ret (case x of Inl e \<Rightarrow> Inl (ErrCtx ''error patching MariaDB'' e) | Inr _ \<Rightarrow> Inr (monitorResult m)))"

text \<open>The part of \<^verbatim>\<open>Reconcile\<close> once the MariaDB object is known, and the whole.\<close>

definition monitorCluster ::
    "meta_api \<Rightarrow> (IntOrString \<Rightarrow> int \<Rightarrow> bool \<Rightarrow> int result) \<Rightarrow> NamespacedName \<Rightarrow> StatefulSet \<Rightarrow> MariaDB \<Rightarrow> ('g, 'u, CtrlResult result) op" where
  "monitorCluster M scaled key sts mariadb =
     (if \<not> shouldPerformClusterRecovery M mariadb then Ret (Inr (monitorResult mariadb))
      else tryP (ctxP ''error polling MariaDB health'' (pollUntilHealthyWithTimeout M scaled
          (Deref (gr_ClusterHealthyTimeout (recoveryOf mariadb)) (30 * second)) key (sts_Annotations sts))) (\<lambda>healthy.
        if healthy then Ret (Inr (monitorResult mariadb)) else declareNotReady M mariadb))"

definition GaleraMonitor_Reconcile ::
    "meta_api \<Rightarrow> (IntOrString \<Rightarrow> int \<Rightarrow> bool \<Rightarrow> int result) \<Rightarrow> NamespacedName \<Rightarrow> ('g, 'u, CtrlResult result) op" where
  "GaleraMonitor_Reconcile M scaled key =
     bindP (ask as_sts (GetStatefulSet key)) (\<lambda>s. case s of
       Inl e \<Rightarrow> Ret (ignoredResult e)
     | Inr sts \<Rightarrow>
         bindP (MariaDBFromAnnotation (nn_Namespace key) (sts_Annotations sts)) (\<lambda>x. case x of
           Inl e \<Rightarrow> Ret (if e = ErrMariaDBAnnotationNotFound then Inr zeroResult else ignoredResult e)
         | Inr mariadb \<Rightarrow> monitorCluster M scaled key sts mariadb))"

subsection \<open>The bootstrap is disabled before the cluster is declared ready\<close>

definition bootstrap_disabled :: "int \<Rightarrow> (call, answer) trace \<Rightarrow> bool" where
  "bootstrap_disabled i t \<longleftrightarrow> (\<exists>r. (Agent i AgentDisableBootstrap, r) \<in> set t \<and>
     (as_unit r = Inr () \<or> (\<exists>e. as_unit r = Inl e \<and> IsNotFound e)))"

lemma agentForIndex_ok: "exec grp (agentForIndex m i) t (Inr c) \<Longrightarrow> c = i"
  by (auto simp: agentForIndex_def exec_tryP_Inr split: sum.splits)

lemma bootstrap_disabled_mono: "bootstrap_disabled i t \<Longrightarrow> set t \<subseteq> set t' \<Longrightarrow> bootstrap_disabled i t'"
  unfolding bootstrap_disabled_def by blast

lemma disableBootstrapAt_ok:
  assumes "exec grp (disableBootstrapAt m i) t (Inr ())"
  shows "bootstrap_disabled i t"
proof -
  from assms obtain t1 r where t: "t = t1 @ [(Agent i AgentDisableBootstrap, r)]"
    and x: "Inr () = (case as_unit r of Inl e \<Rightarrow> if IsNotFound e then Inr () else Inl (ErrCtx ''error disabling bootstrap in Pod'' e)
       | Inr _ \<Rightarrow> Inr ())"
    unfolding disableBootstrapAt_def exec_tryP_Inr exec_ask_bind exec_ctxP_Inr by (auto dest!: agentForIndex_ok)
  from x have "as_unit r = Inr () \<or> (\<exists>e. as_unit r = Inl e \<and> IsNotFound e)"
    by (cases "as_unit r") (auto split: if_splits)
  with t show ?thesis by (auto simp: bootstrap_disabled_def)
qed

lemma disableBootstrap_ok:
  assumes "exec grp (disableBootstrap m) t (Inr ())" "0 \<le> i" "i < m_Replicas m"
  shows "bootstrap_disabled i t"
proof -
  from assms(1) obtain t1 t2 where t: "t = t1 @ t2" and f: "exec grp (forP [0..m_Replicas m - 1] (disableBootstrapAt m)) t2 (Inr ())"
    by (auto simp: disableBootstrap_def exec_tryP_Inr)
  from exec_forP_member [OF f, of i] assms(2,3) obtain u1 u2 u3 where "t2 = u1 @ u2 @ u3" "exec grp (disableBootstrapAt m i) u2 (Inr ())"
    by auto
  with t show ?thesis by (auto intro: bootstrap_disabled_mono [OF disableBootstrapAt_ok])
qed

lemma disableBootstrap_no_patch:
  assumes "go_exec (disableBootstrap m :: unit result galera) t x"
  shows "(PatchStatus d, r) \<notin> set t"
proof -
  have "go_calls (\<lambda>c. \<forall>d. c \<noteq> PatchStatus d) (disableBootstrap m :: unit result galera)"
    unfolding disableBootstrap_def disableBootstrapAt_def newAgentClientSet_def secretKey_def Let_def agentForIndex_def
    by (auto intro!: calls_intros split: if_splits sum.split)
  from go_exec_calls [OF assms this] show ?thesis by fastforce
qed

text \<open>
  C14: a Galera cluster is declared ready only when all its Pods are ready and the bootstrap is disabled in
  every one of them: each agent has confirmed it, or has nothing to disable. No Pod that restarts later can
  bootstrap a second cluster.
\<close>

theorem galera_ready_after_bootstrap_disabled:
  assumes "go_exec (markGaleraReady M sts m) (pre @ (PatchStatus d, r) # post) x"
  shows "sts_ReadyReplicas sts = m_Replicas m \<and> \<not> HasGaleraReadyCondition M m \<and>
    (\<forall>i. 0 \<le> i \<and> i < m_Replicas m \<longrightarrow> bootstrap_disabled i pre)"
proof -
  let ?patch = "(\<lambda>x. case x of Inl e \<Rightarrow> Ret (m, Inl e)
        | Inr _ \<Rightarrow> bindP (patchStatus m (\<lambda>status. SetGaleraConfigured (MariaDBStatus_SetCondition M)
                (SetGaleraReady (MariaDBStatus_SetCondition M) status)))
              (\<lambda>(m, y). Ret (m, with_ctx ''error patching Galera status'' y))) :: unit result \<Rightarrow> (MariaDB \<times> unit result) galera"
  from assms have c: "sts_ReadyReplicas sts = m_Replicas m" "\<not> HasGaleraReadyCondition M m"
    and e: "go_exec (bindP (disableBootstrap m) ?patch) (pre @ (PatchStatus d, r) # post) x"
    by (auto simp: markGaleraReady_def split: if_splits)
  from exec_bindP_split [OF e] disableBootstrap_no_patch obtain t1 pre2 y where pre: "pre = t1 @ pre2"
    and b: "go_exec (disableBootstrap m :: unit result galera) t1 y" and p: "go_exec (?patch y) (pre2 @ (PatchStatus d, r) # post) x"
    by (metis in_set_conv_decomp)
  have "y = Inr ()" using p by (cases y) auto
  then have "bootstrap_disabled i pre" if "0 \<le> i" "i < m_Replicas m" for i
    using disableBootstrap_ok [OF _ that] b pre by (intro bootstrap_disabled_mono [of i t1 pre]) auto
  with c show ?thesis by blast
qed

subsection \<open>What triggers a recovery\<close>

text \<open>Every answer of the API server about the MariaDB object and the Pods in a trace is not an error.\<close>

definition api_ok :: "(call, answer) trace \<Rightarrow> bool" where
  "api_ok t \<longleftrightarrow> (\<forall>(c, r) \<in> set t. ((\<exists>k. c = GetMariaDB k) \<longrightarrow> \<not> isl (as_mariadb r)) \<and> ((\<exists>k. c = ListPods k) \<longrightarrow> \<not> isl (as_pods r)))"

lemma api_ok_simps [simp]:
  "api_ok []" "api_ok (t1 @ t2) \<longleftrightarrow> api_ok t1 \<and> api_ok t2"
  "api_ok ((c, r) # t) \<longleftrightarrow> ((\<exists>k. c = GetMariaDB k) \<longrightarrow> \<not> isl (as_mariadb r)) \<and> ((\<exists>k. c = ListPods k) \<longrightarrow> \<not> isl (as_pods r)) \<and> api_ok t"
  by (simp_all add: api_ok_def ball_Un)

lemma ClientForIndex_api_ok: "exec grp (ClientForIndex m i) t x \<Longrightarrow> api_ok t"
  by (auto simp: ClientForIndex_def exec_tryP exec_ctxP split: sum.splits)

lemma readyClientOf_api_ok: "exec grp (readyClientOf m ps) t x \<Longrightarrow> api_ok t"
proof (induction ps arbitrary: t)
  case (Cons p ps)
  show ?case
  proof (cases "PodReady p")
    case True
    with Cons.prems show ?thesis
      by (auto simp: exec_bind exec_case_sum dest: ClientForIndex_api_ok Cons.IH split: sum.splits)
  qed (use Cons in simp)
qed simp

text \<open>An error in context is no interruption.\<close>

lemma not_Interrupted_ctx [simp]: "\<not> Interrupted (ErrCtx msg e)"
  by (simp add: Interrupted_def ctx_done_def deadline_exceeded_def)

lemma with_ctx_Inl: "Inl e = with_ctx msg y \<longleftrightarrow> (\<exists>e'. y = Inl e' \<and> e = ErrCtx msg e')"
  by (cases y) auto

lemma listPods_api_ok:
  assumes "exec grp (readyClient m) t x" "\<And>e. x = Inl e \<Longrightarrow> Interrupted e"
  shows "api_ok t"
proof -
  from assms(1) [unfolded readyClient_def exec_tryP] show ?thesis
  proof (elim disjE exE conjE)
    fix e assume "x = Inl e" and "exec grp (ctxP ''error listing Pods'' (ask as_pods (ListPods (keyOf m)))) t (Inl e)"
    with assms(2) [of e] show ?thesis by (auto simp: exec_ctxP with_ctx_Inl)
  next
    fix t1 t2 ps assume "t = t1 @ t2" "exec grp (ctxP ''error listing Pods'' (ask as_pods (ListPods (keyOf m)))) t1 (Inr ps)"
      "exec grp (readyClientOf m ps) t2 x"
    then show ?thesis by (auto dest: readyClientOf_api_ok simp: isl_def)
  qed
qed

lemma hasMinSize_api_ok:
  assumes "exec grp (hasMinSize scaled m) t x" "\<And>e. x = Inl e \<Longrightarrow> Interrupted e"
  shows "api_ok t"
proof -
  from assms(1) [unfolded hasMinSize_def exec_tryP] show ?thesis
  proof (elim disjE exE conjE)
    fix e assume "x = Inl e" "exec grp (readyClient m) t (Inl e)"
    with assms(2) show ?thesis by (auto dest: listPods_api_ok)
  next
    fix t1 t2 c e assume "t = t1 @ t2" "exec grp (readyClient m) t1 (Inr c)"
      "exec grp (ask as_int (SqlStatus c ''wsrep_cluster_size'')) t2 (Inl e)"
    then show ?thesis by (auto dest: listPods_api_ok)
  next
    fix t1 t2 c t3 t4 n assume "t = t1 @ t2" "exec grp (readyClient m) t1 (Inr c)" "t2 = t3 @ t4"
      "exec grp (ask as_int (SqlStatus c ''wsrep_cluster_size'')) t3 (Inr n)"
      "exec grp (Ret (with_ctx ''error checking min cluster size'' (HasMinClusterSize scaled n m (recoveryOf m)))) t4 x"
    then show ?thesis by (auto dest: listPods_api_ok)
  qed
qed

lemma MariaDBFromAnnotation_api_ok: "exec grp (MariaDBFromAnnotation ns anns) t (Inr m) \<Longrightarrow> api_ok t"
proof -
  assume "exec grp (MariaDBFromAnnotation ns anns) t (Inr m)"
  then obtain k r where "t = [(GetMariaDB k, r)]" and "Inr m = (case as_mariadb r of
      Inl e \<Rightarrow> Inl (if IsNotFound e then e else ErrCtx ''error getting MariaDB from annotation'' e) | Inr m \<Rightarrow> Inr m)"
    by (auto simp: MariaDBFromAnnotation_def exec_ask_bind split: option.splits)
  then show ?thesis by (cases "as_mariadb r") auto
qed

lemma isHealthy_api_ok:
  assumes "exec grp (isHealthy M scaled key anns) t x" "\<And>e. x = Inl e \<Longrightarrow> Interrupted e"
  shows "api_ok t"
proof -
  from assms(1) [unfolded isHealthy_def exec_tryP] show ?thesis
  proof (elim disjE exE conjE)
    fix e assume "x = Inl e" "exec grp (ctxP ''error getting MariaDB'' (MariaDBFromAnnotation (nn_Namespace key) anns)) t (Inl e)"
    with assms(2) [of e] show ?thesis by (auto simp: exec_ctxP with_ctx_Inl)
  next
    fix t1 t2 mdb assume t: "t = t1 @ t2" and "exec grp (ctxP ''error getting MariaDB'' (MariaDBFromAnnotation (nn_Namespace key) anns)) t1 (Inr mdb)"
      and r: "exec grp (if \<not> shouldPerformClusterRecovery M mdb then Ret (Inr True)
       else bindP (ask as_sts (GetStatefulSet key)) (\<lambda>x. case x of
         Inl _ \<Rightarrow> hasMinSize scaled mdb
       | Inr sts \<Rightarrow> if sts_ReadyReplicas sts = 0 then Ret (Inr False) else hasMinSize scaled mdb)) t2 x"
    then have "api_ok t1" by (simp add: MariaDBFromAnnotation_api_ok)
    moreover have "api_ok t2"
      using r assms(2) by (auto simp: exec_ask_bind exec_case_sum dest: hasMinSize_api_ok split: if_splits)
    ultimately show ?thesis using t by simp
  qed
qed

lemma pollCondition_api_ok:
  assumes "\<And>u y. exec grp body u y \<Longrightarrow> (\<And>e. y = Inl e \<Longrightarrow> Interrupted e) \<Longrightarrow> api_ok u"
  shows "exec grp (pollCondition n body) t x \<Longrightarrow> (\<And>e. x = Inl e \<Longrightarrow> Interrupted e) \<Longrightarrow> api_ok t"
proof (induction n arbitrary: t)
  case (Suc n)
  from Suc.prems(1) obtain t1 t2 y where t: "t = t1 @ t2" and b: "exec grp body t1 y"
    and r: "exec grp (case y of Inl e \<Rightarrow> Ret (Inl e) | Inr b \<Rightarrow> if b then Ret (Inr ())
         else Call Tick (\<lambda>r. if ctx_is_done r then Ret (Inl ctx_done) else pollCondition n body)) t2 x"
    unfolding pollCondition.simps exec_bind by blast
  have "api_ok t1"
  proof (rule assms [OF b])
    fix e assume "y = Inl e"
    with r Suc.prems(2) show "Interrupted e" by simp
  qed
  moreover have "api_ok t2"
    using r Suc.prems(2) by (auto simp: exec_case_sum exec_Call dest: Suc.IH split: if_splits)
  ultimately show ?case using t by simp
qed simp

lemma pollUntilHealthy_api_ok:
  assumes "exec grp (pollUntilHealthyWithTimeout M scaled timeout key anns) t (Inr b)"
  shows "api_ok t"
proof -
  from assms obtain x where p: "exec grp (pollCondition (poll_fuel timeout) (isHealthy M scaled key anns)) t x"
    and x: "Inr b = (case x of Inl e \<Rightarrow> if Interrupted e then Inr False else Inl (ErrCtx ''error polling health'' e) | Inr _ \<Rightarrow> Inr True)"
    unfolding pollUntilHealthyWithTimeout_def exec_bind_Ret by blast
  have "Interrupted e" if "x = Inl e" for e using x that by (auto split: if_splits)
  then show ?thesis by (intro pollCondition_api_ok [OF _ p]) (auto intro: isHealthy_api_ok)
qed

lemma all_calls_pollCondition: "P Tick \<Longrightarrow> all_calls G P body \<Longrightarrow> all_calls G P (pollCondition n body)"
  by (induction n) (auto intro!: all_calls_bindP split: sum.split)

definition no_status :: "call \<Rightarrow> bool" where
  "no_status c = (case c of PatchStatus d \<Rightarrow> False | _ \<Rightarrow> True)"

lemma no_status_simps [simp]:
  "no_status (GetMariaDB k)" "no_status (GetStatefulSet k)" "no_status (ListPods k)" "no_status (SqlConnect i)"
  "no_status (SqlStatus i v)" "no_status Tick" "\<not> no_status (PatchStatus d)"
  by (simp_all add: no_status_def)

lemma readyClientOf_no_status: "all_calls G no_status (readyClientOf m ps)"
  by (induction ps) (auto simp: ClientForIndex_def intro!: calls_intros split: sum.split)

lemma pollUntilHealthy_no_status: "all_calls G no_status (pollUntilHealthyWithTimeout M scaled timeout key anns)"
  unfolding pollUntilHealthyWithTimeout_def isHealthy_def hasMinSize_def readyClient_def
  by (intro all_calls_bindP all_calls_pollCondition calls_intros)
    (auto intro!: calls_intros all_calls_MariaDBFromAnnotation readyClientOf_no_status split: sum.split)

definition notReadyPatch :: "meta_api \<Rightarrow> MariaDB \<Rightarrow> MariaDB" where
  "notReadyPatch M m = m\<lparr>m_Status := SetGaleraNotReady (MariaDBStatus_SetCondition M) ((m_Status m)\<lparr>ms_GaleraRecovery := None\<rparr>)\<rparr>"


subsection \<open>A cluster that has lost all its Pods\<close>

definition recoverableMariaDB :: MariaDB where
  "recoverableMariaDB = galeraMariaDB\<lparr>
     m_Spec := exampleSpec\<lparr>sp_Galera := Some (zeroGalera\<lparr>g_Enabled := True, g_Recovery := Some (zeroGaleraRecovery\<lparr>gr_Enabled := True\<rparr>)\<rparr>)\<rparr>,
     m_Status := SetGaleraConfigured (MariaDBStatus_SetCondition list_meta) exampleStatus\<rparr>"

fun lostEnv :: "call list \<Rightarrow> call \<Rightarrow> answer" where
  "lostEnv h (GetStatefulSet k) = AStatefulSet (Inr \<lparr>sts_Spec_Replicas = 3, sts_Status_Replicas = 3, sts_ReadyReplicas = 0,
     sts_UpdateRevision = '''', sts_Annotations = [(MariadbAnnotation, ''mdb'')]\<rparr>)"
| "lostEnv h (GetMariaDB k) = AMariaDB (Inr recoverableMariaDB)"
| "lostEnv h (PatchStatus m) = AMariaDB (Inr m)"
| "lostEnv h (Agent i a) = AUnit (Inl (ErrNotFound ''bootstrap file''))"
| "lostEnv h (AgentConnect i) = AUnit (Inr ())"
| "lostEnv h _ = ATick True"

lemma recoverableMariaDB_due: "shouldPerformClusterRecovery list_meta recoverableMariaDB"
  by (simp add: shouldPerformClusterRecovery_def recoverableMariaDB_def recoveryOf_def IsGaleraEnabled_def zeroGalera_def
      zeroGaleraRecovery_def IsRestoringBackup_def IsResizingStorage_def HasGaleraConfiguredCondition_def HasGaleraNotReadyCondition_def
      SetGaleraConfigured_def MariaDBStatus_SetCondition_def set_conditions_def example_defs list_meta_def find_condition_def cond_def)

lemma pollCondition_unfold:
  "pollCondition (poll_fuel timeout) condition =
     bindP condition (\<lambda>x. case x of
       Inl e \<Rightarrow> Ret (Inl e)
     | Inr b \<Rightarrow> if b then Ret (Inr ())
         else Call Tick (\<lambda>r. if ctx_is_done r then Ret (Inl ctx_done) else pollCondition (nat (timeout div 1000000000)) condition))"
  unfolding poll_fuel_def Suc_eq_plus1 [symmetric] by simp

lemma lost_run:
  "\<exists>t r x. go_run lostEnv (GaleraMonitor_Reconcile list_meta (\<lambda>_ _ _. Inr 1) \<lparr>nn_Name = ''mdb'', nn_Namespace = ''default''\<rparr>
      :: (call, answer, unit, CtrlResult result) go) = Some (t, x) \<and> (PatchStatus (notReadyPatch list_meta recoverableMariaDB), r) \<in> set t"
  using recoverableMariaDB_due
  by (simp add: go_run_def GaleraMonitor_Reconcile_def MariaDBFromAnnotation_def monitorCluster_def pollUntilHealthyWithTimeout_def
      pollCondition_unfold isHealthy_def declareNotReady_def patchStatus_def notReadyPatch_def Interrupted_def Let_def run_simps)


lemma ready_run:
  "\<exists>t d r x. go_run lostEnv (markGaleraReady list_meta \<lparr>sts_Spec_Replicas = 3, sts_Status_Replicas = 3, sts_ReadyReplicas = 3,
      sts_UpdateRevision = '''', sts_Annotations = []\<rparr> recoverableMariaDB) = Some (t, x) \<and> (PatchStatus d, r) \<in> set t"
proof -
  have "[0..2::int] = [0, 1, 2]" by (simp add: upto.simps)
  then show ?thesis
    by (simp add: go_run_def markGaleraReady_def disableBootstrap_def disableBootstrapAt_def newAgentClientSet_def agentForIndex_def
        validateIndex_def patchStatus_def HasGaleraReadyCondition_def recoverableMariaDB_def galeraMariaDB_def example_defs agentOf_def zeroGalera_def
        IsTLSEnabled_def zeroTLS_def IsGaleraEnabled_def SetGaleraConfigured_def MariaDBStatus_SetCondition_def list_meta_def
        set_conditions_def find_condition_def cond_def Let_def run_simps)
qed

theorem galera_ready_after_bootstrap_disabled_witness:
  "\<exists>pre d r post x. go_exec (markGaleraReady list_meta \<lparr>sts_Spec_Replicas = 3, sts_Status_Replicas = 3, sts_ReadyReplicas = 3,
      sts_UpdateRevision = '''', sts_Annotations = []\<rparr> recoverableMariaDB) (pre @ (PatchStatus d, r) # post) x \<and> bootstrap_disabled 2 pre"
proof -
  have "m_Replicas recoverableMariaDB = 3" by (simp add: recoverableMariaDB_def galeraMariaDB_def example_defs)
  then have "0 \<le> (2::int) \<and> 2 < m_Replicas recoverableMariaDB" by simp
  with ready_run galera_ready_after_bootstrap_disabled show ?thesis by (metis go_run_exec split_list)
qed

end
