(* ===== verification/Galera_Agent.thy ===== *)
theory Galera_Agent
  imports Operator_Calls
begin

text \<open>
  The Galera agent, the sidecar of every Galera Pod: its files (\<^verbatim>\<open>pkg/galera/filemanager\<close>), the handlers of
  its API and of its probes (\<^verbatim>\<open>pkg/galera/agent/handler\<close>) and the client the operator reaches it with
  (\<^verbatim>\<open>pkg/galera/agent/client\<close>, \<^verbatim>\<open>pkg/galera/errors\<close>). A handler takes the files and gives the files and the
  response. Every file operation may fail: \<open>disk_faults\<close> says which one does and, as \<^verbatim>\<open>os.WriteFile\<close>
  truncates the file before it writes, what a failed write leaves. The handlers hold one lock, so they run
  one at a time; only the check for the bootstrap file runs without it. Bodies are JSON on both sides and
  passed as values; a body that cannot be decoded is an error. \<open>uuid_ok\<close> is the UUID parser.
\<close>

section \<open>Files\<close>

datatype dir = ConfigDir | StateDir

type_synonym files = "dir \<Rightarrow> string \<Rightarrow> string option"

record disk_faults =
  df_read :: "dir \<Rightarrow> string \<Rightarrow> go_error option"
  df_write :: "dir \<Rightarrow> string \<Rightarrow> (go_error \<times> string option) option"
  df_remove :: "dir \<Rightarrow> string \<Rightarrow> go_error option"
  df_stat :: "dir \<Rightarrow> string \<Rightarrow> go_error option"

definition ErrNotExist :: go_error where
  "ErrNotExist = ErrExt ''file does not exist''"

definition put :: "dir \<Rightarrow> string \<Rightarrow> string option \<Rightarrow> files \<Rightarrow> files" where
  "put d n b fs = (\<lambda>d' n'. if d' = d \<and> n' = n then b else fs d' n')"

definition ReadFile :: "disk_faults \<Rightarrow> dir \<Rightarrow> string \<Rightarrow> files \<Rightarrow> string result" where
  "ReadFile df d n fs =
     (case df_read df d n of
        Some e \<Rightarrow> Inl e
      | None \<Rightarrow> (case fs d n of None \<Rightarrow> Inl ErrNotExist | Some b \<Rightarrow> Inr b))"

definition WriteFile :: "disk_faults \<Rightarrow> dir \<Rightarrow> string \<Rightarrow> string \<Rightarrow> files \<Rightarrow> files \<times> unit result" where
  "WriteFile df d n b fs =
     (case df_write df d n of
        Some (e, left) \<Rightarrow> (put d n left fs, Inl e)
      | None \<Rightarrow> (put d n (Some b) fs, Inr ()))"

definition RemoveFile :: "disk_faults \<Rightarrow> dir \<Rightarrow> string \<Rightarrow> files \<Rightarrow> files \<times> unit result" where
  "RemoveFile df d n fs =
     (case df_remove df d n of
        Some e \<Rightarrow> (fs, Inl e)
      | None \<Rightarrow> if fs d n = None then (fs, Inl ErrNotExist) else (put d n None fs, Inr ()))"

definition FileExists :: "disk_faults \<Rightarrow> dir \<Rightarrow> string \<Rightarrow> files \<Rightarrow> bool result" where
  "FileExists df d n fs =
     (case df_stat df d n of
        Some e \<Rightarrow> if e = ErrNotExist then Inr False else Inl e
      | None \<Rightarrow> Inr (fs d n \<noteq> None))"

definition WriteStateFile where "WriteStateFile df = WriteFile df StateDir"
definition ReadStateFile where "ReadStateFile df = ReadFile df StateDir"
definition DeleteStateFile where "DeleteStateFile df = RemoveFile df StateDir"
definition StateFileExists where "StateFileExists df = FileExists df StateDir"
definition WriteConfigFile where "WriteConfigFile df = WriteFile df ConfigDir"
definition ReadConfigFile where "ReadConfigFile df = ReadFile df ConfigDir"
definition DeleteConfigFile where "DeleteConfigFile df = RemoveFile df ConfigDir"
definition ConfigFileExists where "ConfigFileExists df = FileExists df ConfigDir"

lemmas file_defs = WriteStateFile_def ReadStateFile_def DeleteStateFile_def StateFileExists_def WriteConfigFile_def
  ReadConfigFile_def DeleteConfigFile_def ConfigFileExists_def ReadFile_def WriteFile_def RemoveFile_def FileExists_def

definition GaleraStateFileName :: string where
  "GaleraStateFileName = ''grastate.dat''"

definition BootstrapFileName :: string where
  "BootstrapFileName = ''1-bootstrap.cnf''"

definition BootstrapFile :: string where
  "BootstrapFile = ''[galera]'' @ nl @ ''wsrep_new_cluster='' @ [CHR 0x22] @ ''ON'' @ [CHR 0x22]"

section \<open>The API of the agent\<close>

datatype body = NoBody | StateBody GaleraState | ErrorBody string

record response =
  res_Code :: int
  res_Body :: body

definition OK :: "body \<Rightarrow> response" where
  "OK b = \<lparr>res_Code = 200, res_Body = b\<rparr>"

definition WriteError :: "string \<Rightarrow> response" where
  "WriteError msg = \<lparr>res_Code = 500, res_Body = ErrorBody msg\<rparr>"

definition NotFound :: "string \<Rightarrow> response" where
  "NotFound msg = \<lparr>res_Code = 404, res_Body = ErrorBody msg\<rparr>"

definition agent_GetState :: "(string \<Rightarrow> bool) \<Rightarrow> disk_faults \<Rightarrow> files \<Rightarrow> response" where
  "agent_GetState uuid_ok df fs =
     (case ReadStateFile df GaleraStateFileName fs of
        Inl e \<Rightarrow> if e = ErrNotExist then NotFound ''galera state not found'' else WriteError ''error reading galera state''
      | Inr bytes \<Rightarrow>
          if bytes = [] then NotFound ''galera state empty''
          else (case GaleraState_Unmarshal uuid_ok bytes of
            Inl e \<Rightarrow> WriteError ''error unmarshalling galera state''
          | Inr galeraState \<Rightarrow> OK (StateBody galeraState)))"

definition agent_IsBootstrapEnabled :: "disk_faults \<Rightarrow> files \<Rightarrow> response" where
  "agent_IsBootstrapEnabled df fs =
     (case ConfigFileExists df BootstrapFileName fs of
        Inl e \<Rightarrow> WriteError ''error checking bootstrap config''
      | Inr exists \<Rightarrow> if exists then OK NoBody else \<lparr>res_Code = 404, res_Body = NoBody\<rparr>)"

text \<open>The body of a request to enable the bootstrap: none, one that is not JSON of a position, or a
  position.\<close>

definition decodeAndValidateBootstrap :: "(string \<Rightarrow> bool) \<Rightarrow> (Bootstrap result) option \<Rightarrow> Bootstrap option result" where
  "decodeAndValidateBootstrap uuid_ok reqBody =
     (case reqBody of
        None \<Rightarrow> Inr None
      | Some (Inl e) \<Rightarrow> Inl (ErrCtx ''error decoding bootstrap'' e)
      | Some (Inr bootstrap) \<Rightarrow>
          (case Bootstrap_Validate uuid_ok bootstrap of
             Inl e \<Rightarrow> Inl (ErrCtx ''invalid bootstrap'' e)
           | Inr _ \<Rightarrow> Inr (Some bootstrap)))"

definition safeState :: "Bootstrap option \<Rightarrow> GaleraState \<Rightarrow> GaleraState" where
  "safeState bootstrap g =
     (case bootstrap of
        None \<Rightarrow> g\<lparr>gs_SafeToBootstrap := True\<rparr>
      | Some b \<Rightarrow> g\<lparr>gs_SafeToBootstrap := True, gs_UUID := b_UUID b, gs_Seqno := b_Seqno b\<rparr>)"

definition setSafeToBootstrap :: "(string \<Rightarrow> bool) \<Rightarrow> disk_faults \<Rightarrow> Bootstrap option \<Rightarrow> files \<Rightarrow> files \<times> unit result" where
  "setSafeToBootstrap uuid_ok df bootstrap fs =
     (case ReadStateFile df GaleraStateFileName fs of
        Inl e \<Rightarrow> (fs, Inl (if e = ErrNotExist then ErrNew ''galera state does not exist'' else ErrCtx ''error reading galera state'' e))
      | Inr bytes \<Rightarrow>
          (case GaleraState_Unmarshal uuid_ok bytes of
             Inl e \<Rightarrow> (fs, Inl (ErrCtx ''error unmarshalling galera state'' e))
           | Inr galeraState \<Rightarrow>
               (case GaleraState_Marshal uuid_ok (safeState bootstrap galeraState) of
                  Inl e \<Rightarrow> (fs, Inl (ErrCtx ''error marshaling galera state'' e))
                | Inr bytes' \<Rightarrow>
                    (case WriteStateFile df GaleraStateFileName bytes' fs of
                       (fs', x) \<Rightarrow> (fs', with_ctx ''error writing galera state'' x)))))"

definition agent_EnableBootstrap :: "(string \<Rightarrow> bool) \<Rightarrow> disk_faults \<Rightarrow> (Bootstrap result) option \<Rightarrow> files \<Rightarrow> files \<times> response" where
  "agent_EnableBootstrap uuid_ok df reqBody fs =
     (case decodeAndValidateBootstrap uuid_ok reqBody of
        Inl e \<Rightarrow> (fs, \<lparr>res_Code = 400, res_Body = ErrorBody ''bad request''\<rparr>)
      | Inr bootstrap \<Rightarrow>
          (case setSafeToBootstrap uuid_ok df bootstrap fs of
             (fs1, Inl e) \<Rightarrow> (fs1, WriteError ''error setting safe to bootstrap'')
           | (fs1, Inr _) \<Rightarrow>
               (case WriteConfigFile df BootstrapFileName BootstrapFile fs1 of
                  (fs2, Inl e) \<Rightarrow> (fs2, WriteError ''error writing bootstrap config'')
                | (fs2, Inr _) \<Rightarrow> (fs2, OK NoBody))))"

definition agent_DisableBootstrap :: "disk_faults \<Rightarrow> files \<Rightarrow> files \<times> response" where
  "agent_DisableBootstrap df fs =
     (case DeleteConfigFile df BootstrapFileName fs of
        (fs1, Inl e) \<Rightarrow> (fs1, if e = ErrNotExist then NotFound ''bootstrap config not found'' else WriteError ''error deleting bootstrap config'')
      | (fs1, Inr _) \<Rightarrow> (fs1, OK NoBody))"

section \<open>The client of the operator\<close>

text \<open>\<^verbatim>\<open>errors.NewError\<close> with the HTTP code: the operator only asks whether it is 404.\<close>

definition NewError :: "int \<Rightarrow> string \<Rightarrow> go_error" where
  "NewError code msg = (if code = 404 then ErrNotFound msg else ErrExt msg)"

definition handleResponse :: "response \<Rightarrow> body result" where
  "handleResponse res =
     (if res_Code res \<ge> 400
      then (case res_Body res of
              ErrorBody msg \<Rightarrow> Inl (NewError (res_Code res) msg)
            | _ \<Rightarrow> Inl (ErrCtx ''error decoding body into error'' (ErrExt ''EOF'')))
      else Inr (res_Body res))"

definition client_GetState :: "response \<Rightarrow> GaleraState result" where
  "client_GetState res =
     (case handleResponse res of
        Inl e \<Rightarrow> Inl e
      | Inr (StateBody s) \<Rightarrow> Inr s
      | Inr _ \<Rightarrow> Inl (ErrCtx ''error decoding body'' (ErrExt ''EOF'')))"

definition client_IsBootstrapEnabled :: "response \<Rightarrow> bool result" where
  "client_IsBootstrapEnabled res =
     (if res_Code res = 200 then Inr True
      else if res_Code res = 404 then Inr False
      else (case handleResponse res of Inl e \<Rightarrow> Inl e | Inr _ \<Rightarrow> Inr False))"

definition client_unit :: "response \<Rightarrow> unit result" where
  "client_unit res = (case handleResponse res of Inl e \<Rightarrow> Inl e | Inr _ \<Rightarrow> Inr ())"

text \<open>What a call of the operator to a reachable agent does to its files and what it answers; the operator
  reads a state that is not found as no state.\<close>

fun serve_agent :: "(string \<Rightarrow> bool) \<Rightarrow> disk_faults \<Rightarrow> agent_call \<Rightarrow> files \<Rightarrow> files \<times> answer" where
  "serve_agent uuid_ok df AgentHealth fs = (fs, ABool (Inr True))"
| "serve_agent uuid_ok df AgentGetState fs =
     (fs, AState (case client_GetState (agent_GetState uuid_ok df fs) of
        Inl e \<Rightarrow> if IsNotFound e then Inr None else Inl e
      | Inr s \<Rightarrow> Inr (Some s)))"
| "serve_agent uuid_ok df (AgentEnableBootstrap b) fs =
     (let (fs', res) = agent_EnableBootstrap uuid_ok df (map_option Inr b) fs in (fs', AUnit (client_unit res)))"
| "serve_agent uuid_ok df AgentDisableBootstrap fs =
     (let (fs', res) = agent_DisableBootstrap df fs in (fs', AUnit (client_unit res)))"

section \<open>What the agent promises\<close>

definition no_faults :: disk_faults where
  "no_faults = \<lparr>df_read = (\<lambda>_ _. None), df_write = (\<lambda>_ _. None), df_remove = (\<lambda>_ _. None), df_stat = (\<lambda>_ _. None)\<rparr>"

text \<open>The interface of a directory of the file manager, on a disk that works.\<close>

locale directory =
  fixes rd :: "string \<Rightarrow> 'f \<Rightarrow> string result" and wr :: "string \<Rightarrow> string \<Rightarrow> 'f \<Rightarrow> 'f \<times> unit result"
    and rm :: "string \<Rightarrow> 'f \<Rightarrow> 'f \<times> unit result" and ex :: "string \<Rightarrow> 'f \<Rightarrow> bool result"
  assumes wr_ok: "snd (wr n b f) = Inr ()"
    and rd_wr: "rd n' (fst (wr n b f)) = (if n' = n then Inr b else rd n' f)"
    and rm_present: "rd n f = Inr b \<Longrightarrow> snd (rm n f) = Inr () \<and> rd n' (fst (rm n f)) = (if n' = n then Inl ErrNotExist else rd n' f)"
    and rm_absent: "rd n f = Inl e \<Longrightarrow> rm n f = (f, Inl ErrNotExist)"
    and ex_iff: "ex n f = Inr (\<exists>b. rd n f = Inr b)"
begin

text \<open>Writing a file and removing it.\<close>

lemma write_remove:
  assumes "f' = fst (wr n b f)" "f'' = fst (rm n f')"
  shows "ex n f' = Inr True" "snd (rm n f') = Inr ()" "ex n f'' = Inr False" "rm n f'' = (f'', Inl ErrNotExist)"
    "n' \<noteq> n \<Longrightarrow> rd n' f'' = rd n' f"
proof -
  have w: "rd n f' = Inr b" using assms by (simp add: rd_wr)
  note r = rm_present [OF w]
  show "ex n f' = Inr True" using w by (simp add: ex_iff)
  show "snd (rm n f') = Inr ()" using r by blast
  have n: "rd n f'' = Inl ErrNotExist" using r [of n] assms(2) by simp
  then show "ex n f'' = Inr False" "rm n f'' = (f'', Inl ErrNotExist)" by (simp_all add: ex_iff rm_absent)
  show "n' \<noteq> n \<Longrightarrow> rd n' f'' = rd n' f" using r [of n'] assms by (simp add: rd_wr)
qed

end

interpretation config_dir: directory "ReadConfigFile no_faults" "WriteConfigFile no_faults" "DeleteConfigFile no_faults"
    "ConfigFileExists no_faults"
  by unfold_locales (auto simp: file_defs no_faults_def put_def split: option.splits)

interpretation state_dir: directory "ReadStateFile no_faults" "WriteStateFile no_faults" "DeleteStateFile no_faults"
    "StateFileExists no_faults"
  by unfold_locales (auto simp: file_defs no_faults_def put_def split: option.splits)

section \<open>Probes\<close>

text \<open>The liveness and readiness of the Pod, asked of the agent by the kubelet. Reading the environment of
  the Pod is the argument \<open>podEnv\<close>, the index of the Pod \<open>i\<close>. An object that cannot be read is the zero
  object: it has no conditions and no Galera section. The answer is the HTTP code.\<close>

definition localHealth :: "unit result \<Rightarrow> int \<Rightarrow> ('g, 'u, int) op \<Rightarrow> ('g, 'u, int) op" where
  "localHealth podEnv i k =
     (case podEnv of
        Inl e \<Rightarrow> Ret 500
      | Inr _ \<Rightarrow> bindP (ask as_unit (SqlConnect i)) (\<lambda>c. case c of
          Inl e \<Rightarrow> Ret 500
        | Inr _ \<Rightarrow> bindP (IsPodHealthy i) (\<lambda>h. case h of
            Inl e \<Rightarrow> Ret 500
          | Inr healthy \<Rightarrow> if \<not> healthy then Ret 500 else k)))"

definition Liveness :: "meta_api \<Rightarrow> NamespacedName \<Rightarrow> unit result \<Rightarrow> int \<Rightarrow> ('g, 'u, int) op" where
  "Liveness M mariadbKey podEnv i =
     bindP (ask as_mariadb (GetMariaDB mariadbKey)) (\<lambda>x.
       if (case x of Inl e \<Rightarrow> IsStatusConditionFalse M [] ConditionTypeGaleraReady | Inr mdb \<Rightarrow> HasGaleraNotReadyCondition M mdb)
       then Ret 200
       else localHealth podEnv i (Ret 200))"

definition Readiness :: "NamespacedName \<Rightarrow> unit result \<Rightarrow> int \<Rightarrow> ('g, 'u, int) op" where
  "Readiness mariadbKey podEnv i =
     bindP (ask as_mariadb (GetMariaDB mariadbKey)) (\<lambda>x.
     localHealth podEnv i
       (bindP (ask as_text (SqlStatus i ''wsrep_local_state_comment'')) (\<lambda>s. case s of
          Inl e \<Rightarrow> Ret 500
        | Inr state \<Rightarrow>
            if state = ''Synced'' then Ret 200
            else let galera = Deref (case x of Inl e \<Rightarrow> None | Inr mdb \<Rightarrow> sp_Galera (m_Spec mdb)) zeroGalera;
                     availableWhenDonor = Deref (g_AvailableWhenDonor galera) False
                 in Ret (if availableWhenDonor \<and> state = ''Donor/Desynced'' then 200 else 500))))"

subsection \<open>Enabling the bootstrap\<close>

lemma file_names [simp]: "put ConfigDir n b fs StateDir n' = fs StateDir n'" "put StateDir n b fs ConfigDir n' = fs ConfigDir n'"
  "put d n b fs d n = b"
  by (simp_all add: put_def)

text \<open>
  C17: enabling the bootstrap is safe whatever the disk does. When the agent answers 200, its state file
  holds the old state marked safe to bootstrap, with the position sent when one was sent, and the
  bootstrap configuration is in place. When it answers anything else, the bootstrap configuration is as
  before, unless it is this very file that could not be written; and when the request was bad, every file
  is as before.
\<close>

theorem agent_EnableBootstrap_safe:
  assumes "agent_EnableBootstrap uuid_ok df reqBody fs = (fs', res)"
  shows "(res_Code res = 200 \<longrightarrow> (\<exists>old g new b. fs StateDir GaleraStateFileName = Some old \<and> GaleraState_Unmarshal uuid_ok old = Inr g \<and>
        decodeAndValidateBootstrap uuid_ok reqBody = Inr b \<and> GaleraState_Marshal uuid_ok (safeState b g) = Inr new \<and>
        fs' StateDir GaleraStateFileName = Some new \<and> fs' ConfigDir BootstrapFileName = Some BootstrapFile)) \<and>
    (res_Code res \<noteq> 200 \<and> df_write df ConfigDir BootstrapFileName = None \<longrightarrow>
        fs' ConfigDir BootstrapFileName = fs ConfigDir BootstrapFileName) \<and>
    (res_Code res = 400 \<longleftrightarrow> isl (decodeAndValidateBootstrap uuid_ok reqBody)) \<and> (res_Code res = 400 \<longrightarrow> fs' = fs)"
proof (cases "decodeAndValidateBootstrap uuid_ok reqBody")
  case (Inl e)
  then show ?thesis using assms by (auto simp: agent_EnableBootstrap_def)
next
  case (Inr b)
  obtain fs1 x where s: "setSafeToBootstrap uuid_ok df b fs = (fs1, x)" by fastforce
  have cfg: "fs1 ConfigDir n = fs ConfigDir n" for n
    using s by (auto simp: setSafeToBootstrap_def file_defs split: sum.splits option.splits prod.splits if_splits)
  have ok: "\<exists>old g new. fs StateDir GaleraStateFileName = Some old \<and> GaleraState_Unmarshal uuid_ok old = Inr g \<and>
      GaleraState_Marshal uuid_ok (safeState b g) = Inr new \<and> fs1 StateDir GaleraStateFileName = Some new" if "x = Inr ()"
    using s that by (auto simp: setSafeToBootstrap_def file_defs split: sum.splits option.splits prod.splits if_splits)
  obtain fs2 y where w: "WriteConfigFile df BootstrapFileName BootstrapFile fs1 = (fs2, y)" by fastforce
  show ?thesis
    using assms Inr s w ok cfg
    by (cases x; cases y)
      (auto simp: agent_EnableBootstrap_def WriteError_def OK_def file_defs put_def split: option.splits)
qed

definition exampleState :: GaleraState where
  "exampleState = \<lparr>gs_Version = ''2.1'', gs_UUID = ''05f061bd-02a3-11ee-857c-aa370ff6666b'', gs_Seqno = 1, gs_SafeToBootstrap = False\<rparr>"

definition examplePosition :: Bootstrap where
  "examplePosition = \<lparr>b_UUID = ''05f061bd-02a3-11ee-857c-aa370ff6666b'', b_Seqno = 15\<rparr>"

lemma exampleState_file:
  "\<exists>raw. GaleraState_Marshal (\<lambda>u. length u = 36) exampleState = Inr raw \<and> GaleraState_Unmarshal (\<lambda>u. length u = 36) raw = Inr exampleState"
  by (rule Marshal_Unmarshal)
    (simp_all add: exampleState_def plain_field_def plain_char_def is_space_def html_escape_char_def int64_def)

theorem agent_EnableBootstrap_safe_witness:
  "\<exists>fs' res. agent_EnableBootstrap (\<lambda>u. length u = 36) no_faults (Some (Inr (examplePosition\<lparr>b_UUID := ''mdb-0''\<rparr>))) (\<lambda>_ _. None) = (fs', res) \<and>
    res_Code res = 400 \<and> fs' = (\<lambda>_ _. None)"
proof -
  let ?req = "Some (Inr (examplePosition\<lparr>b_UUID := ''mdb-0''\<rparr>))"
  have bad: "isl (decodeAndValidateBootstrap (\<lambda>u. length u = 36) ?req)"
    by (simp add: decodeAndValidateBootstrap_def Bootstrap_Validate_def)
  obtain fs' res where "agent_EnableBootstrap (\<lambda>u. length u = 36) no_faults ?req (\<lambda>_ _. None) = (fs', res)" by fastforce
  with agent_EnableBootstrap_safe [OF this] bad show ?thesis by blast
qed



subsection \<open>Probes\<close>

text \<open>The runs of the check both probes share.\<close>

lemma IsPodHealthy_bind:
  "bindP (IsPodHealthy i) (\<lambda>h. case h of Inl e \<Rightarrow> p | Inr healthy \<Rightarrow> f healthy) =
     bindP (ask as_text (SqlStatus i ''wsrep_cluster_status'')) (\<lambda>x.
       case with_ctx ''error getting cluster status'' x of Inl e \<Rightarrow> p | Inr status \<Rightarrow> f (status = ''Primary''))"
  unfolding IsPodHealthy_def tryP_def ctxP_def bindP_assoc
  by (rule arg_cong [where f = "bindP _"]) (auto split: sum.split)

lemma exec_localHealth_200:
  assumes "\<And>t. exec grp k t 200 \<longleftrightarrow> K t"
  shows "exec grp (localHealth podEnv i k) t 200 \<longleftrightarrow>
    (\<exists>r1 r2 t'. podEnv = Inr () \<and> t = (SqlConnect i, r1) # (SqlStatus i ''wsrep_cluster_status'', r2) # t' \<and>
       as_unit r1 = Inr () \<and> as_text r2 = Inr ''Primary'' \<and> K t')"
proof (cases podEnv)
  case (Inr u)
  have "exec grp (bindP (IsPodHealthy i) (\<lambda>h. case h of Inl e \<Rightarrow> Ret 500 | Inr healthy \<Rightarrow> if \<not> healthy then Ret 500 else k)) t' 200 \<longleftrightarrow>
      (\<exists>r2 t''. t' = (SqlStatus i ''wsrep_cluster_status'', r2) # t'' \<and> as_text r2 = Inr ''Primary'' \<and> K t'')" for t'
  proof -
    have "exec grp (case with_ctx msg x of Inl e \<Rightarrow> Ret 500
        | Inr status \<Rightarrow> if \<not> (status = ''Primary'') then Ret 500 else k) t'' 200 \<longleftrightarrow> x = Inr ''Primary'' \<and> K t''" for msg x t''
      by (cases x) (auto simp: assms)
    then show ?thesis unfolding IsPodHealthy_bind exec_ask_bind by auto
  qed
  then show ?thesis using Inr by (auto simp: localHealth_def exec_ask_bind exec_case_sum)
qed (simp add: localHealth_def)

definition galeraNotReady :: "meta_api \<Rightarrow> answer \<Rightarrow> bool" where
  "galeraNotReady M r = (case as_mariadb r of Inl e \<Rightarrow> IsStatusConditionFalse M [] ConditionTypeGaleraReady
     | Inr mdb \<Rightarrow> HasGaleraNotReadyCondition M mdb)"

definition donorAvailable :: "answer \<Rightarrow> bool" where
  "donorAvailable r \<longleftrightarrow> (\<exists>m g. as_mariadb r = Inr m \<and> sp_Galera (m_Spec m) = Some g \<and> g_AvailableWhenDonor g = Some True)"

lemma donorAvailable_iff:
  "Deref (g_AvailableWhenDonor (Deref (case as_mariadb r of Inl e \<Rightarrow> None | Inr mdb \<Rightarrow> sp_Galera (m_Spec mdb)) zeroGalera)) False = donorAvailable r"
  by (auto simp: donorAvailable_def Deref_def zeroGalera_def split: sum.splits option.splits)

text \<open>
  The probes. A Pod is reported ready exactly when its database can be reached, is part of the
  primary component and is synced, or is a donor and the cluster is configured to be available then. A Pod
  is reported alive when the cluster is marked as not ready, whatever state its database is in, so that a
  recovery is not disturbed by restarts, and otherwise exactly when its database can be reached and is part
  of the primary component.
\<close>

theorem probes_correct:
  "(exec grp (Readiness key podEnv i :: ('g, 'u, int) op) t 200 \<longleftrightarrow>
     (\<exists>r r1 r2 r3 state. podEnv = Inr () \<and>
       t = [(GetMariaDB key, r), (SqlConnect i, r1), (SqlStatus i ''wsrep_cluster_status'', r2), (SqlStatus i ''wsrep_local_state_comment'', r3)] \<and>
       as_unit r1 = Inr () \<and> as_text r2 = Inr ''Primary'' \<and> as_text r3 = Inr state \<and>
       (state = ''Synced'' \<or> (state = ''Donor/Desynced'' \<and> donorAvailable r)))) \<and>
   (exec grp (Liveness M key podEnv i :: ('g, 'u, int) op) t 200 \<longleftrightarrow>
     (\<exists>r. if galeraNotReady M r then t = [(GetMariaDB key, r)]
       else \<exists>r1 r2. podEnv = Inr () \<and> t = [(GetMariaDB key, r), (SqlConnect i, r1), (SqlStatus i ''wsrep_cluster_status'', r2)] \<and>
         as_unit r1 = Inr () \<and> as_text r2 = Inr ''Primary''))"
proof
  let ?judge = "\<lambda>x s. (case s of
          Inl e \<Rightarrow> Ret 500
        | Inr state \<Rightarrow>
            if state = ''Synced'' then Ret 200
            else let galera = Deref (case x of Inl e \<Rightarrow> None | Inr mdb \<Rightarrow> sp_Galera (m_Spec mdb)) zeroGalera;
                     availableWhenDonor = Deref (g_AvailableWhenDonor galera) False
                 in Ret (if availableWhenDonor \<and> state = ''Donor/Desynced'' then 200 else 500)) :: ('g, 'u, int) op"
  have judge: "exec grp (?judge (as_mariadb r) x) t' 200 \<longleftrightarrow> t' = [] \<and> (\<exists>state. x = Inr state \<and>
      (state = ''Synced'' \<or> (state = ''Donor/Desynced'' \<and> donorAvailable r)))" for r x t'
    unfolding Let_def donorAvailable_iff by (cases x) auto
  have "exec grp (bindP (ask as_text (SqlStatus i ''wsrep_local_state_comment'')) (?judge (as_mariadb r))) t' 200 \<longleftrightarrow> (\<exists>r3 state. t' = [(SqlStatus i ''wsrep_local_state_comment'', r3)] \<and>
      as_text r3 = Inr state \<and> (state = ''Synced'' \<or> (state = ''Donor/Desynced'' \<and> donorAvailable r)))" for r t'
    unfolding exec_ask_bind judge by auto
  from exec_localHealth_200 [OF this] show "exec grp (Readiness key podEnv i :: ('g, 'u, int) op) t 200 \<longleftrightarrow>
     (\<exists>r r1 r2 r3 state. podEnv = Inr () \<and>
       t = [(GetMariaDB key, r), (SqlConnect i, r1), (SqlStatus i ''wsrep_cluster_status'', r2), (SqlStatus i ''wsrep_local_state_comment'', r3)] \<and>
       as_unit r1 = Inr () \<and> as_text r2 = Inr ''Primary'' \<and> as_text r3 = Inr state \<and>
       (state = ''Synced'' \<or> (state = ''Donor/Desynced'' \<and> donorAvailable r)))"
    unfolding Readiness_def exec_ask_bind by auto
next
  have "exec grp (Ret 200 :: ('g, 'u, int) op) t' 200 \<longleftrightarrow> t' = []" for t' by simp
  note alive = exec_localHealth_200 [OF this]
  show "exec grp (Liveness M key podEnv i :: ('g, 'u, int) op) t 200 \<longleftrightarrow>
     (\<exists>r. if galeraNotReady M r then t = [(GetMariaDB key, r)]
       else \<exists>r1 r2. podEnv = Inr () \<and> t = [(GetMariaDB key, r), (SqlConnect i, r1), (SqlStatus i ''wsrep_cluster_status'', r2)] \<and>
         as_unit r1 = Inr () \<and> as_text r2 = Inr ''Primary'')"
    unfolding Liveness_def exec_ask_bind galeraNotReady_def [symmetric] by (auto simp: alive split: if_splits)
qed

end
