(* ===== verification/Sql_Reconciler.thy ===== *)
theory Sql_Reconciler
  imports Health
begin

text \<open>
  \<^verbatim>\<open>pkg/controller/sql\<close>: the reconciler and the finalizer that the controllers of users, grants and databases
  share, with the reference resolver (\<^verbatim>\<open>pkg/refresolver\<close>) and the connection to a database
  (\<^verbatim>\<open>pkg/sql\<close>, \<^verbatim>\<open>NewClientWithMariaDB\<close>). The interfaces \<^verbatim>\<open>Resource\<close>, \<^verbatim>\<open>WrappedReconciler\<close> and
  \<^verbatim>\<open>WrappedFinalizer\<close> are records of methods. An operation has the calls of the controllers, tagged
  \<open>Op\<close>, and its own: reading and patching the resource, connecting to a database and executing a statement
  there. The resource is reached through a pointer, so an operation returns it as it is then: a patch
  leaves the object of the server, a failed patch the changed one. \<open>M\<close> is the condition library, \<open>domain\<close>
  the cluster domain; an object read through the manager's client carries its kind.
\<close>

section \<open>Databases\<close>

record MariaDBRef =
  ref_Name :: string
  ref_Namespace :: string
  ref_Kind :: string
  ref_WaitForIt :: bool

definition ExternalMariaDBKind :: string where
  "ExternalMariaDBKind = ''ExternalMariaDB''"

record ExternalMariaDB =
  em_ObjectMeta :: ObjectMeta
  em_Host :: string
  em_Port :: int
  em_Username :: "string option"
  em_PasswordSecretKeyRef :: "SecretKeySelector option"
  em_TLS :: "TLS option"

datatype MariaDBObject = InCluster MariaDB | External ExternalMariaDB

definition ExternalMariaDB_SetDefaults :: "ExternalMariaDB \<Rightarrow> ExternalMariaDB" where
  "ExternalMariaDB_SetDefaults e = (if em_Port e = 0 then e\<lparr>em_Port := 3306\<rparr> else e)"

text \<open>The interface \<^verbatim>\<open>MariaDBObject\<close> on both kinds.\<close>

fun obj_Meta :: "MariaDBObject \<Rightarrow> ObjectMeta" where
  "obj_Meta (InCluster m) = m_ObjectMeta m"
| "obj_Meta (External e) = em_ObjectMeta e"

fun obj_GetHost :: "string \<Rightarrow> MariaDBObject \<Rightarrow> string" where
  "obj_GetHost domain (InCluster m) = GetHost domain m"
| "obj_GetHost domain (External e) = em_Host e"

fun obj_GetPort :: "MariaDBObject \<Rightarrow> int" where
  "obj_GetPort (InCluster m) = sp_Port (m_Spec m)"
| "obj_GetPort (External e) = em_Port e"

fun obj_GetSUName :: "MariaDBObject \<Rightarrow> string" where
  "obj_GetSUName (InCluster m) = ''root''"
| "obj_GetSUName (External e) = Deref (em_Username e) ''root''"

fun obj_GetSUCredential :: "MariaDBObject \<Rightarrow> SecretKeySelector option" where
  "obj_GetSUCredential (InCluster m) =
     (let k = sp_RootPasswordSecretKeyRef (m_Spec m) in Some \<lparr>ss_Name = sk_Name k, ss_Key = sk_Key k\<rparr>)"
| "obj_GetSUCredential (External e) = em_PasswordSecretKeyRef e"

fun obj_IsTLSEnabled :: "MariaDBObject \<Rightarrow> bool" where
  "obj_IsTLSEnabled (InCluster m) = IsTLSEnabled m"
| "obj_IsTLSEnabled (External e) = tls_Enabled (Deref (em_TLS e) zeroTLS)"

fun obj_TLSCABundleSecretKeyRef :: "MariaDBObject \<Rightarrow> SecretKeySelector" where
  "obj_TLSCABundleSecretKeyRef (InCluster m) = TLSCABundleSecretKeyRef m"
| "obj_TLSCABundleSecretKeyRef (External e) =
     (case tls_ServerCASecretRef (Deref (em_TLS e) zeroTLS) of
        None \<Rightarrow> \<lparr>ss_Name = Name (em_ObjectMeta e) @ ''-ca-bundle'', ss_Key = ''ca.crt''\<rparr>
      | Some n \<Rightarrow> \<lparr>ss_Name = n, ss_Key = ''ca.crt''\<rparr>)"

fun obj_TLSClientCertSecretKey :: "MariaDBObject \<Rightarrow> NamespacedName" where
  "obj_TLSClientCertSecretKey (InCluster m) = TLSClientCertSecretKey m"
| "obj_TLSClientCertSecretKey (External e) =
     (let tls = Deref (em_TLS e) zeroTLS; ns = Namespace (em_ObjectMeta e) in
      case tls_ClientCertSecretRef tls of
        Some n \<Rightarrow> if tls_Enabled tls then \<lparr>nn_Name = n, nn_Namespace = ns\<rparr>
                  else \<lparr>nn_Name = Name (em_ObjectMeta e) @ ''-client-cert'', nn_Namespace = ns\<rparr>
      | None \<Rightarrow> \<lparr>nn_Name = Name (em_ObjectMeta e) @ ''-client-cert'', nn_Namespace = ns\<rparr>)"

section \<open>Calls\<close>

record ConnTLS =
  tl_Name :: string
  tl_Namespace :: string
  tl_CACert :: string
  tl_ClientName :: string
  tl_ClientCert :: string
  tl_ClientKey :: string

record ConnOpts =
  co_Username :: string
  co_Password :: string
  co_Host :: string
  co_Port :: int
  co_TLS :: "ConnTLS option"

datatype 'o rcall =
    Op call
  | GetExternalMariaDB NamespacedName
  | GetResource NamespacedName
  | PatchResource 'o
  | PatchResourceStatus 'o
  | Connect ConnOpts
  | Stmt ConnOpts sql_stmt
  | RandInt63

datatype 'o ranswer =
    OpA answer
  | AExternal "ExternalMariaDB result"
  | AResource "'o result"
  | ARand int

fun un_op :: "'o ranswer \<Rightarrow> answer" where "un_op (OpA a) = a" | "un_op _ = AUnit (Inl unexpected)"
fun as_external where "as_external (AExternal x) = x" | "as_external _ = Inl unexpected"
fun as_resource where "as_resource (AResource x) = x" | "as_resource _ = Inl unexpected"
fun as_rand where "as_rand (ARand n) = n" | "as_rand _ = 0"

abbreviation ok :: "'o ranswer \<Rightarrow> bool" where
  "ok r \<equiv> as_unit (un_op r) = Inr ()"

type_synonym 'o rtrace = "('o rcall, 'o ranswer) trace"
type_synonym ('o, 'a) rop = "('o rcall, 'o ranswer, unit, unit, 'a) prog"
type_synonym 'o on_resource = "('o, 'o \<times> unit result) rop"

abbreviation opP :: "(unit, unit, 'a) op \<Rightarrow> ('o, 'a) rop" where
  "opP p \<equiv> embedP Op un_op p"

definition askR :: "('o ranswer \<Rightarrow> 'a) \<Rightarrow> 'o rcall \<Rightarrow> ('o, 'a) rop" where
  "askR sel c = Call c (\<lambda>r. Ret (sel r))"

lemma exec_askR [simp]: "exec grp (askR sel c) t x \<longleftrightarrow> (\<exists>r. t = [(c, r)] \<and> sel r = x)"
  by (auto simp: askR_def exec_Call)

lemma all_calls_askR [simp]: "all_calls G P (askR sel c) \<longleftrightarrow> P c"
  by (simp add: askR_def)

lemma run_askR [simp]: "run rg env h (askR sel c) = Some ([(c, env h c)], sel (env h c))"
  by (simp add: askR_def)

text \<open>A method of the SQL client that builds a statement and executes it: nothing is sent when the text
  cannot be built.\<close>

definition execStmt :: "ConnOpts \<Rightarrow> sql_stmt \<Rightarrow> ('o, unit result) rop" where
  "execStmt client s =
     (case stmt_text s of Inl e \<Rightarrow> Ret (Inl e) | Inr _ \<Rightarrow> askR (\<lambda>r. as_unit (un_op r)) (Stmt client s))"

text \<open>A patch of the resource: \<open>c\<close> says whether of the object or of its status.\<close>

definition patchResource :: "string \<Rightarrow> ('o \<Rightarrow> 'o rcall) \<Rightarrow> 'o \<Rightarrow> 'o on_resource" where
  "patchResource msg c o' =
     bindP (askR as_resource (c o')) (\<lambda>x. case x of
       Inl e \<Rightarrow> Ret (o', Inl (ErrCtx msg e))
     | Inr server \<Rightarrow> Ret (server, Inr ()))"

section \<open>References\<close>

definition refKey :: "MariaDBRef \<Rightarrow> string \<Rightarrow> NamespacedName" where
  "refKey ref namespace =
     \<lparr>nn_Name = ref_Name ref, nn_Namespace = (if ref_Namespace ref \<noteq> '''' then ref_Namespace ref else namespace)\<rparr>"

definition RefResolver_MariaDB :: "MariaDBRef \<Rightarrow> string \<Rightarrow> ('o, MariaDB result) rop" where
  "RefResolver_MariaDB ref namespace = opP (ask as_mariadb (GetMariaDB (refKey ref namespace)))"

definition RefResolver_MariaDBObject :: "MariaDBRef \<Rightarrow> string \<Rightarrow> ('o, MariaDBObject result) rop" where
  "RefResolver_MariaDBObject ref namespace =
     (if ref_Kind ref = ExternalMariaDBKind
      then tryP (askR as_external (GetExternalMariaDB (refKey ref namespace))) (\<lambda>e. Ret (Inr (External e)))
      else tryP (opP (ask as_mariadb (GetMariaDB (refKey ref namespace)))) (\<lambda>m. Ret (Inr (InCluster m))))"

definition readSecret :: "SecretKeySelector \<Rightarrow> string \<Rightarrow> ('o, string result) rop" where
  "readSecret selector namespace = opP (ask as_text (SecretKeyRef selector namespace))"

section \<open>Connecting\<close>

definition clientTLS :: "MariaDBObject \<Rightarrow> ('o, ConnTLS option result) rop" where
  "clientTLS mariadb =
     (if obj_IsTLSEnabled mariadb then
        (let ns = Namespace (obj_Meta mariadb); clientSecret = nn_Name (obj_TLSClientCertSecretKey mariadb) in
         tryP (ctxP ''error getting CA certificate'' (readSecret (obj_TLSCABundleSecretKeyRef mariadb) ns)) (\<lambda>caCert.
         tryP (ctxP ''error getting client certificate'' (readSecret \<lparr>ss_Name = clientSecret, ss_Key = ''tls.crt''\<rparr> ns)) (\<lambda>cert.
         tryP (ctxP ''error getting client private key'' (readSecret \<lparr>ss_Name = clientSecret, ss_Key = ''tls.key''\<rparr> ns)) (\<lambda>key.
           Ret (Inr (Some \<lparr>tl_Name = Name (obj_Meta mariadb), tl_Namespace = ns, tl_CACert = caCert,
             tl_ClientName = clientSecret, tl_ClientCert = cert, tl_ClientKey = key\<rparr>))))))
      else Ret (Inr None))"

definition NewClient :: "ConnOpts \<Rightarrow> ('o, ConnOpts result) rop" where
  "NewClient opts =
     (if co_Host opts = '''' \<or> co_Port opts = 0
      then Ret (Inl (ErrCtx ''error building DSN'' (ErrNew ''invalid opts: host and port are mandatory'')))
      else tryP (askR (\<lambda>r. as_unit (un_op r)) (Connect opts)) (\<lambda>_. Ret (Inr opts)))"

definition NewClientWithMariaDB :: "string \<Rightarrow> MariaDBObject \<Rightarrow> ('o, ConnOpts result) rop" where
  "NewClientWithMariaDB domain mariadb =
     (case obj_GetSUCredential mariadb of
        None \<Rightarrow> Ret (Inl (ErrNew ''error: superuser credential is nil''))
      | Some credential \<Rightarrow>
          tryP (ctxP ''error reading root password secret'' (readSecret credential (Namespace (obj_Meta mariadb)))) (\<lambda>password.
          tryP (clientTLS mariadb) (\<lambda>tls.
            NewClient \<lparr>co_Username = obj_GetSUName mariadb, co_Password = password, co_Host = obj_GetHost domain mariadb,
              co_Port = obj_GetPort mariadb, co_TLS = tls\<rparr>)))"

definition waitForMariaDB :: "MariaDBObject \<Rightarrow> ('o, CtrlResult result) rop" where
  "waitForMariaDB mdb =
     (case mdb of
        External _ \<Rightarrow> Ret (Inr zeroResult)
      | InCluster m \<Rightarrow>
          tryP (opP (IsStatefulSetHealthy (keyOf m)
                  [WithDesiredReplicas (m_Replicas m), WithPort (sp_Port (m_Spec m)), WithEndpointPolicy EndpointPolicyAll]))
            (\<lambda>healthy. Ret (Inr (if healthy then zeroResult else requeueAfter second))))"

section \<open>The interfaces\<close>

datatype CleanupPolicy = CleanupPolicySkip | CleanupPolicyDelete | CleanupPolicyOther string

definition CleanupPolicy_Validate :: "CleanupPolicy \<Rightarrow> unit result" where
  "CleanupPolicy_Validate c =
     (case c of CleanupPolicyOther _ \<Rightarrow> Inl (ErrNew ''invalid cleanupPolicy'') | _ \<Rightarrow> Inr ())"

record 'o Resource =
  r_Name :: "'o \<Rightarrow> string"
  r_Namespace :: "'o \<Rightarrow> string"
  r_MariaDBRef :: "'o \<Rightarrow> MariaDBRef"
  r_IsBeingDeleted :: "'o \<Rightarrow> bool"
  r_RequeueInterval :: "'o \<Rightarrow> int option"
  r_RetryInterval :: "'o \<Rightarrow> int option"
  r_CleanupPolicy :: "'o \<Rightarrow> CleanupPolicy option"

text \<open>A patcher changes the conditions: the status of every SQL resource stores them with the condition
  library.\<close>

record 'o WrappedReconciler =
  wr_Reconcile :: "ConnOpts \<Rightarrow> 'o \<Rightarrow> 'o on_resource"
  wr_PatchStatus :: "(Condition list \<Rightarrow> Condition list) \<Rightarrow> 'o \<Rightarrow> 'o on_resource"

record 'o WrappedFinalizer =
  wf_AddFinalizer :: "'o \<Rightarrow> 'o on_resource"
  wf_RemoveFinalizer :: "'o \<Rightarrow> 'o on_resource"
  wf_ContainsFinalizer :: "'o \<Rightarrow> bool"
  wf_Reconcile :: "ConnOpts \<Rightarrow> 'o \<Rightarrow> ('o, unit result) rop"

record SqlOptions =
  so_RequeueInterval :: int
  so_RequeueMaxOffset :: int

section \<open>The finalizer\<close>

text \<open>An operation on the object whose success is a result of the reconciliation.\<close>

definition doneWith :: "string \<Rightarrow> 'o on_resource \<Rightarrow> ('o, 'o \<times> CtrlResult result) rop" where
  "doneWith msg p = bindP p (\<lambda>(o', x). Ret (o', and_then (with_ctx msg x) (\<lambda>_. Inr zeroResult)))"

definition SqlFinalizer_AddFinalizer :: "'o WrappedFinalizer \<Rightarrow> 'o \<Rightarrow> 'o on_resource" where
  "SqlFinalizer_AddFinalizer fz ob =
     (if wf_ContainsFinalizer fz ob then Ret (ob, Inr ())
      else bindP (wf_AddFinalizer fz ob) (\<lambda>(o', x). Ret (o', with_ctx ''error adding finalizer in TemplateFinalizer'' x)))"

definition cleanUp :: "'o Resource \<Rightarrow> 'o WrappedFinalizer \<Rightarrow> ConnOpts \<Rightarrow> 'o \<Rightarrow> ('o, 'o \<times> CtrlResult result) rop" where
  "cleanUp R fz client ob =
     bindP (if Deref (r_CleanupPolicy R ob) CleanupPolicyDelete = CleanupPolicyDelete
            then ctxP ''error reconciling in TemplateFinalizer'' (wf_Reconcile fz client ob) else Ret (Inr ()))
       (\<lambda>x. case x of
          Inl e \<Rightarrow> Ret (ob, Inl e)
        | Inr _ \<Rightarrow> doneWith ''error removing finalizer in TemplateFinalizer'' (wf_RemoveFinalizer fz ob))"

text \<open>The finalizer once the answer for the MariaDB is there.\<close>

definition finalizeFor :: "string \<Rightarrow> 'o Resource \<Rightarrow> 'o WrappedFinalizer \<Rightarrow> 'o \<Rightarrow> MariaDB result \<Rightarrow> ('o, 'o \<times> CtrlResult result) rop" where
  "finalizeFor domain R fz ob x = (case x of
       Inl e \<Rightarrow> if IsNotFound e then doneWith ''error removing finalizer'' (wf_RemoveFinalizer fz ob)
                else Ret (ob, Inl (ErrCtx ''error getting MariaDB'' e))
     | Inr mariadb \<Rightarrow>
         if m_DeletionTimestamp mariadb \<noteq> None then doneWith ''error removing finalizer'' (wf_RemoveFinalizer fz ob)
         else bindP (waitForMariaDB (InCluster mariadb)) (\<lambda>w. case w of
           Inl e \<Rightarrow> Ret (ob, Inl e)
         | Inr res \<Rightarrow>
             if res \<noteq> zeroResult then Ret (ob, Inr res)
             else bindP (NewClientWithMariaDB domain (InCluster mariadb)) (\<lambda>c. case c of
               Inl e \<Rightarrow> Ret (ob, Inl (ErrCtx ''error connecting to MariaDB'' e))
             | Inr client \<Rightarrow> cleanUp R fz client ob)))"

definition Finalize :: "string \<Rightarrow> 'o Resource \<Rightarrow> 'o WrappedFinalizer \<Rightarrow> 'o \<Rightarrow> ('o, 'o \<times> CtrlResult result) rop" where
  "Finalize domain R fz ob =
     (if \<not> wf_ContainsFinalizer fz ob then Ret (ob, Inr zeroResult)
      else bindP (RefResolver_MariaDB (r_MariaDBRef R ob) (r_Namespace R ob)) (finalizeFor domain R fz ob))"

section \<open>The reconciler\<close>

definition wrap64 :: "int \<Rightarrow> int" where
  "wrap64 i = (i + 2 ^ 63) mod 2 ^ 64 - 2 ^ 63"

definition addRequeueIntervalOffset :: "SqlOptions \<Rightarrow> int \<Rightarrow> ('o, int) rop" where
  "addRequeueIntervalOffset opts d =
     (if so_RequeueMaxOffset opts > 0
      then bindP (askR as_rand RandInt63) (\<lambda>n. Ret (wrap64 (d + n mod so_RequeueMaxOffset opts)))
      else Ret d)"

definition retryResult :: "'o Resource \<Rightarrow> 'o \<Rightarrow> go_error list \<Rightarrow> CtrlResult" where
  "retryResult R ob errs =
     (case r_RetryInterval R ob of
        Some d \<Rightarrow> requeueAfter d
      | None \<Rightarrow> if errs \<noteq> [] then requeue else zeroResult)"

definition requeueResult :: "SqlOptions \<Rightarrow> 'o Resource \<Rightarrow> 'o \<Rightarrow> go_error list \<Rightarrow> ('o, CtrlResult) rop" where
  "requeueResult opts R ob errs =
     (if errs \<noteq> [] then Ret requeue
      else case r_RequeueInterval R ob of
        Some d \<Rightarrow> bindP (addRequeueIntervalOffset opts d) (\<lambda>d'. Ret (requeueAfter d'))
      | None \<Rightarrow>
          if so_RequeueInterval opts > 0
          then bindP (addRequeueIntervalOffset opts (so_RequeueInterval opts)) (\<lambda>d'. Ret (requeueAfter d'))
          else Ret zeroResult)"

definition errs_of :: "'a result \<Rightarrow> go_error list" where
  "errs_of x = (case x of Inl e \<Rightarrow> [e] | Inr _ \<Rightarrow> [])"

lemma errs_of_simps [simp]: "errs_of (Inl e) = [e]" "errs_of (Inr a) = []"
  by (simp_all add: errs_of_def)

text \<open>A failed step: the failure is put in the status and the reconciliation is tried again.\<close>

definition retryFailed :: "meta_api \<Rightarrow> 'o Resource \<Rightarrow> 'o WrappedReconciler \<Rightarrow> string \<Rightarrow> 'o \<Rightarrow> go_error \<Rightarrow>
    ('o, 'o \<times> CtrlResult result) rop" where
  "retryFailed M R wr msg ob e =
     bindP (wr_PatchStatus wr (SetReadyFailedWithMessage (list_SetCondition M) msg) ob)
       (\<lambda>(o', x). Ret (o', Inr (retryResult R o' (e # errs_of x))))"

text \<open>After the SQL object is in place: add the finalizer, report, and come back later.\<close>

definition settle :: "meta_api \<Rightarrow> SqlOptions \<Rightarrow> 'o Resource \<Rightarrow> 'o WrappedReconciler \<Rightarrow> 'o WrappedFinalizer \<Rightarrow> 'o \<Rightarrow>
    ('o, 'o \<times> CtrlResult result) rop" where
  "settle M opts R wr fz ob =
     bindP (SqlFinalizer_AddFinalizer fz ob) (\<lambda>(o1, x).
       let errs = errs_of (with_ctx ''error adding finalizer'' x) in
       bindP (wr_PatchStatus wr (Ready_PatcherWithError (list_SetCondition M) (if errs = [] then None else Some (ErrMulti errs))) o1)
         (\<lambda>(o2, y). bindP (requeueResult opts R o2 (errs @ errs_of y)) (\<lambda>res. Ret (o2, Inr res))))"

definition reconcileResource :: "meta_api \<Rightarrow> string \<Rightarrow> SqlOptions \<Rightarrow> 'o Resource \<Rightarrow> 'o WrappedReconciler \<Rightarrow> 'o WrappedFinalizer \<Rightarrow>
    MariaDBObject \<Rightarrow> 'o \<Rightarrow> ('o, 'o \<times> CtrlResult result) rop" where
  "reconcileResource M domain opts R wr fz mariadb ob =
     bindP (NewClientWithMariaDB domain mariadb) (\<lambda>c. case c of
       Inl e \<Rightarrow> retryFailed M R wr (''Error connecting to MariaDB: '' @ error_text e) ob e
     | Inr client \<Rightarrow>
         bindP (wr_Reconcile wr client ob) (\<lambda>(o1, x). case x of
           Inl e \<Rightarrow> retryFailed M R wr (''Error creating '' @ r_Name R o1 @ '': '' @ error_text (ErrMulti [e])) o1 e
         | Inr _ \<Rightarrow> settle M opts R wr fz o1))"

definition refTypeName :: "MariaDBRef \<Rightarrow> string" where
  "refTypeName ref = (if ref_Kind ref = ExternalMariaDBKind then ''ExternalMariaDB'' else ''MariaDB'')"

text \<open>The reconciliation once the answer for the referenced object is there.\<close>

definition reconcileFor :: "meta_api \<Rightarrow> string \<Rightarrow> SqlOptions \<Rightarrow> 'o Resource \<Rightarrow> 'o WrappedReconciler \<Rightarrow>
    'o WrappedFinalizer \<Rightarrow> 'o \<Rightarrow> MariaDBObject result \<Rightarrow> ('o, 'o \<times> CtrlResult result) rop" where
  "reconcileFor M domain opts R wr fz ob m = (case m of
       Inl e \<Rightarrow>
         bindP (wr_PatchStatus wr (Ready_PatcherRefResolver (list_SetCondition M) (Some e) (refTypeName (r_MariaDBRef R ob))) ob)
           (\<lambda>(o', x). Ret (o', Inl (ErrCtx ''error getting MariaDB'' (ErrMulti (e # errs_of x)))))
     | Inr mariadb \<Rightarrow>
         bindP (waitForMariaDB mariadb) (\<lambda>w. case w of
           Inl e \<Rightarrow>
             bindP (wr_PatchStatus wr (Ready_PatcherWithError (list_SetCondition M) (Some e)) ob)
               (\<lambda>(o', x). Ret (o', Inl (ErrMulti (e # errs_of x))))
         | Inr res \<Rightarrow>
             if res \<noteq> zeroResult then Ret (ob, Inr res)
             else reconcileResource M domain opts R wr fz mariadb ob))"

definition SqlReconciler_Reconcile :: "meta_api \<Rightarrow> string \<Rightarrow> SqlOptions \<Rightarrow> 'o Resource \<Rightarrow> 'o WrappedReconciler \<Rightarrow>
    'o WrappedFinalizer \<Rightarrow> 'o \<Rightarrow> ('o, 'o \<times> CtrlResult result) rop" where
  "SqlReconciler_Reconcile M domain opts R wr fz ob =
     (if r_IsBeingDeleted R ob then Finalize domain R fz ob
      else bindP (RefResolver_MariaDBObject (r_MariaDBRef R ob) (r_Namespace R ob)) (reconcileFor M domain opts R wr fz ob))"

text \<open>The controller of a kind of resource: read the object and hand it to the template.\<close>

definition reconcileKind :: "meta_api \<Rightarrow> string \<Rightarrow> SqlOptions \<Rightarrow> 'o Resource \<Rightarrow> 'o WrappedReconciler \<Rightarrow> 'o WrappedFinalizer \<Rightarrow>
    NamespacedName \<Rightarrow> ('o, CtrlResult result) rop" where
  "reconcileKind M domain opts R wr fz req =
     bindP (askR as_resource (GetResource req)) (\<lambda>x. case x of
       Inl e \<Rightarrow> Ret (case IgnoreNotFound e of None \<Rightarrow> Inr zeroResult | Some e' \<Rightarrow> Inl e')
     | Inr ob \<Rightarrow>
         bindP (SqlReconciler_Reconcile M domain opts R wr fz ob)
           (\<lambda>(o', x). Ret (with_ctx ''error reconciling in TemplateReconciler'' x)))"

section \<open>Runs\<close>

abbreviation r_calls :: "('o rcall \<Rightarrow> bool) \<Rightarrow> ('o, 'a) rop \<Rightarrow> bool" where
  "r_calls P p \<equiv> all_calls (\<lambda>_. False) P p"

lemma r_exec_calls: "exec no_group p t a \<Longrightarrow> r_calls P p \<Longrightarrow> e \<in> set t \<Longrightarrow> P (fst e)"
  by (drule exec_all_calls) (auto simp: no_group_def)

lemma opP_ask [simp]: "opP (ask sel c) = askR (\<lambda>r. sel (un_op r)) (Op c)"
  by (simp add: ask_def askR_def)

lemma exec_askR_bind:
  "exec grp (bindP (askR sel c) f) t x \<longleftrightarrow> (\<exists>r t'. t = (c, r) # t' \<and> exec grp (f (sel r)) t' x)"
  by (auto simp: askR_def exec_Call)

lemma r_calls_patchResource [simp]: "r_calls P (patchResource msg c ob) \<longleftrightarrow> P (c ob)"
  by (auto simp: patchResource_def askR_def split: sum.split)

lemma exec_patchResource:
  "exec no_group (patchResource msg c ob) t (o', x) \<longleftrightarrow>
     (\<exists>r. t = [(c ob, r)] \<and> (case as_resource r of Inl e \<Rightarrow> o' = ob \<and> x = Inl (ErrCtx msg e) | Inr s \<Rightarrow> o' = s \<and> x = Inr ()))"
  by (auto simp: patchResource_def exec_askR_bind split: sum.splits)

lemma exec_readSecret:
  "exec no_group (readSecret sel ns) t x \<longleftrightarrow> (\<exists>r. t = [(Op (SecretKeyRef sel ns), r)] \<and> x = as_text (un_op r))"
  by (auto simp: readSecret_def)

lemma exec_execStmt:
  "exec no_group (execStmt client s) t x \<longleftrightarrow>
     (case stmt_text s of Inl e \<Rightarrow> t = [] \<and> x = Inl e | Inr _ \<Rightarrow> \<exists>r. t = [(Stmt client s, r)] \<and> x = as_unit (un_op r))"
  by (auto simp: execStmt_def split: sum.split)

lemma r_calls_execStmt: "P (Stmt client s) \<Longrightarrow> r_calls P (execStmt client s)"
  by (auto simp: execStmt_def split: sum.split)

lemma r_calls_readSecret: "(\<And>c. P (Op c)) \<Longrightarrow> r_calls P (readSecret sel ns)"
  by (simp add: readSecret_def)

lemma r_calls_NewClient: "(\<And>c. P (Op c)) \<Longrightarrow> (\<And>o'. P (Connect o')) \<Longrightarrow> r_calls P (NewClientWithMariaDB domain mdb)"
  by (auto simp: NewClientWithMariaDB_def clientTLS_def NewClient_def Let_def
      intro!: all_calls_tryP all_calls_ctxP r_calls_readSecret split: option.split)

lemma r_calls_wait: "(\<And>c. P (Op c)) \<Longrightarrow> r_calls P (waitForMariaDB mdb)"
  by (auto simp: waitForMariaDB_def IsStatefulSetHealthy_def embedP_bindP Let_def
      intro!: all_calls_tryP all_calls_bindP all_calls_embedP split: MariaDBObject.split sum.split option.split)

lemma r_calls_resolve:
  "(\<And>c. P (Op c)) \<Longrightarrow> (\<And>k. P (GetExternalMariaDB k)) \<Longrightarrow> r_calls P (RefResolver_MariaDBObject ref ns)"
  by (auto simp: RefResolver_MariaDBObject_def intro!: all_calls_tryP)

lemma r_calls_requeue: "P RandInt63 \<Longrightarrow> r_calls P (requeueResult opts R ob errs)"
  by (auto simp: requeueResult_def addRequeueIntervalOffset_def intro!: all_calls_bindP split: option.split)

text \<open>A connection is made to the host and port of the object it is asked for.\<close>

definition client_of :: "string \<Rightarrow> MariaDBObject \<Rightarrow> ConnOpts \<Rightarrow> bool" where
  "client_of domain mdb client \<longleftrightarrow> co_Host client = obj_GetHost domain mdb \<and> co_Port client = obj_GetPort mdb"

lemma exec_NewClient_ok:
  assumes "exec no_group (NewClientWithMariaDB domain mdb) t (Inr client)"
  shows "client_of domain mdb client \<and> (\<exists>r. (Connect client, r) \<in> set t \<and> ok r)"
proof -
  from assms obtain pw tls u1 u2 where t: "t = u1 @ u2"
    and n: "exec no_group (NewClient \<lparr>co_Username = obj_GetSUName mdb, co_Password = pw, co_Host = obj_GetHost domain mdb,
      co_Port = obj_GetPort mdb, co_TLS = tls\<rparr>) u2 (Inr client)"
    by (auto simp: NewClientWithMariaDB_def exec_tryP_Inr split: option.splits) (metis append.assoc)
  from n show ?thesis
    by (auto simp: t client_of_def NewClient_def exec_tryP_Inr split: if_splits)
qed

text \<open>The StatefulSet of a MariaDB was seen with all its Pods ready, as endpoints of the service as well.\<close>

definition seen_healthy :: "MariaDB \<Rightarrow> 'o rtrace \<Rightarrow> bool" where
  "seen_healthy m t \<longleftrightarrow> (\<exists>r1 r2 sts slices s. (Op (GetStatefulSet (keyOf m)), r1) \<in> set t \<and> as_sts (un_op r1) = Inr sts \<and>
     sts_ReadyReplicas sts = m_Replicas m \<and> (Op (ListEndpointSlices (keyOf m)), r2) \<in> set t \<and> as_slices (un_op r2) = Inr slices \<and>
     find (\<lambda>s. Some (sp_Port (m_Spec m)) \<in> set (es_Ports s)) slices = Some s \<and> readyEndpoints s = m_Replicas m)"

lemma seen_healthy_mono: "seen_healthy m t \<Longrightarrow> set t \<subseteq> set t' \<Longrightarrow> seen_healthy m t'"
  unfolding seen_healthy_def by (elim exE conjE) (intro exI conjI; (assumption | erule subsetD; assumption))

lemma exec_wait_zero:
  assumes "exec no_group (waitForMariaDB (InCluster m)) t (Inr zeroResult)"
  shows "seen_healthy m t"
proof -
  have "requeueAfter second \<noteq> zeroResult" by (simp add: zeroResult_def second_def)
  then have "exec no_group (opP (IsStatefulSetHealthy (keyOf m) [WithDesiredReplicas (m_Replicas m), WithPort (sp_Port (m_Spec m)),
      WithEndpointPolicy EndpointPolicyAll])) t (Inr True)"
    using assms by (auto simp: waitForMariaDB_def exec_tryP_Inr split: if_splits)
  then show ?thesis
    by (auto simp: exec_embedP exec_IsStatefulSetHealthy seen_healthy_def)
qed

text \<open>An event a first part cannot make happens after it.\<close>

lemma exec_bind_skip:
  assumes "exec no_group (bindP p f) (pre @ e # post) x" "r_calls P p" "\<not> P (fst e)"
  shows "\<exists>t1 pre2 a. pre = t1 @ pre2 \<and> exec no_group p t1 a \<and> exec no_group (f a) (pre2 @ e # post) x"
proof -
  have "\<not> exec no_group p (pre @ e # post') y" for post' y
    using r_exec_calls [of p "pre @ e # post'" y P e] assms(2,3) by auto
  then show ?thesis using exec_bindP_split [OF assms(1)] by blast
qed

abbreviation connected :: "ConnOpts \<Rightarrow> 'o rtrace \<Rightarrow> bool" where
  "connected client t \<equiv> \<exists>r. (Connect client, r) \<in> set t \<and> ok r"

text \<open>Calls that keep the finalizer on the resource and execute statements only at the given client.\<close>

definition keeps :: "'o WrappedFinalizer \<Rightarrow> ConnOpts option \<Rightarrow> 'o rcall \<Rightarrow> bool" where
  "keeps fz client c =
     (case c of PatchResource o' \<Rightarrow> wf_ContainsFinalizer fz o' | Stmt c' s \<Rightarrow> client = Some c' | Connect _ \<Rightarrow> False | _ \<Rightarrow> True)"

lemma keeps_simps [simp]:
  "keeps fz client (Op c)" "keeps fz client (GetExternalMariaDB k)" "keeps fz client (GetResource k)"
  "keeps fz client (PatchResource o') \<longleftrightarrow> wf_ContainsFinalizer fz o'" "keeps fz client (PatchResourceStatus o')"
  "\<not> keeps fz client (Connect co)" "keeps fz client (Stmt co s) \<longleftrightarrow> client = Some co" "keeps fz client RandInt63"
  by (simp_all add: keeps_def)

text \<open>A way to wait for a database, connect and go on: what happens after it was done with a connected
  client of a healthy database.\<close>

lemma exec_wait_connect:
  assumes "exec no_group (bindP (waitForMariaDB mdb) (\<lambda>w. case w of
      Inl e \<Rightarrow> f e
    | Inr res \<Rightarrow> if res \<noteq> zeroResult then Ret (g res)
        else bindP (NewClientWithMariaDB domain mdb) (\<lambda>c. case c of Inl e \<Rightarrow> h e | Inr client \<Rightarrow> k client))) (pre @ ev # post) x"
    and "\<And>e. r_calls P (f e)" "\<And>e. r_calls P (h e)" "\<not> P (fst ev)" "\<And>c. fst ev \<noteq> Op c" "\<And>c. fst ev \<noteq> Connect c"
  shows "\<exists>client t1 t2. pre = t1 @ t2 \<and> (\<forall>m. mdb = InCluster m \<longrightarrow> seen_healthy m t1) \<and> client_of domain mdb client \<and>
    connected client t1 \<and> exec no_group (k client) (t2 @ ev # post) x"
proof -
  have no: "\<not> exec no_group p (pre' @ ev # post) x" if "r_calls P p" for p pre'
    using r_exec_calls [OF _ that, of "pre' @ ev # post" x ev] assms(4) by auto
  have "r_calls (\<lambda>c. \<exists>k. c = Op k) (waitForMariaDB mdb)" by (rule r_calls_wait) simp
  from exec_bind_skip [OF assms(1) this] assms(5) obtain t1 p1 w where 1: "pre = t1 @ p1"
    "exec no_group (waitForMariaDB mdb) t1 w" "exec no_group (case w of
      Inl e \<Rightarrow> f e
    | Inr res \<Rightarrow> if res \<noteq> zeroResult then Ret (g res)
        else bindP (NewClientWithMariaDB domain mdb) (\<lambda>c. case c of Inl e \<Rightarrow> h e | Inr client \<Rightarrow> k client)) (p1 @ ev # post) x"
    by blast
  then have w: "w = Inr zeroResult" using no [OF assms(2)] by (auto split: sum.splits if_splits)
  with 1(3) have 2: "exec no_group (bindP (NewClientWithMariaDB domain mdb) (\<lambda>c. case c of Inl e \<Rightarrow> h e | Inr client \<Rightarrow> k client)) (p1 @ ev # post) x"
    by simp
  have "r_calls (\<lambda>c. (\<exists>k. c = Op k) \<or> (\<exists>k. c = Connect k)) (NewClientWithMariaDB domain mdb)" by (rule r_calls_NewClient) simp_all
  from exec_bind_skip [OF 2 this] assms(5,6) obtain t2 p2 c where 3: "p1 = t2 @ p2"
    "exec no_group (NewClientWithMariaDB domain mdb) t2 c" "exec no_group (case c of Inl e \<Rightarrow> h e | Inr client \<Rightarrow> k client) (p2 @ ev # post) x"
    by blast
  then obtain client where c: "c = Inr client" using no [OF assms(3)] by (cases c) auto
  have healthy: "seen_healthy m (t1 @ t2)" if "mdb = InCluster m" for m
    using exec_wait_zero [of m t1] 1(2) w that by (auto intro: seen_healthy_mono)
  from 1(1) 3(1,3) c exec_NewClient_ok [of domain mdb t2 client] 3(2) healthy show ?thesis
    by (intro exI [of _ client] exI [of _ "t1 @ t2"] exI [of _ p2]) auto
qed

section \<open>What a kind of resource promises, and what the template makes of it\<close>

text \<open>The MariaDB of a reference is gone: not found or being deleted.\<close>

definition gone :: "'o ranswer \<Rightarrow> bool" where
  "gone r = (case as_mariadb (un_op r) of Inl e \<Rightarrow> IsNotFound e | Inr m \<Rightarrow> m_DeletionTimestamp m \<noteq> None)"

text \<open>The object a reference names was read; one of the cluster was seen healthy.\<close>

definition resolved :: "NamespacedName \<Rightarrow> MariaDBObject \<Rightarrow> 'o rtrace \<Rightarrow> bool" where
  "resolved key mdb t \<longleftrightarrow>
     (case mdb of
        External e \<Rightarrow> \<exists>r. (GetExternalMariaDB key, r) \<in> set t \<and> as_external r = Inr e
      | InCluster m \<Rightarrow> (\<exists>r. (Op (GetMariaDB key), r) \<in> set t \<and> as_mariadb (un_op r) = Inr m) \<and> seen_healthy m t)"

text \<open>In a run, the finalizer leaves the resource only when the resource is being deleted, and only after the
  MariaDB it refers to was read and was found gone or, when the policy is to delete, was cleaned up over a
  connection to it.\<close>

definition released_after_cleanup :: "string \<Rightarrow> 'o Resource \<Rightarrow> 'o WrappedFinalizer \<Rightarrow> (ConnOpts \<Rightarrow> 'o \<Rightarrow> 'o rtrace \<Rightarrow> bool) \<Rightarrow>
    'o \<Rightarrow> 'o rtrace \<Rightarrow> bool" where
  "released_after_cleanup domain R fz cleaned ob t \<longleftrightarrow>
     (\<forall>pre o' r post. t = pre @ (PatchResource o', r) # post \<longrightarrow> \<not> wf_ContainsFinalizer fz o' \<longrightarrow>
        r_IsBeingDeleted R ob \<and> (\<exists>r0 pre'. pre = (Op (GetMariaDB (refKey (r_MariaDBRef R ob) (r_Namespace R ob))), r0) # pre' \<and>
          (gone r0 \<or> (\<exists>m client t1 t2 t3. as_mariadb (un_op r0) = Inr m \<and> pre' = t1 @ t2 @ t3 \<and> seen_healthy m t1 \<and>
             client_of domain (InCluster m) client \<and> connected client t1 \<and>
             (Deref (r_CleanupPolicy R ob) CleanupPolicyDelete = CleanupPolicyDelete \<longrightarrow> cleaned client ob t2)))))"

locale sql_kind =
  fixes R :: "'o Resource" and wr :: "'o WrappedReconciler" and fz :: "'o WrappedFinalizer"
    and cleaned :: "ConnOpts \<Rightarrow> 'o \<Rightarrow> 'o rtrace \<Rightarrow> bool"
  assumes reconcile_calls: "r_calls (keeps fz (Some client)) (wr_Reconcile wr client ob)"
    and status_calls: "r_calls (keeps fz None) (wr_PatchStatus wr p ob)"
    and add_calls: "r_calls (keeps fz None) (wf_AddFinalizer fz ob)"
    and remove_calls: "r_calls (\<lambda>c. \<exists>o'. c = PatchResource o') (wf_RemoveFinalizer fz ob)"
    and cleanup_calls: "r_calls (keeps fz (Some client)) (wf_Reconcile fz client ob)"
    and cleanup_cleans: "exec no_group (wf_Reconcile fz client ob) t (Inr ()) \<Longrightarrow> cleaned client ob t"
begin

lemma settle_calls: "r_calls (keeps fz None) (settle M opts R wr fz ob)"
  using status_calls add_calls
  by (auto simp: settle_def SqlFinalizer_AddFinalizer_def Let_def intro!: all_calls_bindP r_calls_requeue)

lemma retry_calls: "r_calls (keeps fz None) (retryFailed M R wr msg ob e)"
  using status_calls by (auto simp: retryFailed_def intro!: all_calls_bindP)

lemma removal_event:
  assumes "exec no_group (doneWith msg (wf_RemoveFinalizer fz ob)) (t @ ev # post) x"
  shows "\<exists>o'. fst ev = PatchResource o'"
proof -
  have "r_calls (\<lambda>c. \<exists>o'. c = PatchResource o') (doneWith msg (wf_RemoveFinalizer fz ob))"
    unfolding doneWith_def using remove_calls by (auto intro!: all_calls_bindP)
  from r_exec_calls [OF assms this] show ?thesis by simp
qed

lemma cleanUp_event:
  assumes "exec no_group (cleanUp R fz client ob) (pre @ ev # post) x" "\<not> keeps fz (Some client) (fst ev)"
  shows "\<exists>o' t. fst ev = PatchResource o' \<and> (\<exists>u. pre = t @ u) \<and>
    (Deref (r_CleanupPolicy R ob) CleanupPolicyDelete = CleanupPolicyDelete \<longrightarrow> cleaned client ob t)"
proof -
  let ?p = "if Deref (r_CleanupPolicy R ob) CleanupPolicyDelete = CleanupPolicyDelete
            then ctxP ''error reconciling in TemplateFinalizer'' (wf_Reconcile fz client ob) else Ret (Inr ())"
  have "r_calls (keeps fz (Some client)) ?p" using cleanup_calls by auto
  from exec_bind_skip [OF assms(1) [unfolded cleanUp_def] this assms(2)] obtain t u y where 1: "pre = t @ u"
    "exec no_group ?p t y" "exec no_group (case y of Inl e \<Rightarrow> Ret (ob, Inl e)
      | Inr _ \<Rightarrow> doneWith ''error removing finalizer in TemplateFinalizer'' (wf_RemoveFinalizer fz ob)) (u @ ev # post) x" by blast
  then have y: "y = Inr ()"
    and "exec no_group (doneWith ''error removing finalizer in TemplateFinalizer'' (wf_RemoveFinalizer fz ob)) (u @ ev # post) x"
    by (auto split: sum.splits)
  moreover note removal_event [OF this(2)]
  moreover have "cleaned client ob t" if "Deref (r_CleanupPolicy R ob) CleanupPolicyDelete = CleanupPolicyDelete"
    using 1(2) y that cleanup_cleans by simp
  ultimately show ?thesis using 1(1) by blast
qed

lemma finalize_event:
  assumes "exec no_group (Finalize domain R fz ob) (pre @ ev # post) x" "\<not> keeps fz None (fst ev)" "\<And>c. fst ev \<noteq> Connect c"
  shows "wf_ContainsFinalizer fz ob \<and> (\<exists>r0 pre'. pre = (Op (GetMariaDB (refKey (r_MariaDBRef R ob) (r_Namespace R ob))), r0) # pre' \<and>
    ((gone r0 \<and> (\<exists>o'. fst ev = PatchResource o')) \<or>
     (\<exists>m client t1 t2. as_mariadb (un_op r0) = Inr m \<and> pre' = t1 @ t2 \<and> seen_healthy m t1 \<and>
        client_of domain (InCluster m) client \<and> connected client t1 \<and> exec no_group (cleanUp R fz client ob) (t2 @ ev # post) x)))"
proof -
  have op: "fst ev \<noteq> Op c" for c using assms(2) by (cases ev) auto
  have con: "wf_ContainsFinalizer fz ob" using assms(1) by (auto simp: Finalize_def split: if_splits)
  let ?key = "refKey (r_MariaDBRef R ob) (r_Namespace R ob)"
  from assms(1) con obtain r0 t where t: "pre @ ev # post = (Op (GetMariaDB ?key), r0) # t"
    and e: "exec no_group (finalizeFor domain R fz ob (as_mariadb (un_op r0))) t x"
    unfolding Finalize_def RefResolver_MariaDB_def opP_ask by (auto simp: exec_askR_bind)
  from t op obtain pre' where pre: "pre = (Op (GetMariaDB ?key), r0) # pre'" and t': "t = pre' @ ev # post"
    by (cases pre) auto
  show ?thesis
  proof (cases "gone r0")
    case True
    with e t' removal_event have "\<exists>o'. fst ev = PatchResource o'"
      by (auto simp: gone_def finalizeFor_def split: sum.splits if_splits)
    with True pre con show ?thesis by blast
  next
    case False
    then obtain m where m: "as_mariadb (un_op r0) = Inr m" "m_DeletionTimestamp m = None"
      using e t' by (auto simp: gone_def finalizeFor_def split: sum.splits if_splits)
    have "exec no_group (bindP (waitForMariaDB (InCluster m)) (\<lambda>w. case w of
            Inl e \<Rightarrow> Ret (ob, Inl e)
          | Inr res \<Rightarrow>
              if res \<noteq> zeroResult then Ret (ob, Inr res)
              else bindP (NewClientWithMariaDB domain (InCluster m)) (\<lambda>c. case c of
                Inl e \<Rightarrow> Ret (ob, Inl (ErrCtx ''error connecting to MariaDB'' e))
              | Inr client \<Rightarrow> cleanUp R fz client ob))) (pre' @ ev # post) x"
      using e t' m by (simp add: finalizeFor_def)
    from exec_wait_connect [OF this, of "\<lambda>_. False"] op assms(3) m pre con show ?thesis by fastforce
  qed
qed

lemma reconcile_event:
  assumes "exec no_group (SqlReconciler_Reconcile M domain opts R wr fz ob) (pre @ ev # post) x" "\<not> r_IsBeingDeleted R ob"
    "\<not> keeps fz None (fst ev)" "\<And>c. fst ev \<noteq> Connect c"
  shows "\<exists>mdb client t1 t2. pre = t1 @ t2 \<and> resolved (refKey (r_MariaDBRef R ob) (r_Namespace R ob)) mdb t1 \<and>
    client_of domain mdb client \<and> connected client t1 \<and> keeps fz (Some client) (fst ev)"
proof -
  let ?key = "refKey (r_MariaDBRef R ob) (r_Namespace R ob)"
  have op: "fst ev \<noteq> Op c" for c using assms(3) by (cases ev) auto
  have st: "r_calls (keeps fz None) (bindP (wr_PatchStatus wr p ob) (\<lambda>(o', y). Ret (f o' y)))" for p f
    using status_calls by (auto intro!: all_calls_bindP)
  have rr: "r_calls (keeps fz None) (RefResolver_MariaDBObject (r_MariaDBRef R ob) (r_Namespace R ob))"
    by (rule r_calls_resolve) simp_all
  have "exec no_group (bindP (RefResolver_MariaDBObject (r_MariaDBRef R ob) (r_Namespace R ob)) (reconcileFor M domain opts R wr fz ob))
      (pre @ ev # post) x"
    using assms(1,2) by (simp add: SqlReconciler_Reconcile_def)
  from exec_bind_skip [OF this rr assms(3)] obtain t0 p0 m where 0: "pre = t0 @ p0"
    "exec no_group (RefResolver_MariaDBObject (r_MariaDBRef R ob) (r_Namespace R ob)) t0 m"
    and e: "exec no_group (reconcileFor M domain opts R wr fz ob m) (p0 @ ev # post) x"
    by blast
  have no: "\<not> exec no_group p (p0 @ ev # post) x" if "r_calls (keeps fz None) p" for p
    using r_exec_calls [OF _ that, of "p0 @ ev # post" x ev] assms(3) by auto
  then obtain mdb where m: "m = Inr mdb" using e no [OF st] by (cases m) (auto simp: reconcileFor_def)
  from exec_wait_connect [OF e [unfolded m reconcileFor_def sum.case reconcileResource_def] st retry_calls assms(3) op assms(4)]
  obtain client t1 t2 where c: "p0 = t1 @ t2" "\<forall>m. mdb = InCluster m \<longrightarrow> seen_healthy m t1" "client_of domain mdb client"
    "connected client t1" and k: "exec no_group (bindP (wr_Reconcile wr client ob) (\<lambda>(o1, x). case x of
           Inl e \<Rightarrow> retryFailed M R wr (''Error creating '' @ r_Name R o1 @ '': '' @ error_text (ErrMulti [e])) o1 e
         | Inr _ \<Rightarrow> settle M opts R wr fz o1)) (t2 @ ev # post) x" by blast
  have res: "resolved ?key mdb (t0 @ t1)"
    using 0(2) c(2) unfolding m resolved_def
    by (auto simp: RefResolver_MariaDBObject_def exec_tryP_Inr split: if_splits) (blast, erule seen_healthy_mono, auto)
  have "keeps fz (Some client) c" if "keeps fz None c" for c using that by (cases c) auto
  then have "r_calls (keeps fz (Some client)) p" if "r_calls (keeps fz None) p" for p :: "('o, 'o \<times> CtrlResult result) rop"
    using that by (induction p) auto
  then have "r_calls (keeps fz (Some client)) (bindP (wr_Reconcile wr client ob) (\<lambda>(o1, x). case x of
           Inl e \<Rightarrow> retryFailed M R wr (''Error creating '' @ r_Name R o1 @ '': '' @ error_text (ErrMulti [e])) o1 e
         | Inr _ \<Rightarrow> settle M opts R wr fz o1))"
    using settle_calls retry_calls by (auto intro!: all_calls_bindP reconcile_calls split: sum.split)
  from r_exec_calls [OF k this] have "keeps fz (Some client) (fst ev)" by simp
  with 0(1) c res show ?thesis
    by (intro exI [of _ mdb] exI [of _ client] exI [of _ "t0 @ t1"] exI [of _ t2]) auto
qed

text \<open>The finalizer leaves the resource only when it is being deleted, after the MariaDB was found gone or,
  with the policy to delete, after the clean-up was done there.\<close>

lemma release_guard:
  assumes "exec no_group (SqlReconciler_Reconcile M domain opts R wr fz ob) (pre @ (PatchResource o', r) # post) x"
    "\<not> wf_ContainsFinalizer fz o'"
  shows "r_IsBeingDeleted R ob \<and> (\<exists>r0 pre'. pre = (Op (GetMariaDB (refKey (r_MariaDBRef R ob) (r_Namespace R ob))), r0) # pre' \<and>
    (gone r0 \<or> (\<exists>m client t1 t2 t3. as_mariadb (un_op r0) = Inr m \<and> pre' = t1 @ t2 @ t3 \<and> seen_healthy m t1 \<and>
        client_of domain (InCluster m) client \<and> connected client t1 \<and>
        (Deref (r_CleanupPolicy R ob) CleanupPolicyDelete = CleanupPolicyDelete \<longrightarrow> cleaned client ob t2))))"
proof (cases "r_IsBeingDeleted R ob")
  case True
  then have "exec no_group (Finalize domain R fz ob) (pre @ (PatchResource o', r) # post) x"
    using assms(1) by (simp add: SqlReconciler_Reconcile_def)
  from finalize_event [OF this] assms(2) obtain r0 pre' where
    p: "pre = (Op (GetMariaDB (refKey (r_MariaDBRef R ob) (r_Namespace R ob))), r0) # pre'" and
    c: "gone r0 \<or> (\<exists>m client t1 t2. as_mariadb (un_op r0) = Inr m \<and> pre' = t1 @ t2 \<and> seen_healthy m t1 \<and>
        client_of domain (InCluster m) client \<and> connected client t1 \<and>
        exec no_group (cleanUp R fz client ob) (t2 @ (PatchResource o', r) # post) x)" by auto blast
  from c show ?thesis
  proof
    assume "\<exists>m client t1 t2. as_mariadb (un_op r0) = Inr m \<and> pre' = t1 @ t2 \<and> seen_healthy m t1 \<and>
        client_of domain (InCluster m) client \<and> connected client t1 \<and>
        exec no_group (cleanUp R fz client ob) (t2 @ (PatchResource o', r) # post) x"
    then obtain m client t1 t2 where m: "as_mariadb (un_op r0) = Inr m" "pre' = t1 @ t2" "seen_healthy m t1"
      "client_of domain (InCluster m) client" "connected client t1" and
      u: "exec no_group (cleanUp R fz client ob) (t2 @ (PatchResource o', r) # post) x" by blast
    from cleanUp_event [OF u] assms(2) obtain t u' where "t2 = t @ u'"
      "Deref (r_CleanupPolicy R ob) CleanupPolicyDelete = CleanupPolicyDelete \<longrightarrow> cleaned client ob t" by auto
    with m p True show ?thesis by blast
  qed (use p True in blast)
next
  case False
  from reconcile_event [OF assms(1) this] assms(2) show ?thesis by auto
qed

lemma released:
  "exec no_group (SqlReconciler_Reconcile M domain opts R wr fz ob) t x \<Longrightarrow> released_after_cleanup domain R fz cleaned ob t"
  unfolding released_after_cleanup_def by (intro allI impI, rule release_guard) auto

text \<open>A statement is executed only at a database that the reference names, was read and, in the cluster,
  was seen healthy, and only over a connection that was made.\<close>

lemma stmt_guard:
  assumes "exec no_group (SqlReconciler_Reconcile M domain opts R wr fz ob) (pre @ (Stmt client s, r) # post) x"
  shows "connected client pre \<and> (\<exists>mdb. client_of domain mdb client \<and>
    resolved (refKey (r_MariaDBRef R ob) (r_Namespace R ob)) mdb pre)"
proof (cases "r_IsBeingDeleted R ob")
  case True
  then have "exec no_group (Finalize domain R fz ob) (pre @ (Stmt client s, r) # post) x"
    using assms by (simp add: SqlReconciler_Reconcile_def)
  from finalize_event [OF this] obtain r0 m c t1 t2 where
    p: "pre = (Op (GetMariaDB (refKey (r_MariaDBRef R ob) (r_Namespace R ob))), r0) # t1 @ t2" and m: "as_mariadb (un_op r0) = Inr m"
    "seen_healthy m t1" "client_of domain (InCluster m) c" "connected c t1" and
    u: "exec no_group (cleanUp R fz c ob) (t2 @ (Stmt client s, r) # post) x" by auto blast
  from cleanUp_event [OF u] have "c = client" by auto
  moreover have "resolved (refKey (r_MariaDBRef R ob) (r_Namespace R ob)) (InCluster m) pre"
    using m seen_healthy_mono [OF m(2), of pre] by (auto simp: resolved_def p)
  ultimately show ?thesis using m by (auto simp: p)
next
  case False
  from reconcile_event [OF assms this] obtain mdb c t1 t2 where "pre = t1 @ t2"
    "resolved (refKey (r_MariaDBRef R ob) (r_Namespace R ob)) mdb t1" "client_of domain mdb c" "connected c t1" "c = client"
    by auto blast
  moreover from this have "resolved (refKey (r_MariaDBRef R ob) (r_Namespace R ob)) mdb pre"
    by (auto simp: resolved_def intro: seen_healthy_mono split: MariaDBObject.splits)
  ultimately show ?thesis by auto
qed

end

end
