(* ===== verification/Sql_Resources.thy ===== *)
theory Sql_Resources
  imports Sql_Reconciler
begin

text \<open>
  The SQL resources: users, grants and databases, with their types (\<^verbatim>\<open>api/v1alpha1\<close>), what their
  controllers execute to bring them about and what their finalizers execute to remove them
  (\<^verbatim>\<open>internal/controller/user_controller.go\<close>, \<^verbatim>\<open>grant_controller.go\<close>, \<^verbatim>\<open>database_controller.go\<close> and
  their \<^verbatim>\<open>_finalizer.go\<close> files). The list of finalizers is changed by the controller runtime: \<open>F\<close>.
\<close>

section \<open>What the resources share\<close>

record ResourceMeta =
  rm_Name :: string
  rm_Namespace :: string
  rm_DeletionTimestamp :: "int option"
  rm_Finalizers :: "string list"

record SQLTemplate =
  sq_RequeueInterval :: "int option"
  sq_RetryInterval :: "int option"
  sq_CleanupPolicy :: "CleanupPolicy option"

record finalizer_api =
  AddFinalizer :: "string list \<Rightarrow> string \<Rightarrow> string list"
  RemoveFinalizer :: "string list \<Rightarrow> string \<Rightarrow> string list"
  ContainsFinalizer :: "string list \<Rightarrow> string \<Rightarrow> bool"

text \<open>What the controller runtime documents: adding puts the finalizer there, removing takes every copy of
  it away, and the other ones stay.\<close>

definition finalizer_ok :: "finalizer_api \<Rightarrow> bool" where
  "finalizer_ok F \<longleftrightarrow>
     (\<forall>fs n m. ContainsFinalizer F (AddFinalizer F fs n) m \<longleftrightarrow> m = n \<or> ContainsFinalizer F fs m) \<and>
     (\<forall>fs n m. ContainsFinalizer F (RemoveFinalizer F fs n) m \<longleftrightarrow> m \<noteq> n \<and> ContainsFinalizer F fs m)"

definition list_finalizers :: finalizer_api where
  "list_finalizers = \<lparr>AddFinalizer = (\<lambda>fs n. if n \<in> set fs then fs else fs @ [n]),
     RemoveFinalizer = (\<lambda>fs n. filter (\<lambda>m. m \<noteq> n) fs), ContainsFinalizer = (\<lambda>fs n. n \<in> set fs)\<rparr>"

lemma finalizer_ok_list: "finalizer_ok list_finalizers"
  by (auto simp: finalizer_ok_def list_finalizers_def)

definition accountName :: "string \<Rightarrow> string \<Rightarrow> string" where
  "accountName user host = quoted user @ ''@'' @ quoted host"

definition userExistsStmt :: "ConnOpts \<Rightarrow> string \<Rightarrow> string \<Rightarrow> ('o, bool result) rop" where
  "userExistsStmt client user host =
     tryP (askR (\<lambda>r. as_int (un_op r)) (Stmt client (UserExists user host))) (\<lambda>count. Ret (Inr (count > 0)))"

section \<open>Users\<close>

record User =
  u_Meta :: ResourceMeta
  u_Template :: SQLTemplate
  u_MariaDBRef :: MariaDBRef
  u_PasswordSecretKeyRef :: "SecretKeySelector option"
  u_PasswordHashSecretKeyRef :: "SecretKeySelector option"
  u_PluginNameSecretKeyRef :: "SecretKeySelector option"
  u_PluginArgSecretKeyRef :: "SecretKeySelector option"
  u_Require :: "TLSRequirements option"
  u_MaxUserConnections :: int
  u_Name :: string
  u_Host :: string
  u_Conditions :: "Condition list"

definition User_UsernameOrDefault :: "User \<Rightarrow> string" where
  "User_UsernameOrDefault u = (if u_Name u \<noteq> '''' then u_Name u else rm_Name (u_Meta u))"

definition User_HostnameOrDefault :: "User \<Rightarrow> string" where
  "User_HostnameOrDefault u = (if u_Host u \<noteq> '''' then u_Host u else ''%'')"

definition User_AccountName :: "User \<Rightarrow> string" where
  "User_AccountName u = accountName (User_UsernameOrDefault u) (User_HostnameOrDefault u)"

definition user_resource :: "User Resource" where
  "user_resource = \<lparr>r_Name = (\<lambda>u. rm_Name (u_Meta u)), r_Namespace = (\<lambda>u. rm_Namespace (u_Meta u)), r_MariaDBRef = u_MariaDBRef,
     r_IsBeingDeleted = (\<lambda>u. rm_DeletionTimestamp (u_Meta u) \<noteq> None), r_RequeueInterval = (\<lambda>u. sq_RequeueInterval (u_Template u)),
     r_RetryInterval = (\<lambda>u. sq_RetryInterval (u_Template u)), r_CleanupPolicy = (\<lambda>u. sq_CleanupPolicy (u_Template u))\<rparr>"

text \<open>The identification of the user: the options of the statement, and the secret text that says whether
  an existing user is altered.\<close>

definition userSecret :: "User \<Rightarrow> SecretKeySelector \<Rightarrow> string \<Rightarrow> (User, string result) rop" where
  "userSecret u ref msg = ctxP msg (readSecret ref (rm_Namespace (u_Meta u)))"

definition credentials :: "User \<Rightarrow> (User, ((CreateUserOpts \<Rightarrow> CreateUserOpts) list \<times> string) result) rop" where
  "credentials u =
     (case u_PluginNameSecretKeyRef u of
        Some ref \<Rightarrow>
          tryP (userSecret u ref ''error reading user password via secret'') (\<lambda>via.
            case u_PluginArgSecretKeyRef u of
              Some argRef \<Rightarrow> tryP (userSecret u argRef ''error reading user password via using secret'') (\<lambda>viaUsing.
                Ret (Inr ([WithIdentifiedVia via, WithIdentifiedViaUsing viaUsing], via)))
            | None \<Rightarrow> Ret (Inr ([WithIdentifiedVia via], via)))
      | None \<Rightarrow>
          (case u_PasswordHashSecretKeyRef u of
             Some ref \<Rightarrow> tryP (userSecret u ref ''error reading user password hash secret'')
               (\<lambda>hash. Ret (Inr ([WithIdentifiedByPassword hash], hash)))
           | None \<Rightarrow>
               (case u_PasswordSecretKeyRef u of
                  Some ref \<Rightarrow> tryP (userSecret u ref ''error reading user password secret'')
                    (\<lambda>password. Ret (Inr ([WithIdentifiedBy password], password)))
                | None \<Rightarrow> Ret (Inr ([], '''')))))"

definition createUserOpts :: "User \<Rightarrow> (CreateUserOpts \<Rightarrow> CreateUserOpts) list \<Rightarrow> CreateUserOpts" where
  "createUserOpts u cred =
     applyOpts (cred @ (case u_Require u of None \<Rightarrow> [] | Some r \<Rightarrow> [WithTLSRequirements r]) @
       [WithMaxUserConnections (u_MaxUserConnections u)]) noCreateUserOpts"

text \<open>An error of the check whether the user exists is only logged: the user counts as missing.\<close>

definition createOrAlter :: "ConnOpts \<Rightarrow> User \<Rightarrow> CreateUserOpts \<Rightarrow> string \<Rightarrow> bool \<Rightarrow> (User, unit result) rop" where
  "createOrAlter client u opts secret exists =
     (if \<not> exists then
        tryP (ctxP ''error dropping User'' (execStmt client (DropUser (User_AccountName u)))) (\<lambda>_.
          ctxP ''error creating User'' (execStmt client (CreateUser (User_AccountName u) opts)))
      else if secret \<noteq> '''' then ctxP ''error altering User'' (execStmt client (AlterUser (User_AccountName u) opts))
      else Ret (Inr ()))"

definition applyUser :: "ConnOpts \<Rightarrow> User \<Rightarrow> CreateUserOpts \<Rightarrow> string \<Rightarrow> (User, unit result) rop" where
  "applyUser client u opts secret =
     bindP (userExistsStmt client (User_UsernameOrDefault u) (User_HostnameOrDefault u))
       (\<lambda>x. createOrAlter client u opts secret (case x of Inl _ \<Rightarrow> False | Inr b \<Rightarrow> b))"

definition User_Reconcile :: "ConnOpts \<Rightarrow> User \<Rightarrow> User on_resource" where
  "User_Reconcile client u =
     bindP (tryP (credentials u) (\<lambda>(cred, secret). applyUser client u (createUserOpts u cred) secret)) (\<lambda>x. Ret (u, x))"

definition User_PatchStatus :: "(Condition list \<Rightarrow> Condition list) \<Rightarrow> User \<Rightarrow> User on_resource" where
  "User_PatchStatus patcher u =
     patchResource ''error patching User status'' PatchResourceStatus (u\<lparr>u_Conditions := patcher (u_Conditions u)\<rparr>)"

definition userFinalizerName :: string where
  "userFinalizerName = ''user.k8s.mariadb.com/finalizer''"

definition User_ContainsFinalizer :: "finalizer_api \<Rightarrow> User \<Rightarrow> bool" where
  "User_ContainsFinalizer F u = ContainsFinalizer F (rm_Finalizers (u_Meta u)) userFinalizerName"

definition User_patchFinalizers :: "(string list \<Rightarrow> string list) \<Rightarrow> User \<Rightarrow> User on_resource" where
  "User_patchFinalizers f u =
     patchResource ''error removing finalizer to User'' PatchResource
       (u\<lparr>u_Meta := (u_Meta u)\<lparr>rm_Finalizers := f (rm_Finalizers (u_Meta u))\<rparr>\<rparr>)"

definition User_AddFinalizer :: "finalizer_api \<Rightarrow> User \<Rightarrow> User on_resource" where
  "User_AddFinalizer F u =
     (if User_ContainsFinalizer F u then Ret (u, Inr ()) else User_patchFinalizers (\<lambda>fs. AddFinalizer F fs userFinalizerName) u)"

definition User_RemoveFinalizer :: "finalizer_api \<Rightarrow> User \<Rightarrow> User on_resource" where
  "User_RemoveFinalizer F u =
     (if \<not> User_ContainsFinalizer F u then Ret (u, Inr ()) else User_patchFinalizers (\<lambda>fs. RemoveFinalizer F fs userFinalizerName) u)"

definition User_cleanup :: "ConnOpts \<Rightarrow> User \<Rightarrow> (User, unit result) rop" where
  "User_cleanup client u = ctxP ''error dropping user in MariaDB'' (execStmt client (DropUser (User_AccountName u)))"

definition user_reconciler :: "User WrappedReconciler" where
  "user_reconciler = \<lparr>wr_Reconcile = User_Reconcile, wr_PatchStatus = User_PatchStatus\<rparr>"

definition user_finalizer :: "finalizer_api \<Rightarrow> User WrappedFinalizer" where
  "user_finalizer F = \<lparr>wf_AddFinalizer = User_AddFinalizer F, wf_RemoveFinalizer = User_RemoveFinalizer F,
     wf_ContainsFinalizer = User_ContainsFinalizer F, wf_Reconcile = User_cleanup\<rparr>"

definition UserReconciler_Reconcile :: "meta_api \<Rightarrow> finalizer_api \<Rightarrow> string \<Rightarrow> SqlOptions \<Rightarrow> NamespacedName \<Rightarrow> (User, CtrlResult result) rop" where
  "UserReconciler_Reconcile M F domain opts = reconcileKind M domain opts user_resource user_reconciler (user_finalizer F)"

section \<open>Grants\<close>

record Grant =
  gt_Meta :: ResourceMeta
  gt_Template :: SQLTemplate
  gt_MariaDBRef :: MariaDBRef
  gt_Privileges :: "string list"
  gt_Database :: string
  gt_Table :: string
  gt_Username :: string
  gt_Host :: "string option"
  gt_GrantOption :: bool
  gt_Conditions :: "Condition list"
  gt_CurrentPrivileges :: "string list option"

definition Grant_HostnameOrDefault :: "Grant \<Rightarrow> string" where
  "Grant_HostnameOrDefault g = (if set_text (gt_Host g) then Deref (gt_Host g) '''' else ''%'')"

definition Grant_AccountName :: "Grant \<Rightarrow> string" where
  "Grant_AccountName g = accountName (gt_Username g) (Grant_HostnameOrDefault g)"

definition grant_resource :: "Grant Resource" where
  "grant_resource = \<lparr>r_Name = (\<lambda>g. rm_Name (gt_Meta g)), r_Namespace = (\<lambda>g. rm_Namespace (gt_Meta g)), r_MariaDBRef = gt_MariaDBRef,
     r_IsBeingDeleted = (\<lambda>g. rm_DeletionTimestamp (gt_Meta g) \<noteq> None), r_RequeueInterval = (\<lambda>g. sq_RequeueInterval (gt_Template g)),
     r_RetryInterval = (\<lambda>g. sq_RetryInterval (gt_Template g)), r_CleanupPolicy = (\<lambda>g. sq_CleanupPolicy (gt_Template g))\<rparr>"

definition privilegesToRevoke :: "Grant \<Rightarrow> string list" where
  "privilegesToRevoke g =
     (if Deref (gt_CurrentPrivileges g) [] = gt_Privileges g then []
      else filter (\<lambda>p. p \<notin> set (gt_Privileges g)) (Deref (gt_CurrentPrivileges g) []))"

definition revokeStale :: "ConnOpts \<Rightarrow> Grant \<Rightarrow> (Grant, unit result) rop" where
  "revokeStale client g =
     (if gt_CurrentPrivileges g \<noteq> None \<and> length (privilegesToRevoke g) > 0
      then ctxP ''error revoking privileges in MariaDB''
        (execStmt client (Revoke (privilegesToRevoke g) (gt_Database g) (gt_Table g) (Grant_AccountName g) False))
      else Ret (Inr ()))"

definition grantPrivileges :: "ConnOpts \<Rightarrow> Grant \<Rightarrow> (Grant, unit result) rop" where
  "grantPrivileges client g =
     ctxP ''error granting privileges in MariaDB''
       (execStmt client (Grant (gt_Privileges g) (gt_Database g) (gt_Table g) (Grant_AccountName g) (gt_GrantOption g)))"

definition Grant_patchStatusWithFunc :: "(Grant \<Rightarrow> Grant) \<Rightarrow> Grant \<Rightarrow> Grant on_resource" where
  "Grant_patchStatusWithFunc f g = patchResource ''error patching Grant status'' PatchResourceStatus (f g)"

definition recordPrivileges :: "Grant \<Rightarrow> Grant on_resource" where
  "recordPrivileges g =
     (if Deref (gt_CurrentPrivileges g) [] \<noteq> gt_Privileges g
      then bindP (Grant_patchStatusWithFunc (\<lambda>g. g\<lparr>gt_CurrentPrivileges := Some (gt_Privileges g)\<rparr>) g)
             (\<lambda>(g', x). Ret (g', with_ctx ''error patching current privileges'' x))
      else Ret (g, Inr ()))"

definition Grant_Reconcile :: "ConnOpts \<Rightarrow> Grant \<Rightarrow> Grant on_resource" where
  "Grant_Reconcile client g =
     bindP (tryP (revokeStale client g) (\<lambda>_. grantPrivileges client g)) (\<lambda>x. case x of
       Inl e \<Rightarrow> Ret (g, Inl e)
     | Inr _ \<Rightarrow> recordPrivileges g)"

definition Grant_PatchStatus :: "(Condition list \<Rightarrow> Condition list) \<Rightarrow> Grant \<Rightarrow> Grant on_resource" where
  "Grant_PatchStatus patcher g = Grant_patchStatusWithFunc (\<lambda>g. g\<lparr>gt_Conditions := patcher (gt_Conditions g)\<rparr>) g"

definition grantFinalizerName :: string where
  "grantFinalizerName = ''grant.k8s.mariadb.com/finalizer''"

definition Grant_ContainsFinalizer :: "finalizer_api \<Rightarrow> Grant \<Rightarrow> bool" where
  "Grant_ContainsFinalizer F g = ContainsFinalizer F (rm_Finalizers (gt_Meta g)) grantFinalizerName"

definition Grant_patchFinalizers :: "(string list \<Rightarrow> string list) \<Rightarrow> Grant \<Rightarrow> Grant on_resource" where
  "Grant_patchFinalizers f g =
     patchResource ''error patching Grant'' PatchResource
       (g\<lparr>gt_Meta := (gt_Meta g)\<lparr>rm_Finalizers := f (rm_Finalizers (gt_Meta g))\<rparr>\<rparr>)"

definition Grant_AddFinalizer :: "finalizer_api \<Rightarrow> Grant \<Rightarrow> Grant on_resource" where
  "Grant_AddFinalizer F g =
     (if Grant_ContainsFinalizer F g then Ret (g, Inr ()) else Grant_patchFinalizers (\<lambda>fs. AddFinalizer F fs grantFinalizerName) g)"

definition Grant_RemoveFinalizer :: "finalizer_api \<Rightarrow> Grant \<Rightarrow> Grant on_resource" where
  "Grant_RemoveFinalizer F g =
     (if \<not> Grant_ContainsFinalizer F g then Ret (g, Inr ()) else Grant_patchFinalizers (\<lambda>fs. RemoveFinalizer F fs grantFinalizerName) g)"

definition Grant_cleanup :: "ConnOpts \<Rightarrow> Grant \<Rightarrow> (Grant, unit result) rop" where
  "Grant_cleanup client g =
     tryP (ctxP ''error checking if user exists in MariaDB'' (userExistsStmt client (gt_Username g) (Grant_HostnameOrDefault g))) (\<lambda>exists.
       if \<not> exists then Ret (Inr ())
       else ctxP ''error revoking grant in MariaDB''
         (execStmt client (Revoke (gt_Privileges g) (gt_Database g) (gt_Table g) (Grant_AccountName g) (gt_GrantOption g))))"

definition grant_reconciler :: "Grant WrappedReconciler" where
  "grant_reconciler = \<lparr>wr_Reconcile = Grant_Reconcile, wr_PatchStatus = Grant_PatchStatus\<rparr>"

definition grant_finalizer :: "finalizer_api \<Rightarrow> Grant WrappedFinalizer" where
  "grant_finalizer F = \<lparr>wf_AddFinalizer = Grant_AddFinalizer F, wf_RemoveFinalizer = Grant_RemoveFinalizer F,
     wf_ContainsFinalizer = Grant_ContainsFinalizer F, wf_Reconcile = Grant_cleanup\<rparr>"

definition GrantReconciler_Reconcile :: "meta_api \<Rightarrow> finalizer_api \<Rightarrow> string \<Rightarrow> SqlOptions \<Rightarrow> NamespacedName \<Rightarrow> (Grant, CtrlResult result) rop" where
  "GrantReconciler_Reconcile M F domain opts = reconcileKind M domain opts grant_resource grant_reconciler (grant_finalizer F)"

section \<open>Databases\<close>

record Database =
  db_Meta :: ResourceMeta
  db_Template :: SQLTemplate
  db_MariaDBRef :: MariaDBRef
  db_CharacterSet :: string
  db_Collate :: string
  db_Name :: string
  db_Conditions :: "Condition list"

definition DatabaseNameOrDefault :: "Database \<Rightarrow> string" where
  "DatabaseNameOrDefault d = (if db_Name d \<noteq> '''' then db_Name d else rm_Name (db_Meta d))"

definition database_resource :: "Database Resource" where
  "database_resource = \<lparr>r_Name = (\<lambda>d. rm_Name (db_Meta d)), r_Namespace = (\<lambda>d. rm_Namespace (db_Meta d)), r_MariaDBRef = db_MariaDBRef,
     r_IsBeingDeleted = (\<lambda>d. rm_DeletionTimestamp (db_Meta d) \<noteq> None), r_RequeueInterval = (\<lambda>d. sq_RequeueInterval (db_Template d)),
     r_RetryInterval = (\<lambda>d. sq_RetryInterval (db_Template d)), r_CleanupPolicy = (\<lambda>d. sq_CleanupPolicy (db_Template d))\<rparr>"

definition createDatabase :: "ConnOpts \<Rightarrow> string \<Rightarrow> DatabaseOpts \<Rightarrow> ('o, unit result) rop" where
  "createDatabase client database opts =
     tryP (askR (\<lambda>r. as_text (un_op r)) (Stmt client (DatabaseExists database))) (\<lambda>dbExists.
       if dbExists = ''1'' then Ret (Inr ()) else execStmt client (CreateDatabase database opts))"

definition Database_Reconcile :: "ConnOpts \<Rightarrow> Database \<Rightarrow> Database on_resource" where
  "Database_Reconcile client d =
     bindP (ctxP ''error creating database in MariaDB''
         (createDatabase client (DatabaseNameOrDefault d) \<lparr>do_CharacterSet = db_CharacterSet d, do_Collate = db_Collate d\<rparr>))
       (\<lambda>x. Ret (d, x))"

definition Database_PatchStatus :: "(Condition list \<Rightarrow> Condition list) \<Rightarrow> Database \<Rightarrow> Database on_resource" where
  "Database_PatchStatus patcher d =
     patchResource ''error patching Database status'' PatchResourceStatus (d\<lparr>db_Conditions := patcher (db_Conditions d)\<rparr>)"

definition databaseFinalizerName :: string where
  "databaseFinalizerName = ''database.k8s.mariadb.com/finalizer''"

definition Database_ContainsFinalizer :: "finalizer_api \<Rightarrow> Database \<Rightarrow> bool" where
  "Database_ContainsFinalizer F d = ContainsFinalizer F (rm_Finalizers (db_Meta d)) databaseFinalizerName"

definition Database_patchFinalizers :: "(string list \<Rightarrow> string list) \<Rightarrow> Database \<Rightarrow> Database on_resource" where
  "Database_patchFinalizers f d =
     patchResource ''error patching Database finalizer'' PatchResource
       (d\<lparr>db_Meta := (db_Meta d)\<lparr>rm_Finalizers := f (rm_Finalizers (db_Meta d))\<rparr>\<rparr>)"

definition Database_AddFinalizer :: "finalizer_api \<Rightarrow> Database \<Rightarrow> Database on_resource" where
  "Database_AddFinalizer F d =
     (if Database_ContainsFinalizer F d then Ret (d, Inr ()) else Database_patchFinalizers (\<lambda>fs. AddFinalizer F fs databaseFinalizerName) d)"

definition Database_RemoveFinalizer :: "finalizer_api \<Rightarrow> Database \<Rightarrow> Database on_resource" where
  "Database_RemoveFinalizer F d =
     (if \<not> Database_ContainsFinalizer F d then Ret (d, Inr ()) else Database_patchFinalizers (\<lambda>fs. RemoveFinalizer F fs databaseFinalizerName) d)"

definition Database_cleanup :: "ConnOpts \<Rightarrow> Database \<Rightarrow> (Database, unit result) rop" where
  "Database_cleanup client d = ctxP ''error dropping database in MariaDB'' (execStmt client (DropDatabase (DatabaseNameOrDefault d)))"

definition database_reconciler :: "Database WrappedReconciler" where
  "database_reconciler = \<lparr>wr_Reconcile = Database_Reconcile, wr_PatchStatus = Database_PatchStatus\<rparr>"

definition database_finalizer :: "finalizer_api \<Rightarrow> Database WrappedFinalizer" where
  "database_finalizer F = \<lparr>wf_AddFinalizer = Database_AddFinalizer F, wf_RemoveFinalizer = Database_RemoveFinalizer F,
     wf_ContainsFinalizer = Database_ContainsFinalizer F, wf_Reconcile = Database_cleanup\<rparr>"

definition DatabaseReconciler_Reconcile :: "meta_api \<Rightarrow> finalizer_api \<Rightarrow> string \<Rightarrow> SqlOptions \<Rightarrow> NamespacedName \<Rightarrow> (Database, CtrlResult result) rop" where
  "DatabaseReconciler_Reconcile M F domain opts =
     reconcileKind M domain opts database_resource database_reconciler (database_finalizer F)"

section \<open>The kinds keep the promises of the template\<close>

lemma finalizer_okD:
  assumes "finalizer_ok F"
  shows "ContainsFinalizer F (AddFinalizer F fs n) n" "\<not> ContainsFinalizer F (RemoveFinalizer F fs n) n"
  using assms by (auto simp: finalizer_ok_def)

lemma r_calls_userExists: "P (Stmt client (UserExists user host)) \<Longrightarrow> r_calls P (userExistsStmt client user host)"
  by (auto simp: userExistsStmt_def intro!: all_calls_tryP)

definition user_dropped :: "ConnOpts \<Rightarrow> User \<Rightarrow> User rtrace \<Rightarrow> bool" where
  "user_dropped client u t \<longleftrightarrow> (\<exists>r. (Stmt client (DropUser (User_AccountName u)), r) \<in> set t \<and> ok r)"

definition grant_revoked :: "ConnOpts \<Rightarrow> Grant \<Rightarrow> Grant rtrace \<Rightarrow> bool" where
  "grant_revoked client g t \<longleftrightarrow>
     (\<exists>r. (Stmt client (Revoke (gt_Privileges g) (gt_Database g) (gt_Table g) (Grant_AccountName g) (gt_GrantOption g)), r) \<in> set t \<and> ok r) \<or>
     (\<exists>r n. (Stmt client (UserExists (gt_Username g) (Grant_HostnameOrDefault g)), r) \<in> set t \<and> as_int (un_op r) = Inr n \<and> n \<le> 0)"

definition database_dropped :: "ConnOpts \<Rightarrow> Database \<Rightarrow> Database rtrace \<Rightarrow> bool" where
  "database_dropped client d t \<longleftrightarrow> (\<exists>r. (Stmt client (DropDatabase (DatabaseNameOrDefault d)), r) \<in> set t \<and> ok r)"

lemma r_calls_credentials: "(\<And>c. P (Op c)) \<Longrightarrow> r_calls P (credentials u)"
  by (auto simp: credentials_def userSecret_def intro!: all_calls_tryP all_calls_ctxP r_calls_readSecret split: option.split)

lemma user_kind: "finalizer_ok F \<Longrightarrow> sql_kind user_reconciler (user_finalizer F) user_dropped"
proof (unfold_locales, goal_cases)
  case (1 client u)
  then show ?case
    by (auto simp: user_reconciler_def User_Reconcile_def applyUser_def createOrAlter_def intro!: all_calls_bindP all_calls_tryP all_calls_ctxP
        r_calls_credentials r_calls_userExists r_calls_execStmt)
next
  case (6 client u t)
  then show ?case
    by (auto simp: user_finalizer_def User_cleanup_def user_dropped_def exec_execStmt stmt_text_def)
qed (auto simp: user_reconciler_def user_finalizer_def User_PatchStatus_def User_AddFinalizer_def User_RemoveFinalizer_def
    User_patchFinalizers_def User_ContainsFinalizer_def User_cleanup_def finalizer_okD intro!: all_calls_ctxP r_calls_execStmt)

lemma grant_kind: "finalizer_ok F \<Longrightarrow> sql_kind grant_reconciler (grant_finalizer F) grant_revoked"
proof (unfold_locales, goal_cases)
  case (1 client g)
  then show ?case
    by (auto simp: grant_reconciler_def Grant_Reconcile_def revokeStale_def grantPrivileges_def recordPrivileges_def Grant_patchStatusWithFunc_def
        intro!: all_calls_bindP all_calls_tryP all_calls_ctxP r_calls_execStmt split: sum.split)
next
  case (6 client g t)
  then show ?case
    by (auto simp: grant_finalizer_def Grant_cleanup_def grant_revoked_def userExistsStmt_def exec_tryP_Inr exec_execStmt stmt_text_def
        split: if_splits)
qed (auto simp: grant_reconciler_def grant_finalizer_def Grant_PatchStatus_def Grant_patchStatusWithFunc_def Grant_AddFinalizer_def
    Grant_RemoveFinalizer_def Grant_patchFinalizers_def Grant_ContainsFinalizer_def Grant_cleanup_def finalizer_okD
    intro!: all_calls_ctxP all_calls_tryP r_calls_execStmt r_calls_userExists)

lemma database_kind: "finalizer_ok F \<Longrightarrow> sql_kind database_reconciler (database_finalizer F) database_dropped"
proof (unfold_locales, goal_cases)
  case (1 client d)
  then show ?case
    by (auto simp: database_reconciler_def Database_Reconcile_def createDatabase_def intro!: all_calls_bindP all_calls_tryP all_calls_ctxP r_calls_execStmt)
next
  case (6 client d t)
  then show ?case
    by (auto simp: database_finalizer_def Database_cleanup_def database_dropped_def exec_execStmt stmt_text_def)
qed (auto simp: database_reconciler_def database_finalizer_def Database_PatchStatus_def Database_AddFinalizer_def Database_RemoveFinalizer_def
    Database_patchFinalizers_def Database_ContainsFinalizer_def Database_cleanup_def finalizer_okD intro!: all_calls_ctxP r_calls_execStmt)

interpretation users: sql_kind user_resource user_reconciler "user_finalizer list_finalizers" user_dropped
  by (rule user_kind [OF finalizer_ok_list])

interpretation grants: sql_kind grant_resource grant_reconciler "grant_finalizer list_finalizers" grant_revoked
  by (rule grant_kind [OF finalizer_ok_list])

interpretation databases: sql_kind database_resource database_reconciler "database_finalizer list_finalizers" database_dropped
  by (rule database_kind [OF finalizer_ok_list])

section \<open>Deleting a resource\<close>


definition exampleUser :: User where
  "exampleUser = \<lparr>u_Meta = \<lparr>rm_Name = ''app'', rm_Namespace = ''ns'', rm_DeletionTimestamp = Some 5, rm_Finalizers = [userFinalizerName]\<rparr>,
     u_Template = \<lparr>sq_RequeueInterval = None, sq_RetryInterval = None, sq_CleanupPolicy = None\<rparr>,
     u_MariaDBRef = \<lparr>ref_Name = ''mdb'', ref_Namespace = '''', ref_Kind = '''', ref_WaitForIt = True\<rparr>,
     u_PasswordSecretKeyRef = Some \<lparr>ss_Name = ''app'', ss_Key = ''password''\<rparr>, u_PasswordHashSecretKeyRef = None,
     u_PluginNameSecretKeyRef = None, u_PluginArgSecretKeyRef = None, u_Require = None, u_MaxUserConnections = 20,
     u_Name = '''', u_Host = '''', u_Conditions = []\<rparr>"

text \<open>The shape of a run that finds no MariaDB.\<close>

lemma finalize_not_found:
  assumes "finalizer_ok F" "r_IsBeingDeleted user_resource u" "User_ContainsFinalizer F u"
  shows "\<exists>u'. exec no_group (SqlReconciler_Reconcile M domain opts user_resource user_reconciler (user_finalizer F) u)
      [(Op (GetMariaDB (refKey (u_MariaDBRef u) (rm_Namespace (u_Meta u)))), OpA (AMariaDB (Inl (ErrNotFound n)))),
       (PatchResource u', AResource (Inr u'))] (u', Inr zeroResult) \<and> \<not> User_ContainsFinalizer F u'"
proof -
  let ?u = "u\<lparr>u_Meta := (u_Meta u)\<lparr>rm_Finalizers := RemoveFinalizer F (rm_Finalizers (u_Meta u)) userFinalizerName\<rparr>\<rparr>"
  have "exec no_group (User_RemoveFinalizer F u) [(PatchResource ?u, AResource (Inr ?u))] (?u, Inr ())"
    using assms(3) by (simp add: User_RemoveFinalizer_def User_patchFinalizers_def exec_patchResource)
  then have "exec no_group (doneWith msg (User_RemoveFinalizer F u)) [(PatchResource ?u, AResource (Inr ?u))] (?u, Inr zeroResult)" for msg
    unfolding doneWith_def exec_bind_Ret_prod by force
  then have "exec no_group (SqlReconciler_Reconcile M domain opts user_resource user_reconciler (user_finalizer F) u)
      [(Op (GetMariaDB (refKey (u_MariaDBRef u) (rm_Namespace (u_Meta u)))), OpA (AMariaDB (Inl (ErrNotFound n)))),
       (PatchResource ?u, AResource (Inr ?u))] (?u, Inr zeroResult)"
    using assms(2,3) by (simp add: SqlReconciler_Reconcile_def Finalize_def RefResolver_MariaDB_def exec_askR_bind finalizeFor_def
        user_finalizer_def) (simp add: user_resource_def)
  moreover have "\<not> User_ContainsFinalizer F ?u" using finalizer_okD(2) [OF assms(1)] by (simp add: User_ContainsFinalizer_def)
  ultimately show ?thesis by blast
qed




section \<open>Bringing a resource about\<close>


text \<open>An external database that answers, for a database resource.\<close>

definition exampleExternal :: ExternalMariaDB where
  "exampleExternal = \<lparr>em_ObjectMeta = exampleMeta, em_Host = ''db.example.com'', em_Port = 3306,
     em_Username = None, em_PasswordSecretKeyRef = Some \<lparr>ss_Name = ''ext'', ss_Key = ''password''\<rparr>, em_TLS = None\<rparr>"

definition exampleDatabase :: Database where
  "exampleDatabase = \<lparr>db_Meta = \<lparr>rm_Name = ''shop'', rm_Namespace = ''ns'', rm_DeletionTimestamp = None, rm_Finalizers = []\<rparr>,
     db_Template = \<lparr>sq_RequeueInterval = None, sq_RetryInterval = None, sq_CleanupPolicy = None\<rparr>,
     db_MariaDBRef = \<lparr>ref_Name = ''ext'', ref_Namespace = '''', ref_Kind = ExternalMariaDBKind, ref_WaitForIt = True\<rparr>,
     db_CharacterSet = ''utf8'', db_Collate = '''', db_Name = '''', db_Conditions = []\<rparr>"

definition exampleClient :: ConnOpts where
  "exampleClient = \<lparr>co_Username = ''root'', co_Password = ''pw'', co_Host = ''db.example.com'', co_Port = 3306, co_TLS = None\<rparr>"

fun okDatabaseEnv :: "Database rcall list \<Rightarrow> Database rcall \<Rightarrow> Database ranswer" where
  "okDatabaseEnv h (GetExternalMariaDB k) = AExternal (Inr exampleExternal)"
| "okDatabaseEnv h (PatchResource d) = AResource (Inr d)"
| "okDatabaseEnv h (PatchResourceStatus d) = AResource (Inr d)"
| "okDatabaseEnv h (Op (SecretKeyRef sel ns)) = OpA (AText (Inr ''pw''))"
| "okDatabaseEnv h (Stmt client (DatabaseExists d)) = OpA (AText (Inr ''0''))"
| "okDatabaseEnv h RandInt63 = ARand 7"
| "okDatabaseEnv h _ = OpA (AUnit (Inr ()))"

abbreviation exampleOptions :: SqlOptions where
  "exampleOptions \<equiv> \<lparr>so_RequeueInterval = 100, so_RequeueMaxOffset = 10\<rparr>"

lemma exampleDatabase_run:
  "\<exists>post d' res. run run_no_group okDatabaseEnv [] (SqlReconciler_Reconcile list_meta ''cluster.local'' exampleOptions
      database_resource database_reconciler (database_finalizer list_finalizers) exampleDatabase) =
    Some ([(GetExternalMariaDB \<lparr>nn_Name = ''ext'', nn_Namespace = ''ns''\<rparr>, AExternal (Inr exampleExternal)),
      (Op (SecretKeyRef \<lparr>ss_Name = ''ext'', ss_Key = ''password''\<rparr> ''ns''), OpA (AText (Inr ''pw''))), (Connect exampleClient, OpA (AUnit (Inr ()))),
      (Stmt exampleClient (DatabaseExists ''shop''), OpA (AText (Inr ''0'')))] @
      (Stmt exampleClient (CreateDatabase ''shop'' \<lparr>do_CharacterSet = ''utf8'', do_Collate = ''''\<rparr>), OpA (AUnit (Inr ()))) # post, d', res)"
  by (simp add: SqlReconciler_Reconcile_def RefResolver_MariaDBObject_def reconcileFor_def waitForMariaDB_def reconcileResource_def
      NewClientWithMariaDB_def NewClient_def clientTLS_def readSecret_def run_simps database_resource_def database_reconciler_def
      Database_Reconcile_def createDatabase_def execStmt_def stmt_text_def settle_def refKey_def exampleDatabase_def exampleExternal_def
      exampleClient_def zeroTLS_def DatabaseNameOrDefault_def exampleMeta_def SqlFinalizer_AddFinalizer_def database_finalizer_def
      Database_AddFinalizer_def Database_ContainsFinalizer_def Database_patchFinalizers_def patchResource_def Database_PatchStatus_def
      requeueResult_def addRequeueIntervalOffset_def Let_def list_finalizers_def)


section \<open>Privileges\<close>

text \<open>What a run does to the privileges of the account on the table.\<close>

fun privilege_effect :: "Grant rcall \<times> Grant ranswer \<Rightarrow> string set \<Rightarrow> string set" where
  "privilege_effect (Stmt client (Grant ps d t a opt), r) P = (if ok r then P \<union> set ps else P)"
| "privilege_effect (Stmt client (Revoke ps d t a opt), r) P = (if ok r then P - set ps else P)"
| "privilege_effect _ P = P"

definition privileges_after :: "string set \<Rightarrow> Grant rtrace \<Rightarrow> string set" where
  "privileges_after P t = fold privilege_effect t P"

lemma privileges_after_simps [simp]:
  "privileges_after P [] = P" "privileges_after P (e # t) = privileges_after (privilege_effect e P) t"
  "privileges_after P (t @ t') = privileges_after (privileges_after P t) t'"
  by (simp_all add: privileges_after_def)

lemma exec_revokeStale:
  assumes "exec no_group (revokeStale client g) t x"
  shows "privileges_after P t = (if x = Inr () then P - set (privilegesToRevoke g) else P)"
  using assms
  by (auto simp: revokeStale_def privilegesToRevoke_def exec_ctxP exec_execStmt stmt_text_def Deref_def filter_empty_conv
      split: if_splits option.splits)

lemma exec_grantPrivileges:
  assumes "exec no_group (grantPrivileges client g) t x"
  shows "privileges_after P t = (if x = Inr () then P \<union> set (gt_Privileges g) else P)"
  using assms by (auto simp: grantPrivileges_def exec_ctxP exec_execStmt stmt_text_def split: if_splits)

lemma exec_recordPrivileges:
  assumes "exec no_group (recordPrivileges g) t (g', x)"
  shows "privileges_after P t = P"
    "x = Inr () \<Longrightarrow> Deref (gt_CurrentPrivileges g) [] = gt_Privileges g \<or>
      (\<exists>r. (PatchResourceStatus (g\<lparr>gt_CurrentPrivileges := Some (gt_Privileges g)\<rparr>), r) \<in> set t \<and> as_resource r = Inr g')"
proof -
  have "privileges_after P t = P \<and> (x = Inr () \<longrightarrow> Deref (gt_CurrentPrivileges g) [] = gt_Privileges g \<or>
      (\<exists>r. (PatchResourceStatus (g\<lparr>gt_CurrentPrivileges := Some (gt_Privileges g)\<rparr>), r) \<in> set t \<and> as_resource r = Inr g'))"
  proof (cases "Deref (gt_CurrentPrivileges g) [] = gt_Privileges g")
    case False
    with assms obtain y r where "t = [(PatchResourceStatus (g\<lparr>gt_CurrentPrivileges := Some (gt_Privileges g)\<rparr>), r)]"
      "x = with_ctx ''error patching current privileges'' y" "case as_resource r of
         Inl e \<Rightarrow> y = Inl (ErrCtx ''error patching Grant status'' e) | Inr s \<Rightarrow> g' = s \<and> y = Inr ()"
      by (simp add: recordPrivileges_def Grant_patchStatusWithFunc_def exec_bind_Ret_prod exec_patchResource) (force split: sum.splits)
    then show ?thesis by (cases "as_resource r") auto
  qed (use assms in \<open>simp add: recordPrivileges_def\<close>)
  then show "privileges_after P t = P"
    "x = Inr () \<Longrightarrow> Deref (gt_CurrentPrivileges g) [] = gt_Privileges g \<or>
      (\<exists>r. (PatchResourceStatus (g\<lparr>gt_CurrentPrivileges := Some (gt_Privileges g)\<rparr>), r) \<in> set t \<and> as_resource r = Inr g')"
    by blast+
qed


definition exampleGrant :: Grant where
  "exampleGrant = \<lparr>gt_Meta = \<lparr>rm_Name = ''app'', rm_Namespace = ''ns'', rm_DeletionTimestamp = None, rm_Finalizers = []\<rparr>,
     gt_Template = \<lparr>sq_RequeueInterval = None, sq_RetryInterval = None, sq_CleanupPolicy = None\<rparr>,
     gt_MariaDBRef = \<lparr>ref_Name = ''mdb'', ref_Namespace = '''', ref_Kind = '''', ref_WaitForIt = True\<rparr>,
     gt_Privileges = [''SELECT'', ''INSERT''], gt_Database = ''shop'', gt_Table = ''*'', gt_Username = ''app'', gt_Host = None,
     gt_GrantOption = False, gt_Conditions = [], gt_CurrentPrivileges = Some [''SELECT'', ''DELETE'']\<rparr>"

lemma exampleGrant_run:
  "\<exists>t. exec no_group (Grant_Reconcile exampleClient exampleGrant) t (exampleGrant\<lparr>gt_CurrentPrivileges := Some (gt_Privileges exampleGrant)\<rparr>, Inr ())"
proof -
  let ?g = "exampleGrant\<lparr>gt_CurrentPrivileges := Some (gt_Privileges exampleGrant)\<rparr>"
  let ?env = "\<lambda>h :: Grant rcall list. \<lambda>c. case c of PatchResourceStatus g \<Rightarrow> AResource (Inr g) | _ \<Rightarrow> OpA (AUnit (Inr ()))"
  have "\<exists>t. run run_no_group ?env [] (Grant_Reconcile exampleClient exampleGrant) = Some (t, ?g, Inr ())"
    by (simp add: Grant_Reconcile_def revokeStale_def privilegesToRevoke_def grantPrivileges_def recordPrivileges_def execStmt_def
        stmt_text_def Grant_patchStatusWithFunc_def patchResource_def run_simps exampleGrant_def)
  then obtain t where "run run_no_group ?env [] (Grant_Reconcile exampleClient exampleGrant) = Some (t, ?g, Inr ())" by blast
  from run_sound [OF _ this, of no_group] show ?thesis by (auto simp: run_no_group_def)
qed


section \<open>Users\<close>

definition confirmed :: "'o ranswer \<Rightarrow> bool" where
  "confirmed r \<longleftrightarrow> (\<exists>n > 0. as_int (un_op r) = Inr n)"

lemma exec_ctx_execStmt:
  assumes "exec no_group (ctxP msg (execStmt client s)) t x"
  shows "map fst t \<in> {[], [Stmt client s]} \<and> (x = Inr () \<longrightarrow> (\<exists>r. t = [(Stmt client s, r)] \<and> ok r))"
  using assms by (cases "stmt_text s") (auto simp: exec_ctxP exec_execStmt eq_commute [of "Inr _"])

text \<open>The statements of a run once the credentials are read.\<close>

lemma exec_applyUser:
  assumes "exec no_group (applyUser client u opts secret) t x"
  shows "\<exists>r t'. t = (Stmt client (UserExists (User_UsernameOrDefault u) (User_HostnameOrDefault u)), r) # t' \<and>
    (if confirmed r then map fst t' \<in> {[], [Stmt client (AlterUser (User_AccountName u) opts)]} \<and>
       (secret \<noteq> '''' \<longrightarrow> x = Inr () \<longrightarrow> (\<exists>r'. t' = [(Stmt client (AlterUser (User_AccountName u) opts), r')] \<and> ok r'))
     else \<exists>r' t''. t' = (Stmt client (DropUser (User_AccountName u)), r') # t'' \<and>
       map fst t'' \<in> {[], [Stmt client (CreateUser (User_AccountName u) opts)]} \<and>
       (x = Inr () \<longrightarrow> ok r' \<and> (\<exists>r''. t'' = [(Stmt client (CreateUser (User_AccountName u) opts), r'')] \<and> ok r'')))"
proof -
  obtain r t' where t: "t = (Stmt client (UserExists (User_UsernameOrDefault u) (User_HostnameOrDefault u)), r) # t'"
    and e: "exec no_group (createOrAlter client u opts secret (confirmed r)) t' x"
  proof -
    from assms obtain r t' where t: "t = (Stmt client (UserExists (User_UsernameOrDefault u) (User_HostnameOrDefault u)), r) # t'"
      and e: "exec no_group (bindP (case as_int (un_op r) of Inl e \<Rightarrow> Ret (Inl e) | Inr count \<Rightarrow> Ret (Inr (0 < count)))
        (\<lambda>x. createOrAlter client u opts secret (case x of Inl _ \<Rightarrow> False | Inr b \<Rightarrow> b))) t' x"
      unfolding applyUser_def userExistsStmt_def tryP_def bindP_assoc exec_askR_bind by blast
    from e have "exec no_group (createOrAlter client u opts secret (confirmed r)) t' x"
      by (cases "as_int (un_op r)") (simp_all add: confirmed_def)
    with t that show ?thesis by blast
  qed
  show ?thesis
  proof (cases "confirmed r")
    case True
    with e show ?thesis
      using exec_ctx_execStmt [of "''error altering User''" client _ t' x] by (auto simp: t createOrAlter_def split: if_splits)
  next
    case False
    with e have d: "exec no_group (tryP (ctxP ''error dropping User'' (execStmt client (DropUser (User_AccountName u)))) (\<lambda>_.
           ctxP ''error creating User'' (execStmt client (CreateUser (User_AccountName u) opts)))) t' x" by (simp add: createOrAlter_def)
    then consider r' e where "t' = [(Stmt client (DropUser (User_AccountName u)), r')]" "x = Inl e"
      | r' t2 where "t' = (Stmt client (DropUser (User_AccountName u)), r') # t2" "ok r'"
          "exec no_group (ctxP ''error creating User'' (execStmt client (CreateUser (User_AccountName u) opts))) t2 x"
      unfolding exec_tryP by (auto simp: exec_ctxP [where msg = "''error dropping User''"] exec_execStmt [where s = "DropUser _"] stmt_text_def)
    then show ?thesis
    proof cases
      case 2
      then show ?thesis using exec_ctx_execStmt [OF 2(3)] by (auto simp: t False)
    qed (simp add: t False)
  qed
qed

lemma exec_User_Reconcile:
  assumes "exec no_group (User_Reconcile client u) t (u', x)"
  shows "u' = u \<and> (\<exists>t1 t2. t = t1 @ t2 \<and> (\<forall>e \<in> set t1. \<exists>c. fst e = Op c) \<and>
    ((\<exists>e. x = Inl e \<and> t2 = []) \<or> (\<exists>opts secret. exec no_group (applyUser client u opts secret) t2 x)))"
proof -
  from assms have u: "u' = u" and e: "exec no_group (tryP (credentials u) (\<lambda>(cred, secret). applyUser client u (createUserOpts u cred) secret)) t x"
    by (auto simp: User_Reconcile_def exec_bind_Ret)
  have op: "\<forall>e \<in> set t'. \<exists>c. fst e = Op c" if "exec no_group (credentials u) t' y" for t' y
    using r_exec_calls [OF that r_calls_credentials, of "\<lambda>c. \<exists>k. c = Op k"] by auto
  from e consider e' where "x = Inl e'" "exec no_group (credentials u) t (Inl e')"
    | t1 t2 cred secret where "t = t1 @ t2" "exec no_group (credentials u) t1 (Inr (cred, secret))"
        "exec no_group (applyUser client u (createUserOpts u cred) secret) t2 x"
    unfolding exec_tryP by auto
  then show ?thesis
  proof cases
    case 1
    then show ?thesis using u op [OF 1(2)] by (intro conjI exI [of _ t] exI [of _ "[]"]) auto
  next
    case 2
    then show ?thesis using u op [OF 2(2)] by (intro conjI exI [of _ t1] exI [of _ t2]) auto
  qed
qed

text \<open>
  C36: what reconciling a user executes. Its statements start with the question whether the user exists.
  The user is dropped, to be created again, whenever the answer is not a positive count, an error of the
  question included; a user that is confirmed is never dropped and at most altered. After a
  reconciliation without error the user was confirmed, or was dropped and created with success.
\<close>

theorem user_dropped_unless_confirmed:
  assumes "exec no_group (User_Reconcile client u) t (u', x)"
  shows "((Stmt client (UserExists (User_UsernameOrDefault u) (User_HostnameOrDefault u)), r) \<in> set t \<longrightarrow>
      (confirmed r \<longleftrightarrow> (\<forall>a. Stmt client (DropUser a) \<notin> set (map fst t)))) \<and>
    (x = Inr () \<longrightarrow> (\<exists>r. (Stmt client (UserExists (User_UsernameOrDefault u) (User_HostnameOrDefault u)), r) \<in> set t \<and>
      (confirmed r \<or> (\<exists>r1 r2 opts. (Stmt client (DropUser (User_AccountName u)), r1) \<in> set t \<and> ok r1 \<and>
        (Stmt client (CreateUser (User_AccountName u) opts), r2) \<in> set t \<and> ok r2))))"
proof -
  let ?q = "Stmt client (UserExists (User_UsernameOrDefault u) (User_HostnameOrDefault u))"
  from exec_User_Reconcile [OF assms] obtain t1 t2 where t: "t = t1 @ t2" and op: "\<forall>e \<in> set t1. \<exists>c. fst e = Op c"
    and e: "(\<exists>e. x = Inl e \<and> t2 = []) \<or> (\<exists>opts secret. exec no_group (applyUser client u opts secret) t2 x)" by blast
  have no: "Stmt client s \<notin> set (map fst t1)" for s using op by force
  from e show ?thesis
  proof
    assume "\<exists>e. x = Inl e \<and> t2 = []"
    then show ?thesis using no by (force simp: t)
  next
    assume "\<exists>opts secret. exec no_group (applyUser client u opts secret) t2 x"
    then obtain opts secret where "exec no_group (applyUser client u opts secret) t2 x" by blast
    from exec_applyUser [OF this] obtain r0 t' where t2: "t2 = (?q, r0) # t'" and
      c: "if confirmed r0 then map fst t' \<in> {[], [Stmt client (AlterUser (User_AccountName u) opts)]}
        else \<exists>r' t''. t' = (Stmt client (DropUser (User_AccountName u)), r') # t'' \<and>
          map fst t'' \<in> {[], [Stmt client (CreateUser (User_AccountName u) opts)]} \<and>
          (x = Inr () \<longrightarrow> ok r' \<and> (\<exists>r''. t'' = [(Stmt client (CreateUser (User_AccountName u) opts), r'')] \<and> ok r''))"
      by (auto split: if_splits)
    have q: "?q \<notin> set (map fst t')" using c by (auto split: if_splits)
    then have r: "r = r0" if "(?q, r) \<in> set t" using that no by (force simp: t t2)
    show ?thesis
    proof (cases "confirmed r0")
      case True
      with c have "Stmt client (DropUser a) \<notin> set (map fst t)" for a using no by (auto simp: t t2)
      with True r show ?thesis by (auto simp: t t2)
    next
      case False
      with c r show ?thesis by (auto simp: t t2) blast
    qed
  qed
qed

text \<open>The check of an existing user fails, and so does its creation.\<close>

theorem user_dropped_unless_confirmed_witness:
  "\<exists>t e. exec no_group (User_Reconcile exampleClient exampleUser) t (exampleUser, Inl e) \<and>
     (\<exists>a. Stmt exampleClient (DropUser a) \<in> set (map fst t))"
proof -
  let ?env = "\<lambda>h :: User rcall list. \<lambda>c. case c of Op (SecretKeyRef s n) \<Rightarrow> OpA (AText (Inr ''pw''))
    | Stmt cl (DropUser a) \<Rightarrow> OpA (AUnit (Inr ())) | _ \<Rightarrow> OpA (AUnit (Inl (ErrExt ''connection reset'')))"
  have "\<exists>t e r. run run_no_group ?env [] (User_Reconcile exampleClient exampleUser) = Some (t, exampleUser, Inl e) \<and>
      (Stmt exampleClient (UserExists (User_UsernameOrDefault exampleUser) (User_HostnameOrDefault exampleUser)), r) \<in> set t \<and> \<not> confirmed r"
    by (simp add: User_Reconcile_def credentials_def userSecret_def readSecret_def applyUser_def createOrAlter_def userExistsStmt_def
        execStmt_def stmt_text_def CreateUser_text_def requirement_def createUserOpts_def applyOpts_def WithIdentifiedBy_def
        WithMaxUserConnections_def noCreateUserOpts_def run_simps exampleUser_def confirmed_def)
  then obtain t e r where run: "run run_no_group ?env [] (User_Reconcile exampleClient exampleUser) = Some (t, exampleUser, Inl e)"
    and q: "(Stmt exampleClient (UserExists (User_UsernameOrDefault exampleUser) (User_HostnameOrDefault exampleUser)), r) \<in> set t" "\<not> confirmed r"
    by blast
  from run_sound [OF _ run, of no_group] have "exec no_group (User_Reconcile exampleClient exampleUser) t (exampleUser, Inl e)"
    by (simp add: run_no_group_def)
  from this user_dropped_unless_confirmed [OF this, THEN conjunct1, rule_format, OF q(1)] q(2) show ?thesis by blast
qed

section \<open>Coming back\<close>

lemma wrap64_id: "- (2 ^ 63) \<le> i \<Longrightarrow> i < 2 ^ 63 \<Longrightarrow> wrap64 i = i"
  by (simp add: wrap64_def)

text \<open>
  C33: when a settled resource is reconciled again. After a reconciliation without error the next one is
  asked for after the interval of the resource, or the one of the operator when the resource has none,
  plus a random offset below the configured one; the sum does not wrap for an interval that leaves room
  for the offset in 64 bits. After an error it is asked for at once.
\<close>

theorem requeueResult_bounds:
  assumes "exec no_group (requeueResult opts (R :: 'o Resource) ob errs) t res" "d = Deref (r_RequeueInterval R ob) (so_RequeueInterval opts)"
    "0 < d" "d + so_RequeueMaxOffset opts < 2 ^ 63"
  shows "if errs = [] then \<not> cr_Requeue res \<and> d \<le> cr_RequeueAfter res \<and>
      cr_RequeueAfter res < d + max 1 (so_RequeueMaxOffset opts) else res = requeue"
proof -
  have off: "d \<le> d' \<and> d' < d + max 1 (so_RequeueMaxOffset opts)" if "exec no_group (addRequeueIntervalOffset opts d :: ('o, int) rop) t' d'" for t' d'
  proof (cases "so_RequeueMaxOffset opts > 0")
    case True
    with that obtain n where "d' = wrap64 (d + n mod so_RequeueMaxOffset opts)"
      by (auto simp: addRequeueIntervalOffset_def exec_askR_bind)
    moreover have "0 \<le> n mod so_RequeueMaxOffset opts" "n mod so_RequeueMaxOffset opts < so_RequeueMaxOffset opts" using True by simp_all
    ultimately show ?thesis using assms(3,4) by (simp add: wrap64_id)
  qed (use that in \<open>simp add: addRequeueIntervalOffset_def\<close>)
  show ?thesis
    using assms(1-3) off
    by (cases "r_RequeueInterval R ob") (auto simp: requeueResult_def zeroResult_def exec_bind_Ret split: if_splits)
qed

theorem requeueResult_bounds_witness:
  "\<exists>t res. exec no_group (requeueResult exampleOptions database_resource exampleDatabase []) t res \<and>
     100 \<le> cr_RequeueAfter res \<and> cr_RequeueAfter res < 110"
proof -
  have "\<exists>res. run run_no_group okDatabaseEnv [] (requeueResult exampleOptions database_resource exampleDatabase []) = Some ([(RandInt63, ARand 7)], res)"
    by (simp add: requeueResult_def database_resource_def exampleDatabase_def addRequeueIntervalOffset_def run_simps)
  then obtain t res where "run run_no_group okDatabaseEnv [] (requeueResult exampleOptions database_resource exampleDatabase []) = Some (t, res)"
    by blast
  from run_sound [OF _ this, of no_group] have run: "exec no_group (requeueResult exampleOptions database_resource exampleDatabase []) t res"
    by (simp add: run_no_group_def)
  have "Deref (r_RequeueInterval database_resource exampleDatabase) (so_RequeueInterval exampleOptions) = 100"
    by (simp add: database_resource_def exampleDatabase_def)
  with requeueResult_bounds [OF run refl] run show ?thesis by auto
qed

end
