(* ===== verification/Backup_Files.thy ===== *)
theory Backup_Files
  imports Api_Types
begin

text \<open>
  \<^verbatim>\<open>pkg/backup\<close> without its storages: the names of backup files, the dates in them, which file a recovery
  takes and which files the retention policy removes (\<^verbatim>\<open>processor.go\<close>, \<^verbatim>\<open>backup.go\<close>), with \<^verbatim>\<open>pkg/time\<close> and
  the compression algorithms of the API. The first sections are what the code uses of the Go standard
  library: \<^verbatim>\<open>time.Parse\<close> for its two layouts, \<^verbatim>\<open>Time.Sub\<close>, which saturates at 64 bits, and
  \<^verbatim>\<open>path.Base\<close>. A time is its number of nanoseconds since the epoch; a calendar time in UTC is a record.
\<close>

section \<open>time\<close>

record civil =
  cv_Year :: nat
  cv_Month :: nat
  cv_Day :: nat
  cv_Hour :: nat
  cv_Minute :: nat
  cv_Second :: nat

definition isLeap :: "nat \<Rightarrow> bool" where
  "isLeap y \<longleftrightarrow> 4 dvd y \<and> (\<not> 100 dvd y \<or> 400 dvd y)"

definition daysIn :: "nat \<Rightarrow> nat \<Rightarrow> nat" where
  "daysIn m y = (if m = 2 then (if isLeap y then 29 else 28) else if m \<in> {4, 6, 9, 11} then 30 else 31)"

definition valid_civil :: "civil \<Rightarrow> bool" where
  "valid_civil c \<longleftrightarrow> cv_Year c \<le> 9999 \<and> 1 \<le> cv_Month c \<and> cv_Month c \<le> 12 \<and> 1 \<le> cv_Day c \<and> cv_Day c \<le> daysIn (cv_Month c) (cv_Year c) \<and>
     cv_Hour c < 24 \<and> cv_Minute c < 60 \<and> cv_Second c < 60"

text \<open>Days before the first of January of a year, counted from the year 1, and of a month of it.\<close>

definition days_before_year :: "nat \<Rightarrow> int" where
  "days_before_year y = (let p = int y - 1 in 365 * p + p div 4 - p div 100 + p div 400)"

definition days_before_month :: "nat \<Rightarrow> nat \<Rightarrow> int" where
  "days_before_month m y = int (sum_list (map (\<lambda>k. daysIn k y) [1..<m]))"

definition instant :: "civil \<Rightarrow> int" where
  "instant c =
     (let days = days_before_year (cv_Year c) + days_before_month (cv_Month c) (cv_Year c) + int (cv_Day c) - 1 - 719162
      in (((days * 24 + int (cv_Hour c)) * 60 + int (cv_Minute c)) * 60 + int (cv_Second c)) * second)"

text \<open>\<^verbatim>\<open>getnum\<close> of the parser: two digits, or one when that is enough.\<close>

definition getnum :: "bool \<Rightarrow> string \<Rightarrow> (nat \<times> string) option" where
  "getnum fixed s =
     (case s of
        [] \<Rightarrow> None
      | a # r \<Rightarrow>
          (case digit_val a of
             None \<Rightarrow> None
           | Some x \<Rightarrow>
               (case r of
                  [] \<Rightarrow> if fixed then None else Some (x, r)
                | b # r' \<Rightarrow> (case digit_val b of Some y \<Rightarrow> Some (10 * x + y, r') | None \<Rightarrow> if fixed then None else Some (x, r)))))"

definition getyear :: "string \<Rightarrow> (nat \<times> string) option" where
  "getyear s =
     (if length s < 4 then None
      else map_option (\<lambda>y. (y, drop 4 s)) (atou (take 4 s)))"

definition lit :: "string \<Rightarrow> string \<Rightarrow> string option" where
  "lit p s = (if HasPrefix s p then Some (drop (length p) s) else None)"

text \<open>A fraction of a second may follow the seconds: a comma or a period and digits, nine of which count.\<close>

definition fraction :: "string \<Rightarrow> int \<times> string" where
  "fraction s =
     (case s of
        a # r \<Rightarrow>
          (let ds = takeWhile (\<lambda>c. digit_val c \<noteq> None) r in
           if a \<in> {CHR ''.'', CHR '',''} \<and> ds \<noteq> []
           then (let n = take 9 ds in (int (Deref (atou n) 0) * 10 ^ (9 - length n), drop (length ds) r))
           else (0, s))
      | [] \<Rightarrow> (0, s))"

text \<open>The date with \<open>d\<close> between its fields, and the time of day with \<open>t\<close> between them.\<close>

definition parse_date :: "string \<Rightarrow> string \<Rightarrow> (nat \<times> nat \<times> nat \<times> string) option" where
  "parse_date d s =
     Option.bind (getyear s) (\<lambda>(y, s). Option.bind (lit d s) (\<lambda>s.
     Option.bind (getnum True s) (\<lambda>(m, s). if m = 0 \<or> 12 < m then None else Option.bind (lit d s) (\<lambda>s.
     Option.bind (getnum True s) (\<lambda>(dd, s). Some (y, m, dd, s))))))"

definition parse_clock :: "string \<Rightarrow> string \<Rightarrow> (nat \<times> nat \<times> nat \<times> int \<times> string) option" where
  "parse_clock t s =
     Option.bind (getnum False s) (\<lambda>(h, s). if 24 \<le> h then None else Option.bind (lit t s) (\<lambda>s.
     Option.bind (getnum True s) (\<lambda>(mi, s). if 60 \<le> mi then None else Option.bind (lit t s) (\<lambda>s.
     Option.bind (getnum True s) (\<lambda>(se, s). if 60 \<le> se then None else
       (case fraction s of (ns, s) \<Rightarrow> Some (h, mi, se, ns, s)))))))"

definition in_range :: "nat \<Rightarrow> nat \<Rightarrow> nat \<Rightarrow> bool" where
  "in_range y m d \<longleftrightarrow> 1 \<le> d \<and> d \<le> daysIn m y"

abbreviation time_error :: go_error where
  "time_error \<equiv> ErrExt ''parsing time''"

text \<open>The layout \<^verbatim>\<open>20060102150405\<close>.\<close>

definition parse_compact :: "string \<Rightarrow> int result" where
  "parse_compact s =
     (case Option.bind (parse_date '''' s) (\<lambda>(y, m, d, s). Option.bind (parse_clock '''' s) (\<lambda>(h, mi, se, ns, s).
        if s \<noteq> '''' \<or> \<not> in_range y m d then None
        else Some (instant \<lparr>cv_Year = y, cv_Month = m, cv_Day = d, cv_Hour = h, cv_Minute = mi, cv_Second = se\<rparr> + ns))) of
      None \<Rightarrow> Inl time_error | Some t \<Rightarrow> Inr t)"

text \<open>The zone of RFC 3339: the offset from UTC in seconds.\<close>

definition parse_zone :: "string \<Rightarrow> int option" where
  "parse_zone s =
     (if s = ''Z'' then Some 0
      else if length s = 6 \<and> s ! 3 = CHR '':'' then
        (case (getnum True (take 2 (drop 1 s)), getnum True (drop 4 s)) of
           (Some (hr, _), Some (mm, _)) \<Rightarrow>
             if hr > 24 \<or> mm > 60 then None
             else if s ! 0 = CHR ''+'' then Some (int (hr * 60 + mm) * 60)
             else if s ! 0 = CHR ''-'' then Some (- (int (hr * 60 + mm) * 60))
             else None
         | _ \<Rightarrow> None)
      else None)"

definition parse_rfc3339 :: "string \<Rightarrow> int result" where
  "parse_rfc3339 s =
     (case Option.bind (parse_date ''-'' s) (\<lambda>(y, m, d, s). Option.bind (lit ''T'' s) (\<lambda>s.
        Option.bind (parse_clock '':'' s) (\<lambda>(h, mi, se, ns, s). Option.bind (parse_zone s) (\<lambda>off.
          if \<not> in_range y m d then None
          else Some (instant \<lparr>cv_Year = y, cv_Month = m, cv_Day = d, cv_Hour = h, cv_Minute = mi, cv_Second = se\<rparr> + ns - off * second))))) of
      None \<Rightarrow> Inl time_error | Some t \<Rightarrow> Inr t)"

text \<open>Numbers written with a fixed width, and the compact layout written.\<close>

definition pad2 :: "nat \<Rightarrow> string" where
  "pad2 n = [digit_char (n div 10 mod 10), digit_char (n mod 10)]"

definition pad4 :: "nat \<Rightarrow> string" where
  "pad4 n = pad2 (n div 100) @ pad2 (n mod 100)"

definition time_Format :: "civil \<Rightarrow> string" where
  "time_Format c =
     pad4 (cv_Year c) @ pad2 (cv_Month c) @ pad2 (cv_Day c) @ pad2 (cv_Hour c) @ pad2 (cv_Minute c) @ pad2 (cv_Second c)"

definition time_Parse :: "string \<Rightarrow> int result" where
  "time_Parse tRaw = with_ctx ''error parsing time'' (parse_compact tRaw)"

definition ParseBackupDate :: "string \<Rightarrow> int result" where
  "ParseBackupDate timeRaw = with_ctx ''error parsing backup date'' (parse_rfc3339 timeRaw)"

definition maxDuration :: int where "maxDuration = 2 ^ 63 - 1"
definition minDuration :: int where "minDuration = - (2 ^ 63)"

definition time_Sub :: "int \<Rightarrow> int \<Rightarrow> int" where
  "time_Sub t u = max minDuration (min maxDuration (t - u))"

definition Duration_Abs :: "int \<Rightarrow> int" where
  "Duration_Abs d = (if d \<ge> 0 then d else if d = minDuration then maxDuration else - d)"

section \<open>path\<close>

definition Base :: "string \<Rightarrow> string" where
  "Base p =
     (if p = '''' then ''.''
      else let q = rev (dropWhile (\<lambda>c. c = CHR ''/'') (rev p)) in
        if q = '''' then ''/'' else last (split_on (CHR ''/'') q))"

section \<open>Compression\<close>

type_synonym CompressAlgorithm = string

definition CompressNone :: CompressAlgorithm where "CompressNone = ''none''"
definition CompressBzip2 :: CompressAlgorithm where "CompressBzip2 = ''bzip2''"
definition CompressGzip :: CompressAlgorithm where "CompressGzip = ''gzip''"

lemmas compress_defs = CompressNone_def CompressBzip2_def CompressGzip_def

definition Compress_Validate :: "CompressAlgorithm \<Rightarrow> unit result" where
  "Compress_Validate c =
     (if c \<in> {'''', CompressNone, CompressBzip2, CompressGzip} then Inr () else Inl (ErrNew ''invalid compression''))"

definition Compress_Extension :: "CompressAlgorithm \<Rightarrow> string result" where
  "Compress_Extension c =
     (if c = '''' \<or> c = CompressNone then Inr '''' else if c = CompressBzip2 then Inr ''bz2''
      else if c = CompressGzip then Inr ''gz'' else Inl (ErrNew ''invalid compression''))"

definition CompressionFromExtension :: "string \<Rightarrow> CompressAlgorithm result" where
  "CompressionFromExtension ext =
     (if ext = '''' then Inr CompressNone else if ext = ''bz2'' then Inr CompressBzip2
      else if ext = ''gz'' then Inr CompressGzip else Inl (ErrNew ''unknown compression extension''))"

section \<open>Processors\<close>

record BackupProcessor =
  bp_IsValidBackupFile :: "string \<Rightarrow> bool"
  bp_ParseCompressionAlgorithm :: "string \<Rightarrow> CompressAlgorithm result"
  bp_GetUncompressedBackupFile :: "string \<Rightarrow> string result"
  bp_parseDateInBackupFile :: "string \<Rightarrow> int result"

definition dots :: "string \<Rightarrow> string list" where
  "dots s = split_on (CHR ''.'') s"

definition Logical_parseDate :: "string \<Rightarrow> int result" where
  "Logical_parseDate fileName =
     (let parts = dots fileName in
      if length parts \<noteq> 3 \<and> length parts \<noteq> 4 then Inl (ErrNew ''invalid backup file name'') else ParseBackupDate (parts ! 1))"

definition Logical_ParseCompressionAlgorithm :: "string \<Rightarrow> CompressAlgorithm result" where
  "Logical_ParseCompressionAlgorithm fileName =
     (let parts = dots fileName in
      if length parts = 3 then Inr CompressNone
      else if length parts \<noteq> 4 then Inl (ErrNew ''invalid backup file name'')
      else and_then (Compress_Validate (parts ! 2)) (\<lambda>_. Inr (parts ! 2)))"

definition Logical_IsValidBackupFile :: "string \<Rightarrow> bool" where
  "Logical_IsValidBackupFile fileName =
     (if \<not> HasPrefix fileName ''backup.'' \<or> \<not> HasSuffix fileName ''.sql'' then False
      else case Logical_ParseCompressionAlgorithm fileName of
        Inl _ \<Rightarrow> False
      | Inr _ \<Rightarrow> (case Logical_parseDate fileName of Inl _ \<Rightarrow> False | Inr _ \<Rightarrow> True))"

definition Logical_GetUncompressedBackupFile :: "string \<Rightarrow> string result" where
  "Logical_GetUncompressedBackupFile f =
     (let parts = dots f in
      if length parts \<noteq> 4 then Inl (ErrNew ''invalid compressed backup file name'')
      else and_then (Compress_Validate (parts ! 2)) (\<lambda>_. Inr (parts ! 0 @ ''.'' @ parts ! 1 @ ''.'' @ parts ! 3)))"

definition logical_processor :: BackupProcessor where
  "logical_processor = \<lparr>bp_IsValidBackupFile = Logical_IsValidBackupFile, bp_ParseCompressionAlgorithm = Logical_ParseCompressionAlgorithm,
     bp_GetUncompressedBackupFile = Logical_GetUncompressedBackupFile, bp_parseDateInBackupFile = Logical_parseDate\<rparr>"

text \<open>The physical processor takes its date parser and its validation as options.\<close>

definition Physical_parseDate :: "(string \<Rightarrow> int result) option \<Rightarrow> string \<Rightarrow> int result" where
  "Physical_parseDate parseDateFn fileName =
     (case parseDateFn of
        Some f \<Rightarrow> f fileName
      | None \<Rightarrow>
          (let b = hd (dots (Base fileName)) in
           if \<not> HasPrefix b ''physicalbackup-'' then Inl (ErrNew ''invalid physical backup prefix'')
           else time_Parse (TrimPrefix b ''physicalbackup-'')))"

definition Physical_ParseCompressionAlgorithm :: "string \<Rightarrow> CompressAlgorithm result" where
  "Physical_ParseCompressionAlgorithm fileName =
     (let parts = dots fileName in
      if length parts = 2 then Inr CompressNone
      else if length parts \<noteq> 3 then Inl (ErrNew ''invalid backup file name'')
      else and_then (CompressionFromExtension (parts ! 2)) (\<lambda>calg. and_then (Compress_Validate calg) (\<lambda>_. Inr calg)))"

definition Physical_IsValidBackupFile :: "(string \<Rightarrow> bool) option \<Rightarrow> (string \<Rightarrow> int result) option \<Rightarrow> string \<Rightarrow> bool" where
  "Physical_IsValidBackupFile validationFn parseDateFn fileName =
     (case validationFn of
        Some f \<Rightarrow> f fileName
      | None \<Rightarrow>
          (let baseName = Base fileName in
           if \<not> HasPrefix baseName ''physicalbackup-'' then False
           else case Physical_ParseCompressionAlgorithm baseName of
             Inl _ \<Rightarrow> False
           | Inr _ \<Rightarrow> (case Physical_parseDate parseDateFn baseName of Inl _ \<Rightarrow> False | Inr _ \<Rightarrow> True)))"

definition Physical_GetUncompressedBackupFile :: "string \<Rightarrow> string result" where
  "Physical_GetUncompressedBackupFile f =
     (let parts = dots f in
      if length parts \<noteq> 3 then Inl (ErrNew ''invalid compressed physical backup file'')
      else and_then (CompressionFromExtension (parts ! 2)) (\<lambda>alg.
        and_then (Compress_Validate alg) (\<lambda>_. Inr (parts ! 0 @ ''.'' @ parts ! 1))))"

definition physical_processor :: "(string \<Rightarrow> bool) option \<Rightarrow> (string \<Rightarrow> int result) option \<Rightarrow> BackupProcessor" where
  "physical_processor validationFn parseDateFn =
     \<lparr>bp_IsValidBackupFile = Physical_IsValidBackupFile validationFn parseDateFn,
      bp_ParseCompressionAlgorithm = Physical_ParseCompressionAlgorithm,
      bp_GetUncompressedBackupFile = Physical_GetUncompressedBackupFile, bp_parseDateInBackupFile = Physical_parseDate parseDateFn\<rparr>"

text \<open>The loop of \<^verbatim>\<open>GetBackupTargetFile\<close>: a file with the very date ends it. The sort of the source does not
  say which of several closest files comes first; here it is the first one listed.\<close>

fun collectDiffs :: "(string \<Rightarrow> int result) \<Rightarrow> int \<Rightarrow> string list \<Rightarrow> (string \<times> int) list \<Rightarrow> string + (string \<times> int) list" where
  "collectDiffs parseDate target [] acc = Inr acc"
| "collectDiffs parseDate target (file # files) acc =
     (case parseDate file of
        Inl _ \<Rightarrow> collectDiffs parseDate target files acc
      | Inr backupDate \<Rightarrow>
          (let diff = Duration_Abs (time_Sub backupDate target) in
           if diff = 0 then Inl file else collectDiffs parseDate target files (acc @ [(file, diff)])))"

definition GetBackupTargetFile :: "(string \<Rightarrow> int result) \<Rightarrow> string list \<Rightarrow> int \<Rightarrow> string result" where
  "GetBackupTargetFile parseDate backupFileNames target =
     (case collectDiffs parseDate target backupFileNames [] of
        Inl file \<Rightarrow> Inr file
      | Inr backupDiffs \<Rightarrow>
          if backupDiffs = [] then Inl (ErrNew ''no valid backup files were found'')
          else Inr (fst (hd (sort_key snd backupDiffs))))"

definition GetOldBackupFiles :: "(string \<Rightarrow> int result) \<Rightarrow> int \<Rightarrow> string list \<Rightarrow> int \<Rightarrow> string list" where
  "GetOldBackupFiles parseDate now backupFileNames maxRetention =
     filter (\<lambda>file. case parseDate file of Inl _ \<Rightarrow> False | Inr backupDate \<Rightarrow> time_Sub now backupDate > maxRetention) backupFileNames"

section \<open>The closest backup\<close>

text \<open>The distance the search minimises, and the files it can compare.\<close>

definition distance :: "(string \<Rightarrow> int result) \<Rightarrow> int \<Rightarrow> string \<Rightarrow> int" where
  "distance parseDate target file = (case parseDate file of Inl _ \<Rightarrow> 0 | Inr d \<Rightarrow> Duration_Abs (time_Sub d target))"

definition dated :: "(string \<Rightarrow> int result) \<Rightarrow> string list \<Rightarrow> string list" where
  "dated parseDate files = filter (\<lambda>f. \<not> isl (parseDate f)) files"

lemma dated_simps [simp]:
  "dated p [] = []"
  "dated p (f # fs) = (case p f of Inl _ \<Rightarrow> dated p fs | Inr _ \<Rightarrow> f # dated p fs)"
  by (auto simp: dated_def split: sum.splits)

lemma set_dated [simp]: "f \<in> set (dated p fs) \<longleftrightarrow> f \<in> set fs \<and> (\<exists>d. p f = Inr d)"
  by (cases "p f") (auto simp: dated_def)

lemma distance_nonneg: "distance p t f \<ge> 0"
  by (auto simp: distance_def Duration_Abs_def maxDuration_def minDuration_def split: sum.splits)

text \<open>The loop is a search for a file at distance zero, and otherwise pairs every dated file with its distance.\<close>

lemma collectDiffs_Inl:
  "collectDiffs p t fs acc = Inl f \<Longrightarrow> f \<in> set (dated p fs) \<and> distance p t f = 0"
  by (induction p t fs acc rule: collectDiffs.induct) (auto simp: distance_def Let_def split: sum.splits if_splits)

lemma collectDiffs_Inr:
  "collectDiffs p t fs acc = Inr ds \<Longrightarrow> ds = acc @ map (\<lambda>f. (f, distance p t f)) (dated p fs)"
  by (induction p t fs acc rule: collectDiffs.induct) (auto simp: distance_def Let_def split: sum.splits if_splits)

lemma hd_sort_key_least:
  assumes "xs \<noteq> []"
  shows "hd (sort_key k xs) \<in> set xs" "\<And>x. x \<in> set xs \<Longrightarrow> k (hd (sort_key k xs)) \<le> k x"
proof -
  obtain y ys where s: "sort_key k xs = y # ys"
    using assms by (cases "sort_key k xs") (metis set_empty set_sort, auto)
  then have "set xs = insert y (set ys)" "sorted (map k (y # ys))"
    by (metis set_sort list.simps(15), metis sorted_sort_key)
  then show "hd (sort_key k xs) \<in> set xs" "\<And>x. x \<in> set xs \<Longrightarrow> k (hd (sort_key k xs)) \<le> k x"
    using s by auto
qed

text \<open>C27: the file a recovery takes is a listed file with a readable date, and no listed file has a date closer
  to the target time; there is one as soon as some listed file has a readable date.\<close>

theorem closest_backup:
  assumes "\<exists>f \<in> set files. \<not> isl (parseDate f)"
  shows "\<exists>f. GetBackupTargetFile parseDate files target = Inr f \<and> f \<in> set files \<and>
    (\<exists>d. parseDate f = Inr d \<and>
      (\<forall>g e. g \<in> set files \<longrightarrow> parseDate g = Inr e \<longrightarrow>
        Duration_Abs (time_Sub d target) \<le> Duration_Abs (time_Sub e target)))"
proof (cases "collectDiffs parseDate target files []")
  case (Inl f)
  from collectDiffs_Inl [OF Inl] obtain d where f: "f \<in> set files" "parseDate f = Inr d" "distance parseDate target f = 0"
    by auto
  have "Duration_Abs (time_Sub d target) \<le> Duration_Abs (time_Sub e target)" if "parseDate g = Inr e" for g e
    using f distance_nonneg [of parseDate target g] that by (simp add: distance_def)
  then show ?thesis using f Inl by (auto simp: GetBackupTargetFile_def)
next
  case (Inr ds)
  define m where "m = map (\<lambda>f. (f, distance parseDate target f)) (dated parseDate files)"
  have ds: "ds = m" using collectDiffs_Inr [OF Inr] by (simp add: m_def)
  obtain f0 where "f0 \<in> set (dated parseDate files)" using assms by (auto simp: isl_def) (metis sum.exhaust)
  then have ne: "m \<noteq> []" by (metis empty_iff list.set(1) m_def map_is_Nil_conv)
  obtain f k where hd: "hd (sort_key snd m) = (f, k)" by fastforce
  note least = hd_sort_key_least [OF ne, where k = snd, unfolded hd]
  obtain d where f: "f \<in> set files" "parseDate f = Inr d" "k = distance parseDate target f"
    using least(1) by (auto simp: m_def)
  have "Duration_Abs (time_Sub d target) \<le> Duration_Abs (time_Sub e target)" if "g \<in> set files" "parseDate g = Inr e" for g e
    using least(2) [of "(g, distance parseDate target g)"] that f by (force simp: m_def distance_def)
  then show ?thesis using f hd ne Inr by (auto simp: GetBackupTargetFile_def ds)
qed

lemma no_dated_backup:
  assumes "\<forall>f \<in> set files. isl (parseDate f)"
  shows "GetBackupTargetFile parseDate files target = Inl (ErrNew ''no valid backup files were found'')"
proof -
  have "collectDiffs parseDate target files acc = Inr acc" for acc
    using assms by (induction files arbitrary: acc) (auto split: sum.splits)
  then show ?thesis by (simp add: GetBackupTargetFile_def)
qed

section \<open>Retention\<close>

lemma time_Sub_gt: "r < maxDuration \<Longrightarrow> minDuration \<le> r \<Longrightarrow> time_Sub a b > r \<longleftrightarrow> a - b > r"
  by (auto simp: time_Sub_def)

text \<open>The retention policy removes exactly the listed files with a readable date that are older than the
  retention period. The saturation of the subtraction does not matter for any period below the largest duration, and files
  whose date cannot be read are never removed.\<close>

theorem old_backups_exact:
  assumes "minDuration \<le> maxRetention" "maxRetention < maxDuration"
  shows "f \<in> set (GetOldBackupFiles parseDate now files maxRetention) \<longleftrightarrow>
    f \<in> set files \<and> (\<exists>d. parseDate f = Inr d \<and> now - d > maxRetention)"
  using assms by (cases "parseDate f") (auto simp: GetOldBackupFiles_def time_Sub_gt)


section \<open>Dates written and read\<close>

lemma getnum_pad2 [simp]: "n < 100 \<Longrightarrow> getnum fixed (pad2 n @ s) = Some (n, s)"
  by (simp add: getnum_def pad2_def)

lemma length_pad [simp]: "length (pad2 n) = 2" "length (pad4 n) = 4"
  by (simp_all add: pad2_def pad4_def)

lemma getyear_pad4 [simp]:
  assumes "y < 10000"
  shows "getyear (pad4 y @ s) = Some (y, s)"
proof -
  have e: "100 * (y div 100) + y mod 100 = y" "10 * (y div 100 div 10 mod 10) + y div 100 mod 10 = y div 100"
    "10 * (y mod 100 div 10 mod 10) + y mod 100 mod 10 = y mod 100"
    using assms by (simp_all add: mult_div_mod_eq less_mult_imp_div_less)
  have "10 * (10 * (10 * a + b) + c) + d = 100 * (10 * a + b) + (10 * c + d)" for a b c d :: nat
    by simp
  then show ?thesis
    using e by (simp add: getyear_def atou_def pad4_def pad2_def del: mod_mod_cancel)
qed

lemma lit_simps [simp]: "lit '''' s = Some s" "lit (c # p) [] = None" "lit (c # p) (x # s) = (if c = x then lit p s else None)"
  by (auto simp: lit_def HasPrefix_def)

lemma daysIn_le: "daysIn m y \<le> 31"
  by (simp add: daysIn_def)

lemma valid_civil_bounds:
  assumes "valid_civil c"
  shows "cv_Year c < 10000" "0 < cv_Month c" "cv_Month c \<le> 12" "cv_Day c < 100" "cv_Hour c < 24" "cv_Minute c < 60" "cv_Second c < 60"
    "in_range (cv_Year c) (cv_Month c) (cv_Day c)"
  using assms daysIn_le [of "cv_Month c" "cv_Year c"] by (auto simp: valid_civil_def in_range_def)

lemma fraction_none [simp]: "fraction [] = (0, [])" "fraction (CHR ''Z'' # s) = (0, CHR ''Z'' # s)"
  by (simp_all add: fraction_def)

text \<open>The compact date the operator writes into the name of a physical backup, a snapshot or a job is read back as the
  very instant, for every calendar time in UTC up to the year 9999.\<close>

lemma Parse_Format:
  assumes "valid_civil c"
  shows "time_Parse (time_Format c) = Inr (instant c)"
  using valid_civil_bounds [OF assms] getnum_pad2 [of "cv_Second c" True "''''"]
  by (cases c) (simp add: time_Parse_def time_Format_def parse_compact_def parse_date_def parse_clock_def)


section \<open>Valid names can be processed\<close>

lemma dots_Cons [simp]: "CHR ''.'' \<notin> set s \<Longrightarrow> dots (s @ CHR ''.'' # t) = s # dots t" "CHR ''.'' \<notin> set s \<Longrightarrow> dots s = [s]"
  by (simp_all add: dots_def split_on_append_sep split_on_no_sep)

lemma dots_snoc: "CHR ''.'' \<notin> set t \<Longrightarrow> dots (s @ CHR ''.'' # t) = dots s @ [t]"
  by (simp add: dots_def split_on_append split_on_no_sep)

lemma dots_nth_plain: "i < length (dots s) \<Longrightarrow> CHR ''.'' \<notin> set (dots s ! i)"
  unfolding dots_def by (metis nth_mem split_on_parts_no_sep)

lemma dots_not_Nil [simp]: "dots s \<noteq> []"
  by (simp add: dots_def)

lemma split_on_subset: "w \<in> set (split_on c s) \<Longrightarrow> set w \<subseteq> set s"
proof (induction s arbitrary: w)
  case (Cons x xs)
  then show ?case by (cases "split_on c xs") (fastforce split: if_splits)+
qed simp

lemma dots_hd_prefix:
  assumes "HasPrefix f (p @ ''.'')" "CHR ''.'' \<notin> set p"
  shows "dots f ! 0 = p"
proof -
  from assms(1) obtain r where "f = p @ CHR ''.'' # r" by (auto simp: HasPrefix_def prefix_def)
  then show ?thesis using assms(2) by simp
qed

lemma dots_last_suffix:
  assumes "HasSuffix f (CHR ''.'' # x)" "CHR ''.'' \<notin> set x"
  shows "last (dots f) = x"
proof -
  from assms(1) obtain r where "f = r @ CHR ''.'' # x" by (auto simp: HasSuffix_def suffix_def)
  then show ?thesis using assms(2) by (simp add: dots_snoc)
qed

lemma dots_join3:
  assumes "CHR ''.'' \<notin> set a" "CHR ''.'' \<notin> set b" "CHR ''.'' \<notin> set c"
  shows "dots (a @ ''.'' @ b @ ''.'' @ c) = [a, b, c]" "dots (a @ ''.'' @ b) = [a, b]"
  using assms by simp_all

lemma Logical_uncompressed_valid:
  assumes v: "Logical_IsValidBackupFile f" and alg: "Logical_ParseCompressionAlgorithm f = Inr alg" "alg \<noteq> CompressNone"
  shows "\<exists>g. Logical_GetUncompressedBackupFile f = Inr g \<and> Logical_IsValidBackupFile g \<and>
    Logical_ParseCompressionAlgorithm g = Inr CompressNone \<and> Logical_parseDate g = Logical_parseDate f"
proof -
  have pre: "HasPrefix f (''backup'' @ ''.'')" and suf: "HasSuffix f (CHR ''.'' # ''sql'')" and d: "\<exists>d. Logical_parseDate f = Inr d"
    using v by (auto simp: Logical_IsValidBackupFile_def split: if_splits sum.splits)
  have l: "length (dots f) = 4" and ok: "Compress_Validate (dots f ! 2) = Inr ()"
    using alg by (auto simp: Logical_ParseCompressionAlgorithm_def Let_def split: if_splits)
  have h: "dots f ! 0 = ''backup''" using dots_hd_prefix [OF pre] by simp
  have s: "dots f ! 3 = ''sql''" using dots_last_suffix [OF suf] l by (simp add: last_conv_nth)
  define b where "b = dots f ! 1"
  have b: "CHR ''.'' \<notin> set b" using dots_nth_plain [of 1 f] l by (simp add: b_def)
  define g where "g = ''backup'' @ ''.'' @ b @ ''.'' @ ''sql''"
  have dg: "dots g = [''backup'', b, ''sql'']" unfolding g_def by (rule dots_join3(1)) (use b in simp_all)
  have date: "Logical_parseDate g = Logical_parseDate f"
    by (simp add: Logical_parseDate_def dg l b_def)
  moreover have "HasPrefix g ''backup.''" "HasSuffix g ''.sql''"
    by (simp_all add: HasPrefix_def HasSuffix_def suffix_def g_def)
  moreover have "Logical_ParseCompressionAlgorithm g = Inr CompressNone"
    by (simp add: Logical_ParseCompressionAlgorithm_def dg)
  ultimately have "Logical_IsValidBackupFile g" "Logical_ParseCompressionAlgorithm g = Inr CompressNone"
    using d by (auto simp: Logical_IsValidBackupFile_def)
  moreover have "Logical_GetUncompressedBackupFile f = Inr g"
    by (simp add: Logical_GetUncompressedBackupFile_def l ok h s g_def b_def)
  ultimately show ?thesis using date by blast
qed

lemma Base_plain: "f \<noteq> '''' \<Longrightarrow> CHR ''/'' \<notin> set f \<Longrightarrow> Base f = f"
proof -
  assume f: "f \<noteq> ''''" "CHR ''/'' \<notin> set f"
  have "dropWhile (\<lambda>c. c = CHR ''/'') (rev f) = rev f"
    using f by (metis dropWhile_eq_self_iff hd_rev last_in_set)
  with f show ?thesis by (simp add: Base_def split_on_no_sep)
qed

lemma Physical_uncompressed_valid:
  assumes v: "Physical_IsValidBackupFile None None f" and slash: "CHR ''/'' \<notin> set f"
    and alg: "Physical_ParseCompressionAlgorithm f = Inr alg" "alg \<noteq> CompressNone"
  shows "\<exists>g. Physical_GetUncompressedBackupFile f = Inr g \<and> Physical_IsValidBackupFile None None g \<and>
    Physical_ParseCompressionAlgorithm g = Inr CompressNone \<and> Physical_parseDate None g = Physical_parseDate None f"
proof -
  have ne: "f \<noteq> ''''" using v by (auto simp: Physical_IsValidBackupFile_def Base_def HasPrefix_def Let_def split: if_splits)
  note bf = Base_plain [OF ne slash]
  have l: "length (dots f) = 3" using alg by (auto simp: Physical_ParseCompressionAlgorithm_def Let_def split: if_splits)
  have d: "\<exists>d. Physical_parseDate None f = Inr d"
    using v by (auto simp: Physical_IsValidBackupFile_def bf Let_def split: if_splits sum.splits)
  define a b where "a = dots f ! 0" and "b = dots f ! 1"
  have hd: "hd (dots f) = a" using l by (simp add: a_def hd_conv_nth flip: length_greater_0_conv)
  have ab: "CHR ''.'' \<notin> set a" "CHR ''.'' \<notin> set b" using dots_nth_plain [of 0 f] dots_nth_plain [of 1 f] l by (simp_all add: a_def b_def)
  define g where "g = a @ ''.'' @ b"
  have dg: "dots g = [a, b]" unfolding g_def by (rule dots_join3(2) [where c = "''''"]) (use ab in simp_all)
  have sub: "set a \<union> set b \<subseteq> set f"
    using l split_on_subset [of _ "CHR ''.''" f] by (simp add: a_def b_def dots_def)
  then have sg: "CHR ''/'' \<notin> set g" and ng: "g \<noteq> ''''" using slash by (auto simp: g_def)
  note bg = Base_plain [OF ng sg]
  have date: "Physical_parseDate None g = Physical_parseDate None f"
    by (simp add: Physical_parseDate_def bf bg dg hd)
  have "HasPrefix a ''physicalbackup-''"
    using d by (auto simp: Physical_parseDate_def bf hd Let_def split: if_splits)
  then have "HasPrefix g ''physicalbackup-''" by (auto simp: HasPrefix_def g_def)
  then have "Physical_IsValidBackupFile None None g \<and> Physical_ParseCompressionAlgorithm g = Inr CompressNone"
    using d date by (auto simp: Physical_IsValidBackupFile_def bg Physical_ParseCompressionAlgorithm_def dg)
  moreover have "Physical_GetUncompressedBackupFile f = Inr g"
    using alg l by (auto simp: Physical_GetUncompressedBackupFile_def Physical_ParseCompressionAlgorithm_def Let_def g_def a_def b_def)
  ultimately show ?thesis using date by blast
qed


text \<open>The interface \<^verbatim>\<open>BackupProcessor\<close>: what the commands rely on when they are given a name that a storage has listed.\<close>

locale backup_processor =
  fixes p :: BackupProcessor
  assumes valid_parses: "CHR ''/'' \<notin> set f \<Longrightarrow> bp_IsValidBackupFile p f \<Longrightarrow>
      \<exists>alg d. bp_ParseCompressionAlgorithm p f = Inr alg \<and> Compress_Validate alg = Inr () \<and> bp_parseDateInBackupFile p f = Inr d"
    and uncompressed_valid: "CHR ''/'' \<notin> set f \<Longrightarrow> bp_IsValidBackupFile p f \<Longrightarrow> bp_ParseCompressionAlgorithm p f = Inr alg \<Longrightarrow> alg \<noteq> CompressNone \<Longrightarrow>
      \<exists>g. bp_GetUncompressedBackupFile p f = Inr g \<and> bp_IsValidBackupFile p g \<and> bp_ParseCompressionAlgorithm p g = Inr CompressNone \<and>
        bp_parseDateInBackupFile p g = bp_parseDateInBackupFile p f"
begin

lemma processable:
  assumes "CHR ''/'' \<notin> set f" "bp_IsValidBackupFile p f"
  shows "\<exists>alg d. bp_ParseCompressionAlgorithm p f = Inr alg \<and> Compress_Validate alg = Inr () \<and> bp_parseDateInBackupFile p f = Inr d \<and>
    (alg \<noteq> CompressNone \<longrightarrow> (\<exists>g. bp_GetUncompressedBackupFile p f = Inr g \<and> bp_IsValidBackupFile p g \<and>
       bp_parseDateInBackupFile p g = Inr d \<and> bp_ParseCompressionAlgorithm p g = Inr CompressNone))"
proof -
  from valid_parses [OF assms] obtain alg d where a: "bp_ParseCompressionAlgorithm p f = Inr alg" "Compress_Validate alg = Inr ()" "bp_parseDateInBackupFile p f = Inr d"
    by blast
  with uncompressed_valid [OF assms a(1)] show ?thesis by fastforce
qed

end

interpretation logical: backup_processor logical_processor
proof
  fix f :: string and alg
  assume "CHR ''/'' \<notin> set f" "bp_IsValidBackupFile logical_processor f"
  then have v: "Logical_IsValidBackupFile f" by (simp add: logical_processor_def)
  then obtain alg' d where a: "Logical_ParseCompressionAlgorithm f = Inr alg'" "Logical_parseDate f = Inr d"
    by (auto simp: Logical_IsValidBackupFile_def split: if_splits sum.splits)
  then have "Compress_Validate alg' = Inr ()"
    by (auto simp: Logical_ParseCompressionAlgorithm_def Compress_Validate_def Let_def split: if_splits)
  with a show "\<exists>alg d. bp_ParseCompressionAlgorithm logical_processor f = Inr alg \<and> Compress_Validate alg = Inr () \<and> bp_parseDateInBackupFile logical_processor f = Inr d"
    by (simp add: logical_processor_def)
  assume "bp_ParseCompressionAlgorithm logical_processor f = Inr alg" "alg \<noteq> CompressNone"
  with Logical_uncompressed_valid [OF v, of alg] show "\<exists>g. bp_GetUncompressedBackupFile logical_processor f = Inr g \<and> bp_IsValidBackupFile logical_processor g \<and>
      bp_ParseCompressionAlgorithm logical_processor g = Inr CompressNone \<and> bp_parseDateInBackupFile logical_processor g = bp_parseDateInBackupFile logical_processor f"
    by (auto simp: logical_processor_def)
qed

interpretation physical: backup_processor "physical_processor None None"
proof
  fix f :: string and alg
  assume s: "CHR ''/'' \<notin> set f" and "bp_IsValidBackupFile (physical_processor None None) f"
  then have v: "Physical_IsValidBackupFile None None f" by (simp add: physical_processor_def)
  have ne: "f \<noteq> ''''" using v by (auto simp: Physical_IsValidBackupFile_def Base_def HasPrefix_def Let_def split: if_splits)
  obtain alg' d where a: "Physical_ParseCompressionAlgorithm f = Inr alg'" "Physical_parseDate None f = Inr d"
    using v by (auto simp: Physical_IsValidBackupFile_def Base_plain [OF ne s] Let_def split: if_splits sum.splits)
  then have "Compress_Validate alg' = Inr ()"
    by (auto simp: Physical_ParseCompressionAlgorithm_def Compress_Validate_def Let_def split: if_splits)
  with a show "\<exists>alg d. bp_ParseCompressionAlgorithm (physical_processor None None) f = Inr alg \<and> Compress_Validate alg = Inr () \<and>
      bp_parseDateInBackupFile (physical_processor None None) f = Inr d"
    by (simp add: physical_processor_def)
  assume "bp_ParseCompressionAlgorithm (physical_processor None None) f = Inr alg" "alg \<noteq> CompressNone"
  with Physical_uncompressed_valid [OF v s, of alg] show "\<exists>g. bp_GetUncompressedBackupFile (physical_processor None None) f = Inr g \<and>
      bp_IsValidBackupFile (physical_processor None None) g \<and> bp_ParseCompressionAlgorithm (physical_processor None None) g = Inr CompressNone \<and>
      bp_parseDateInBackupFile (physical_processor None None) g = bp_parseDateInBackupFile (physical_processor None None) f"
    by (auto simp: physical_processor_def)
qed

text \<open>C29: a file name the storage lists can be processed to the end. When a plain file name is valid for the logical or
  the physical processor, its compression algorithm is read and is a supported one and its date is read; and when it is
  compressed, the name of the uncompressed file exists, is valid, has the same date and is uncompressed.\<close>

theorem valid_name_processable:
  assumes "p \<in> {logical_processor, physical_processor None None}" "CHR ''/'' \<notin> set f" "bp_IsValidBackupFile p f"
  shows "\<exists>alg d. bp_ParseCompressionAlgorithm p f = Inr alg \<and> Compress_Validate alg = Inr () \<and> bp_parseDateInBackupFile p f = Inr d \<and>
    (alg \<noteq> CompressNone \<longrightarrow> (\<exists>g. bp_GetUncompressedBackupFile p f = Inr g \<and> bp_IsValidBackupFile p g \<and>
       bp_parseDateInBackupFile p g = Inr d \<and> bp_ParseCompressionAlgorithm p g = Inr CompressNone))"
  using assms logical.processable [of f] physical.processable [of f] by blast

section \<open>Examples\<close>

definition backupDaily :: string where "backupDaily = ''backup.2023-12-18T16:14:00Z.gzip.sql''"
definition backupOther :: string where "backupOther = ''backup.2023-12-19T16:14:00Z.sql''"

lemma example_dates: "Logical_parseDate backupDaily = Inr 1702916040000000000" "Logical_parseDate backupOther = Inr 1703002440000000000"
  "Logical_parseDate ''notes.txt'' = Inl (ErrNew ''invalid backup file name'')"
  by code_simp+

theorem closest_backup_witness:
  "\<exists>f. GetBackupTargetFile Logical_parseDate [''notes.txt'', backupDaily, backupOther] 1702990000000000000 = Inr f \<and> f = backupOther"
proof -
  have "\<exists>f \<in> set [''notes.txt'', backupDaily, backupOther]. \<not> isl (Logical_parseDate f)" by (simp add: example_dates)
  from closest_backup [OF this, of 1702990000000000000] obtain f d where f:
    "GetBackupTargetFile Logical_parseDate [''notes.txt'', backupDaily, backupOther] 1702990000000000000 = Inr f"
    "f \<in> set [''notes.txt'', backupDaily, backupOther]" "Logical_parseDate f = Inr d"
    "Duration_Abs (time_Sub d 1702990000000000000) \<le> Duration_Abs (time_Sub 1703002440000000000 1702990000000000000)"
    using example_dates by fastforce
  from f have "f = backupOther"
    by (auto simp: example_dates Duration_Abs_def time_Sub_def maxDuration_def minDuration_def)
  with f show ?thesis by blast
qed

theorem old_backups_exact_witness:
  "backupDaily \<in> set (GetOldBackupFiles Logical_parseDate (1702916040000000000 + 3600 * second) [''notes.txt'', backupDaily] (1800 * second)) \<and>
   ''notes.txt'' \<notin> set (GetOldBackupFiles Logical_parseDate (1702916040000000000 + 3600 * second) [''notes.txt'', backupDaily] (1800 * second))"
proof -
  have "minDuration \<le> 1800 * second" "1800 * second < maxDuration" by (simp_all add: minDuration_def maxDuration_def second_def)
  then show ?thesis by (simp add: old_backups_exact example_dates second_def)
qed

theorem valid_name_processable_witness:
  "\<exists>g d. bp_GetUncompressedBackupFile logical_processor backupDaily = Inr g \<and> bp_IsValidBackupFile logical_processor g \<and>
     bp_parseDateInBackupFile logical_processor g = Inr d"
proof -
  have "bp_IsValidBackupFile logical_processor backupDaily" "CHR ''/'' \<notin> set backupDaily" "bp_ParseCompressionAlgorithm logical_processor backupDaily = Inr CompressGzip"
    by code_simp+
  moreover have "CompressGzip \<noteq> CompressNone" by (simp add: compress_defs)
  ultimately show ?thesis using valid_name_processable [of logical_processor backupDaily] by auto
qed


section \<open>The end of a date\<close>

text \<open>A date in the layout of RFC 3339 ends with its zone, which is \<^verbatim>\<open>Z\<close> or ends with a digit.\<close>

lemma getnum_suffix: "getnum fixed s = Some (n, r) \<Longrightarrow> suffix r s"
  by (auto simp: getnum_def suffix_def split: list.splits option.splits if_splits)

lemma getyear_suffix: "getyear s = Some (n, r) \<Longrightarrow> suffix r s"
  by (auto simp: getyear_def suffix_drop split: if_splits)

lemma lit_suffix: "lit p s = Some r \<Longrightarrow> suffix r s"
  by (auto simp: lit_def suffix_drop split: if_splits)

lemma fraction_suffix: "fraction s = (n, r) \<Longrightarrow> suffix r s"
  by (auto simp: fraction_def Let_def suffix_drop suffix_ConsI split: list.splits if_splits)

lemma parse_date_suffix: "parse_date d s = Some (y, m, dd, r) \<Longrightarrow> suffix r s"
  by (auto simp: parse_date_def bind_eq_Some_conv split: if_splits dest!: getnum_suffix getyear_suffix lit_suffix)

lemma parse_clock_suffix: "parse_clock d s = Some (h, mi, se, ns, r) \<Longrightarrow> suffix r s"
  by (auto simp: parse_clock_def bind_eq_Some_conv split: if_splits prod.splits dest!: getnum_suffix lit_suffix fraction_suffix)

lemma getnum_True_second: "getnum True [a, b] = Some x \<Longrightarrow> digit_val b \<noteq> None"
  by (auto simp: getnum_def split: option.splits)

lemma parse_zone_last: "parse_zone s = Some off \<Longrightarrow> s \<noteq> [] \<and> (last s = CHR ''Z'' \<or> digit_val (last s) \<noteq> None)"
proof (cases "s = ''Z''")
  case False
  assume z: "parse_zone s = Some off"
  with False have l: "length s = 6" and g: "getnum True (drop 4 s) \<noteq> None"
    by (auto simp: parse_zone_def split: if_splits option.splits)
  obtain a b c d e x where s: "s = [a, b, c, d, e, x]"
    using l by (auto simp: length_Suc_conv eval_nat_numeral)
  show ?thesis using g getnum_True_second [of e x] by (auto simp: s)
qed simp

lemma parse_rfc3339_last:
  assumes "parse_rfc3339 s = Inr t"
  shows "last s = CHR ''Z'' \<or> digit_val (last s) \<noteq> None"
proof -
  from assms obtain y m d s1 s2 h mi se ns s3 off where
    p: "parse_date ''-'' s = Some (y, m, d, s1)" "lit ''T'' s1 = Some s2" "parse_clock '':'' s2 = Some (h, mi, se, ns, s3)" "parse_zone s3 = Some off"
    by (auto simp: parse_rfc3339_def bind_eq_Some_conv simp del: lit_simps split: option.splits)
  then have "suffix s3 s" using parse_date_suffix lit_suffix parse_clock_suffix suffix_order.trans by metis
  moreover note parse_zone_last [OF p(4)]
  ultimately show ?thesis by (metis last_appendR suffix_def)
qed


section \<open>The calendar\<close>

text \<open>The calendar time of an instant, as \<^verbatim>\<open>Time.Date\<close> and \<^verbatim>\<open>Time.Clock\<close> give it in UTC: cycles of 400 years, then
  years, then months.\<close>

definition daysInYear :: "nat \<Rightarrow> nat" where
  "daysInYear y = (if isLeap y then 366 else 365)"

lemma daysInYear_pos: "daysInYear y > 0"
  by (simp add: daysInYear_def)

function year_from :: "nat \<Rightarrow> nat \<Rightarrow> nat \<times> nat" where
  "year_from y d = (if d < daysInYear y then (y, d) else year_from (Suc y) (d - daysInYear y))"
  by pat_completeness auto

termination year_from
  by (relation "measure snd") (use daysInYear_pos in \<open>auto intro!: diff_less\<close>, metis gr0I not_less_zero)

declare year_from.simps [simp del]

function month_from :: "nat \<Rightarrow> nat \<Rightarrow> nat \<Rightarrow> nat \<times> nat" where
  "month_from y m d = (if d < daysIn m y \<or> m \<ge> 12 then (m, d) else month_from y (Suc m) (d - daysIn m y))"
  by pat_completeness auto

termination month_from
  by (relation "measure (\<lambda>(y, m, d). 12 - m)") auto

declare month_from.simps [simp del]

definition civil_of :: "int \<Rightarrow> civil" where
  "civil_of t =
     (let s = t div second; days = s div 86400 + 719528; r = s mod 86400;
          (y, d) = year_from (400 * nat (days div 146097)) (nat (days mod 146097));
          (m, dd) = month_from y 1 d
      in \<lparr>cv_Year = y, cv_Month = m, cv_Day = Suc dd, cv_Hour = nat (r div 3600), cv_Minute = nat (r mod 3600 div 60), cv_Second = nat (r mod 60)\<rparr>)"

lemma div_pred: "k > 0 \<Longrightarrow> (a - 1) div k = a div k - (if k dvd a then 1 else 0)" for a k :: int
proof (cases "k dvd a")
  case True
  assume "k > 0"
  from True obtain q where q: "a = k * q" by (auto simp: dvd_def)
  have "(a - 1) div k = q - 1" using \<open>k > 0\<close> by (intro int_div_pos_eq [of _ _ _ "k - 1"]) (simp_all add: q algebra_simps)
  then show ?thesis using True q \<open>k > 0\<close> by simp
next
  case False
  assume k: "k > 0"
  have "a mod k \<noteq> 0" using False by (simp add: dvd_eq_mod_eq_0)
  then have "a mod k > 0" using k pos_mod_sign [of k a] by linarith
  moreover have "a mod k < k" using k by simp
  ultimately have "(a - 1) div k = a div k"
    by (intro int_div_pos_eq [of _ _ _ "a mod k - 1"]) (simp_all add: minus_mod_eq_mult_div [symmetric])
  then show ?thesis using False by simp
qed

lemma days_before_year_Suc: "days_before_year (Suc y) = days_before_year y + int (daysInYear y)"
proof -
  have d: "(4 dvd int y) = (4 dvd y)" "(100 dvd int y) = (100 dvd y)" "(400 dvd int y) = (400 dvd y)"
    using int_dvd_int_iff [of 4 y] int_dvd_int_iff [of 100 y] int_dvd_int_iff [of 400 y] by simp_all
  have i: "400 dvd y \<longrightarrow> 100 dvd y" "100 dvd y \<longrightarrow> 4 dvd y" by presburger+
  show ?thesis
    using i by (simp add: days_before_year_def Let_def div_pred d daysInYear_def isLeap_def)
qed

lemma days_before_year_400: "days_before_year (400 * c) = 146097 * int c - 366"
  by (simp add: days_before_year_def Let_def div_pred)

lemma year_from_spec:
  "year_from y d = (y', d') \<Longrightarrow> days_before_year y' + int d' = days_before_year y + int d \<and> d' < daysInYear y'"
proof (induction y d rule: year_from.induct)
  case (1 y d)
  show ?case
  proof (cases "d < daysInYear y")
    case True
    then show ?thesis using "1.prems" by (simp add: year_from.simps [of y d])
  next
    case False
    then have "year_from (Suc y) (d - daysInYear y) = (y', d')" using "1.prems" by (simp add: year_from.simps [of y d])
    from "1.IH" [OF False this] False show ?thesis by (simp add: days_before_year_Suc)
  qed
qed

lemma days_before_month_Suc: "m \<ge> 1 \<Longrightarrow> days_before_month (Suc m) y = days_before_month m y + int (daysIn m y)"
  by (simp add: days_before_month_def)

lemma days_before_month_year: "days_before_month 13 y = int (daysInYear y)"
proof -
  have "[1..<13] = [1, 2, 3, 4, 5, 6, 7, 8, 9, 10, 11, 12 :: nat]" by (simp add: upt_rec)
  then show ?thesis by (simp add: days_before_month_def daysIn_def daysInYear_def)
qed

lemma month_from_spec:
  "month_from y m d = (m', d') \<Longrightarrow> 1 \<le> m \<Longrightarrow> m \<le> 12 \<Longrightarrow> days_before_month m y + int d < days_before_month 13 y \<Longrightarrow>
    1 \<le> m' \<and> m' \<le> 12 \<and> d' < daysIn m' y \<and> days_before_month m' y + int d' = days_before_month m y + int d"
proof (induction y m d rule: month_from.induct)
  case (1 y m d)
  show ?case
  proof (cases "d < daysIn m y \<or> m \<ge> 12")
    case True
    then have r: "m' = m" "d' = d" using "1.prems"(1) by (simp_all add: month_from.simps [of y m d])
    have "d < daysIn m y"
    proof (cases "m = 12")
      case m: True
      then have "days_before_month 13 y = days_before_month 12 y + int (daysIn 12 y)" using days_before_month_Suc [of 12 y] by simp
      then show ?thesis using "1.prems"(4) m by simp
    next
      case False
      then show ?thesis using True "1.prems"(3) by simp
    qed
    then show ?thesis using r "1.prems" by simp
  next
    case False
    then have m: "month_from y (Suc m) (d - daysIn m y) = (m', d')" using "1.prems"(1) by (simp add: month_from.simps [of y m d])
    have e: "days_before_month (Suc m) y + int (d - daysIn m y) = days_before_month m y + int d"
      using False "1.prems"(2) by (simp add: days_before_month_Suc)
    from "1.IH" [OF False m] False e "1.prems"(2-4) show ?thesis by simp
  qed
qed


lemma civil_of_spec:
  assumes "t div second div 86400 + 719528 \<ge> 0"
  shows "instant (civil_of t) = t div second * second" "cv_Year (civil_of t) \<le> 9999 \<Longrightarrow> valid_civil (civil_of t)"
proof -
  define s where "s = t div second"
  define days where "days = s div 86400 + 719528"
  obtain y d where y: "year_from (400 * nat (days div 146097)) (nat (days mod 146097)) = (y, d)" by fastforce
  obtain m dd where m: "month_from y 1 d = (m, dd)" by fastforce
  note ys = year_from_spec [OF y]
  have c: "int (nat (days div 146097)) = days div 146097" "int (nat (days mod 146097)) = days mod 146097"
    using assms by (simp_all add: days_def s_def pos_imp_zdiv_nonneg_iff)
  have "days_before_month 1 y = 0" by (simp add: days_before_month_def)
  then have ms: "1 \<le> m \<and> m \<le> 12 \<and> dd < daysIn m y \<and> days_before_month m y + int dd = int d"
    using month_from_spec [OF m] ys by (simp add: days_before_month_year)
  have "days_before_year y + int d = 146097 * (days div 146097) - 366 + days mod 146097"
    using ys c by (simp add: days_before_year_400)
  then have days: "days_before_year y + days_before_month m y + int dd = days - 366"
    using ms mult_div_mod_eq [of 146097 days] by linarith
  have cv: "civil_of t = \<lparr>cv_Year = y, cv_Month = m, cv_Day = Suc dd, cv_Hour = nat (s mod 86400 div 3600),
      cv_Minute = nat (s mod 86400 mod 3600 div 60), cv_Second = nat (s mod 86400 mod 60)\<rparr>"
    by (simp add: civil_of_def Let_def y m del: One_nat_def flip: s_def days_def)
  define r where "r = s mod 86400"
  have r: "0 \<le> r" "r < 86400" by (simp_all add: r_def)
  have "r mod 3600 mod 60 = r mod 60" by (simp add: mod_mod_cancel)
  then have "(r div 3600 * 60 + r mod 3600 div 60) * 60 + r mod 60 = r div 3600 * 3600 + (r mod 3600 div 60 * 60 + r mod 3600 mod 60)"
    by (simp add: algebra_simps del: mult_div_mod_eq div_mult_mod_eq mod_mult_div_eq)
  then have clock: "(r div 3600 * 60 + r mod 3600 div 60) * 60 + r mod 60 = r" by (simp only: div_mult_mod_eq)
  have pos: "0 \<le> r div 3600" "0 \<le> r mod 3600 div 60" "0 \<le> r mod 60" using r by (simp_all add: pos_imp_zdiv_nonneg_iff)
  have "instant (civil_of t) = ((((days - 719528) * 24 + r div 3600) * 60 + r mod 3600 div 60) * 60 + r mod 60) * second"
    using days pos by (simp add: instant_def cv Let_def flip: r_def)
  also have "(((days - 719528) * 24 + r div 3600) * 60 + r mod 3600 div 60) * 60 + r mod 60 =
      (days - 719528) * 86400 + ((r div 3600 * 60 + r mod 3600 div 60) * 60 + r mod 60)" by (simp add: algebra_simps)
  also note clock
  also have "(days - 719528) * 86400 + r = s" by (simp add: days_def r_def)
  finally show "instant (civil_of t) = t div second * second" by (simp add: s_def)
  have "r div 3600 < 24" "r mod 3600 div 60 < 60" "r mod 60 < 60" using r by linarith+
  then show "cv_Year (civil_of t) \<le> 9999 \<Longrightarrow> valid_civil (civil_of t)"
    using ms by (simp add: cv valid_civil_def nat_less_iff pos flip: r_def)
qed

end
