(* ===== verification/Backup_Commands.thy ===== *)
theory Backup_Commands
  imports Backup_Files Go_Prog
begin

text \<open>
  The backup and restore commands that run in the Pods of backup and restore jobs (\<^verbatim>\<open>cmd/backup\<close>), with the storages
  and compressors they use (\<^verbatim>\<open>pkg/backup/storage.go\<close>, \<^verbatim>\<open>pkg/backup/compressor.go\<close>). They are programs over the calls
  of the operating system and of the S3 client; what these answer is left open, so every file operation and every
  request can fail. The value of a command is its exit code. Deferred calls run after the block they are deferred in and
  their errors are lost, as in the source. The flags of the command line are a record.
\<close>

section \<open>Calls\<close>

datatype io_call =
    SetupLogger
  | NewMinioClient string
  | TimeNow
  | ReadDir string
  | ReadTargetFile string
  | WriteTargetFile string string
  | OpenFile string
  | CreateFile string
  | CloseFile string
  | RemovePath string
  | Rename string string
  | NewWriter CompressAlgorithm string
  | NewReader CompressAlgorithm string
  | CopyIn CompressAlgorithm string string
  | CopyOut CompressAlgorithm string string
  | CloseWriter CompressAlgorithm string
  | CloseReader CompressAlgorithm string
  | ListObjects string string
  | FPutObject string string string
  | FGetObject string string string
  | RemoveObject string string

datatype io_answer =
    IUnit "unit result"
  | IText "string result"
  | INames "string list result"
  | IObjects "string result list"
  | ITime int

abbreviation io_unexpected :: go_error where
  "io_unexpected \<equiv> ErrExt ''unexpected answer''"

fun io_unit where "io_unit (IUnit x) = x" | "io_unit _ = Inl io_unexpected"
fun io_text where "io_text (IText x) = x" | "io_text _ = Inl io_unexpected"
fun io_names where "io_names (INames x) = x" | "io_names _ = Inl io_unexpected"
fun io_objects where "io_objects (IObjects x) = x" | "io_objects _ = [Inl io_unexpected]"
fun io_time where "io_time (ITime x) = x" | "io_time _ = 0"

type_synonym 'a io = "(io_call, io_answer, unit, unit, 'a) prog"

definition askIO :: "(io_answer \<Rightarrow> 'a) \<Rightarrow> io_call \<Rightarrow> 'a io" where
  "askIO sel c = Call c (\<lambda>r. Ret (sel r))"

text \<open>\<^verbatim>\<open>defer\<close>: the deferred call runs after the block, and what it returns is dropped.\<close>

definition deferP :: "'a io \<Rightarrow> io_call \<Rightarrow> 'a io" where
  "deferP p c = bindP p (\<lambda>x. bindP (askIO io_unit c) (\<lambda>_. Ret x))"

definition os_ErrNotExist :: go_error where
  "os_ErrNotExist = ErrExt ''file does not exist''"

definition os_IsNotExist :: "go_error \<Rightarrow> bool" where
  "os_IsNotExist e \<longleftrightarrow> e = os_ErrNotExist"

section \<open>Paths\<close>

text \<open>\<^verbatim>\<open>filepath.Clean\<close>, \<^verbatim>\<open>Join\<close> of two elements and \<^verbatim>\<open>IsAbs\<close>.\<close>

definition clean_step :: "bool \<Rightarrow> string list \<Rightarrow> string \<Rightarrow> string list" where
  "clean_step rooted out p =
     (if p = '''' \<or> p = ''.'' then out
      else if p = ''..'' then
        (case out of
           [] \<Rightarrow> if rooted then [] else [''..'']
         | q # qs \<Rightarrow> if q = ''..'' then ''..'' # out else qs)
      else p # out)"

definition Clean :: "string \<Rightarrow> string" where
  "Clean p =
     (if p = '''' then ''.''
      else let rooted = HasPrefix p ''/'';
               s = join_with ''/'' (rev (foldl (clean_step rooted) [] (split_on (CHR ''/'') p)))
           in if rooted then ''/'' @ s else if s = '''' then ''.'' else s)"

definition filepath_Join :: "string \<Rightarrow> string \<Rightarrow> string" where
  "filepath_Join a b = (if a \<noteq> '''' then Clean (a @ ''/'' @ b) else if b \<noteq> '''' then Clean b else '''')"

definition GetFilePath :: "string \<Rightarrow> string \<Rightarrow> string" where
  "GetFilePath path fileName = (if HasPrefix fileName ''/'' then fileName else filepath_Join path fileName)"

section \<open>Storages\<close>

record BackupStorage =
  st_List :: "string list result io"
  st_Push :: "string \<Rightarrow> unit result io"
  st_Pull :: "string \<Rightarrow> unit result io"
  st_Delete :: "string \<Rightarrow> unit result io"

definition FS_List :: "string \<Rightarrow> BackupProcessor \<Rightarrow> string list result io" where
  "FS_List basePath processor =
     tryP (askIO io_names (ReadDir basePath)) (\<lambda>entries. Ret (Inr (filter (bp_IsValidBackupFile processor) entries)))"

definition NewFileSystemBackupStorage :: "string \<Rightarrow> BackupProcessor \<Rightarrow> BackupStorage" where
  "NewFileSystemBackupStorage basePath processor =
     \<lparr>st_List = FS_List basePath processor, st_Push = (\<lambda>fileName. Ret (Inr ())), st_Pull = (\<lambda>fileName. Ret (Inr ())),
      st_Delete = (\<lambda>fileName. askIO io_unit (RemovePath (GetFilePath basePath fileName)))\<rparr>"

definition getPrefix :: "string \<Rightarrow> string" where
  "getPrefix p = (if p = '''' \<or> p = ''/'' then '''' else if \<not> HasSuffix p ''/'' then p @ ''/'' else p)"

definition prefixedFileName :: "string \<Rightarrow> string \<Rightarrow> string" where
  "prefixedFileName p fileName = getPrefix p @ Base fileName"

definition unprefixedFilename :: "string \<Rightarrow> string \<Rightarrow> string" where
  "unprefixedFilename p fileName = TrimPrefix (Base fileName) (getPrefix p)"

definition S3_shouldProcessBackupFile :: "string \<Rightarrow> BackupProcessor \<Rightarrow> string \<Rightarrow> bool" where
  "S3_shouldProcessBackupFile p processor fileName = bp_IsValidBackupFile processor (unprefixedFilename p fileName)"

text \<open>The objects come one by one over a channel; the first error ends the listing.\<close>

fun collectObjects :: "(string \<Rightarrow> bool) \<Rightarrow> string result list \<Rightarrow> string list result" where
  "collectObjects ok [] = Inr []"
| "collectObjects ok (Inl e # os) = Inl e"
| "collectObjects ok (Inr key # os) = and_then (collectObjects ok os) (\<lambda>ks. Inr (if ok key then key # ks else ks))"

definition S3_List :: "string \<Rightarrow> string \<Rightarrow> BackupProcessor \<Rightarrow> string list result io" where
  "S3_List bucket p processor =
     bindP (askIO io_objects (ListObjects bucket (getPrefix p)))
       (\<lambda>objects. Ret (collectObjects (S3_shouldProcessBackupFile p processor) objects))"

definition NewS3BackupStorage :: "string \<Rightarrow> string \<Rightarrow> string \<Rightarrow> string \<Rightarrow> BackupProcessor \<Rightarrow> BackupStorage result io" where
  "NewS3BackupStorage basePath bucket endpoint p processor =
     tryP (ctxP ''error creating S3 client'' (askIO io_unit (NewMinioClient endpoint))) (\<lambda>_.
       Ret (Inr
         \<lparr>st_List = S3_List bucket p processor,
          st_Push = (\<lambda>fileName. askIO io_unit (FPutObject bucket (prefixedFileName p fileName) (GetFilePath basePath fileName))),
          st_Pull = (\<lambda>fileName. askIO io_unit (FGetObject bucket (prefixedFileName p fileName) (GetFilePath basePath fileName))),
          st_Delete = (\<lambda>fileName. askIO io_unit (RemoveObject bucket (prefixedFileName p fileName)))\<rparr>))"

section \<open>Compressors\<close>

record BackupCompressor =
  co_Compress :: "string \<Rightarrow> unit result io"
  co_Decompress :: "string \<Rightarrow> string result io"

definition NewNopCompressor :: "string \<Rightarrow> BackupCompressor" where
  "NewNopCompressor basePath = \<lparr>co_Compress = (\<lambda>fileName. Ret (Inr ())), co_Decompress = (\<lambda>fileName. Ret (Inr (GetFilePath basePath fileName)))\<rparr>"

definition compressBlock :: "string \<Rightarrow> string \<Rightarrow> unit result io \<Rightarrow> unit result io" where
  "compressBlock filePath compressedFilePath compressFn =
     tryP (askIO io_unit (OpenFile filePath)) (\<lambda>_.
       deferP (tryP (askIO io_unit (CreateFile compressedFilePath)) (\<lambda>_. deferP compressFn (CloseFile compressedFilePath)))
         (CloseFile filePath))"

definition compressFile :: "string \<Rightarrow> string \<Rightarrow> (string \<Rightarrow> string \<Rightarrow> unit result io) \<Rightarrow> unit result io" where
  "compressFile path fileName compressFn =
     (let filePath = GetFilePath path fileName; compressedFilePath = filePath @ ''.tmp'' in
      bindP (compressBlock filePath compressedFilePath (compressFn compressedFilePath filePath)) (\<lambda>x. case x of
        Inl e \<Rightarrow>
          bindP (askIO io_unit (RemovePath compressedFilePath)) (\<lambda>y.
            Ret (Inl (ErrMulti (e # (case y of Inl e' \<Rightarrow> if os_IsNotExist e' then [] else [e'] | Inr _ \<Rightarrow> [])))))
      | Inr _ \<Rightarrow>
          tryP (askIO io_unit (RemovePath filePath)) (\<lambda>_. askIO io_unit (Rename compressedFilePath filePath))))"

definition decompressFile :: "string \<Rightarrow> string \<Rightarrow> BackupProcessor \<Rightarrow> (string \<Rightarrow> string \<Rightarrow> unit result io) \<Rightarrow> string result io" where
  "decompressFile path fileName processor uncompressFn =
     (let filePath = GetFilePath path fileName in
      tryP (askIO io_unit (OpenFile filePath)) (\<lambda>_.
        deferP
          (case bp_GetUncompressedBackupFile processor fileName of
             Inl e \<Rightarrow> Ret (Inl e)
           | Inr plainFileName \<Rightarrow>
               (let plainFilePath = GetFilePath path plainFileName in
                tryP (askIO io_unit (CreateFile plainFilePath)) (\<lambda>_.
                  deferP (tryP (uncompressFn plainFilePath filePath) (\<lambda>_. Ret (Inr plainFilePath))) (CloseFile plainFilePath))))
          (CloseFile filePath)))"

text \<open>Creating a gzip writer cannot fail; creating a bzip2 writer and a reader of either kind can.\<close>

definition gzipFn :: "string \<Rightarrow> string \<Rightarrow> unit result io" where
  "gzipFn dst src = deferP (askIO io_unit (CopyIn CompressGzip dst src)) (CloseWriter CompressGzip dst)"

definition bzip2Fn :: "string \<Rightarrow> string \<Rightarrow> unit result io" where
  "bzip2Fn dst src =
     tryP (askIO io_unit (NewWriter CompressBzip2 dst)) (\<lambda>_.
       deferP (askIO io_unit (CopyIn CompressBzip2 dst src)) (CloseWriter CompressBzip2 dst))"

definition uncompressFn :: "CompressAlgorithm \<Rightarrow> string \<Rightarrow> string \<Rightarrow> unit result io" where
  "uncompressFn alg dst src =
     tryP (askIO io_unit (NewReader alg src)) (\<lambda>_. deferP (askIO io_unit (CopyOut alg dst src)) (CloseReader alg src))"

definition NewGzipBackupCompressor :: "string \<Rightarrow> BackupProcessor \<Rightarrow> BackupCompressor" where
  "NewGzipBackupCompressor basePath processor =
     \<lparr>co_Compress = (\<lambda>fileName. compressFile basePath fileName gzipFn),
      co_Decompress = (\<lambda>fileName. decompressFile basePath fileName processor (uncompressFn CompressGzip))\<rparr>"

definition NewBzip2BackupCompressor :: "string \<Rightarrow> BackupProcessor \<Rightarrow> BackupCompressor" where
  "NewBzip2BackupCompressor basePath processor =
     \<lparr>co_Compress = (\<lambda>fileName. compressFile basePath fileName bzip2Fn),
      co_Decompress = (\<lambda>fileName. decompressFile basePath fileName processor (uncompressFn CompressBzip2))\<rparr>"

section \<open>The flags\<close>

text \<open>The text of the content type flag is read as the content type of the API.\<close>

record flags =
  f_path :: string
  f_targetFilePath :: string
  f_backupContentType :: BackupContentType
  f_cleanupTargetFile :: bool
  f_s3 :: bool
  f_s3Bucket :: string
  f_s3Endpoint :: string
  f_s3Prefix :: string
  f_maxRetention :: int
  f_compression :: string
  f_physicalBackupDirPath :: string
  f_targetTimeRaw :: string

definition getBackupProcessor :: "flags \<Rightarrow> BackupProcessor result" where
  "getBackupProcessor f =
     (case BackupContentType_Validate (f_backupContentType f) of
        Inl e \<Rightarrow> Inl (ErrCtx ''backup type not supported'' e)
      | Inr _ \<Rightarrow>
          if f_backupContentType f = BackupContentTypeLogical then Inr logical_processor
          else if f_backupContentType f = BackupContentTypePhysical then Inr (physical_processor None None)
          else Inl (ErrNew ''unsupported backup type''))"

definition getBackupStorage :: "flags \<Rightarrow> BackupProcessor \<Rightarrow> BackupStorage result io" where
  "getBackupStorage f processor =
     (if f_s3 f then NewS3BackupStorage (f_path f) (f_s3Bucket f) (f_s3Endpoint f) (f_s3Prefix f) processor
      else Ret (Inr (NewFileSystemBackupStorage (f_path f) processor)))"

definition getBackupCompressorWithAlgorithm :: "flags \<Rightarrow> CompressAlgorithm \<Rightarrow> BackupProcessor \<Rightarrow> BackupCompressor result" where
  "getBackupCompressorWithAlgorithm f calg processor =
     (if calg = CompressNone then Inr (NewNopCompressor (f_path f))
      else if calg = CompressGzip then Inr (NewGzipBackupCompressor (f_path f) processor)
      else if calg = CompressBzip2 then Inr (NewBzip2BackupCompressor (f_path f) processor)
      else Inl (ErrNew ''unsupported compression algorithm''))"

definition getBackupCompressor :: "flags \<Rightarrow> BackupProcessor \<Rightarrow> BackupCompressor result" where
  "getBackupCompressor f processor =
     (case Compress_Validate (f_compression f) of
        Inl e \<Rightarrow> Inl (ErrCtx ''compression algorithm not supported'' e)
      | Inr _ \<Rightarrow> getBackupCompressorWithAlgorithm f (f_compression f) processor)"

definition getBackupCompressorWithFile :: "flags \<Rightarrow> string \<Rightarrow> BackupProcessor \<Rightarrow> BackupCompressor result" where
  "getBackupCompressorWithFile f fileName processor =
     (case bp_ParseCompressionAlgorithm processor fileName of
        Inl e \<Rightarrow> Inl (ErrCtx ''error parsing compression algorithm'' e)
      | Inr calg \<Rightarrow> getBackupCompressorWithAlgorithm f calg processor)"

definition cleanupFile :: "flags \<Rightarrow> string \<Rightarrow> unit result io" where
  "cleanupFile f fileName =
     (if \<not> f_s3 f \<or> \<not> f_cleanupTargetFile f then Ret (Inr ()) else askIO io_unit (RemovePath (GetFilePath (f_path f) fileName)))"

section \<open>The backup command\<close>

text \<open>\<^verbatim>\<open>if err != nil { os.Exit(1) }\<close> after a step.\<close>

definition orExit :: "'a result io \<Rightarrow> ('a \<Rightarrow> nat io) \<Rightarrow> nat io" where
  "orExit p k = bindP p (\<lambda>x. case x of Inl e \<Rightarrow> Ret 1 | Inr a \<Rightarrow> k a)"

text \<open>A file that cannot be deleted is logged and left.\<close>

fun deleteAll :: "BackupStorage \<Rightarrow> string list \<Rightarrow> unit io" where
  "deleteAll st [] = Ret ()"
| "deleteAll st (x # xs) = bindP (st_Delete st x) (\<lambda>_. deleteAll st xs)"

definition finishBackup :: "flags \<Rightarrow> string \<Rightarrow> nat io" where
  "finishBackup f target =
     bindP (cleanupFile f target) (\<lambda>x. case x of Inl e \<Rightarrow> if os_IsNotExist e then Ret 1 else Ret 0 | Inr _ \<Rightarrow> Ret 0)"

definition removeOld :: "flags \<Rightarrow> BackupProcessor \<Rightarrow> BackupStorage \<Rightarrow> string \<Rightarrow> string list \<Rightarrow> nat io" where
  "removeOld f processor st target backupNames =
     bindP (askIO io_time TimeNow) (\<lambda>now.
     bindP (deleteAll st (GetOldBackupFiles (bp_parseDateInBackupFile processor) now backupNames (f_maxRetention f))) (\<lambda>_.
     finishBackup f target))"

definition cleanupOld :: "flags \<Rightarrow> BackupProcessor \<Rightarrow> BackupStorage \<Rightarrow> string \<Rightarrow> nat io" where
  "cleanupOld f processor st target = orExit (st_List st) (removeOld f processor st target)"

definition pushBackup :: "flags \<Rightarrow> BackupProcessor \<Rightarrow> BackupStorage \<Rightarrow> BackupCompressor \<Rightarrow> string \<Rightarrow> nat io" where
  "pushBackup f processor st compressor target =
     orExit (co_Compress compressor target) (\<lambda>_. orExit (st_Push st target) (\<lambda>_. cleanupOld f processor st target))"

definition storeBackup :: "flags \<Rightarrow> BackupProcessor \<Rightarrow> BackupStorage \<Rightarrow> BackupCompressor \<Rightarrow> nat io" where
  "storeBackup f processor st compressor =
     orExit (askIO io_text (ReadTargetFile (f_targetFilePath f))) (pushBackup f processor st compressor)"

definition backupCmd :: "flags \<Rightarrow> nat io" where
  "backupCmd f =
     orExit (askIO io_unit SetupLogger) (\<lambda>_.
     orExit (Ret (getBackupProcessor f)) (\<lambda>processor.
     orExit (getBackupStorage f processor) (\<lambda>st.
     orExit (Ret (getBackupCompressor f processor)) (\<lambda>compressor.
     storeBackup f processor st compressor))))"

section \<open>The restore command\<close>

definition checkPhysicalBackupDir :: "flags \<Rightarrow> bool result io" where
  "checkPhysicalBackupDir f =
     (if f_backupContentType f \<noteq> BackupContentTypePhysical \<or> f_physicalBackupDirPath f = '''' then Ret (Inr False)
      else bindP (askIO io_names (ReadDir (f_physicalBackupDirPath f))) (\<lambda>x. case x of
        Inl e \<Rightarrow> if os_IsNotExist e then Ret (Inr False) else Ret (Inl (ErrCtx ''error reading physical backup directory path'' e))
      | Inr entries \<Rightarrow> Ret (Inr (entries \<noteq> []))))"

definition getTargetTime :: "flags \<Rightarrow> int result io" where
  "getTargetTime f =
     (if f_targetTimeRaw f = '''' then bindP (askIO io_time TimeNow) (\<lambda>n. Ret (Inr n)) else Ret (ParseBackupDate (f_targetTimeRaw f)))"

definition fetchBackup :: "flags \<Rightarrow> BackupProcessor \<Rightarrow> BackupStorage \<Rightarrow> nat io" where
  "fetchBackup f processor st =
     orExit (getTargetTime f) (\<lambda>targetTime.
     orExit (st_List st) (\<lambda>names.
     orExit (Ret (GetBackupTargetFile (bp_parseDateInBackupFile processor) names targetTime)) (\<lambda>backupTargetFile.
     orExit (st_Pull st backupTargetFile) (\<lambda>_.
     orExit (Ret (getBackupCompressorWithFile f backupTargetFile processor)) (\<lambda>compressor.
     orExit (co_Decompress compressor backupTargetFile) (\<lambda>plain.
     orExit (askIO io_unit (WriteTargetFile (f_targetFilePath f) plain)) (\<lambda>_. Ret 0)))))))"

definition restoreCmd :: "flags \<Rightarrow> nat io" where
  "restoreCmd f =
     orExit (askIO io_unit SetupLogger) (\<lambda>_.
     orExit (checkPhysicalBackupDir f) (\<lambda>physicalBackupExists.
     if physicalBackupExists then Ret 0
     else
       orExit (Ret (getBackupProcessor f)) (\<lambda>processor.
       orExit (getBackupStorage f processor) (\<lambda>st.
       fetchBackup f processor st))))"

section \<open>Executions\<close>

lemma exec_askIO [simp]: "exec grp (askIO sel c) t x \<longleftrightarrow> (\<exists>r. t = [(c, r)] \<and> x = sel r)"
  by (auto simp: askIO_def exec_Call)

lemma io_unit_Inr [simp]: "io_unit r = Inr u \<longleftrightarrow> r = IUnit (Inr u)" "Inr u = io_unit r \<longleftrightarrow> r = IUnit (Inr u)"
  by (cases r; auto)+

lemma io_text_Inr [simp]: "io_text r = Inr u \<longleftrightarrow> r = IText (Inr u)" "Inr u = io_text r \<longleftrightarrow> r = IText (Inr u)"
  by (cases r; auto)+

lemma io_names_Inr [simp]: "io_names r = Inr u \<longleftrightarrow> r = INames (Inr u)" "Inr u = io_names r \<longleftrightarrow> r = INames (Inr u)"
  by (cases r; auto)+

lemma exec_orExit:
  "exec grp (orExit p k) t n \<longleftrightarrow>
     (\<exists>e. exec grp p t (Inl e) \<and> n = 1) \<or> (\<exists>t1 t2 a. t = t1 @ t2 \<and> exec grp p t1 (Inr a) \<and> exec grp (k a) t2 n)" (is "?l \<longleftrightarrow> ?r")
proof
  assume ?l
  then obtain t1 t2 y where "t = t1 @ t2" "exec grp p t1 y" "exec grp (case y of Inl e \<Rightarrow> Ret 1 | Inr a \<Rightarrow> k a) t2 n"
    unfolding orExit_def exec_bind by blast
  then show ?r by (cases y) auto
next
  assume ?r
  then consider e where "exec grp p t (Inl e)" "n = 1" | t1 t2 a where "t = t1 @ t2" "exec grp p t1 (Inr a)" "exec grp (k a) t2 n" by blast
  then show ?l
  proof cases
    case 1
    then show ?thesis using exec_bindI [OF 1(1), of "\<lambda>x. case x of Inl e \<Rightarrow> Ret 1 | Inr a \<Rightarrow> k a" "[]" n] by (simp add: orExit_def del: One_nat_def)
  next
    case 2
    then show ?thesis using exec_bindI [OF 2(2), of "\<lambda>x. case x of Inl e \<Rightarrow> Ret 1 | Inr a \<Rightarrow> k a" t2 n] by (simp add: orExit_def del: One_nat_def)
  qed
qed

lemma orExit_Ret [simp]: "orExit (Ret (Inl e)) k = Ret 1" "orExit (Ret (Inr a)) k = k a"
  by (simp_all add: orExit_def)

lemma exec_orExit_Ret:
  "exec grp (orExit (Ret x) k) t n \<longleftrightarrow> (\<exists>e. x = Inl e \<and> t = [] \<and> n = 1) \<or> (\<exists>a. x = Inr a \<and> exec grp (k a) t n)"
  by (cases x) auto

text \<open>An event that a step never makes happens after the step has succeeded.\<close>

lemma exec_orExit_guard:
  assumes "exec grp (orExit p k) (pre @ e # post) n" "\<And>t y. exec grp p t y \<Longrightarrow> e \<notin> set t"
  shows "\<exists>t1 pre2 a. pre = t1 @ pre2 \<and> exec grp p t1 (Inr a) \<and> exec grp (k a) (pre2 @ e # post) n"
proof -
  have "\<not> exec grp p (pre @ e # post) y" for y using assms(2) by force
  with assms(1) obtain t1 t2 a where eq: "pre @ e # post = t1 @ t2" and p: "exec grp p t1 (Inr a)" and f: "exec grp (k a) t2 n"
    unfolding exec_orExit by blast
  have "e \<notin> set t1" using assms(2) p by blast
  with eq obtain pre2 where "pre = t1 @ pre2" "t2 = pre2 @ e # post"
    by (auto simp: append_eq_append_conv2 Cons_eq_append_conv)
  with p f show ?thesis by blast
qed

abbreviation io_calls :: "(io_call \<Rightarrow> bool) \<Rightarrow> 'a io \<Rightarrow> bool" where
  "io_calls P \<equiv> all_calls (\<lambda>_. False) P"

lemma io_calls_mono: "io_calls Q p \<Longrightarrow> (\<And>c. Q c \<Longrightarrow> P c) \<Longrightarrow> io_calls P p"
  by (induction p) auto

lemma io_calls_askIO [simp]: "io_calls P (askIO sel c) \<longleftrightarrow> P c"
  by (simp add: askIO_def)

lemma io_calls_deferP: "io_calls P p \<Longrightarrow> P c \<Longrightarrow> io_calls P (deferP p c)"
  unfolding deferP_def by (intro all_calls_bindP) auto

lemma io_calls_orExit: "io_calls P p \<Longrightarrow> (\<And>a. io_calls P (k a)) \<Longrightarrow> io_calls P (orExit p k)"
  unfolding orExit_def by (intro all_calls_bindP) (auto split: sum.split)

lemma io_calls_exec: "io_calls P p \<Longrightarrow> exec no_group p t x \<Longrightarrow> (c, r) \<in> set t \<Longrightarrow> P c"
  using exec_all_calls [of no_group p t x "\<lambda>_. False" P] by (force simp: no_group_def)

lemmas io_calls_intros = all_calls_bindP all_calls_tryP io_calls_deferP

text \<open>Compression works on the file and its temporary neighbour only, decompression removes nothing.\<close>

lemma io_calls_compressFile:
  assumes "\<And>d s. io_calls (\<lambda>c. (\<exists>a. c = NewWriter a d \<or> c = CopyIn a d s \<or> c = CloseWriter a d)) (fn d s)"
    and "\<And>a d s. P (NewWriter a d)" "\<And>a d s. P (CopyIn a d s)" "\<And>a d. P (CloseWriter a d)" "\<And>q. P (OpenFile q)" "\<And>q. P (CreateFile q)"
    "\<And>q. P (CloseFile q)" "P (RemovePath (GetFilePath path fileName))" "P (RemovePath (GetFilePath path fileName @ ''.tmp''))"
    "\<And>q q'. P (Rename q q')"
  shows "io_calls P (compressFile path fileName fn)"
proof -
  have "io_calls P (fn d s)" for d s by (rule io_calls_mono [OF assms(1)]) (use assms in blast)
  with assms(2-) show ?thesis
    unfolding compressFile_def compressBlock_def Let_def by (intro io_calls_intros) (auto intro!: io_calls_intros split: sum.split)
qed

lemma io_calls_fns:
  "io_calls (\<lambda>c. (\<exists>a. c = NewWriter a d \<or> c = CopyIn a d s \<or> c = CloseWriter a d)) (gzipFn d s)"
  "io_calls (\<lambda>c. (\<exists>a. c = NewWriter a d \<or> c = CopyIn a d s \<or> c = CloseWriter a d)) (bzip2Fn d s)"
  unfolding gzipFn_def bzip2Fn_def by (auto intro!: io_calls_intros)

definition compressorOf :: "flags \<Rightarrow> BackupProcessor \<Rightarrow> BackupCompressor \<Rightarrow> bool" where
  "compressorOf f processor c \<longleftrightarrow> (\<exists>calg. getBackupCompressorWithAlgorithm f calg processor = Inr c)"

lemma compressorOf_cases:
  assumes "compressorOf f processor c"
  obtains "c = NewNopCompressor (f_path f)" | "c = NewGzipBackupCompressor (f_path f) processor" | "c = NewBzip2BackupCompressor (f_path f) processor"
  using assms by (auto simp: compressorOf_def getBackupCompressorWithAlgorithm_def split: if_splits)

lemma getBackupCompressor_compressorOf: "getBackupCompressor f processor = Inr c \<Longrightarrow> compressorOf f processor c"
  "getBackupCompressorWithFile f n processor = Inr c \<Longrightarrow> compressorOf f processor c"
  by (auto simp: getBackupCompressor_def getBackupCompressorWithFile_def compressorOf_def split: sum.splits)

lemma compress_calls:
  assumes "compressorOf f processor c"
  shows "io_calls (\<lambda>c. (\<forall>b k. c \<noteq> RemoveObject b k) \<and>
    (\<forall>q. c = RemovePath q \<longrightarrow> q \<in> {GetFilePath (f_path f) target, GetFilePath (f_path f) target @ ''.tmp''})) (co_Compress c target)"
  using assms
  by (cases rule: compressorOf_cases)
    (auto simp: NewNopCompressor_def NewGzipBackupCompressor_def NewBzip2BackupCompressor_def intro!: io_calls_compressFile io_calls_fns)


section \<open>What the backup command removes\<close>

lemma collectObjects_mem:
  "collectObjects ok objects = Inr ks \<Longrightarrow> k \<in> set ks \<Longrightarrow> Inr k \<in> set objects \<and> ok k"
  by (induction ok objects arbitrary: ks rule: collectObjects.induct) (auto split: if_splits)

lemma GetOldBackupFiles_mem:
  "g \<in> set (GetOldBackupFiles parseDate now names maxRetention) \<longleftrightarrow>
    g \<in> set names \<and> (\<exists>d. parseDate g = Inr d \<and> time_Sub now d > maxRetention)"
  by (cases "parseDate g") (auto simp: GetOldBackupFiles_def)

lemma deleteAll_event:
  assumes "exec no_group (deleteAll st xs) t u" "e \<in> set t"
  shows "\<exists>x \<in> set xs. \<exists>t' y. exec no_group (st_Delete st x) t' y \<and> e \<in> set t'"
  using assms
proof (induction xs arbitrary: t)
  case (Cons x xs)
  from exec_bindP_event [OF Cons.prems(1) [unfolded deleteAll.simps] Cons.prems(2)] Cons.IH show ?case
    by (metis list.set_intros)
qed simp

lemma exec_NewS3BackupStorage:
  assumes "exec no_group (NewS3BackupStorage basePath bucket endpoint p processor) t (Inr st)"
  shows "st_List st = S3_List bucket p processor"
    "st_Push st = (\<lambda>n. askIO io_unit (FPutObject bucket (prefixedFileName p n) (GetFilePath basePath n)))"
    "st_Pull st = (\<lambda>n. askIO io_unit (FGetObject bucket (prefixedFileName p n) (GetFilePath basePath n)))"
    "st_Delete st = (\<lambda>n. askIO io_unit (RemoveObject bucket (prefixedFileName p n)))"
  using assms by (auto simp: NewS3BackupStorage_def exec_tryP_Inr)

lemma exec_S3_List:
  "exec no_group (S3_List bucket p processor) t x \<longleftrightarrow>
    (\<exists>r. t = [(ListObjects bucket (getPrefix p), r)] \<and> x = collectObjects (S3_shouldProcessBackupFile p processor) (io_objects r))"
  by (auto simp: S3_List_def exec_bind_Ret)

lemma exec_finishBackup:
  "exec grp (finishBackup f target) t code \<longleftrightarrow>
    (\<exists>x. exec grp (cleanupFile f target) t x \<and> code = (case x of Inl e \<Rightarrow> if os_IsNotExist e then 1 else 0 | Inr _ \<Rightarrow> 0))"
proof -
  have "finishBackup f target = bindP (cleanupFile f target) (\<lambda>x. Ret (case x of Inl e \<Rightarrow> if os_IsNotExist e then 1 else 0 | Inr _ \<Rightarrow> 0))"
    unfolding finishBackup_def by (intro arg_cong [where f = "bindP _"] ext) (simp split: sum.split)
  then show ?thesis by (simp add: exec_bind_Ret del: One_nat_def)
qed

text \<open>The retention part of the command: what it removes was listed, has a date and is too old.\<close>

lemma cleanupOld_event:
  assumes "exec no_group (cleanupOld f processor st target) (pre @ e # post) code"
    and no_list: "\<forall>t x. exec no_group (st_List st) t x \<longrightarrow> e \<notin> set t" and now: "fst e \<noteq> TimeNow"
  shows "(\<exists>t1 names r rest g d t' y. pre = t1 @ (TimeNow, r) # rest \<and> exec no_group (st_List st) t1 (Inr names) \<and> g \<in> set names \<and>
      bp_parseDateInBackupFile processor g = Inr d \<and> time_Sub (io_time r) d > f_maxRetention f \<and>
      exec no_group (st_Delete st g) t' y \<and> e \<in> set t') \<or>
    (\<exists>t' y. exec no_group (cleanupFile f target) t' y \<and> e \<in> set t')"
proof -
  let ?old = "\<lambda>names r. GetOldBackupFiles (bp_parseDateInBackupFile processor) (io_time r) names (f_maxRetention f)"
  have "\<exists>t1 pre2 names. pre = t1 @ pre2 \<and> exec no_group (st_List st) t1 (Inr names) \<and>
      exec no_group (removeOld f processor st target names) (pre2 @ e # post) code"
    by (rule exec_orExit_guard [OF assms(1) [unfolded cleanupOld_def]]) (use no_list in blast)
  then obtain t1 pre2 names where pre: "pre = t1 @ pre2" and l: "exec no_group (st_List st) t1 (Inr names)" and
    k: "exec no_group (removeOld f processor st target names) (pre2 @ e # post) code" by (elim exE conjE)
  from k obtain r u where u: "pre2 @ e # post = (TimeNow, r) # u" and
    d: "exec no_group (bindP (deleteAll st (?old names r)) (\<lambda>_. finishBackup f target)) u code"
    unfolding removeOld_def exec_bind [of _ "askIO _ _"] by auto
  obtain rest where rest: "pre2 = (TimeNow, r) # rest" "u = rest @ e # post"
    using u now by (cases pre2) auto
  from exec_bindP_event [OF d, of e] rest(2) consider
      t' where "exec no_group (deleteAll st (?old names r)) t' ()" "e \<in> set t'"
    | t' where "exec no_group (finishBackup f target) t' code" "e \<in> set t'"
    by auto
  then show ?thesis
  proof cases
    case 1
    from deleteAll_event [OF 1] obtain g t'' y where g: "g \<in> set (?old names r)" "exec no_group (st_Delete st g) t'' y" "e \<in> set t''" by blast
    from g(1) obtain d where "g \<in> set names" "bp_parseDateInBackupFile processor g = Inr d" "time_Sub (io_time r) d > f_maxRetention f"
      unfolding GetOldBackupFiles_mem by blast
    moreover have "pre = t1 @ (TimeNow, r) # rest" using pre rest(1) by simp
    ultimately show ?thesis using l g(2,3) by blast
  next
    case 2
    then show ?thesis unfolding exec_finishBackup by blast
  qed
qed


text \<open>The command reaches its retention part only after its target has been read, compressed and pushed.\<close>

lemma storeBackup_read:
  assumes "exec no_group (storeBackup f processor st compressor) (pre @ e # post) code" "fst e \<noteq> ReadTargetFile (f_targetFilePath f)"
  obtains target pre1 where "pre = (ReadTargetFile (f_targetFilePath f), IText (Inr target)) # pre1"
    "exec no_group (pushBackup f processor st compressor target) (pre1 @ e # post) code"
proof -
  have "\<exists>t1 pre2 target. pre = t1 @ pre2 \<and> exec no_group (askIO io_text (ReadTargetFile (f_targetFilePath f))) t1 (Inr target) \<and>
      exec no_group (pushBackup f processor st compressor target) (pre2 @ e # post) code"
    by (rule exec_orExit_guard [OF assms(1) [unfolded storeBackup_def]]) (use assms(2) in auto)
  then show thesis using that by auto
qed

lemma pushBackup_event:
  assumes "exec no_group (pushBackup f processor st compressor target) (pre @ e # post) code"
    and "\<forall>t x. exec no_group (st_Push st target) t x \<longrightarrow> e \<notin> set t"
  shows "(\<exists>t x. exec no_group (co_Compress compressor target) t x \<and> e \<in> set t) \<or>
    (\<exists>t1 t2 pre2. pre = t1 @ t2 @ pre2 \<and> exec no_group (co_Compress compressor target) t1 (Inr ()) \<and>
      exec no_group (st_Push st target) t2 (Inr ()) \<and> exec no_group (cleanupOld f processor st target) (pre2 @ e # post) code)"
proof (cases "\<exists>t x. exec no_group (co_Compress compressor target) t x \<and> e \<in> set t")
  case False
  let ?k = "\<lambda>_. cleanupOld f processor st target"
  have "\<exists>t1 pre2 a. pre = t1 @ pre2 \<and> exec no_group (co_Compress compressor target) t1 (Inr a) \<and>
      exec no_group (orExit (st_Push st target) ?k) (pre2 @ e # post) code"
    by (rule exec_orExit_guard [OF assms(1) [unfolded pushBackup_def]]) (use False in blast)
  then obtain t1 pre2 where 1: "pre = t1 @ pre2" "exec no_group (co_Compress compressor target) t1 (Inr ())"
    "exec no_group (orExit (st_Push st target) ?k) (pre2 @ e # post) code" by auto
  have "\<exists>t2 pre3 a. pre2 = t2 @ pre3 \<and> exec no_group (st_Push st target) t2 (Inr a) \<and> exec no_group (?k a) (pre3 @ e # post) code"
    by (rule exec_orExit_guard [OF 1(3)]) (use assms(2) in blast)
  then obtain t2 pre3 where "pre2 = t2 @ pre3" "exec no_group (st_Push st target) t2 (Inr ())"
    "exec no_group (cleanupOld f processor st target) (pre3 @ e # post) code" by auto
  with 1 show ?thesis by blast
qed simp

lemma backupCmd_guard:
  assumes "exec no_group (backupCmd f) (pre @ e # post) code" and "fst e \<noteq> SetupLogger" "fst e \<noteq> NewMinioClient (f_s3Endpoint f)"
  shows "\<exists>processor st compressor t0 t1 pre2. pre = t0 @ t1 @ pre2 \<and> getBackupProcessor f = Inr processor \<and>
    exec no_group (getBackupStorage f processor) t1 (Inr st) \<and> getBackupCompressor f processor = Inr compressor \<and>
    exec no_group (storeBackup f processor st compressor) (pre2 @ e # post) code"
proof -
  let ?k3 = "\<lambda>processor st. orExit (Ret (getBackupCompressor f processor)) (storeBackup f processor st)"
  let ?k2 = "\<lambda>processor. orExit (getBackupStorage f processor) (?k3 processor)"
  have "\<exists>t1 pre2 a. pre = t1 @ pre2 \<and> exec no_group (askIO io_unit SetupLogger) t1 (Inr a) \<and>
      exec no_group (orExit (Ret (getBackupProcessor f)) ?k2) (pre2 @ e # post) code"
    by (rule exec_orExit_guard [OF assms(1) [unfolded backupCmd_def]]) (use assms(2) in auto)
  then obtain t0 pre1 where 1: "pre = t0 @ pre1" "exec no_group (orExit (Ret (getBackupProcessor f)) ?k2) (pre1 @ e # post) code" by blast
  then obtain processor where p: "getBackupProcessor f = Inr processor" and k2: "exec no_group (?k2 processor) (pre1 @ e # post) code"
    by (cases "getBackupProcessor f") auto
  have "\<exists>t1 pre2 st. pre1 = t1 @ pre2 \<and> exec no_group (getBackupStorage f processor) t1 (Inr st) \<and>
      exec no_group (?k3 processor st) (pre2 @ e # post) code"
    by (rule exec_orExit_guard [OF k2])
      (use assms(3) in \<open>auto simp: getBackupStorage_def NewS3BackupStorage_def exec_tryP exec_ctxP split: if_splits\<close>)
  then obtain t1 pre2 st where 2: "pre1 = t1 @ pre2" "exec no_group (getBackupStorage f processor) t1 (Inr st)"
    "exec no_group (?k3 processor st) (pre2 @ e # post) code" by blast
  then obtain compressor where "getBackupCompressor f processor = Inr compressor"
    "exec no_group (storeBackup f processor st compressor) (pre2 @ e # post) code"
    by (cases "getBackupCompressor f processor") auto
  with 1(1) 2(1,2) p show ?thesis by blast
qed


lemma getBackupStorage_S3:
  "f_s3 f \<Longrightarrow> getBackupStorage f processor = NewS3BackupStorage (f_path f) (f_s3Bucket f) (f_s3Endpoint f) (f_s3Prefix f) processor"
  by (simp add: getBackupStorage_def)

lemma getBackupStorage_FS:
  "\<not> f_s3 f \<Longrightarrow> exec no_group (getBackupStorage f processor) t (Inr st) \<longleftrightarrow> t = [] \<and> st = NewFileSystemBackupStorage (f_path f) processor"
  by (auto simp: getBackupStorage_def)

lemma cleanupFile_call: "exec no_group (cleanupFile f n) t x \<Longrightarrow> (c, r) \<in> set t \<Longrightarrow> f_s3 f \<and> c = RemovePath (GetFilePath (f_path f) n)"
  by (auto simp: cleanupFile_def split: if_splits)

text \<open>
  C21: the backup command removes an object from the bucket only when it is expired, and only once the new backup is
  safe. Before every removal the target of the command has been read, compressed without an error and uploaded
  without an error; the removed object is named after an object that the bucket was listed to hold, that has the name of a
  backup, and whose date, in its name, is further in the past than the retention period.
\<close>

theorem backup_removes_expired_objects:
  assumes "exec no_group (backupCmd f) (pre @ (RemoveObject b k, r) # post) code" "f_s3 f"
  shows "\<exists>processor compressor target t1 objects rn g d.
    getBackupProcessor f = Inr processor \<and> getBackupCompressor f processor = Inr compressor \<and>
    (ReadTargetFile (f_targetFilePath f), IText (Inr target)) \<in> set pre \<and>
    exec no_group (co_Compress compressor target) t1 (Inr ()) \<and> set t1 \<subseteq> set pre \<and>
    (FPutObject b (prefixedFileName (f_s3Prefix f) target) (GetFilePath (f_path f) target), IUnit (Inr ())) \<in> set pre \<and>
    (ListObjects b (getPrefix (f_s3Prefix f)), objects) \<in> set pre \<and> Inr g \<in> set (io_objects objects) \<and>
    S3_shouldProcessBackupFile (f_s3Prefix f) processor g \<and> k = prefixedFileName (f_s3Prefix f) g \<and>
    (TimeNow, rn) \<in> set pre \<and> bp_parseDateInBackupFile processor g = Inr d \<and> time_Sub (io_time rn) d > f_maxRetention f"
proof -
  let ?e = "(RemoveObject b k, r)"
  from backupCmd_guard [OF assms(1)] obtain processor st compressor t0 t1 pre2 where
    p: "pre = t0 @ t1 @ pre2" "getBackupProcessor f = Inr processor" and
    st: "exec no_group (getBackupStorage f processor) t1 (Inr st)" and
    c: "getBackupCompressor f processor = Inr compressor" and
    s: "exec no_group (storeBackup f processor st compressor) (pre2 @ ?e # post) code" by auto
  note st = exec_NewS3BackupStorage [OF st [unfolded getBackupStorage_S3 [OF assms(2)]]]
  have nc: "?e \<notin> set t" if "exec no_group (co_Compress compressor n) t x" for n t x
    using io_calls_exec [OF compress_calls [OF getBackupCompressor_compressorOf(1) [OF c]] that, of "RemoveObject b k" r] by blast
  obtain target pre1 where g1: "pre2 = (ReadTargetFile (f_targetFilePath f), IText (Inr target)) # pre1" and
    pb: "exec no_group (pushBackup f processor st compressor target) (pre1 @ ?e # post) code"
    by (rule storeBackup_read [OF s]) simp
  have np: "\<forall>t x. exec no_group (st_Push st target) t x \<longrightarrow> ?e \<notin> set t" by (auto simp: st)
  from pushBackup_event [OF pb np] nc obtain u1 u2 pre3 where g2: "pre1 = u1 @ u2 @ pre3"
    and co: "exec no_group (co_Compress compressor target) u1 (Inr ())" and pu: "exec no_group (st_Push st target) u2 (Inr ())"
    and cl: "exec no_group (cleanupOld f processor st target) (pre3 @ ?e # post) code" by blast
  note g = g1 [unfolded g2]
  have nl: "\<forall>t x. exec no_group (st_List st) t x \<longrightarrow> ?e \<notin> set t" by (auto simp: st exec_S3_List)
  from cleanupOld_event [OF cl nl] obtain l names rn rest g' d where
    o: "pre3 = l @ (TimeNow, rn) # rest" "exec no_group (st_List st) l (Inr names)" "g' \<in> set names"
      "bp_parseDateInBackupFile processor g' = Inr d" "time_Sub (io_time rn) d > f_maxRetention f"
      "b = f_s3Bucket f" "k = prefixedFileName (f_s3Prefix f) g'"
    by (auto simp: st dest: cleanupFile_call)
  from o(2) obtain ro where ro: "l = [(ListObjects b (getPrefix (f_s3Prefix f)), ro)]"
    "collectObjects (S3_shouldProcessBackupFile (f_s3Prefix f) processor) (io_objects ro) = Inr names"
    by (auto simp: st exec_S3_List o(6))
  from collectObjects_mem [OF ro(2) o(3)] have m: "Inr g' \<in> set (io_objects ro)" "S3_shouldProcessBackupFile (f_s3Prefix f) processor g'" by auto
  have pre: "pre = t0 @ t1 @ (ReadTargetFile (f_targetFilePath f), IText (Inr target)) # u1 @ u2 @ l @ (TimeNow, rn) # rest"
    using p(1) g o(1) by simp
  have "(FPutObject b (prefixedFileName (f_s3Prefix f) target) (GetFilePath (f_path f) target), IUnit (Inr ())) \<in> set u2"
    using pu o(6) by (auto simp: st)
  moreover have "(ListObjects b (getPrefix (f_s3Prefix f)), ro) \<in> set l" using ro by simp
  ultimately show ?thesis using p(2) c co m o(4,5,7) unfolding pre by fastforce
qed

text \<open>
  The same for backups on a volume. Every path the command removes is the file it is to compress or the temporary
  file next to it, or else it is a file of the directory with the name of a backup whose date is further in the past than
  the retention period, removed only after the target has been compressed without an error.
\<close>

theorem backup_removes_expired_files:
  assumes "exec no_group (backupCmd f) (pre @ (RemovePath q, r) # post) code" "\<not> f_s3 f"
  shows "\<exists>processor compressor target.
    getBackupProcessor f = Inr processor \<and> getBackupCompressor f processor = Inr compressor \<and>
    (ReadTargetFile (f_targetFilePath f), IText (Inr target)) \<in> set pre \<and>
    (q \<in> {GetFilePath (f_path f) target, GetFilePath (f_path f) target @ ''.tmp''} \<or>
     (\<exists>t1 entries rn g d. exec no_group (co_Compress compressor target) t1 (Inr ()) \<and> set t1 \<subseteq> set pre \<and>
        (ReadDir (f_path f), INames (Inr entries)) \<in> set pre \<and> g \<in> set entries \<and> bp_IsValidBackupFile processor g \<and>
        q = GetFilePath (f_path f) g \<and> (TimeNow, rn) \<in> set pre \<and>
        bp_parseDateInBackupFile processor g = Inr d \<and> time_Sub (io_time rn) d > f_maxRetention f))"
proof -
  let ?e = "(RemovePath q, r)"
  from backupCmd_guard [OF assms(1)] obtain processor st compressor t0 t1 pre2 where
    p: "pre = t0 @ t1 @ pre2" "getBackupProcessor f = Inr processor" and
    st: "exec no_group (getBackupStorage f processor) t1 (Inr st)" and
    c: "getBackupCompressor f processor = Inr compressor" and
    s: "exec no_group (storeBackup f processor st compressor) (pre2 @ ?e # post) code" by auto
  have st: "st = NewFileSystemBackupStorage (f_path f) processor" using st getBackupStorage_FS [OF assms(2)] by blast
  obtain target pre1 where g1: "pre2 = (ReadTargetFile (f_targetFilePath f), IText (Inr target)) # pre1" and
    pb: "exec no_group (pushBackup f processor st compressor target) (pre1 @ ?e # post) code"
    by (rule storeBackup_read [OF s]) simp
  have read: "(ReadTargetFile (f_targetFilePath f), IText (Inr target)) \<in> set pre" using p(1) g1 by simp
  have np: "\<forall>t x. exec no_group (st_Push st target) t x \<longrightarrow> ?e \<notin> set t" by (auto simp: st NewFileSystemBackupStorage_def)
  from pushBackup_event [OF pb np] consider
      t x where "exec no_group (co_Compress compressor target) t x" "?e \<in> set t"
    | u1 u2 pre3 where "pre1 = u1 @ u2 @ pre3" "exec no_group (co_Compress compressor target) u1 (Inr ())"
        "exec no_group (cleanupOld f processor st target) (pre3 @ ?e # post) code" by blast
  then show ?thesis
  proof cases
    case 1
    from io_calls_exec [OF compress_calls [OF getBackupCompressor_compressorOf(1) [OF c]] 1]
    have "q \<in> {GetFilePath (f_path f) target, GetFilePath (f_path f) target @ ''.tmp''}" by blast
    with p(2) c read show ?thesis by blast
  next
    case 2
    have nl: "\<forall>t x. exec no_group (st_List st) t x \<longrightarrow> ?e \<notin> set t" by (auto simp: st NewFileSystemBackupStorage_def FS_List_def exec_tryP)
    from cleanupOld_event [OF 2(3) nl] assms(2) obtain l names rn rest g d where
      o: "pre3 = l @ (TimeNow, rn) # rest" "exec no_group (st_List st) l (Inr names)" "g \<in> set names"
        "bp_parseDateInBackupFile processor g = Inr d" "time_Sub (io_time rn) d > f_maxRetention f" "q = GetFilePath (f_path f) g"
      by (auto simp: st NewFileSystemBackupStorage_def dest: cleanupFile_call)
    from o(2) obtain entries where "l = [(ReadDir (f_path f), INames (Inr entries))]" "names = filter (bp_IsValidBackupFile processor) entries"
      by (auto simp: st NewFileSystemBackupStorage_def FS_List_def exec_tryP_Inr)
    with o p(1) g1 2(1) have "set u1 \<subseteq> set pre" "(ReadDir (f_path f), INames (Inr entries)) \<in> set pre" "g \<in> set entries"
      "bp_IsValidBackupFile processor g" "(TimeNow, rn) \<in> set pre" by auto
    with p(2) c read 2(2) o(4-6) show ?thesis by blast
  qed
qed


section \<open>Keys in the bucket\<close>

lemma getPrefix_cases: obtains "getPrefix p = ''''" | q where "getPrefix p = q @ ''/''"
proof (cases "getPrefix p = ''''")
  case False
  then have "HasSuffix (getPrefix p) ''/''" by (auto simp: getPrefix_def HasSuffix_def)
  then show thesis using that(2) by (auto simp: HasSuffix_def suffix_def)
qed (rule that)

lemma Base_last:
  assumes "x \<noteq> ''''" "CHR ''/'' \<notin> set x"
  shows "Base (q @ ''/'' @ x) = x"
proof -
  have l: "last x \<noteq> CHR ''/''" using assms last_in_set by metis
  have "dropWhile (\<lambda>c. c = CHR ''/'') (rev (q @ ''/'' @ x)) = rev (q @ ''/'' @ x)"
    using assms(1) l by (simp add: dropWhile_eq_self_iff hd_append hd_rev)
  then have "Base (q @ ''/'' @ x) = last (split_on (CHR ''/'') (q @ CHR ''/'' # x))" by (simp add: Base_def)
  then show ?thesis using last_split_on_append [OF assms(2), of q] by metis
qed

lemma Base_prefixed:
  assumes "x \<noteq> ''''" "CHR ''/'' \<notin> set x"
  shows "Base (getPrefix p @ x) = x"
  using Base_plain [OF assms] Base_last [OF assms] by (cases p rule: getPrefix_cases) auto

lemma unprefixed_key:
  assumes "x \<noteq> ''''" "CHR ''/'' \<notin> set x"
  shows "unprefixedFilename p (getPrefix p @ x) = x"
proof -
  have "TrimPrefix x (getPrefix p) = x"
  proof (cases p rule: getPrefix_cases)
    case (2 q)
    then have "\<not> HasPrefix x (getPrefix p)" using assms(2) by (auto simp: HasPrefix_def prefix_def)
    then show ?thesis by (simp add: TrimPrefix_def)
  qed (simp add: TrimPrefix_def)
  then show ?thesis by (simp add: unprefixedFilename_def Base_prefixed [OF assms])
qed

text \<open>The storage always speaks of the same object. The key a file is uploaded under is the prefix and the file
  name; when this key is later found in a listing, it is downloaded and removed under this very key, and its name is
  judged without the prefix.\<close>

theorem s3_key_roundtrip:
  assumes "x \<noteq> ''''" "CHR ''/'' \<notin> set x"
  shows "prefixedFileName p x = getPrefix p @ x \<and> prefixedFileName p (prefixedFileName p x) = prefixedFileName p x \<and>
    unprefixedFilename p (prefixedFileName p x) = x"
proof -
  have k: "prefixedFileName p x = getPrefix p @ x" by (simp add: prefixedFileName_def Base_plain [OF assms])
  show ?thesis unfolding k by (simp add: unprefixed_key [OF assms] prefixedFileName_def Base_prefixed [OF assms])
qed

text \<open>A logical backup below a prefix with a period: the parts of its key are not those of its name, so its date cannot
  be read.\<close>

lemma split_on_count: "length (split_on c s) = Suc (count_list s c)"
proof (induction s)
  case (Cons x xs)
  then show ?case by (cases "split_on c xs") auto
qed simp

lemma dotted_key_no_date:
  assumes dot: "CHR ''.'' \<in> set (getPrefix p)" and v: "Logical_IsValidBackupFile x"
  shows "\<exists>e. Logical_parseDate (getPrefix p @ x) = Inl e"
proof (rule ccontr)
  assume "\<nexists>e. Logical_parseDate (getPrefix p @ x) = Inl e"
  then obtain d where d: "Logical_parseDate (getPrefix p @ x) = Inr d" by (metis sum.exhaust)
  obtain q where q: "getPrefix p = q @ ''/''" using dot by (cases p rule: getPrefix_cases) auto
  obtain y where x: "x = ''backup'' @ CHR ''.'' # y" using v by (auto simp: Logical_IsValidBackupFile_def HasPrefix_def prefix_def split: if_splits)
  have lx: "length (dots x) \<ge> 3" using v
    by (auto simp: Logical_IsValidBackupFile_def Logical_ParseCompressionAlgorithm_def Let_def split: if_splits sum.splits)
  obtain a b where ab: "q = a @ CHR ''.'' # b" "CHR ''.'' \<notin> set a"
    using dot q split_list_first [of "CHR ''.''" q] by auto
  have k: "getPrefix p @ x = a @ CHR ''.'' # ((b @ ''/backup'') @ CHR ''.'' # y)" by (simp add: q x ab(1))
  have len: "length (dots (getPrefix p @ x)) \<le> 4" using d by (auto simp: Logical_parseDate_def Let_def split: if_splits)
  have b: "CHR ''.'' \<notin> set b"
    using lx [unfolded x dots_def split_on_count] len [unfolded k dots_def split_on_count] by (simp add: count_list_0_iff [symmetric])
  have "dots ((b @ ''/backup'') @ CHR ''.'' # y) = (b @ ''/backup'') # dots y" by (rule dots_Cons(1)) (use b in simp)
  moreover have "dots (a @ CHR ''.'' # z) = a # dots z" for z by (rule dots_Cons(1)) (rule ab(2))
  ultimately have "dots (getPrefix p @ x) ! 1 = b @ ''/backup''" unfolding k by simp
  then have "parse_rfc3339 (b @ ''/backup'') = Inr d"
    using d by (auto simp: Logical_parseDate_def ParseBackupDate_def Let_def split: if_splits)
  from parse_rfc3339_last [OF this] show False by (simp add: digit_val_def)
qed

text \<open>C38: logical backups under an S3 prefix that contains a period are lost to the operator. Their objects are listed,
  because the prefix is taken off before the name is judged, but the date is looked for in the whole key: a restore
  finds no valid backup file among them, whatever the target time, and the retention policy never removes any of them.\<close>

theorem dotted_prefix_unusable:
  assumes "CHR ''.'' \<in> set (getPrefix p)"
    and "\<forall>k \<in> set keys. \<exists>x. k = getPrefix p @ x \<and> Logical_IsValidBackupFile x \<and> CHR ''/'' \<notin> set x"
  shows "(\<forall>k \<in> set keys. S3_shouldProcessBackupFile p logical_processor k) \<and>
    GetBackupTargetFile Logical_parseDate keys target = Inl (ErrNew ''no valid backup files were found'') \<and>
    GetOldBackupFiles Logical_parseDate now keys maxRetention = []"
proof -
  have bad: "isl (Logical_parseDate k)" if "k \<in> set keys" for k
  proof -
    from bspec [OF assms(2) that] obtain x where "k = getPrefix p @ x" "Logical_IsValidBackupFile x" by (elim exE conjE)
    then show ?thesis using dotted_key_no_date [OF assms(1), of x] by auto
  qed
  have "S3_shouldProcessBackupFile p logical_processor k" if "k \<in> set keys" for k
  proof -
    from bspec [OF assms(2) that] obtain x where x: "k = getPrefix p @ x" "Logical_IsValidBackupFile x" "CHR ''/'' \<notin> set x"
      by (elim exE conjE)
    then have ne: "x \<noteq> ''''" by (auto simp: Logical_IsValidBackupFile_def HasPrefix_def)
    show ?thesis using unprefixed_key [OF ne x(3)] x by (simp add: S3_shouldProcessBackupFile_def logical_processor_def)
  qed
  moreover have "GetOldBackupFiles Logical_parseDate now keys maxRetention = []"
    using bad by (force simp: GetOldBackupFiles_def filter_empty_conv split: sum.splits)
  ultimately show ?thesis using no_dated_backup [of keys Logical_parseDate target] bad by blast
qed


section \<open>Compression\<close>

lemma exec_deferP:
  "exec grp (deferP p c) t x \<longleftrightarrow> (\<exists>t1 r. t = t1 @ [(c, r)] \<and> exec grp p t1 x)"
  by (auto simp: deferP_def exec_bind)

text \<open>A function that compresses has copied the whole file when it reports no error.\<close>

definition copies :: "(string \<Rightarrow> string \<Rightarrow> unit result io) \<Rightarrow> bool" where
  "copies fn \<longleftrightarrow> (\<forall>dst src t. exec no_group (fn dst src) t (Inr ()) \<longrightarrow> (\<exists>alg. (CopyIn alg dst src, IUnit (Inr ())) \<in> set t)) \<and>
     (\<forall>dst src. io_calls (\<lambda>c. (\<exists>a. c = NewWriter a dst \<or> c = CopyIn a dst src \<or> c = CloseWriter a dst)) (fn dst src))"

lemma copies_fns: "copies gzipFn" "copies bzip2Fn"
  unfolding copies_def using io_calls_fns
  by (auto simp: gzipFn_def bzip2Fn_def exec_deferP exec_tryP_Inr)

lemma compressFile_removes:
  assumes "copies fn" "exec no_group (compressFile path n fn) (pre @ (RemovePath (GetFilePath path n), r) # post) x"
  shows "\<exists>alg. (CopyIn alg (GetFilePath path n @ ''.tmp'') (GetFilePath path n), IUnit (Inr ())) \<in> set pre"
proof -
  let ?fp = "GetFilePath path n"
  let ?e = "(RemovePath ?fp, r)"
  let ?b = "compressBlock ?fp (?fp @ ''.tmp'') (fn (?fp @ ''.tmp'') ?fp)"
  let ?k = "\<lambda>x. case x of
        Inl e \<Rightarrow> bindP (askIO io_unit (RemovePath (?fp @ ''.tmp''))) (\<lambda>y.
            Ret (Inl (ErrMulti (e # (case y of Inl e' \<Rightarrow> if os_IsNotExist e' then [] else [e'] | Inr _ \<Rightarrow> [])))))
      | Inr _ \<Rightarrow> tryP (askIO io_unit (RemovePath ?fp)) (\<lambda>_. askIO io_unit (Rename (?fp @ ''.tmp'') ?fp))"
  have fn: "io_calls (\<lambda>c. c \<noteq> RemovePath q) (fn d s)" for q d s
    using assms(1) unfolding copies_def by (elim conjE allE) (erule io_calls_mono, auto)
  have b: "?e \<notin> set t" if "exec no_group ?b t y" for t y
  proof -
    have "io_calls (\<lambda>c. c \<noteq> RemovePath ?fp) ?b" unfolding compressBlock_def by (intro io_calls_intros) (auto simp: fn)
    from io_calls_exec [OF this that] show ?thesis by blast
  qed
  from assms(2) have "exec no_group (bindP ?b ?k) (pre @ ?e # post) x" by (simp add: compressFile_def Let_def)
  from exec_bindP_split [OF this] b obtain t1 pre2 y where pre: "pre = t1 @ pre2" and t1: "exec no_group ?b t1 y"
    and k: "exec no_group (?k y) (pre2 @ ?e # post) x" by fastforce
  show ?thesis
  proof (cases y)
    case (Inl e)
    with k show ?thesis by (auto simp: exec_bind append_eq_Cons_conv)
  next
    case (Inr u)
    with t1 obtain t2 where "exec no_group (fn (?fp @ ''.tmp'') ?fp) t2 (Inr ())" "set t2 \<subseteq> set t1"
      unfolding compressBlock_def exec_deferP exec_tryP_Inr by (fastforce simp: exec_deferP exec_tryP_Inr)
    with assms(1) pre show ?thesis unfolding copies_def by fastforce
  qed
qed

text \<open>Compression never removes a backup before its compressed copy has been written: when the command removes the
  file it compresses, copying it into the temporary file has reported no error.\<close>

theorem compress_removes_after_copy:
  assumes "getBackupCompressor f processor = Inr c"
    and "exec no_group (co_Compress c n) (pre @ (RemovePath (GetFilePath (f_path f) n), r) # post) x"
  shows "\<exists>alg. (CopyIn alg (GetFilePath (f_path f) n @ ''.tmp'') (GetFilePath (f_path f) n), IUnit (Inr ())) \<in> set pre"
  using getBackupCompressor_compressorOf(1) [OF assms(1)]
proof (cases rule: compressorOf_cases)
  case 1
  then show ?thesis using assms(2) by (simp add: NewNopCompressor_def)
next
  case 2
  then show ?thesis using assms(2) compressFile_removes [OF copies_fns(1)] by (simp add: NewGzipBackupCompressor_def)
next
  case 3
  then show ?thesis using assms(2) compressFile_removes [OF copies_fns(2)] by (simp add: NewBzip2BackupCompressor_def)
qed

text \<open>The error of closing the writer is lost. A compressor writes its last block and its checksum when it is closed;
  the close is deferred and its error dropped, so when it fails, compression still reports success, removes the backup and
  puts the incomplete archive in its place.\<close>

theorem compress_close_error_lost:
  "exec no_group (co_Compress (NewGzipBackupCompressor path processor) n)
     [(OpenFile (GetFilePath path n), IUnit (Inr ())), (CreateFile (GetFilePath path n @ ''.tmp''), IUnit (Inr ())),
      (CopyIn CompressGzip (GetFilePath path n @ ''.tmp'') (GetFilePath path n), IUnit (Inr ())),
      (CloseWriter CompressGzip (GetFilePath path n @ ''.tmp''), IUnit (Inl (ErrExt ''no space left on device''))),
      (CloseFile (GetFilePath path n @ ''.tmp''), IUnit (Inr ())), (CloseFile (GetFilePath path n), IUnit (Inr ())),
      (RemovePath (GetFilePath path n), IUnit (Inr ())), (Rename (GetFilePath path n @ ''.tmp'') (GetFilePath path n), IUnit (Inr ()))] (Inr ())"
  by (simp add: NewGzipBackupCompressor_def compressFile_def compressBlock_def gzipFn_def deferP_def tryP_def askIO_def exec_Call Let_def)


section \<open>The restore command\<close>

text \<open>The calls that destroy or overwrite data.\<close>

fun destroys :: "io_call \<Rightarrow> bool" where
  "destroys (RemovePath _) = True"
| "destroys (RemoveObject _ _) = True"
| "destroys (Rename _ _) = True"
| "destroys (FPutObject _ _ _) = True"
| "destroys _ = False"

lemma decompress_calls:
  assumes "compressorOf f processor c"
  shows "io_calls (\<lambda>c. \<not> destroys c) (co_Decompress c n)"
  using assms
  by (cases rule: compressorOf_cases)
    (auto simp: NewNopCompressor_def NewGzipBackupCompressor_def NewBzip2BackupCompressor_def decompressFile_def uncompressFn_def Let_def
      split: sum.split intro!: io_calls_intros)

text \<open>All calls of all executions; in a sequence, the later steps may rely on what the earlier ones returned.\<close>

definition makes_only :: "(io_call \<Rightarrow> bool) \<Rightarrow> 'a io \<Rightarrow> bool" where
  "makes_only P p \<longleftrightarrow> (\<forall>t x. exec no_group p t x \<longrightarrow> (\<forall>e \<in> set t. P (fst e)))"

lemma makes_only_calls: "io_calls P p \<Longrightarrow> makes_only P p"
  unfolding makes_only_def using io_calls_exec by force

lemma makes_only_orExit:
  assumes "makes_only P p" "\<And>a t. exec no_group p t (Inr a) \<Longrightarrow> makes_only P (k a)"
  shows "makes_only P (orExit p k)"
  using assms unfolding makes_only_def exec_orExit by (metis UnE set_append)

lemma storage_calls:
  assumes "exec no_group (getBackupStorage f processor) t (Inr st)"
  shows "io_calls (\<lambda>c. \<not> destroys c) (st_List st)" "io_calls (\<lambda>c. \<not> destroys c) (st_Pull st n)"
proof -
  show "io_calls (\<lambda>c. \<not> destroys c) (st_List st)"
    using assms by (auto simp: getBackupStorage_def NewFileSystemBackupStorage_def NewS3BackupStorage_def exec_tryP_Inr FS_List_def S3_List_def
        intro!: io_calls_intros split: if_splits)
  show "io_calls (\<lambda>c. \<not> destroys c) (st_Pull st n)"
    using assms by (auto simp: getBackupStorage_def NewFileSystemBackupStorage_def NewS3BackupStorage_def exec_tryP_Inr split: if_splits)
qed

lemma fetchBackup_calls:
  assumes "exec no_group (getBackupStorage f processor) t (Inr st)"
  shows "makes_only (\<lambda>c. \<not> destroys c) (fetchBackup f processor st)"
proof -
  have "io_calls (\<lambda>c. \<not> destroys c) (getTargetTime f)" by (auto simp: getTargetTime_def intro!: io_calls_intros)
  then show ?thesis unfolding fetchBackup_def
    by (intro makes_only_orExit; intro makes_only_calls storage_calls [OF assms] decompress_calls getBackupCompressor_compressorOf(2))
      (auto intro: getBackupCompressor_compressorOf(2))
qed

text \<open>Restoring destroys nothing. Whatever happens and however it ends, the restore command removes and renames no
  file, and neither uploads nor removes an object: the backups are what they were.\<close>

theorem restore_destroys_nothing:
  assumes "exec no_group (restoreCmd f) t code" "(c, r) \<in> set t"
  shows "\<not> destroys c"
proof -
  have storage: "io_calls (\<lambda>c. \<not> destroys c) (getBackupStorage f processor)" for processor
    by (auto simp: getBackupStorage_def NewS3BackupStorage_def intro!: io_calls_intros)
  have chk: "io_calls (\<lambda>c. \<not> destroys c) (checkPhysicalBackupDir f)"
    by (auto simp: checkPhysicalBackupDir_def intro!: io_calls_intros split: sum.split)
  have rest: "makes_only (\<lambda>c. \<not> destroys c) (if b then Ret 0 else orExit (Ret (getBackupProcessor f)) (\<lambda>p. orExit (getBackupStorage f p) (fetchBackup f p)))"
    for b
    by (auto intro!: makes_only_orExit makes_only_calls [OF storage] fetchBackup_calls) (simp_all add: makes_only_def)
  have "makes_only (\<lambda>c. \<not> destroys c) (restoreCmd f)"
    unfolding restoreCmd_def by (intro makes_only_orExit makes_only_calls [OF chk] rest) (simp add: makes_only_calls)
  then show ?thesis using assms unfolding makes_only_def by fastforce
qed


lemma exec_decompress:
  assumes "getBackupCompressorWithFile f n processor = Inr c" "exec no_group (co_Decompress c n) t (Inr plain)"
  shows "\<exists>alg. bp_ParseCompressionAlgorithm processor n = Inr alg \<and>
    (if alg = CompressNone then plain = GetFilePath (f_path f) n
     else \<exists>g. bp_GetUncompressedBackupFile processor n = Inr g \<and> plain = GetFilePath (f_path f) g \<and>
       (CopyOut alg plain (GetFilePath (f_path f) n), IUnit (Inr ())) \<in> set t)"
proof -
  from assms(1) obtain alg where a: "bp_ParseCompressionAlgorithm processor n = Inr alg" "getBackupCompressorWithAlgorithm f alg processor = Inr c"
    by (auto simp: getBackupCompressorWithFile_def split: sum.splits)
  have d: "\<exists>g. bp_GetUncompressedBackupFile processor n = Inr g \<and> plain = GetFilePath (f_path f) g \<and>
       (CopyOut alg plain (GetFilePath (f_path f) n), IUnit (Inr ())) \<in> set t"
    if "exec no_group (decompressFile (f_path f) n processor (uncompressFn alg)) t (Inr plain)" for alg
    using that by (cases "bp_GetUncompressedBackupFile processor n")
      (fastforce simp: decompressFile_def uncompressFn_def Let_def exec_tryP_Inr exec_deferP)+
  show ?thesis
  proof (cases "alg = CompressNone")
    case True
    then show ?thesis using a assms(2) by (auto simp: getBackupCompressorWithAlgorithm_def NewNopCompressor_def)
  next
    case False
    then have "exec no_group (decompressFile (f_path f) n processor (uncompressFn alg)) t (Inr plain)"
      using a assms(2) by (auto simp: getBackupCompressorWithAlgorithm_def NewGzipBackupCompressor_def NewBzip2BackupCompressor_def split: if_splits)
    from d [OF this] False a(1) show ?thesis by simp
  qed
qed

lemma exec_orExit_0: "exec grp (orExit p k) t 0 \<longleftrightarrow> (\<exists>t1 t2 a. t = t1 @ t2 \<and> exec grp p t1 (Inr a) \<and> exec grp (k a) t2 0)"
  unfolding exec_orExit by simp

lemma exec_fetchBackup_0:
  assumes "exec no_group (fetchBackup f processor st) t 0"
  shows "\<exists>t1 t2 t3 t4 t5 targetTime names target alg plain.
    t = t1 @ t2 @ t3 @ t4 @ t5 \<and> exec no_group (getTargetTime f) t1 (Inr targetTime) \<and> exec no_group (st_List st) t2 (Inr names) \<and>
    GetBackupTargetFile (bp_parseDateInBackupFile processor) names targetTime = Inr target \<and>
    exec no_group (st_Pull st target) t3 (Inr ()) \<and> bp_ParseCompressionAlgorithm processor target = Inr alg \<and>
    (if alg = CompressNone then plain = GetFilePath (f_path f) target
     else \<exists>g. bp_GetUncompressedBackupFile processor target = Inr g \<and> plain = GetFilePath (f_path f) g \<and>
       (CopyOut alg plain (GetFilePath (f_path f) target), IUnit (Inr ())) \<in> set t4) \<and>
    t5 = [(WriteTargetFile (f_targetFilePath f) plain, IUnit (Inr ()))]"
proof -
  from assms obtain t1 u1 targetTime where 1: "t = t1 @ u1" "exec no_group (getTargetTime f) t1 (Inr targetTime)" and
    k1: "exec no_group (orExit (st_List st) (\<lambda>names. orExit (Ret (GetBackupTargetFile (bp_parseDateInBackupFile processor) names targetTime)) (\<lambda>target.
      orExit (st_Pull st target) (\<lambda>_. orExit (Ret (getBackupCompressorWithFile f target processor)) (\<lambda>compressor.
      orExit (co_Decompress compressor target) (\<lambda>plain. orExit (askIO io_unit (WriteTargetFile (f_targetFilePath f) plain)) (\<lambda>_. Ret 0))))))) u1 0"
    unfolding fetchBackup_def by (subst (asm) exec_orExit_0) (elim exE conjE, rule that)
  from k1 obtain t2 u2 names target where 2: "u1 = t2 @ u2" "exec no_group (st_List st) t2 (Inr names)"
      "GetBackupTargetFile (bp_parseDateInBackupFile processor) names targetTime = Inr target" and
    k2: "exec no_group (orExit (st_Pull st target) (\<lambda>_. orExit (Ret (getBackupCompressorWithFile f target processor)) (\<lambda>compressor.
      orExit (co_Decompress compressor target) (\<lambda>plain. orExit (askIO io_unit (WriteTargetFile (f_targetFilePath f) plain)) (\<lambda>_. Ret 0))))) u2 0"
    by (subst (asm) exec_orExit_0) (auto simp: exec_orExit_Ret)
  from k2 obtain t3 u3 c where 3: "u2 = t3 @ u3" "exec no_group (st_Pull st target) t3 (Inr ())" "getBackupCompressorWithFile f target processor = Inr c"
    and k3: "exec no_group (orExit (co_Decompress c target) (\<lambda>plain. orExit (askIO io_unit (WriteTargetFile (f_targetFilePath f) plain)) (\<lambda>_. Ret 0))) u3 0"
    by (subst (asm) exec_orExit_0) (auto simp: exec_orExit_Ret)
  from k3 obtain t4 plain where 4: "u3 = t4 @ [(WriteTargetFile (f_targetFilePath f) plain, IUnit (Inr ()))]" "exec no_group (co_Decompress c target) t4 (Inr plain)"
    by (auto simp: exec_orExit_0)
  from exec_decompress [OF 3(3) 4(2)] obtain alg where 5: "bp_ParseCompressionAlgorithm processor target = Inr alg"
    "if alg = CompressNone then plain = GetFilePath (f_path f) target
     else \<exists>g. bp_GetUncompressedBackupFile processor target = Inr g \<and> plain = GetFilePath (f_path f) g \<and>
       (CopyOut alg plain (GetFilePath (f_path f) target), IUnit (Inr ())) \<in> set t4" by blast
  have t: "t = t1 @ t2 @ t3 @ t4 @ [(WriteTargetFile (f_targetFilePath f) plain, IUnit (Inr ()))]" using 1(1) 2(1) 3(1) 4(1) by simp
  show ?thesis by (intro exI conjI, rule t, rule 1(2), rule 2(2), rule 2(3), rule 3(2), rule 5(1), rule 5(2), rule refl)
qed

lemma exec_checkPhysicalBackupDir:
  "exec grp (checkPhysicalBackupDir f) t (Inr True) \<longleftrightarrow>
    f_backupContentType f = BackupContentTypePhysical \<and> f_physicalBackupDirPath f \<noteq> '''' \<and>
    (\<exists>xs. xs \<noteq> [] \<and> t = [(ReadDir (f_physicalBackupDirPath f), INames (Inr xs))])"
proof -
  define g where "g = (\<lambda>x. case x of Inl e \<Rightarrow> if os_IsNotExist e then Inr False else Inl (ErrCtx ''error reading physical backup directory path'' e)
      | Inr entries \<Rightarrow> Inr (entries \<noteq> ([] :: string list)))"
  have g: "(\<lambda>x. case x of Inl e \<Rightarrow> if os_IsNotExist e then Ret (Inr False) else Ret (Inl (ErrCtx ''error reading physical backup directory path'' e))
      | Inr entries \<Rightarrow> Ret (Inr (entries \<noteq> ([] :: string list)))) = (\<lambda>x. Ret (g x) :: bool result io)"
    by (auto simp: g_def split: sum.split)
  have "Inr True = g x \<longleftrightarrow> (\<exists>xs. x = Inr xs \<and> xs \<noteq> [])" for x by (auto simp: g_def split: sum.split)
  then show ?thesis unfolding checkPhysicalBackupDir_def g by (auto simp: exec_bind_Ret)
qed



lemma cleanup_error_inverted:
  assumes "f_s3 f" "f_cleanupTargetFile f"
  shows "exec no_group (finishBackup f n) [(RemovePath (GetFilePath (f_path f) n), IUnit (Inl e))] code \<longleftrightarrow>
    code = (if e = os_ErrNotExist then 1 else 0)"
  using assms by (auto simp: exec_finishBackup cleanupFile_def os_IsNotExist_def)

section \<open>Examples\<close>

text \<open>A command with an S3 bucket, and one with a volume; the answers of a world in which everything works.\<close>

definition s3Flags :: flags where
  "s3Flags = \<lparr>f_path = ''/backup'', f_targetFilePath = ''/backup/0-backup-target.txt'', f_backupContentType = BackupContentTypeLogical,
     f_cleanupTargetFile = False, f_s3 = True, f_s3Bucket = ''backups'', f_s3Endpoint = ''minio:9000'', f_s3Prefix = ''db'',
     f_maxRetention = 3600 * second, f_compression = ''none'', f_physicalBackupDirPath = '''', f_targetTimeRaw = ''''\<rparr>"

definition volumeFlags :: flags where
  "volumeFlags = s3Flags\<lparr>f_s3 := False, f_compression := ''gzip''\<rparr>"

fun worldOK :: "io_call list \<Rightarrow> io_call \<Rightarrow> io_answer" where
  "worldOK h TimeNow = ITime 1703002440000000000"
| "worldOK h (ReadDir p) = INames (Inr [''0-backup-target.txt'', backupDaily, backupOther])"
| "worldOK h (ReadTargetFile p) = IText (Inr backupOther)"
| "worldOK h (ListObjects b p) = IObjects [Inr (p @ backupDaily), Inr (p @ backupOther)]"
| "worldOK h _ = IUnit (Inr ())"

lemma run_io: "run run_no_group worldOK [] p = Some (t, x) \<Longrightarrow> exec no_group p t x"
  by (erule run_sound [rotated]) (simp add: run_no_group_def)

lemma s3_run:
  "exec no_group (backupCmd s3Flags)
     ([(SetupLogger, IUnit (Inr ())), (NewMinioClient ''minio:9000'', IUnit (Inr ())),
       (ReadTargetFile ''/backup/0-backup-target.txt'', IText (Inr backupOther)),
       (FPutObject ''backups'' (''db/'' @ backupOther) (''/backup/'' @ backupOther), IUnit (Inr ())),
       (ListObjects ''backups'' ''db/'', IObjects [Inr (''db/'' @ backupDaily), Inr (''db/'' @ backupOther)]),
       (TimeNow, ITime 1703002440000000000)] @ (RemoveObject ''backups'' (''db/'' @ backupDaily), IUnit (Inr ())) # []) 0"
  by (rule run_io) code_simp

theorem backup_removes_expired_objects_witness:
  "\<exists>target. (FPutObject ''backups'' (prefixedFileName ''db'' target) (GetFilePath ''/backup'' target), IUnit (Inr ())) \<in> 
     set [(SetupLogger, IUnit (Inr ())), (NewMinioClient ''minio:9000'', IUnit (Inr ())),
       (ReadTargetFile ''/backup/0-backup-target.txt'', IText (Inr backupOther)),
       (FPutObject ''backups'' (''db/'' @ backupOther) (''/backup/'' @ backupOther), IUnit (Inr ())),
       (ListObjects ''backups'' ''db/'', IObjects [Inr (''db/'' @ backupDaily), Inr (''db/'' @ backupOther)]),
       (TimeNow, ITime 1703002440000000000)]"
proof -
  have "f_s3 s3Flags" "f_s3Prefix s3Flags = ''db''" "f_path s3Flags = ''/backup''" by (simp_all add: s3Flags_def)
  with backup_removes_expired_objects [OF s3_run] show ?thesis by metis
qed

abbreviation volumePre :: "(io_call, io_answer) trace" where
  "volumePre \<equiv>
     [(SetupLogger, IUnit (Inr ())), (ReadTargetFile ''/backup/0-backup-target.txt'', IText (Inr backupOther)),
      (OpenFile (''/backup/'' @ backupOther), IUnit (Inr ())), (CreateFile (''/backup/'' @ backupOther @ ''.tmp''), IUnit (Inr ())),
      (CopyIn ''gzip'' (''/backup/'' @ backupOther @ ''.tmp'') (''/backup/'' @ backupOther), IUnit (Inr ())),
      (CloseWriter ''gzip'' (''/backup/'' @ backupOther @ ''.tmp''), IUnit (Inr ())),
      (CloseFile (''/backup/'' @ backupOther @ ''.tmp''), IUnit (Inr ())), (CloseFile (''/backup/'' @ backupOther), IUnit (Inr ())),
      (RemovePath (''/backup/'' @ backupOther), IUnit (Inr ())),
      (Rename (''/backup/'' @ backupOther @ ''.tmp'') (''/backup/'' @ backupOther), IUnit (Inr ())),
      (ReadDir ''/backup'', INames (Inr [''0-backup-target.txt'', backupDaily, backupOther])), (TimeNow, ITime 1703002440000000000)]"

lemma volume_run:
  "exec no_group (backupCmd volumeFlags) (volumePre @ (RemovePath (''/backup/'' @ backupDaily), IUnit (Inr ())) # []) 0"
  by (rule run_io) code_simp


theorem backup_removes_expired_files_witness:
  "\<exists>target entries g. (ReadTargetFile ''/backup/0-backup-target.txt'', IText (Inr target)) \<in> set volumePre \<and>
     (ReadDir ''/backup'', INames (Inr entries)) \<in> set volumePre \<and> g \<in> set entries \<and> ''/backup/'' @ backupDaily = GetFilePath ''/backup'' g"
proof -
  have "\<not> f_s3 volumeFlags" and f: "f_path volumeFlags = ''/backup''" "f_targetFilePath volumeFlags = ''/backup/0-backup-target.txt''"
    by (simp_all add: volumeFlags_def s3Flags_def)
  from backup_removes_expired_files [OF volume_run this(1), unfolded f] obtain target where
    r: "(ReadTargetFile ''/backup/0-backup-target.txt'', IText (Inr target)) \<in> set volumePre" and
    q: "''/backup/'' @ backupDaily \<in> {GetFilePath ''/backup'' target, GetFilePath ''/backup'' target @ ''.tmp''} \<or>
      (\<exists>entries g. (ReadDir ''/backup'', INames (Inr entries)) \<in> set volumePre \<and> g \<in> set entries \<and> ''/backup/'' @ backupDaily = GetFilePath ''/backup'' g)"
    by metis
  from r have "target = backupOther" by simp
  moreover have "''/backup/'' @ backupDaily \<notin> {GetFilePath ''/backup'' backupOther, GetFilePath ''/backup'' backupOther @ ''.tmp''}" by code_simp
  ultimately show ?thesis using r q by blast
qed

theorem s3_key_roundtrip_witness: "prefixedFileName ''db'' (''db/'' @ backupDaily) = ''db/'' @ backupDaily"
proof -
  have "backupDaily \<noteq> ''''" "CHR ''/'' \<notin> set backupDaily" "prefixedFileName ''db'' backupDaily = ''db/'' @ backupDaily" by code_simp+
  with s3_key_roundtrip [of backupDaily "''db''"] show ?thesis by metis
qed

theorem dotted_prefix_unusable_witness:
  "GetBackupTargetFile Logical_parseDate [''my.app/'' @ backupDaily] 1703002440000000000 = Inl (ErrNew ''no valid backup files were found'')"
proof -
  have p: "getPrefix ''my.app'' = ''my.app/''" by code_simp
  have "Logical_IsValidBackupFile backupDaily" "CHR ''/'' \<notin> set backupDaily" by code_simp+
  then have "\<forall>k \<in> set [''my.app/'' @ backupDaily]. \<exists>x. k = getPrefix ''my.app'' @ x \<and> Logical_IsValidBackupFile x \<and> CHR ''/'' \<notin> set x"
    unfolding p by auto
  moreover have "CHR ''.'' \<in> set (getPrefix ''my.app'')" unfolding p by simp
  ultimately show ?thesis using dotted_prefix_unusable [of "''my.app''" "[''my.app/'' @ backupDaily]" 1703002440000000000] by blast
qed

theorem compress_removes_after_copy_witness:
  "\<exists>t x pre r post. exec no_group (compressFile ''/backup'' backupOther gzipFn) t x \<and> t = pre @ (RemovePath (''/backup/'' @ backupOther), r) # post \<and>
     (\<exists>alg. (CopyIn alg (''/backup/'' @ backupOther @ ''.tmp'') (''/backup/'' @ backupOther), IUnit (Inr ())) \<in> set pre)"
proof -
  let ?fp = "''/backup/'' @ backupOther"
  let ?pre = "[(OpenFile ?fp, IUnit (Inr ())), (CreateFile (?fp @ ''.tmp''), IUnit (Inr ())), (CopyIn ''gzip'' (?fp @ ''.tmp'') ?fp, IUnit (Inr ())),
      (CloseWriter ''gzip'' (?fp @ ''.tmp''), IUnit (Inr ())), (CloseFile (?fp @ ''.tmp''), IUnit (Inr ())), (CloseFile ?fp, IUnit (Inr ()))]"
  let ?post = "[(Rename (?fp @ ''.tmp'') ?fp, IUnit (Inr ()))]"
  have run: "exec no_group (compressFile ''/backup'' backupOther gzipFn) (?pre @ (RemovePath ?fp, IUnit (Inr ())) # ?post) (Inr ())"
    by (rule run_io) code_simp
  have fp: "GetFilePath (f_path volumeFlags) backupOther = ?fp" by code_simp
  have c: "getBackupCompressor volumeFlags logical_processor = Inr (NewGzipBackupCompressor ''/backup'' logical_processor)"
    by (simp add: getBackupCompressor_def getBackupCompressorWithAlgorithm_def Compress_Validate_def volumeFlags_def s3Flags_def compress_defs)
  have "exec no_group (co_Compress (NewGzipBackupCompressor ''/backup'' logical_processor) backupOther) (?pre @ (RemovePath ?fp, IUnit (Inr ())) # ?post) (Inr ())"
    using run by (simp add: NewGzipBackupCompressor_def)
  from compress_removes_after_copy [OF c this [folded fp], unfolded fp] run show ?thesis
    by (metis (no_types, lifting) append.assoc)
qed

definition restoreTrace :: "(io_call, io_answer) trace" where
  "restoreTrace =
     [(SetupLogger, IUnit (Inr ())), (NewMinioClient ''minio:9000'', IUnit (Inr ())), (TimeNow, ITime 1703002440000000000),
      (ListObjects ''backups'' ''db/'', IObjects [Inr (''db/'' @ backupDaily), Inr (''db/'' @ backupOther)]),
      (FGetObject ''backups'' (''db/'' @ backupOther) (''/backup/db/'' @ backupOther), IUnit (Inr ())),
      (WriteTargetFile ''/backup/0-backup-target.txt'' (''/backup/db/'' @ backupOther), IUnit (Inr ()))]"

lemma restore_run: "exec no_group (restoreCmd s3Flags) restoreTrace 0"
  by (rule run_io) code_simp

theorem restore_destroys_nothing_witness:
  "(FGetObject ''backups'' (''db/'' @ backupOther) (''/backup/db/'' @ backupOther), IUnit (Inr ())) \<in> set restoreTrace \<and>
   \<not> destroys (FGetObject ''backups'' (''db/'' @ backupOther) (''/backup/db/'' @ backupOther))"
proof -
  have "(FGetObject ''backups'' (''db/'' @ backupOther) (''/backup/db/'' @ backupOther), IUnit (Inr ())) \<in> set restoreTrace"
    by (simp add: restoreTrace_def)
  with restore_destroys_nothing [OF restore_run] show ?thesis by blast
qed


end
