(* ===== verification/Physical_Backup.thy ===== *)
theory Physical_Backup
  imports Sql_Reconciler Backup_Files
begin

text \<open>
  Physical backups: the PhysicalBackup resource (\<^verbatim>\<open>api/v1alpha1/physicalbackup_types.go\<close>) and its controller, which takes
  them on a schedule as Jobs or as volume snapshots (\<^verbatim>\<open>internal/controller/physicalbackup_controller*.go\<close>,
  \<^verbatim>\<open>pkg/job\<close>, \<^verbatim>\<open>pkg/volumesnapshot\<close>). An operation has the calls of the controllers, tagged \<open>POp\<close>, and its own. The
  resource is reached through a pointer, so an operation returns it as it is then. \<open>cron\<close> is the parser of cron
  expressions: it gives the function that maps a time to the next activation. Building a Job, a snapshot or a
  claim is a call, as the builders only say whether the object could be built. Events and logs are left out.
\<close>

section \<open>The resource\<close>

record PhysicalBackupSchedule =
  ps_Cron :: string
  ps_Suspend :: bool
  ps_Immediate :: "bool option"

definition zeroSchedule :: PhysicalBackupSchedule where
  "zeroSchedule = \<lparr>ps_Cron = '''', ps_Suspend = False, ps_Immediate = None\<rparr>"

text \<open>The claim and the snapshot class are only passed to the builders.\<close>

record PhysicalBackupStorage =
  pst_S3 :: "BackupS3 option"
  pst_PersistentVolumeClaim :: "VolumeClaimTemplate option"
  pst_Volume :: "StorageVolumeSource option"
  pst_VolumeSnapshot :: "string option"

record PhysicalBackup =
  pb_ObjectMeta :: ObjectMeta
  pb_MariaDBRef :: MariaDBRef
  pb_ServiceAccountName :: "string option"
  pb_Compression :: CompressAlgorithm
  pb_StagingStorage :: "BackupStagingStorage option"
  pb_Storage :: PhysicalBackupStorage
  pb_Schedule :: "PhysicalBackupSchedule option"
  pb_MaxRetention :: int
  pb_Timeout :: "int option"
  pb_BackoffLimit :: int
  pb_SuccessfulJobsHistoryLimit :: "int option"
  pb_Conditions :: "Condition list"
  pb_LastScheduleCheckTime :: "int option"
  pb_LastScheduleTime :: "int option"
  pb_NextScheduleTime :: "int option"

abbreviation pb_Name :: "PhysicalBackup \<Rightarrow> string" where "pb_Name b \<equiv> Name (pb_ObjectMeta b)"
abbreviation pb_Namespace :: "PhysicalBackup \<Rightarrow> string" where "pb_Namespace b \<equiv> Namespace (pb_ObjectMeta b)"

abbreviation pb_key :: "PhysicalBackup \<Rightarrow> NamespacedName" where
  "pb_key b \<equiv> \<lparr>nn_Name = pb_Name b, nn_Namespace = pb_Namespace b\<rparr>"

definition DefaultPhysicalBackupMaxRetention :: int where "DefaultPhysicalBackupMaxRetention = 30 * 24 * 60 * minute"
definition DefaultPhysicalBackupTimeout :: int where "DefaultPhysicalBackupTimeout = 60 * minute"

definition Schedule_Validate :: "(string \<Rightarrow> (int \<Rightarrow> int) result) \<Rightarrow> PhysicalBackupSchedule \<Rightarrow> unit result" where
  "Schedule_Validate cron s = and_then (cron (ps_Cron s)) (\<lambda>_. Inr ())"

definition PhysicalBackupStorage_Validate :: "PhysicalBackupStorage \<Rightarrow> unit result" where
  "PhysicalBackupStorage_Validate s =
     (let storageTypes = of_bool (pst_S3 s \<noteq> None) + of_bool (pst_PersistentVolumeClaim s \<noteq> None) + of_bool (pst_Volume s \<noteq> None) +
            of_bool (pst_VolumeSnapshot s \<noteq> None) :: nat
      in if storageTypes \<noteq> 1 then Inl (ErrNew ''exactly one storage type should be provided'') else Inr ())"

definition PhysicalBackup_Validate :: "(string \<Rightarrow> (int \<Rightarrow> int) result) \<Rightarrow> PhysicalBackup \<Rightarrow> unit result" where
  "PhysicalBackup_Validate cron b =
     and_then (case pb_Schedule b of None \<Rightarrow> Inr () | Some s \<Rightarrow> with_ctx ''invalid Schedule'' (Schedule_Validate cron s)) (\<lambda>_.
     and_then (with_ctx ''invalid Storage'' (PhysicalBackupStorage_Validate (pb_Storage b))) (\<lambda>_.
     and_then (with_ctx ''invalid Compression'' (Compress_Validate (pb_Compression b))) (\<lambda>_.
       let storage = pb_Storage b in
       if pst_VolumeSnapshot storage \<noteq> None \<and> (pst_S3 storage \<noteq> None \<or> pst_Volume storage \<noteq> None)
       then Inl (ErrNew ''s3 and volume storage types may not be set when volumeSnapshotRef is set'')
       else if pst_S3 storage = None \<and> pb_StagingStorage b \<noteq> None
       then Inl (ErrNew ''spec.stagingStorage may only be specified when spec.storage.s3 is set'')
       else Inr ())))"

definition ServiceAccountKey :: "PhysicalBackup \<Rightarrow> NamespacedName" where
  "ServiceAccountKey b = \<lparr>nn_Name = Deref (pb_ServiceAccountName b) (pb_Name b), nn_Namespace = pb_Namespace b\<rparr>"

definition PhysicalBackup_SetDefaults :: "PhysicalBackup \<Rightarrow> PhysicalBackup" where
  "PhysicalBackup_SetDefaults b =
     (let b = (if pb_MaxRetention b = 0 then b\<lparr>pb_MaxRetention := DefaultPhysicalBackupMaxRetention\<rparr> else b);
          b = (if pb_Timeout b = None then b\<lparr>pb_Timeout := Some DefaultPhysicalBackupTimeout\<rparr> else b)
      in if pst_VolumeSnapshot (pb_Storage b) \<noteq> None then b
         else
           (let b = (if pb_Compression b = '''' then b\<lparr>pb_Compression := CompressNone\<rparr> else b);
                b = (if pb_BackoffLimit b = 0 then b\<lparr>pb_BackoffLimit := 5\<rparr> else b);
                b = (if pb_SuccessfulJobsHistoryLimit b = None then b\<lparr>pb_SuccessfulJobsHistoryLimit := Some 5\<rparr> else b)
            in if pb_ServiceAccountName b = None then b\<lparr>pb_ServiceAccountName := Some (nn_Name (ServiceAccountKey b))\<rparr> else b))"

definition PhysicalBackup_IsComplete :: "meta_api \<Rightarrow> PhysicalBackup \<Rightarrow> bool" where
  "PhysicalBackup_IsComplete M b = IsStatusConditionTrue M (pb_Conditions b) ''Complete''"

definition StoragePVCKey :: "PhysicalBackup \<Rightarrow> NamespacedName" where
  "StoragePVCKey b = \<lparr>nn_Name = pb_Name b, nn_Namespace = pb_Namespace b\<rparr>"

definition StagingPVCKey :: "PhysicalBackup \<Rightarrow> NamespacedName" where
  "StagingPVCKey b = \<lparr>nn_Name = pb_Name b @ ''-staging'', nn_Namespace = pb_Namespace b\<rparr>"

definition PhysicalBackup_Volume :: "PhysicalBackup \<Rightarrow> StorageVolumeSource result" where
  "PhysicalBackup_Volume b =
     (if pst_VolumeSnapshot (pb_Storage b) \<noteq> None then Inl (ErrNew ''VolumeSnapshot does not require a volume'')
      else if pst_S3 (pb_Storage b) \<noteq> None
      then Inr (BackupStagingStorage_VolumeOrEmptyDir (Deref (pb_StagingStorage b) zeroBackupStagingStorage) (StagingPVCKey b))
      else if pst_PersistentVolumeClaim (pb_Storage b) \<noteq> None
      then Inr (zeroStorageVolumeSource\<lparr>sv_PersistentVolumeClaim := Some (nn_Name (StoragePVCKey b))\<rparr>)
      else case pst_Volume (pb_Storage b) of Some v \<Rightarrow> Inr v | None \<Rightarrow> Inl (ErrNew ''unable to get volume for PhysicalBackup''))"

section \<open>Names\<close>

definition ParsePhysicalBackupTime :: "string \<Rightarrow> int result" where
  "ParsePhysicalBackupTime name =
     (let parts = split_on (CHR ''-'') name in
      if length parts < 2 then Inl (ErrNew ''invalid object name'') else time_Parse (last parts))"

definition IsValidPhysicalBackup :: "string \<Rightarrow> bool" where
  "IsValidPhysicalBackup name = (case ParsePhysicalBackupTime name of Inl _ \<Rightarrow> False | Inr _ \<Rightarrow> True)"

definition getObjectName :: "string \<Rightarrow> int \<Rightarrow> string" where
  "getObjectName name now = name @ ''-'' @ time_Format (civil_of now)"

definition getBackupFileName :: "PhysicalBackup \<Rightarrow> int \<Rightarrow> string result" where
  "getBackupFileName backup now =
     (let backupFile = ''physicalbackup-'' @ time_Format (civil_of now) @ ''.xb'' in
      if pb_Compression backup \<noteq> '''' \<and> pb_Compression backup \<noteq> CompressNone
      then and_then (with_ctx ''error getting compression algorithm extension'' (Compress_Extension (pb_Compression backup)))
        (\<lambda>ext. Inr (backupFile @ ''.'' @ ext))
      else Inr backupFile)"

section \<open>Jobs and snapshots\<close>

record PBJob =
  pj_Name :: string
  pj_Namespace :: string
  pj_Conditions :: "JobCondition list"
  pj_CreationTimestamp :: "int option"

abbreviation pj_complete :: "PBJob \<Rightarrow> bool" where "pj_complete j \<equiv> IsJobComplete (Some (pj_Conditions j))"
abbreviation pj_failed :: "PBJob \<Rightarrow> bool" where "pj_failed j \<equiv> IsJobFailed (Some (pj_Conditions j))"
abbreviation pj_running :: "PBJob \<Rightarrow> bool" where "pj_running j \<equiv> IsJobRunning (Some (pj_Conditions j))"
abbreviation pj_key :: "PBJob \<Rightarrow> NamespacedName" where "pj_key j \<equiv> \<lparr>nn_Name = pj_Name j, nn_Namespace = pj_Namespace j\<rparr>"

record VolumeSnapshotStatus =
  vss_BoundVolumeSnapshotContentName :: "string option"
  vss_CreationTime :: "int option"
  vss_ReadyToUse :: "bool option"
  vss_Error :: "string option option"

definition zeroSnapshotStatus :: VolumeSnapshotStatus where
  "zeroSnapshotStatus = \<lparr>vss_BoundVolumeSnapshotContentName = None, vss_CreationTime = None, vss_ReadyToUse = None, vss_Error = None\<rparr>"

record VolumeSnapshot =
  vs_Name :: string
  vs_Namespace :: string
  vs_CreationTimestamp :: "int option"
  vs_Status :: "VolumeSnapshotStatus option"

abbreviation vs_key :: "VolumeSnapshot \<Rightarrow> NamespacedName" where "vs_key s \<equiv> \<lparr>nn_Name = vs_Name s, nn_Namespace = vs_Namespace s\<rparr>"

definition IsVolumeSnapshotProvisioned :: "VolumeSnapshot \<Rightarrow> bool" where
  "IsVolumeSnapshotProvisioned s =
     (let status = Deref (vs_Status s) zeroSnapshotStatus in
      if Deref (vss_BoundVolumeSnapshotContentName status) '''' = '''' then False
      else vss_CreationTime status \<noteq> None \<and> vss_Error status = None)"

definition IsVolumeSnapshotReady :: "VolumeSnapshot \<Rightarrow> bool" where
  "IsVolumeSnapshotReady s =
     (if \<not> IsVolumeSnapshotProvisioned s then False
      else let status = Deref (vs_Status s) zeroSnapshotStatus in Deref (vss_ReadyToUse status) False \<and> vss_Error status = None)"

section \<open>Calls\<close>

datatype pcall =
    POp call
  | GetPhysicalBackup NamespacedName
  | PatchPB PhysicalBackup
  | PatchPBStatus PhysicalBackup
  | ListPBJobs NamespacedName
  | BuildPBJob NamespacedName string string
  | CreatePBJob NamespacedName string string
  | DeletePBJobBackground NamespacedName
  | DeletePBJobForeground NamespacedName
  | GetPBJob NamespacedName
  | ReconcileServiceAccount NamespacedName
  | BuildPVC NamespacedName
  | ReconcilePVC NamespacedName
  | VolumeSnapshotExist
  | ListVolumeSnapshots NamespacedName
  | GetVolumeSnapshot NamespacedName
  | BuildVolumeSnapshot NamespacedName NamespacedName
  | CreateVolumeSnapshot NamespacedName NamespacedName
  | DeleteVolumeSnapshot NamespacedName

datatype panswer =
    POpA answer
  | APB "PhysicalBackup result"
  | APBJobs "PBJob list result"
  | ASnapshots "VolumeSnapshot list result"
  | ASnapshot "VolumeSnapshot result"

fun un_pop :: "panswer \<Rightarrow> answer" where "un_pop (POpA a) = a" | "un_pop _ = AUnit (Inl unexpected)"
fun as_pb where "as_pb (APB x) = x" | "as_pb _ = Inl unexpected"
fun as_pbjobs where "as_pbjobs (APBJobs x) = x" | "as_pbjobs _ = Inl unexpected"
fun as_snapshots where "as_snapshots (ASnapshots x) = x" | "as_snapshots _ = Inl unexpected"
fun as_snapshot where "as_snapshot (ASnapshot x) = x" | "as_snapshot _ = Inl unexpected"

type_synonym 'a pop = "(pcall, panswer, unit, unit, 'a) prog"
type_synonym on_pb = "(PhysicalBackup \<times> CtrlResult result) pop"

abbreviation popP :: "(unit, unit, 'a) op \<Rightarrow> 'a pop" where
  "popP p \<equiv> embedP POp un_pop p"

definition askP :: "(panswer \<Rightarrow> 'a) \<Rightarrow> pcall \<Rightarrow> 'a pop" where
  "askP sel c = Call c (\<lambda>r. Ret (sel r))"

abbreviation askU :: "pcall \<Rightarrow> unit result pop" where
  "askU c \<equiv> askP (\<lambda>r. as_unit (un_pop r)) c"

definition nowP :: "int pop" where
  "nowP = popP (ask as_time Now)"

definition PatchStatusPB :: "(PhysicalBackup \<Rightarrow> PhysicalBackup) \<Rightarrow> PhysicalBackup \<Rightarrow> (PhysicalBackup \<times> unit result) pop" where
  "PatchStatusPB patcher b =
     bindP (askP as_pb (PatchPBStatus (patcher b))) (\<lambda>x. case x of Inl e \<Rightarrow> Ret (patcher b, Inl e) | Inr server \<Rightarrow> Ret (server, Inr ()))"

definition setComplete :: "meta_api \<Rightarrow> Condition \<Rightarrow> PhysicalBackup \<Rightarrow> PhysicalBackup" where
  "setComplete M c b = b\<lparr>pb_Conditions := list_SetCondition M c (pb_Conditions b)\<rparr>"

text \<open>A step on the resource with its error check: \<^verbatim>\<open>if err := ...; err != nil { return ctrl.Result{}, ... }\<close>.\<close>

definition thenPB :: "string \<Rightarrow> (PhysicalBackup \<times> unit result) pop \<Rightarrow> (PhysicalBackup \<Rightarrow> on_pb) \<Rightarrow> on_pb" where
  "thenPB msg p k = bindP p (\<lambda>(b, x). case x of Inl e \<Rightarrow> Ret (b, Inl (ErrCtx msg e)) | Inr _ \<Rightarrow> k b)"

definition unlessErr :: "PhysicalBackup \<Rightarrow> string \<Rightarrow> 'a result pop \<Rightarrow> ('a \<Rightarrow> on_pb) \<Rightarrow> on_pb" where
  "unlessErr b msg p k = bindP p (\<lambda>x. case x of Inl e \<Rightarrow> Ret (b, Inl (ErrCtx msg e)) | Inr a \<Rightarrow> k a)"


section \<open>When a backup is due\<close>

definition errPhysicalBackupNoTargetPodsAvailable :: go_error where
  "errPhysicalBackupNoTargetPodsAvailable = ErrNew ''no target Pods available''"

definition physicalBackupTargetPodIndex :: "MariaDB \<Rightarrow> int result pop" where
  "physicalBackupTargetPodIndex mariadb =
     (case ms_CurrentPrimaryPodIndex (m_Status mariadb) of
        None \<Rightarrow> Ret (Inl errPhysicalBackupNoTargetPodsAvailable)
      | Some i \<Rightarrow>
          if \<not> IsHAEnabled mariadb then Ret (Inr i)
          else bindP (popP (SecondaryPodHealthyIndex mariadb)) (\<lambda>x. Ret (case x of
            Inl e \<Rightarrow> Inl (if e = ErrNoHealthyInstancesAvailable then errPhysicalBackupNoTargetPodsAvailable else ErrCtx ''error getting target Pod index'' e)
          | Inr podIndex \<Rightarrow> Inr podIndex)))"

type_synonym scheduleFn = "int \<Rightarrow> (int \<Rightarrow> int) option \<Rightarrow> on_pb"

definition checkSchedule :: "PhysicalBackupSchedule \<Rightarrow> (int \<Rightarrow> int) \<Rightarrow> PhysicalBackup \<Rightarrow> scheduleFn \<Rightarrow> int \<Rightarrow> on_pb" where
  "checkSchedule schedule next backup scheduleFn now =
     (case pb_LastScheduleCheckTime backup of
        None \<Rightarrow>
          if Deref (ps_Immediate schedule) True then scheduleFn now (Some next)
          else
            (let nextTime = next now in
             thenPB ''error patching status''
               (PatchStatusPB (\<lambda>b. b\<lparr>pb_LastScheduleCheckTime := Some now, pb_NextScheduleTime := Some nextTime\<rparr>) backup)
               (\<lambda>b. Ret (b, Inr (requeueAfter (time_Sub nextTime now)))))
      | Some lastCheck \<Rightarrow>
          (let nextTime = next lastCheck in
           if now < nextTime then Ret (backup, Inr (requeueAfter (time_Sub nextTime now)))
           else scheduleFn now (Some next)))"

definition reconcileTemplateScheduled :: "(string \<Rightarrow> (int \<Rightarrow> int) result) \<Rightarrow> PhysicalBackup \<Rightarrow> scheduleFn \<Rightarrow> on_pb" where
  "reconcileTemplateScheduled cron backup scheduleFn =
     (let schedule = Deref (pb_Schedule backup) zeroSchedule in
      if ps_Suspend schedule then Ret (backup, Inr zeroResult)
      else case cron (ps_Cron schedule) of
        Inl e \<Rightarrow> Ret (backup, Inl (ErrCtx ''error parsing cron schedule'' e))
      | Inr next \<Rightarrow> bindP nowP (checkSchedule schedule next backup scheduleFn))"

definition reconcileTemplate :: "(string \<Rightarrow> (int \<Rightarrow> int) result) \<Rightarrow> PhysicalBackup \<Rightarrow> nat \<Rightarrow> scheduleFn \<Rightarrow> on_pb" where
  "reconcileTemplate cron backup numReconciledObjects scheduleFn =
     (if pb_Schedule backup \<noteq> None then reconcileTemplateScheduled cron backup scheduleFn
      else if numReconciledObjects = 0 then bindP nowP (\<lambda>now. scheduleFn now None)
      else Ret (backup, Inr zeroResult))"

text \<open>What both ways of taking a backup record of its time.\<close>

definition recordSchedule :: "int \<Rightarrow> (int \<Rightarrow> int) option \<Rightarrow> PhysicalBackup \<Rightarrow> PhysicalBackup" where
  "recordSchedule now schedule b =
     (let b = b\<lparr>pb_LastScheduleCheckTime := Some now, pb_LastScheduleTime := Some now\<rparr>
      in case schedule of None \<Rightarrow> b | Some next \<Rightarrow> b\<lparr>pb_NextScheduleTime := Some (next now)\<rparr>)"

definition patchComplete :: "meta_api \<Rightarrow> Condition \<Rightarrow> PhysicalBackup \<Rightarrow> PhysicalBackup pop" where
  "patchComplete M c b = bindP (PatchStatusPB (setComplete M c) b) (\<lambda>(b, _). Ret b)"

section \<open>Backups as Jobs\<close>

definition notCompleteMessage :: "PhysicalBackup \<Rightarrow> string" where
  "notCompleteMessage b = (if pb_Schedule b \<noteq> None then ''Scheduled'' else ''Not complete'')"

definition jobCompletion :: "PhysicalBackup \<Rightarrow> PBJob list \<Rightarrow> Condition" where
  "jobCompletion backup jobs =
     (if ps_Suspend (Deref (pb_Schedule backup) zeroSchedule) then cond ''Complete'' ConditionFalse ''JobSuspended'' ''Suspended''
      else if list_ex pj_failed jobs then cond ''Complete'' ConditionTrue ''JobFailed'' ''Failed''
      else
        (let numRunning = length (filter pj_running jobs);
             numComplete = length (filter (\<lambda>j. \<not> pj_running j \<and> pj_complete j) jobs)
         in if length jobs > 0 \<and> numComplete = length jobs then cond ''Complete'' ConditionTrue ''JobComplete'' ''Success''
            else if length jobs > 0 \<and> numRunning > 0 then cond ''Complete'' ConditionFalse ''JobRunning'' ''Running''
            else cond ''Complete'' ConditionFalse ''JobNotComplete'' (notCompleteMessage backup)))"

definition reconcileJobStatus :: "meta_api \<Rightarrow> PhysicalBackup \<Rightarrow> PBJob list \<Rightarrow> PhysicalBackup pop" where
  "reconcileJobStatus M backup jobs = patchComplete M (jobCompletion backup jobs) backup"

text \<open>The sort compares every element of a list of two or more, so an object without a date makes it fail. Objects
  created within the same second have no specified order; here they keep the listed one.\<close>

definition object_time :: "PBJob \<Rightarrow> int" where
  "object_time j = (case ParsePhysicalBackupTime (pj_Name j) of Inl _ \<Rightarrow> 0 | Inr t \<Rightarrow> t)"

definition sortByObjectTime :: "PBJob list \<Rightarrow> PBJob list result" where
  "sortByObjectTime jobs =
     (if length jobs \<ge> 2 \<and> list_ex (\<lambda>j. \<not> IsValidPhysicalBackup (pj_Name j)) jobs then Inl (ErrNew ''error parsing object time'')
      else Inr (sort_key (\<lambda>j. - object_time j) jobs))"

definition cleanupJobs :: "PhysicalBackup \<Rightarrow> PBJob list \<Rightarrow> unit result pop" where
  "cleanupJobs backup jobs =
     (if pb_Schedule backup = None then Ret (Inr ())
      else
        (let completeJobs = filter pj_complete jobs; maxHistory = nat (Deref (pb_SuccessfulJobsHistoryLimit backup) 5) in
         if length completeJobs \<le> maxHistory then Ret (Inr ())
         else case sortByObjectTime completeJobs of
           Inl e \<Rightarrow> Ret (Inl e)
         | Inr sortedJobs \<Rightarrow>
             forP (drop maxHistory sortedJobs) (\<lambda>job.
               bindP (askU (DeletePBJobBackground (pj_key job))) (\<lambda>x. Ret (case x of
                 Inl e \<Rightarrow> if IsNotFound e then Inr () else Inl (ErrCtx ''error deleting Job'' e)
               | Inr _ \<Rightarrow> Inr ())))))"

definition deleteJobSync :: "PBJob \<Rightarrow> unit result pop" where
  "deleteJobSync job =
     bindP (askU (DeletePBJobForeground (pj_key job))) (\<lambda>x.
       if (case x of Inl e \<Rightarrow> \<not> IsNotFound e | Inr _ \<Rightarrow> False) then Ret (Inl (ErrCtx ''error deleting Job'' (projl x)))
       else pollP (POp Tick) (\<lambda>r. ctx_is_done (un_pop r)) (poll_fuel (5 * minute))
         (bindP (askU (GetPBJob (pj_key job))) (\<lambda>y. Ret (case y of
            Inl e \<Rightarrow> if IsNotFound e then Inr () else Inl (ErrNew ''Job still exists'')
          | Inr _ \<Rightarrow> Inl (ErrNew ''Job still exists'')))))"

definition timedOut :: "int option \<Rightarrow> int option \<Rightarrow> bool pop" where
  "timedOut timeout created =
     (case (timeout, created) of
        (Some d, Some t) \<Rightarrow> bindP nowP (\<lambda>now. Ret (time_Sub now t > d))
      | _ \<Rightarrow> Ret False)"

fun waitForRunningJobs :: "PhysicalBackup \<Rightarrow> PBJob list \<Rightarrow> CtrlResult result pop" where
  "waitForRunningJobs backup [] = Ret (Inr zeroResult)"
| "waitForRunningJobs backup (job # jobs) =
     (if pj_running job then
        bindP (timedOut (pb_Timeout backup) (pj_CreationTimestamp job)) (\<lambda>expired.
          if expired then tryP (ctxP ''error deleting expired Job'' (deleteJobSync job)) (\<lambda>_. Ret (Inr requeue))
          else Ret (Inr (requeueAfter (10 * second))))
      else if \<not> pj_complete job then Ret (Inr (requeueAfter (10 * second)))
      else waitForRunningJobs backup jobs)"

definition reconcilePVC :: "string \<Rightarrow> string \<Rightarrow> NamespacedName \<Rightarrow> unit result pop" where
  "reconcilePVC buildMsg createMsg key =
     tryP (ctxP buildMsg (askU (BuildPVC key))) (\<lambda>_. ctxP createMsg (askU (ReconcilePVC key)))"

definition reconcileStorage :: "PhysicalBackup \<Rightarrow> unit result pop" where
  "reconcileStorage backup =
     tryP (if pst_PersistentVolumeClaim (pb_Storage backup) \<noteq> None
           then reconcilePVC ''error building Backup storage PVC'' ''error creating Backup storage PVC'' (StoragePVCKey backup) else Ret (Inr ()))
       (\<lambda>_. if bs_PersistentVolumeClaim (Deref (pb_StagingStorage backup) zeroBackupStagingStorage) \<noteq> None
            then reconcilePVC ''error building Backup staging PVC'' ''error creating Backup staging PVC'' (StagingPVCKey backup) else Ret (Inr ()))"

text \<open>The Job is recorded in the status before it is created.\<close>

definition launchJob :: "PhysicalBackup \<Rightarrow> int \<Rightarrow> (int \<Rightarrow> int) option \<Rightarrow> NamespacedName \<Rightarrow> string \<Rightarrow> string \<Rightarrow> on_pb" where
  "launchJob backup now schedule backupKey podName backupFileName =
     unlessErr backup ''error building Job'' (askU (BuildPBJob backupKey podName backupFileName)) (\<lambda>_.
     thenPB ''error patching status'' (PatchStatusPB (recordSchedule now schedule) backup) (\<lambda>b.
     unlessErr b ''error creating Job'' (askU (CreatePBJob backupKey podName backupFileName)) (\<lambda>_.
     Ret (b, Inr zeroResult))))"

definition createJobAt :: "PhysicalBackup \<Rightarrow> MariaDB \<Rightarrow> int \<Rightarrow> (int \<Rightarrow> int) option \<Rightarrow> int \<Rightarrow> on_pb" where
  "createJobAt backup mariadb now schedule podIndex =
     (let podName = PodName (m_ObjectMeta mariadb) podIndex;
          backupKey = \<lparr>nn_Name = getObjectName (pb_Name backup) now, nn_Namespace = m_Namespace mariadb\<rparr> in
      unlessErr backup ''error getting target Pod'' (popP (ask as_pod (GetPod \<lparr>nn_Name = podName, nn_Namespace = m_Namespace mariadb\<rparr>))) (\<lambda>targetPod.
      unlessErr backup ''error getting backup file name'' (Ret (getBackupFileName backup now)) (\<lambda>backupFileName.
      launchJob backup now schedule backupKey (pod_Name targetPod) backupFileName)))"

text \<open>The target Pod, or the reason why there is none.\<close>

definition onTarget :: "PhysicalBackup \<Rightarrow> (int \<Rightarrow> on_pb) \<Rightarrow> int result \<Rightarrow> on_pb" where
  "onTarget backup k x =
     (case x of
        Inl e \<Rightarrow> if e = errPhysicalBackupNoTargetPodsAvailable then Ret (backup, Inr (requeueAfter (5 * second)))
                 else Ret (backup, Inl (ErrCtx ''error getting target Pod index'' e))
      | Inr podIndex \<Rightarrow> k podIndex)"

definition createJob :: "PhysicalBackup \<Rightarrow> MariaDB \<Rightarrow> scheduleFn" where
  "createJob backup mariadb now schedule =
     bindP (physicalBackupTargetPodIndex mariadb) (onTarget backup (createJobAt backup mariadb now schedule))"

definition afterJobs :: "(string \<Rightarrow> (int \<Rightarrow> int) result) \<Rightarrow> PhysicalBackup \<Rightarrow> MariaDB \<Rightarrow> PBJob list \<Rightarrow> CtrlResult result \<Rightarrow> on_pb" where
  "afterJobs cron backup mariadb jobs w =
     (case w of
        Inl e \<Rightarrow> Ret (backup, Inl e)
      | Inr res \<Rightarrow>
          if res \<noteq> zeroResult then Ret (backup, Inr res)
          else
            unlessErr backup ''error reconciling ServiceAccount'' (askU (ReconcileServiceAccount (ServiceAccountKey backup))) (\<lambda>_.
            unlessErr backup ''error reconciling storage'' (reconcileStorage backup) (\<lambda>_.
            reconcileTemplate cron backup (length jobs) (createJob backup mariadb))))"

definition listedJobs :: "meta_api \<Rightarrow> (string \<Rightarrow> (int \<Rightarrow> int) result) \<Rightarrow> PhysicalBackup \<Rightarrow> MariaDB \<Rightarrow> PBJob list \<Rightarrow> on_pb" where
  "listedJobs M cron backup mariadb jobs =
     bindP (reconcileJobStatus M backup jobs) (\<lambda>backup.
     unlessErr backup ''error cleaning up Jobs'' (cleanupJobs backup jobs) (\<lambda>_.
     bindP (waitForRunningJobs backup jobs) (afterJobs cron backup mariadb jobs)))"

definition reconcileJobs :: "meta_api \<Rightarrow> (string \<Rightarrow> (int \<Rightarrow> int) result) \<Rightarrow> PhysicalBackup \<Rightarrow> MariaDB \<Rightarrow> on_pb" where
  "reconcileJobs M cron backup mariadb =
     unlessErr backup ''error listing Jobs'' (askP as_pbjobs (ListPBJobs (pb_key backup)))
       (listedJobs M cron backup mariadb)"

section \<open>Backups as volume snapshots\<close>

text \<open>The processor the operator is started with: names of snapshots end with the time, as those of Jobs.\<close>

definition snapshotProcessor :: BackupProcessor where
  "snapshotProcessor = physical_processor (Some IsValidPhysicalBackup) (Some ParsePhysicalBackupTime)"

fun snapshotError :: "VolumeSnapshot list \<Rightarrow> string option" where
  "snapshotError [] = None"
| "snapshotError (s # ss) =
     (case vss_Error (Deref (vs_Status s) zeroSnapshotStatus) of Some msg \<Rightarrow> Some (Deref msg ''Error'') | None \<Rightarrow> snapshotError ss)"

definition snapshotCompletion :: "PhysicalBackup \<Rightarrow> VolumeSnapshot list \<Rightarrow> Condition" where
  "snapshotCompletion backup snapshots =
     (if ps_Suspend (Deref (pb_Schedule backup) zeroSchedule) then cond ''Complete'' ConditionFalse ''SnapshotSuspended'' ''Suspended''
      else case snapshotError snapshots of
        Some msg \<Rightarrow> cond ''Complete'' ConditionFalse ''SnapshotFailed'' msg
      | None \<Rightarrow>
          if length snapshots > 0 \<and> length (filter IsVolumeSnapshotReady snapshots) = length snapshots
          then cond ''Complete'' ConditionTrue ''SnapshotComplete'' ''Success''
          else if length snapshots > 0 then cond ''Complete'' ConditionFalse ''SnapshotInProgress'' ''In progress''
          else cond ''Complete'' ConditionFalse ''SnapshotNotComplete'' (notCompleteMessage backup))"

definition reconcileSnapshotStatus :: "meta_api \<Rightarrow> PhysicalBackup \<Rightarrow> VolumeSnapshot list \<Rightarrow> PhysicalBackup pop" where
  "reconcileSnapshotStatus M backup snapshots = patchComplete M (snapshotCompletion backup snapshots) backup"

definition deleteSnapshot :: "string \<Rightarrow> string \<Rightarrow> unit result pop" where
  "deleteSnapshot namespace snapshotName =
     bindP (askP as_snapshot (GetVolumeSnapshot \<lparr>nn_Name = snapshotName, nn_Namespace = namespace\<rparr>)) (\<lambda>x. case x of
       Inl e \<Rightarrow> Ret (if IsNotFound e then Inr () else Inl (ErrCtx ''error getting VolumeSnapshot'' e))
     | Inr snapshot \<Rightarrow>
         bindP (askU (DeleteVolumeSnapshot (vs_key snapshot))) (\<lambda>y. Ret (case y of
           Inl e \<Rightarrow> if IsNotFound e then Inr () else Inl (ErrCtx ''error deleting VolumeSnapshot'' e)
         | Inr _ \<Rightarrow> Inr ())))"

definition cleanupSnapshots :: "PhysicalBackup \<Rightarrow> VolumeSnapshot list \<Rightarrow> unit result pop" where
  "cleanupSnapshots backup snapshots =
     (if pb_Schedule backup = None then Ret (Inr ())
      else
        (let readySnapshotNames = map vs_Name (filter IsVolumeSnapshotReady snapshots);
             maxRetention = (if pb_MaxRetention backup = 0 then DefaultPhysicalBackupMaxRetention else pb_MaxRetention backup)
         in bindP nowP (\<lambda>now.
              forP (GetOldBackupFiles (bp_parseDateInBackupFile snapshotProcessor) now readySnapshotNames maxRetention)
                (deleteSnapshot (pb_Namespace backup)))))"

fun waitForProvisionedSnapshots :: "PhysicalBackup \<Rightarrow> VolumeSnapshot list \<Rightarrow> CtrlResult result pop" where
  "waitForProvisionedSnapshots backup [] = Ret (Inr zeroResult)"
| "waitForProvisionedSnapshots backup (snapshot # snapshots) =
     (if IsVolumeSnapshotProvisioned snapshot then waitForProvisionedSnapshots backup snapshots
      else bindP (timedOut (pb_Timeout backup) (vs_CreationTimestamp snapshot)) (\<lambda>expired.
        if expired then tryP (ctxP ''error deleting expired VolumeSnapshot'' (askU (DeleteVolumeSnapshot (vs_key snapshot)))) (\<lambda>_. Ret (Inr requeue))
        else Ret (Inr (requeueAfter (10 * second)))))"

text \<open>Polling for the snapshot; the status may be patched in every attempt, so the resource is threaded through.\<close>

fun waitProvisioned :: "meta_api \<Rightarrow> NamespacedName \<Rightarrow> nat \<Rightarrow> PhysicalBackup \<Rightarrow> (PhysicalBackup \<times> unit result) pop" where
  "waitProvisioned M snapshotKey 0 backup = Ret (backup, Inl ctx_done)"
| "waitProvisioned M snapshotKey (Suc fuel) backup =
     bindP (askP as_snapshot (GetVolumeSnapshot snapshotKey)) (\<lambda>x.
       if (case x of Inl _ \<Rightarrow> False | Inr snapshot \<Rightarrow> IsVolumeSnapshotProvisioned snapshot) then Ret (backup, Inr ())
       else
         bindP (if \<not> isl x \<and> PhysicalBackup_IsComplete M backup
                then patchComplete M (cond ''Complete'' ConditionFalse ''SnapshotInProgress'' ''In progress'') backup else Ret backup) (\<lambda>backup.
         Call (POp Tick) (\<lambda>r. if ctx_is_done (un_pop r) then Ret (backup, Inl ctx_done) else waitProvisioned M snapshotKey fuel backup)))"

definition ensureSnapshot :: "PhysicalBackup \<Rightarrow> NamespacedName \<Rightarrow> NamespacedName \<Rightarrow> (unit \<Rightarrow> on_pb) \<Rightarrow> on_pb" where
  "ensureSnapshot backup snapshotKey pvcKey k =
     bindP (askP as_snapshot (GetVolumeSnapshot snapshotKey)) (\<lambda>x. case x of
       Inl e \<Rightarrow>
         if \<not> IsNotFound e then Ret (backup, Inl (ErrCtx ''error getting VolumeSnapshot'' e))
         else unlessErr backup ''error creating VolumeSnapshot'' (askU (CreateVolumeSnapshot snapshotKey pvcKey)) k
     | Inr _ \<Rightarrow> k ())"

definition takeSnapshot :: "meta_api \<Rightarrow> NamespacedName \<Rightarrow> PhysicalBackup \<Rightarrow> NamespacedName \<Rightarrow> on_pb" where
  "takeSnapshot M snapshotKey backup pvcKey =
     unlessErr backup ''error building VolumeSnapshot'' (askU (BuildVolumeSnapshot snapshotKey pvcKey)) (\<lambda>_.
     ensureSnapshot backup snapshotKey pvcKey (\<lambda>_.
       bindP (waitProvisioned M snapshotKey (poll_fuel (Deref (pb_Timeout backup) DefaultPhysicalBackupTimeout)) backup) (\<lambda>(b, x).
         Ret (b, case x of Inl e \<Rightarrow> Inl e | Inr _ \<Rightarrow> Inr zeroResult))))"

definition StorageVolume :: string where "StorageVolume = ''storage''"

text \<open>The tables of the target Pod stay locked until the deferred unlock, which runs however the block ends.\<close>

definition snapshotLocked :: "meta_api \<Rightarrow> NamespacedName \<Rightarrow> PhysicalBackup \<Rightarrow> MariaDB \<Rightarrow> int \<Rightarrow> on_pb" where
  "snapshotLocked M snapshotKey backup mariadb podIndex =
     unlessErr backup ''error getting SQL client'' (popP (ask as_unit (SqlConnect podIndex))) (\<lambda>_.
     unlessErr backup ''error locking tables with read lock'' (popP (execSql podIndex LockTablesWithReadLock)) (\<lambda>_.
     bindP (takeSnapshot M snapshotKey backup (PVCKey mariadb StorageVolume podIndex)) (\<lambda>x.
     bindP (popP (execSql podIndex UnlockTables)) (\<lambda>_. Ret x))))"

definition createVolumeSnapshot :: "meta_api \<Rightarrow> NamespacedName \<Rightarrow> PhysicalBackup \<Rightarrow> MariaDB \<Rightarrow> on_pb" where
  "createVolumeSnapshot M snapshotKey backup mariadb =
     bindP (physicalBackupTargetPodIndex mariadb) (onTarget backup (snapshotLocked M snapshotKey backup mariadb))"

definition scheduleSnapshot :: "meta_api \<Rightarrow> PhysicalBackup \<Rightarrow> MariaDB \<Rightarrow> scheduleFn" where
  "scheduleSnapshot M backup mariadb now schedule =
     bindP (physicalBackupTargetPodIndex mariadb) (\<lambda>x.
       if x = Inl errPhysicalBackupNoTargetPodsAvailable then Ret (backup, Inr (requeueAfter (5 * second)))
       else
         bindP (createVolumeSnapshot M \<lparr>nn_Name = getObjectName (pb_Name backup) now, nn_Namespace = m_Namespace mariadb\<rparr> backup mariadb) (\<lambda>(b, y).
           if y \<noteq> Inr zeroResult then Ret (b, y)
           else thenPB ''error patching status'' (PatchStatusPB (recordSchedule now schedule) b) (\<lambda>b. Ret (b, Inr zeroResult))))"

definition afterSnapshots :: "meta_api \<Rightarrow> (string \<Rightarrow> (int \<Rightarrow> int) result) \<Rightarrow> PhysicalBackup \<Rightarrow> MariaDB \<Rightarrow> VolumeSnapshot list \<Rightarrow> CtrlResult result \<Rightarrow> on_pb" where
  "afterSnapshots M cron backup mariadb snapshots w =
     (case w of
        Inl e \<Rightarrow> Ret (backup, Inl e)
      | Inr res \<Rightarrow>
          if res \<noteq> zeroResult then Ret (backup, Inr res)
          else reconcileTemplate cron backup (length snapshots) (scheduleSnapshot M backup mariadb))"

definition listedSnapshots :: "meta_api \<Rightarrow> (string \<Rightarrow> (int \<Rightarrow> int) result) \<Rightarrow> PhysicalBackup \<Rightarrow> MariaDB \<Rightarrow> VolumeSnapshot list \<Rightarrow> on_pb" where
  "listedSnapshots M cron backup mariadb snapshots =
     bindP (reconcileSnapshotStatus M backup snapshots) (\<lambda>backup.
     unlessErr backup ''error cleaning up Jobs'' (cleanupSnapshots backup snapshots) (\<lambda>_.
     bindP (waitForProvisionedSnapshots backup snapshots) (afterSnapshots M cron backup mariadb snapshots)))"

definition reconcileSnapshots :: "meta_api \<Rightarrow> (string \<Rightarrow> (int \<Rightarrow> int) result) \<Rightarrow> PhysicalBackup \<Rightarrow> MariaDB \<Rightarrow> on_pb" where
  "reconcileSnapshots M cron backup mariadb =
     bindP (askP (\<lambda>r. as_bool (un_pop r)) VolumeSnapshotExist) (\<lambda>x. case x of
       Inl e \<Rightarrow> Ret (backup, Inl e)
     | Inr exist \<Rightarrow>
         if \<not> exist then Ret (backup, Inr (requeueAfter (10 * second)))
         else
           unlessErr backup ''error listing VolumeSnapshots'' (askP as_snapshots (ListVolumeSnapshots (pb_key backup)))
             (listedSnapshots M cron backup mariadb))"

section \<open>The reconciler\<close>

definition PhysicalBackup_reconcile :: "meta_api \<Rightarrow> (string \<Rightarrow> (int \<Rightarrow> int) result) \<Rightarrow> MariaDB \<Rightarrow> PhysicalBackup \<Rightarrow> on_pb" where
  "PhysicalBackup_reconcile M cron mariadb backup =
     (if pst_VolumeSnapshot (pb_Storage backup) \<noteq> None then reconcileSnapshots M cron backup mariadb else reconcileJobs M cron backup mariadb)"

definition reconcilePBWith :: "meta_api \<Rightarrow> (string \<Rightarrow> (int \<Rightarrow> int) result) \<Rightarrow> PhysicalBackup \<Rightarrow> MariaDB result \<Rightarrow> on_pb" where
  "reconcilePBWith M cron backup x =
     (case x of
        Inl e \<Rightarrow>
          bindP (PatchStatusPB (\<lambda>b. b\<lparr>pb_Conditions := Complete_PatcherRefResolver (list_SetCondition M) (Some e) ''MariaDB'' (pb_Conditions b)\<rparr>) backup) (\<lambda>(b, y).
            Ret (b, Inl (ErrCtx ''error getting MariaDB'' (ErrMulti (e # errs_of y)))))
      | Inr mariadb \<Rightarrow>
          if ref_WaitForIt (pb_MariaDBRef backup) \<and> \<not> IsReady M mariadb then
            thenPB ''error patching Backup''
              (PatchStatusPB (\<lambda>b. b\<lparr>pb_Conditions := SetCompleteFailedWithMessage (list_SetCondition M) ''MariaDB not ready'' (pb_Conditions b)\<rparr>) backup)
              (\<lambda>b. Ret (b, Inr (requeueAfter (5 * second))))
          else
            bindP (askP as_pb (PatchPB (PhysicalBackup_SetDefaults backup))) (\<lambda>y. case y of
              Inl e \<Rightarrow> Ret (PhysicalBackup_SetDefaults backup, Inl (ErrCtx ''error defaulting PhysicalBackup'' e))
            | Inr b \<Rightarrow> PhysicalBackup_reconcile M cron mariadb b))"

definition PhysicalBackup_Reconcile :: "meta_api \<Rightarrow> (string \<Rightarrow> (int \<Rightarrow> int) result) \<Rightarrow> NamespacedName \<Rightarrow> CtrlResult result pop" where
  "PhysicalBackup_Reconcile M cron req =
     bindP (askP as_pb (GetPhysicalBackup req)) (\<lambda>x. case x of
       Inl e \<Rightarrow> Ret (case IgnoreNotFound e of None \<Rightarrow> Inr zeroResult | Some e' \<Rightarrow> Inl e')
     | Inr backup \<Rightarrow>
         bindP (popP (ask as_mariadb (GetMariaDB (refKey (pb_MariaDBRef backup) (pb_Namespace backup))))) (\<lambda>y.
         bindP (reconcilePBWith M cron backup y) (\<lambda>(b, res). Ret res)))"


section \<open>Executions\<close>

abbreviation pcalls :: "(pcall \<Rightarrow> bool) \<Rightarrow> 'a pop \<Rightarrow> bool" where
  "pcalls P \<equiv> all_calls (\<lambda>_. False) P"

text \<open>The calls that bring a backup about and those that remove one.\<close>

fun creates :: "pcall \<Rightarrow> bool" where
  "creates (CreatePBJob _ _ _) = True"
| "creates (CreateVolumeSnapshot _ _) = True"
| "creates _ = False"

fun removes :: "pcall \<Rightarrow> bool" where
  "removes (DeletePBJobBackground _) = True"
| "removes (DeletePBJobForeground _) = True"
| "removes (DeleteVolumeSnapshot _) = True"
| "removes _ = False"

definition plain_call :: "pcall \<Rightarrow> bool" where
  "plain_call c \<longleftrightarrow> \<not> creates c \<and> \<not> removes c"

lemma plain_calls [simp]:
  "plain_call (POp c)" "plain_call (PatchPB b)" "plain_call (PatchPBStatus b)" "plain_call (ListPBJobs k)" "plain_call (BuildPBJob k pn f)"
  "plain_call (GetPBJob k)" "plain_call (ReconcileServiceAccount k)" "plain_call (BuildPVC k)" "plain_call (ReconcilePVC k)"
  "plain_call VolumeSnapshotExist" "plain_call (ListVolumeSnapshots k)" "plain_call (GetVolumeSnapshot k)" "plain_call (BuildVolumeSnapshot k k2)"
  "plain_call (GetPhysicalBackup k)"
  by (simp_all add: plain_call_def)

lemma exec_askP [simp]: "exec grp (askP sel c) t x \<longleftrightarrow> (\<exists>r. t = [(c, r)] \<and> sel r = x)"
  by (auto simp: askP_def exec_Call)

lemma pcalls_askP [simp]: "pcalls P (askP sel c) \<longleftrightarrow> P c"
  by (simp add: askP_def)

lemma pcalls_mono: "pcalls Q p \<Longrightarrow> (\<And>c. Q c \<Longrightarrow> P c) \<Longrightarrow> pcalls P p"
  by (induction p) auto

lemma pcalls_exec: "pcalls P p \<Longrightarrow> exec no_group p t x \<Longrightarrow> (c, r) \<in> set t \<Longrightarrow> P c"
  using exec_all_calls [of no_group p t x "\<lambda>_. False" P] by (force simp: no_group_def)

lemma pcalls_popP_ask [simp]: "pcalls P (popP (ask sel c)) \<longleftrightarrow> P (POp c)"
  by (simp add: ask_def)

lemma exec_popP_ask [simp]: "exec no_group (popP (ask sel c)) t x \<longleftrightarrow> (\<exists>r. t = [(POp c, r)] \<and> sel (un_pop r) = x)"
  by (auto simp: ask_def exec_Call)

lemma exec_nowP [simp]: "exec no_group nowP t n \<longleftrightarrow> (\<exists>r. t = [(POp Now, r)] \<and> as_time (un_pop r) = n)"
  by (simp add: nowP_def)

lemma pcalls_nowP [simp]: "pcalls P nowP \<longleftrightarrow> P (POp Now)"
  by (simp add: nowP_def)

text \<open>An event that a step never makes happens after the step.\<close>

lemma bindP_guard:
  assumes "exec no_group (bindP p f) (pre @ e # post) x" "pcalls (\<lambda>c. c \<noteq> fst e) p"
  shows "\<exists>t1 pre2 a. pre = t1 @ pre2 \<and> exec no_group p t1 a \<and> exec no_group (f a) (pre2 @ e # post) x"
proof -
  have "\<not> exec no_group p (pre @ e # post') y" for post' y
    using pcalls_exec [OF assms(2), of "pre @ e # post'" y "fst e" "snd e"] by auto
  with exec_bindP_split [OF assms(1)] show ?thesis by blast
qed

lemma bindP_guardE:
  assumes "exec no_group (bindP p f) (pre @ e # post) x" "pcalls (\<lambda>c. c \<noteq> fst e) p"
  obtains t1 pre2 a where "pre = t1 @ pre2" "exec no_group p t1 a" "exec no_group (f a) (pre2 @ e # post) x"
  using bindP_guard [OF assms] by blast

lemma unlessErr_guard:
  assumes "exec no_group (unlessErr b msg p k) (pre @ e # post) x" "pcalls (\<lambda>c. c \<noteq> fst e) p"
  obtains t1 pre2 a where "pre = t1 @ pre2" "exec no_group p t1 (Inr a)" "exec no_group (k a) (pre2 @ e # post) x"
proof -
  from bindP_guard [OF assms(1) [unfolded unlessErr_def] assms(2)] obtain t1 pre2 y where
    y: "pre = t1 @ pre2" "exec no_group p t1 y" "exec no_group (case y of Inl e \<Rightarrow> Ret (b, Inl (ErrCtx msg e)) | Inr a \<Rightarrow> k a) (pre2 @ e # post) x"
    by blast
  then show thesis using that by (cases y) auto
qed

lemma unlessErr_event:
  assumes "exec no_group (unlessErr b msg p k) t x" "e \<in> set t"
  shows "(\<exists>t1 y. exec no_group p t1 y \<and> e \<in> set t1) \<or> (\<exists>t1 t2 a. exec no_group p t1 (Inr a) \<and> exec no_group (k a) t2 x \<and> e \<in> set t2)"
proof -
  from exec_bindP_event [OF assms(1) [unfolded unlessErr_def] assms(2)] consider
      t1 y where "exec no_group p t1 y" "e \<in> set t1"
    | t1 t2 y where "exec no_group p t1 y" "exec no_group (case y of Inl e \<Rightarrow> Ret (b, Inl (ErrCtx msg e)) | Inr a \<Rightarrow> k a) t2 x" "e \<in> set t2"
    by blast
  then show ?thesis
  proof cases
    case 2
    then show ?thesis by (cases y) auto
  qed blast
qed

lemma thenPB_guard:
  assumes "exec no_group (thenPB msg p k) (pre @ e # post) x" "pcalls (\<lambda>c. c \<noteq> fst e) p"
  obtains t1 pre2 b where "pre = t1 @ pre2" "exec no_group p t1 (b, Inr ())" "exec no_group (k b) (pre2 @ e # post) x"
proof -
  from bindP_guard [OF assms(1) [unfolded thenPB_def] assms(2)] obtain t1 pre2 y where
    y: "pre = t1 @ pre2" "exec no_group p t1 y"
      "exec no_group (case y of (b, x) \<Rightarrow> case x of Inl e \<Rightarrow> Ret (b, Inl (ErrCtx msg e)) | Inr _ \<Rightarrow> k b) (pre2 @ e # post) x"
    by blast
  then show thesis using that by (cases y; cases "snd y") auto
qed

lemma pcalls_unlessErr: "pcalls P p \<Longrightarrow> (\<And>a. pcalls P (k a)) \<Longrightarrow> pcalls P (unlessErr b msg p k)"
  unfolding unlessErr_def by (intro all_calls_bindP) (auto split: sum.split)

lemma pcalls_thenPB: "pcalls P p \<Longrightarrow> (\<And>b. pcalls P (k b)) \<Longrightarrow> pcalls P (thenPB msg p k)"
  unfolding thenPB_def by (intro all_calls_bindP) (auto split: sum.split prod.split)

lemmas pcalls_intros = all_calls_bindP all_calls_tryP pcalls_unlessErr pcalls_thenPB

text \<open>The helpers make plain calls only, the cleaning ones remove but create nothing.\<close>

lemma pcalls_PatchStatusPB [simp]: "pcalls plain_call (PatchStatusPB p b)"
  by (auto simp: PatchStatusPB_def intro!: pcalls_intros split: sum.split)

lemma pcalls_patchComplete [simp]: "pcalls plain_call (patchComplete M c b)"
  by (auto simp: patchComplete_def intro!: pcalls_intros)

lemma pcalls_targetPodIndex [simp]: "pcalls plain_call (physicalBackupTargetPodIndex m)"
proof -
  have "all_calls (\<lambda>_. False) (\<lambda>c. plain_call (POp c)) (SecondaryPodHealthyIndex m :: (unit, unit, int result) op)"
    unfolding SecondaryPodHealthyIndex_def by (rule all_calls_secondary) simp
  then show ?thesis
    by (auto simp: physicalBackupTargetPodIndex_def intro!: pcalls_intros all_calls_embedP split: option.split)
qed

lemma pcalls_timedOut [simp]: "pcalls plain_call (timedOut d t)"
  by (auto simp: timedOut_def intro!: pcalls_intros split: option.split)

lemma pcalls_reconcileStorage [simp]: "pcalls plain_call (reconcileStorage b)"
  by (auto simp: reconcileStorage_def reconcilePVC_def intro!: pcalls_intros)

lemma pcalls_waitProvisioned [simp]: "pcalls plain_call (waitProvisioned M k n b)"
  by (induction M k n b rule: waitProvisioned.induct) (auto intro!: pcalls_intros)

lemma pcalls_cleanupJobs: "pcalls (\<lambda>c. \<not> creates c) (cleanupJobs b jobs)"
  by (auto simp: cleanupJobs_def Let_def intro!: pcalls_intros all_calls_forP split: sum.split)

lemma pcalls_cleanupSnapshots: "pcalls (\<lambda>c. \<not> creates c) (cleanupSnapshots b snapshots)"
  by (auto simp: cleanupSnapshots_def deleteSnapshot_def Let_def intro!: pcalls_intros all_calls_forP split: sum.split)

lemma pcalls_deleteJobSync [simp]: "pcalls (\<lambda>c. \<not> creates c) (deleteJobSync j)"
  by (auto simp: deleteJobSync_def intro!: pcalls_intros all_calls_pollP)

lemma pcalls_waitForRunningJobs: "pcalls (\<lambda>c. \<not> creates c) (waitForRunningJobs b jobs)"
  by (induction b jobs rule: waitForRunningJobs.induct)
    (auto intro!: pcalls_intros pcalls_deleteJobSync pcalls_mono [OF pcalls_timedOut] simp: plain_call_def)

lemma pcalls_waitForProvisionedSnapshots: "pcalls (\<lambda>c. \<not> creates c) (waitForProvisionedSnapshots b snapshots)"
  by (induction b snapshots rule: waitForProvisionedSnapshots.induct)
    (auto intro!: pcalls_intros pcalls_mono [OF pcalls_timedOut] simp: plain_call_def)


section \<open>A backup is taken when it is due\<close>

text \<open>The specification: without a schedule the one backup has not been taken yet; with one, the schedule is active, and the
  first backup is to be taken at once or the activation after the last check has come.\<close>

definition due :: "(string \<Rightarrow> (int \<Rightarrow> int) result) \<Rightarrow> PhysicalBackup \<Rightarrow> nat \<Rightarrow> int \<Rightarrow> bool" where
  "due cron b n now \<longleftrightarrow>
     (case pb_Schedule b of
        None \<Rightarrow> n = 0
      | Some s \<Rightarrow> \<not> ps_Suspend s \<and> (\<exists>next. cron (ps_Cron s) = Inr next \<and>
          (case pb_LastScheduleCheckTime b of None \<Rightarrow> Deref (ps_Immediate s) True | Some l \<Rightarrow> next l \<le> now)))"

definition target_ok :: "MariaDB \<Rightarrow> int \<Rightarrow> bool" where
  "target_ok m i \<longleftrightarrow> (\<exists>cur. ms_CurrentPrimaryPodIndex (m_Status m) = Some cur \<and> (if IsHAEnabled m then i \<noteq> cur else i = cur))"

lemma exec_targetPodIndex:
  assumes "exec no_group (physicalBackupTargetPodIndex m) t (Inr i)"
  shows "target_ok m i"
proof -
  obtain cur where cur: "ms_CurrentPrimaryPodIndex (m_Status m) = Some cur"
    using assms by (cases "ms_CurrentPrimaryPodIndex (m_Status m)") (auto simp: physicalBackupTargetPodIndex_def)
  show ?thesis
  proof (cases "IsHAEnabled m")
    case True
    with assms cur obtain y where "exec no_group (popP (SecondaryPodHealthyIndex m)) t y" and
      y: "Inr i = (case y of Inl e \<Rightarrow> Inl (if e = ErrNoHealthyInstancesAvailable then errPhysicalBackupNoTargetPodsAvailable
        else ErrCtx ''error getting target Pod index'' e) | Inr podIndex \<Rightarrow> Inr podIndex)"
      by (simp add: physicalBackupTargetPodIndex_def exec_bind_Ret) (elim exE conjE, rule that)
    moreover from y have "y = Inr i" by (cases y) auto
    ultimately obtain t' where "exec no_group (SecondaryPodHealthyIndex m :: (unit, unit, int result) op) t' (Inr i)"
      unfolding exec_embedP by blast
    then obtain items where "firstHealthy cur PodReady (sortPodList items) = Inr i"
      using cur by (auto simp: SecondaryPodHealthyIndex_def exec_secondary_iff)
    then have "i \<noteq> cur" using firstHealthy_ok by blast
    then show ?thesis using cur True by (simp add: target_ok_def)
  next
    case False
    then show ?thesis using assms cur by (simp add: physicalBackupTargetPodIndex_def target_ok_def)
  qed
qed

lemma reconcileTemplate_event:
  assumes "exec no_group (reconcileTemplate cron b n fn) (pre @ e # post) x" "\<not> plain_call (fst e)"
  shows "\<exists>r pre2 sch. pre = (POp Now, r) # pre2 \<and> due cron b n (as_time (un_pop r)) \<and>
    exec no_group (fn (as_time (un_pop r)) sch) (pre2 @ e # post) x"
proof (cases "pb_Schedule b")
  case None
  with assms obtain r u where "n = 0" "pre @ e # post = (POp Now, r) # u" "exec no_group (fn (as_time (un_pop r)) None) u x"
    by (auto simp: reconcileTemplate_def exec_bind split: if_splits)
  with assms(2) None show ?thesis by (cases pre) (auto simp: due_def)
next
  case (Some s)
  have e: "fst e \<noteq> POp Now" "pcalls (\<lambda>c. c \<noteq> fst e) (PatchStatusPB p b)" for p
    using assms(2) by (auto intro: pcalls_mono [OF pcalls_PatchStatusPB])
  from assms(1) Some have ne: "exec no_group (reconcileTemplateScheduled cron b fn) (pre @ e # post) x" by (simp add: reconcileTemplate_def)
  with Some obtain nxt where n: "\<not> ps_Suspend s" "cron (ps_Cron s) = Inr nxt"
    by (auto simp: reconcileTemplateScheduled_def Deref_def split: if_splits sum.splits)
  from ne n Some have "exec no_group (bindP nowP (checkSchedule s nxt b fn)) (pre @ e # post) x"
    by (simp add: reconcileTemplateScheduled_def Deref_def Let_def)
  from bindP_guard [OF this] e(1) obtain r pre2 where pre: "pre = (POp Now, r) # pre2" and
    k: "exec no_group (checkSchedule s nxt b fn (as_time (un_pop r))) (pre2 @ e # post) x" by auto
  have "\<not> exec no_group (thenPB ''error patching status'' (PatchStatusPB p b) (\<lambda>b. Ret (b, y))) (pre2 @ e # post) x" for p y
    using thenPB_guard [OF _ e(2)] by fastforce
  with k have "(case pb_LastScheduleCheckTime b of None \<Rightarrow> Deref (ps_Immediate s) True | Some l \<Rightarrow> nxt l \<le> as_time (un_pop r)) \<and>
      exec no_group (fn (as_time (un_pop r)) (Some nxt)) (pre2 @ e # post) x"
    by (auto simp: checkSchedule_def Let_def split: option.splits if_splits)
  with pre n Some show ?thesis by (auto simp: due_def)
qed

lemma waitForRunningJobs_zero:
  "exec no_group (waitForRunningJobs b jobs) t (Inr zeroResult) \<Longrightarrow> j \<in> set jobs \<Longrightarrow> pj_complete j"
proof (induction b jobs arbitrary: t rule: waitForRunningJobs.induct)
  case (2 b job jobs)
  have nz: "requeueAfter (10 * second) \<noteq> zeroResult" "requeue \<noteq> zeroResult"
    by (simp_all add: zeroResult_def second_def)
  have "\<not> pj_running job" using "2.prems"(1) nz
    by (auto simp: exec_bind exec_tryP_Inr split: if_splits)
  moreover from this have "pj_complete job" using "2.prems"(1) nz by (auto split: if_splits)
  ultimately show ?case using "2.prems" "2.IH" by auto
qed simp

lemma waitForProvisionedSnapshots_zero:
  "exec no_group (waitForProvisionedSnapshots b ss) t (Inr zeroResult) \<Longrightarrow> s \<in> set ss \<Longrightarrow> IsVolumeSnapshotProvisioned s"
proof (induction b ss arbitrary: t rule: waitForProvisionedSnapshots.induct)
  case (2 b s' ss)
  have nz: "requeueAfter (10 * second) \<noteq> zeroResult" "requeue \<noteq> zeroResult"
    by (simp_all add: zeroResult_def second_def)
  have "IsVolumeSnapshotProvisioned s'" using "2.prems"(1) nz
    by (auto simp: exec_bind exec_tryP_Inr split: if_splits)
  then show ?case using "2.prems" "2.IH" by auto
qed simp


lemma not_creating:
  "creates c \<Longrightarrow> pcalls (\<lambda>d. \<not> creates d) p \<Longrightarrow> pcalls (\<lambda>d. d \<noteq> c) p" "creates c \<Longrightarrow> pcalls plain_call p \<Longrightarrow> pcalls (\<lambda>d. d \<noteq> c) p"
  by (auto elim!: pcalls_mono simp: plain_call_def)

lemma as_pb_Inr [simp]: "as_pb r = Inr b \<longleftrightarrow> r = APB (Inr b)"
  by (cases r) auto

lemma as_pbjobs_Inr [simp]: "as_pbjobs r = Inr b \<longleftrightarrow> r = APBJobs (Inr b)"
  by (cases r) auto

lemma as_snapshots_Inr [simp]: "as_snapshots r = Inr b \<longleftrightarrow> r = ASnapshots (Inr b)"
  by (cases r) auto

lemma un_pop_mariadb [simp]: "as_mariadb (un_pop r) = Inr m \<longleftrightarrow> r = POpA (AMariaDB (Inr m))"
  by (cases r; cases "un_pop r") auto

lemma un_pop_unit [simp]: "as_unit (un_pop r) = Inr u \<longleftrightarrow> r = POpA (AUnit (Inr u))"
  by (cases r; cases "un_pop r") auto

lemma exec_PatchStatusPB: "exec no_group (PatchStatusPB p b) t (b', Inr ()) \<longleftrightarrow> t = [(PatchPBStatus (p b), APB (Inr b'))]"
  unfolding PatchStatusPB_def exec_bind exec_case_sum by auto

lemma createJob_event:
  assumes "exec no_group (createJob b m now sch) (pre @ e # post) x" "creates (fst e)"
  shows "\<exists>i t1 pod f b'. exec no_group (physicalBackupTargetPodIndex m) t1 (Inr i) \<and> set t1 \<subseteq> set pre \<and>
    (POp (GetPod \<lparr>nn_Name = PodName (m_ObjectMeta m) i, nn_Namespace = m_Namespace m\<rparr>), POpA (APod (Inr pod))) \<in> set pre \<and>
    getBackupFileName b now = Inr f \<and> (PatchPBStatus (recordSchedule now sch b), APB (Inr b')) \<in> set pre \<and>
    fst e = CreatePBJob \<lparr>nn_Name = getObjectName (pb_Name b) now, nn_Namespace = m_Namespace m\<rparr> (pod_Name pod) f"
proof -
  note nc = not_creating [OF assms(2)]
  obtain t1 pre1 y where 1: "pre = t1 @ pre1" "exec no_group (physicalBackupTargetPodIndex m) t1 y" and
    k1: "exec no_group (onTarget b (createJobAt b m now sch) y) (pre1 @ e # post) x"
    by (rule bindP_guardE [OF assms(1) [unfolded createJob_def] nc(2)]) (simp, rule that)
  obtain i where y: "y = Inr i" using k1 by (cases y) (auto simp: onTarget_def split: if_splits)
  let ?key = "\<lparr>nn_Name = getObjectName (pb_Name b) now, nn_Namespace = m_Namespace m\<rparr>"
  have u1: "exec no_group (unlessErr b ''error getting target Pod'' (popP (ask as_pod (GetPod \<lparr>nn_Name = PodName (m_ObjectMeta m) i, nn_Namespace = m_Namespace m\<rparr>))) (\<lambda>targetPod.
      unlessErr b ''error getting backup file name'' (Ret (getBackupFileName b now)) (\<lambda>backupFileName.
      launchJob b now sch ?key (pod_Name targetPod) backupFileName))) (pre1 @ e # post) x"
    using k1 by (simp add: y onTarget_def createJobAt_def Let_def)
  obtain t2 pre2 pod where 2: "pre1 = t2 @ pre2"
      "exec no_group (popP (ask as_pod (GetPod \<lparr>nn_Name = PodName (m_ObjectMeta m) i, nn_Namespace = m_Namespace m\<rparr>))) t2 (Inr pod)"
      "exec no_group (unlessErr b ''error getting backup file name'' (Ret (getBackupFileName b now)) (\<lambda>backupFileName.
        launchJob b now sch ?key (pod_Name pod) backupFileName)) (pre2 @ e # post) x"
    by (rule unlessErr_guard [OF u1 nc(2)]) (simp, rule that)
  obtain f where f: "getBackupFileName b now = Inr f" and l: "exec no_group (launchJob b now sch ?key (pod_Name pod) f) (pre2 @ e # post) x"
    by (rule unlessErr_guard [OF 2(3) nc(2)]) (auto dest: sym)
  obtain t3 pre3 where 3: "pre2 = t3 @ pre3" and l3: "exec no_group (thenPB ''error patching status'' (PatchStatusPB (recordSchedule now sch) b) (\<lambda>b.
     unlessErr b ''error creating Job'' (askU (CreatePBJob ?key (pod_Name pod) f)) (\<lambda>_. Ret (b, Inr zeroResult)))) (pre3 @ e # post) x"
    by (rule unlessErr_guard [OF l [unfolded launchJob_def] nc(2)]) (simp, rule that)
  obtain t4 pre4 b' where 4: "pre3 = t4 @ pre4" "exec no_group (PatchStatusPB (recordSchedule now sch) b) t4 (b', Inr ())"
    and l4: "exec no_group (unlessErr b' ''error creating Job'' (askU (CreatePBJob ?key (pod_Name pod) f)) (\<lambda>_. Ret (b', Inr zeroResult))) (pre4 @ e # post) x"
    by (rule thenPB_guard [OF l3 nc(2)]) (simp, rule that)
  have "fst e = CreatePBJob ?key (pod_Name pod) f"
    using unlessErr_event [OF l4, of e] by auto
  moreover have "(PatchPBStatus (recordSchedule now sch b), APB (Inr b')) \<in> set t4"
    using 4(2) by (simp add: exec_PatchStatusPB)
  moreover have "(POp (GetPod \<lparr>nn_Name = PodName (m_ObjectMeta m) i, nn_Namespace = m_Namespace m\<rparr>), POpA (APod (Inr pod))) \<in> set t2"
    using 2(2) by (auto elim!: as_pod.elims un_pop.elims)
  moreover have "set t1 \<subseteq> set pre" "set t2 \<subseteq> set pre" "set t4 \<subseteq> set pre" using 1(1) 2(1) 3 4(1) by auto
  ultimately show ?thesis using 1(2) f unfolding y by blast
qed


lemma pcalls_status [simp]: "pcalls plain_call (reconcileJobStatus M b jobs)" "pcalls plain_call (reconcileSnapshotStatus M b ss)"
  by (simp_all add: reconcileJobStatus_def reconcileSnapshotStatus_def)

lemma listedJobs_event:
  assumes "exec no_group (listedJobs M cron b0 m jobs) (pre @ e # post) x" "creates (fst e)"
  shows "\<exists>b t1 u pre2 r sch. pre = t1 @ u @ (POp Now, r) # pre2 \<and> exec no_group (reconcileJobStatus M b0 jobs) t1 b \<and>
    (\<forall>j \<in> set jobs. pj_complete j) \<and> due cron b (length jobs) (as_time (un_pop r)) \<and>
    exec no_group (createJob b m (as_time (un_pop r)) sch) (pre2 @ e # post) x"
proof -
  note nc = not_creating [OF assms(2)]
  obtain t1 pre1 b where 1: "pre = t1 @ pre1" "exec no_group (reconcileJobStatus M b0 jobs) t1 b" and
    k1: "exec no_group (unlessErr b ''error cleaning up Jobs'' (cleanupJobs b jobs) (\<lambda>_. bindP (waitForRunningJobs b jobs) (afterJobs cron b m jobs))) (pre1 @ e # post) x"
    by (rule bindP_guardE [OF assms(1) [unfolded listedJobs_def] nc(2)]) (simp, rule that)
  obtain t2 pre2 where 2: "pre1 = t2 @ pre2" and k2: "exec no_group (bindP (waitForRunningJobs b jobs) (afterJobs cron b m jobs)) (pre2 @ e # post) x"
    by (rule unlessErr_guard [OF k1 nc(1) [OF pcalls_cleanupJobs]])
  obtain t3 pre3 w where 3: "pre2 = t3 @ pre3" "exec no_group (waitForRunningJobs b jobs) t3 w" and k3: "exec no_group (afterJobs cron b m jobs w) (pre3 @ e # post) x"
    by (rule bindP_guardE [OF k2 nc(1) [OF pcalls_waitForRunningJobs]])
  have w: "w = Inr zeroResult" using k3 by (cases w) (auto simp: afterJobs_def split: if_splits)
  have k4: "exec no_group (unlessErr b ''error reconciling ServiceAccount'' (askU (ReconcileServiceAccount (ServiceAccountKey b))) (\<lambda>_.
      unlessErr b ''error reconciling storage'' (reconcileStorage b) (\<lambda>_. reconcileTemplate cron b (length jobs) (createJob b m)))) (pre3 @ e # post) x"
    using k3 by (simp add: afterJobs_def w)
  obtain t4 pre4 where 4: "pre3 = t4 @ pre4" and
    k5: "exec no_group (unlessErr b ''error reconciling storage'' (reconcileStorage b) (\<lambda>_. reconcileTemplate cron b (length jobs) (createJob b m))) (pre4 @ e # post) x"
    by (rule unlessErr_guard [OF k4 nc(2)]) (simp, rule that)
  obtain t5 pre5 where 5: "pre4 = t5 @ pre5" and k6: "exec no_group (reconcileTemplate cron b (length jobs) (createJob b m)) (pre5 @ e # post) x"
    by (rule unlessErr_guard [OF k5 nc(2)]) (simp, rule that)
  have "\<not> plain_call (fst e)" using assms(2) by (simp add: plain_call_def)
  from reconcileTemplate_event [OF k6 this] obtain r pre6 sch where 6: "pre5 = (POp Now, r) # pre6" "due cron b (length jobs) (as_time (un_pop r))"
    "exec no_group (createJob b m (as_time (un_pop r)) sch) (pre6 @ e # post) x" by blast
  have "pre = t1 @ (t2 @ t3 @ t4 @ t5) @ (POp Now, r) # pre6" using 1(1) 2 3(1) 4 5 6(1) by simp
  moreover have "\<forall>j \<in> set jobs. pj_complete j" using waitForRunningJobs_zero 3(2) w by blast
  ultimately show ?thesis using 1(2) 6(2,3) by blast
qed

lemma listedSnapshots_event:
  assumes "exec no_group (listedSnapshots M cron b0 m ss) (pre @ e # post) x" "creates (fst e)"
  shows "\<exists>b t1 u pre2 r sch. pre = t1 @ u @ (POp Now, r) # pre2 \<and> exec no_group (reconcileSnapshotStatus M b0 ss) t1 b \<and>
    (\<forall>s \<in> set ss. IsVolumeSnapshotProvisioned s) \<and> due cron b (length ss) (as_time (un_pop r)) \<and>
    exec no_group (scheduleSnapshot M b m (as_time (un_pop r)) sch) (pre2 @ e # post) x"
proof -
  note nc = not_creating [OF assms(2)]
  obtain t1 pre1 b where 1: "pre = t1 @ pre1" "exec no_group (reconcileSnapshotStatus M b0 ss) t1 b" and
    k1: "exec no_group (unlessErr b ''error cleaning up Jobs'' (cleanupSnapshots b ss) (\<lambda>_. bindP (waitForProvisionedSnapshots b ss) (afterSnapshots M cron b m ss))) (pre1 @ e # post) x"
    by (rule bindP_guardE [OF assms(1) [unfolded listedSnapshots_def] nc(2)]) (simp, rule that)
  obtain t2 pre2 where 2: "pre1 = t2 @ pre2" and k2: "exec no_group (bindP (waitForProvisionedSnapshots b ss) (afterSnapshots M cron b m ss)) (pre2 @ e # post) x"
    by (rule unlessErr_guard [OF k1 nc(1) [OF pcalls_cleanupSnapshots]])
  obtain t3 pre3 w where 3: "pre2 = t3 @ pre3" "exec no_group (waitForProvisionedSnapshots b ss) t3 w" and k3: "exec no_group (afterSnapshots M cron b m ss w) (pre3 @ e # post) x"
    by (rule bindP_guardE [OF k2 nc(1) [OF pcalls_waitForProvisionedSnapshots]])
  have w: "w = Inr zeroResult" using k3 by (cases w) (auto simp: afterSnapshots_def split: if_splits)
  have k4: "exec no_group (reconcileTemplate cron b (length ss) (scheduleSnapshot M b m)) (pre3 @ e # post) x" using k3 by (simp add: afterSnapshots_def w)
  have "\<not> plain_call (fst e)" using assms(2) by (simp add: plain_call_def)
  from reconcileTemplate_event [OF k4 this] obtain r pre6 sch where 6: "pre3 = (POp Now, r) # pre6" "due cron b (length ss) (as_time (un_pop r))"
    "exec no_group (scheduleSnapshot M b m (as_time (un_pop r)) sch) (pre6 @ e # post) x" by blast
  have "pre = t1 @ (t2 @ t3) @ (POp Now, r) # pre6" using 1(1) 2 3(1) 6(1) by simp
  moreover have "\<forall>s \<in> set ss. IsVolumeSnapshotProvisioned s" using waitForProvisionedSnapshots_zero 3(2) w by blast
  ultimately show ?thesis using 1(2) 6(2,3) by blast
qed


text \<open>The reconciliation up to the list of what has been taken so far.\<close>

lemma Reconcile_event:
  assumes "exec no_group (PhysicalBackup_Reconcile M cron req) (pre @ e # post) x" "creates (fst e)"
  shows "\<exists>b0 m b1 pre2 y. pre = (GetPhysicalBackup req, APB (Inr b0)) # (POp (GetMariaDB (refKey (pb_MariaDBRef b0) (pb_Namespace b0))), POpA (AMariaDB (Inr m))) #
      (PatchPB (PhysicalBackup_SetDefaults b0), APB (Inr b1)) # pre2 \<and>
    exec no_group (PhysicalBackup_reconcile M cron m b1) (pre2 @ e # post) y"
proof -
  note nc = not_creating [OF assms(2)]
  let ?k1 = "\<lambda>x. case x of
       Inl e \<Rightarrow> Ret (case IgnoreNotFound e of None \<Rightarrow> Inr zeroResult | Some e' \<Rightarrow> Inl e')
     | Inr backup \<Rightarrow>
         bindP (popP (ask as_mariadb (GetMariaDB (refKey (pb_MariaDBRef backup) (pb_Namespace backup))))) (\<lambda>y.
         bindP (reconcilePBWith M cron backup y) (\<lambda>(b, res). Ret res))"
  obtain t1 pre1 y1 where 1: "pre = t1 @ pre1" "exec no_group (askP as_pb (GetPhysicalBackup req)) t1 y1" and k1: "exec no_group (?k1 y1) (pre1 @ e # post) x"
    by (rule bindP_guardE [OF assms(1) [unfolded PhysicalBackup_Reconcile_def] nc(2)]) (simp, rule that)
  obtain b0 where y1: "y1 = Inr b0" using k1 by (cases y1) auto
  let ?get = "POp (GetMariaDB (refKey (pb_MariaDBRef b0) (pb_Namespace b0)))"
  have k2: "exec no_group (bindP (popP (ask as_mariadb (GetMariaDB (refKey (pb_MariaDBRef b0) (pb_Namespace b0))))) (\<lambda>y.
         bindP (reconcilePBWith M cron b0 y) (\<lambda>(b, res). Ret res))) (pre1 @ e # post) x" using k1 by (simp add: y1)
  obtain t2 pre2 y2 where 2: "pre1 = t2 @ pre2" "exec no_group (popP (ask as_mariadb (GetMariaDB (refKey (pb_MariaDBRef b0) (pb_Namespace b0))))) t2 y2"
    and k3: "exec no_group (bindP (reconcilePBWith M cron b0 y2) (\<lambda>(b, res). Ret res)) (pre2 @ e # post) x"
    by (rule bindP_guardE [OF k2 nc(2)]) (simp, rule that)
  then obtain z where k4: "exec no_group (reconcilePBWith M cron b0 y2) (pre2 @ e # post) z"
    unfolding exec_bind_Ret_prod by blast
  obtain m where y2: "y2 = Inr m"
  proof (cases y2)
    case (Inl err)
    let ?p = "\<lambda>b. b\<lparr>pb_Conditions := Complete_PatcherRefResolver (list_SetCondition M) (Some err) ''MariaDB'' (pb_Conditions b)\<rparr>"
    from k4 Inl have "exec no_group (bindP (PatchStatusPB ?p b0) (\<lambda>(b, y). Ret (b, Inl (ErrCtx ''error getting MariaDB'' (ErrMulti (err # errs_of y)))))) (pre2 @ e # post) z"
      by (simp add: reconcilePBWith_def)
    from bindP_guard [OF this nc(2) [OF pcalls_PatchStatusPB]] show ?thesis by auto
  qed (rule that)
  have nw: "\<not> (ref_WaitForIt (pb_MariaDBRef b0) \<and> \<not> IsReady M m)"
  proof
    assume "ref_WaitForIt (pb_MariaDBRef b0) \<and> \<not> IsReady M m"
    with k4 y2 have "exec no_group (thenPB ''error patching Backup''
        (PatchStatusPB (\<lambda>b. b\<lparr>pb_Conditions := SetCompleteFailedWithMessage (list_SetCondition M) ''MariaDB not ready'' (pb_Conditions b)\<rparr>) b0)
        (\<lambda>b. Ret (b, Inr (requeueAfter (5 * second))))) (pre2 @ e # post) z" by (simp add: reconcilePBWith_def)
    from thenPB_guard [OF this nc(2) [OF pcalls_PatchStatusPB]] show False by auto
  qed
  let ?k5 = "\<lambda>y. case y of
              Inl e \<Rightarrow> Ret (PhysicalBackup_SetDefaults b0, Inl (ErrCtx ''error defaulting PhysicalBackup'' e))
            | Inr b \<Rightarrow> PhysicalBackup_reconcile M cron m b"
  have k5: "exec no_group (bindP (askP as_pb (PatchPB (PhysicalBackup_SetDefaults b0))) ?k5) (pre2 @ e # post) z"
    using k4 nw y2 by (simp add: reconcilePBWith_def)
  obtain t3 pre3 y3 where 3: "pre2 = t3 @ pre3" "exec no_group (askP as_pb (PatchPB (PhysicalBackup_SetDefaults b0))) t3 y3" and
    k6: "exec no_group (?k5 y3) (pre3 @ e # post) z"
    by (rule bindP_guardE [OF k5 nc(2)]) (simp, rule that)
  obtain b1 where y3: "y3 = Inr b1" using k6 by (cases y3) auto
  have "pre = (GetPhysicalBackup req, APB (Inr b0)) # (?get, POpA (AMariaDB (Inr m))) # (PatchPB (PhysicalBackup_SetDefaults b0), APB (Inr b1)) # pre3"
    using 1 2 3 y1 y2 y3 by auto
  with k6 show ?thesis by (cases z) (auto simp: y3)
qed


lemma pcalls_reconcileTemplate:
  assumes "\<And>c. plain_call c \<Longrightarrow> P c" "\<And>n s. pcalls P (fn n s)"
  shows "pcalls P (reconcileTemplate cron b n fn)"
  using assms pcalls_mono [OF pcalls_PatchStatusPB assms(1)]
  by (auto simp: reconcileTemplate_def reconcileTemplateScheduled_def checkSchedule_def Let_def intro!: pcalls_intros split: sum.split option.split)

lemma pcalls_onTarget: "(\<And>i. pcalls P (k i)) \<Longrightarrow> pcalls P (onTarget b k x)"
  by (auto simp: onTarget_def split: sum.split)

lemma pcalls_scheduleSnapshot:
  "pcalls (\<lambda>c. plain_call c \<or> (\<exists>k p. c = CreateVolumeSnapshot k p)) (scheduleSnapshot M b m now sch)"
  unfolding scheduleSnapshot_def createVolumeSnapshot_def snapshotLocked_def takeSnapshot_def ensureSnapshot_def execSql_def
  by (auto intro!: pcalls_intros pcalls_onTarget pcalls_mono [OF pcalls_targetPodIndex] pcalls_mono [OF pcalls_waitProvisioned]
      pcalls_mono [OF pcalls_PatchStatusPB] split: sum.split)

lemma snapshots_no_job: "pcalls (\<lambda>c. \<forall>k p f. c \<noteq> CreatePBJob k p f) (reconcileSnapshots M cron b m)"
proof -
  have "pcalls (\<lambda>c. \<forall>k p f. c \<noteq> CreatePBJob k p f) (scheduleSnapshot M b m now sch)" for b now sch
    by (rule pcalls_mono [OF pcalls_scheduleSnapshot]) (auto simp: plain_call_def)
  then show ?thesis
    unfolding reconcileSnapshots_def listedSnapshots_def afterSnapshots_def
    by (auto intro!: pcalls_intros pcalls_reconcileTemplate pcalls_mono [OF pcalls_status(2)]
        pcalls_mono [OF pcalls_cleanupSnapshots] pcalls_mono [OF pcalls_waitForProvisionedSnapshots]
        simp: plain_call_def split: sum.split)
qed



section \<open>Snapshots are taken under a lock\<close>

lemma bindP_inside:
  assumes "exec no_group (bindP p f) (pre @ e # post) x" "\<And>a. pcalls (\<lambda>c. c \<noteq> fst e) (f a)"
  obtains post1 post2 a where "post = post1 @ post2" "exec no_group p (pre @ e # post1) a" "exec no_group (f a) post2 x"
proof -
  from assms(1) obtain t1 t2 a where t: "pre @ e # post = t1 @ t2" "exec no_group p t1 a" "exec no_group (f a) t2 x"
    unfolding exec_bind by blast
  have "e \<notin> set t2" using pcalls_exec [OF assms(2) t(3), of "fst e" "snd e"] by auto
  with t(1) obtain post1 where "t1 = pre @ e # post1" "post = post1 @ t2"
    by (auto simp: append_eq_append_conv2 Cons_eq_append_conv)
  with t(2,3) show thesis using that by blast
qed

abbreviation locks :: "int \<Rightarrow> pcall" where "locks i \<equiv> POp (Sql i LockTablesWithReadLock)"
abbreviation unlocks :: "int \<Rightarrow> pcall" where "unlocks i \<equiv> POp (Sql i UnlockTables)"

lemma patchComplete_no_sql: "pcalls (\<lambda>c. \<forall>i s. c \<noteq> POp (Sql i s)) (patchComplete M c b)"
  by (auto simp: patchComplete_def PatchStatusPB_def intro!: pcalls_intros split: sum.split)

lemma waitProvisioned_no_sql: "pcalls (\<lambda>c. \<forall>i s. c \<noteq> POp (Sql i s)) (waitProvisioned M k n b)"
  by (induction M k n b rule: waitProvisioned.induct) (auto intro!: pcalls_intros patchComplete_no_sql)

lemma takeSnapshot_no_sql: "pcalls (\<lambda>c. \<forall>i s. c \<noteq> POp (Sql i s)) (takeSnapshot M k b p)"
  unfolding takeSnapshot_def ensureSnapshot_def by (auto intro!: pcalls_intros waitProvisioned_no_sql split: sum.split)

lemma takeSnapshot_create:
  assumes "exec no_group (takeSnapshot M k b p) t x" "e \<in> set t" "creates (fst e)"
  shows "fst e = CreateVolumeSnapshot k p"
proof -
  have "pcalls (\<lambda>c. creates c \<longrightarrow> c = CreateVolumeSnapshot k p) (takeSnapshot M k b p)"
    unfolding takeSnapshot_def ensureSnapshot_def
    by (auto intro!: pcalls_intros pcalls_mono [OF pcalls_waitProvisioned] simp: plain_call_def split: sum.split)
  from pcalls_exec [OF this assms(1), of "fst e" "snd e"] assms(2,3) show ?thesis by auto
qed

lemma snapshotLocked_event:
  assumes "exec no_group (snapshotLocked M k b m i) (pre @ e # post) x" "creates (fst e)"
  shows "\<exists>pre1 pre2 post1 ru. pre = pre1 @ (locks i, POpA (AUnit (Inr ()))) # pre2 \<and> post = post1 @ [(unlocks i, ru)] \<and>
    (\<forall>c \<in> fst ` set (pre2 @ post1). \<forall>j s. c \<noteq> POp (Sql j s)) \<and> fst e = CreateVolumeSnapshot k (PVCKey m StorageVolume i)"
proof -
  note nc = not_creating [OF assms(2)]
  let ?take = "takeSnapshot M k b (PVCKey m StorageVolume i)"
  let ?rest = "bindP ?take (\<lambda>x. bindP (popP (execSql i UnlockTables)) (\<lambda>_. Ret x))"
  obtain t1 pre1 where 1: "pre = t1 @ pre1" and k1: "exec no_group (unlessErr b ''error locking tables with read lock'' (popP (execSql i LockTablesWithReadLock)) (\<lambda>_. ?rest)) (pre1 @ e # post) x"
    by (rule unlessErr_guard [OF assms(1) [unfolded snapshotLocked_def] nc(2)]) (simp, rule that)
  obtain t2 pre2 u where 2: "pre1 = t2 @ pre2" "exec no_group (popP (execSql i LockTablesWithReadLock)) t2 (Inr u)" and k2: "exec no_group ?rest (pre2 @ e # post) x"
    by (rule unlessErr_guard [OF k1 nc(2)]) (simp add: execSql_def, rule that)
  have nu: "pcalls (\<lambda>c. c \<noteq> fst e) (bindP (popP (execSql i UnlockTables)) (\<lambda>_. Ret x))" for x :: "PhysicalBackup \<times> CtrlResult result"
    by (rule nc(2)) (auto simp: execSql_def intro!: pcalls_intros)
  obtain post1 post2 y where 3: "post = post1 @ post2" "exec no_group ?take (pre2 @ e # post1) y"
    "exec no_group (bindP (popP (execSql i UnlockTables)) (\<lambda>_. Ret y)) post2 x"
    by (rule bindP_inside [OF k2 nu])
  from 3(3) obtain ru where "post2 = [(unlocks i, ru)]" by (auto simp: execSql_def exec_bind)
  moreover have "t2 = [(locks i, POpA (AUnit (Inr ())))]" using 2(2) by (auto simp: execSql_def)
  moreover have "\<forall>c \<in> fst ` set (pre2 @ post1). \<forall>j s. c \<noteq> POp (Sql j s)"
    using pcalls_exec [OF takeSnapshot_no_sql 3(2)] by fastforce
  moreover have "fst e = CreateVolumeSnapshot k (PVCKey m StorageVolume i)" using takeSnapshot_create [OF 3(2) _ assms(2)] by simp
  ultimately show ?thesis using 1 2(1) 3(1) by (metis append_Cons append_Nil)
qed

lemma scheduleSnapshot_event:
  assumes "exec no_group (scheduleSnapshot M b m now sch) (pre @ e # post) x" "creates (fst e)"
  shows "\<exists>i pre1 pre2 post1 ru post2. target_ok m i \<and> pre = pre1 @ (locks i, POpA (AUnit (Inr ()))) # pre2 \<and> post = post1 @ (unlocks i, ru) # post2 \<and>
    (\<forall>c \<in> fst ` set (pre2 @ post1). \<forall>j s. c \<noteq> POp (Sql j s)) \<and>
    fst e = CreateVolumeSnapshot \<lparr>nn_Name = getObjectName (pb_Name b) now, nn_Namespace = m_Namespace m\<rparr> (PVCKey m StorageVolume i)"
proof -
  note nc = not_creating [OF assms(2)]
  let ?key = "\<lparr>nn_Name = getObjectName (pb_Name b) now, nn_Namespace = m_Namespace m\<rparr>"
  let ?k = "\<lambda>(b', y). if y \<noteq> Inr zeroResult then Ret (b', y)
           else thenPB ''error patching status'' (PatchStatusPB (recordSchedule now sch) b') (\<lambda>b. Ret (b, Inr zeroResult))"
  obtain t1 pre1 y where 1: "pre = t1 @ pre1" and "exec no_group (physicalBackupTargetPodIndex m) t1 y" and k1: "exec no_group (if y = Inl errPhysicalBackupNoTargetPodsAvailable
      then Ret (b, Inr (requeueAfter (5 * second))) else bindP (createVolumeSnapshot M ?key b m) ?k) (pre1 @ e # post) x"
    by (rule bindP_guardE [OF assms(1) [unfolded scheduleSnapshot_def] nc(2)]) (simp, rule that)
  then have k2: "exec no_group (bindP (createVolumeSnapshot M ?key b m) ?k) (pre1 @ e # post) x" by (auto split: if_splits)
  have nk: "pcalls (\<lambda>c. c \<noteq> fst e) (?k z)" for z
    using nc(2) [OF pcalls_PatchStatusPB] by (auto intro!: pcalls_intros split: prod.split)
  obtain q1 q2 z where 2: "post = q1 @ q2" "exec no_group (createVolumeSnapshot M ?key b m) (pre1 @ e # q1) z"
    by (rule bindP_inside [OF k2 nk])
  obtain t2 pre2 w where 3: "pre1 = t2 @ pre2" "exec no_group (physicalBackupTargetPodIndex m) t2 w" and
    k3: "exec no_group (onTarget b (snapshotLocked M ?key b m) w) (pre2 @ e # q1) z"
    by (rule bindP_guardE [OF 2(2) [unfolded createVolumeSnapshot_def] nc(2)]) (simp, rule that)
  obtain i where w: "w = Inr i" using k3 by (cases w) (auto simp: onTarget_def split: if_splits)
  have "exec no_group (snapshotLocked M ?key b m i) (pre2 @ e # q1) z" using k3 by (simp add: w onTarget_def)
  from snapshotLocked_event [OF this assms(2)] obtain p1 p2 post1 ru where
    "pre2 = p1 @ (locks i, POpA (AUnit (Inr ()))) # p2" "q1 = post1 @ [(unlocks i, ru)]" "\<forall>c \<in> fst ` set (p2 @ post1). \<forall>j s. c \<noteq> POp (Sql j s)"
    "fst e = CreateVolumeSnapshot ?key (PVCKey m StorageVolume i)" by blast
  moreover from this have "pre = (t1 @ t2 @ p1) @ (locks i, POpA (AUnit (Inr ()))) # p2" "post = post1 @ (unlocks i, ru) # q2"
    using 1 2(1) 3(1) by simp_all
  moreover have "target_ok m i" using exec_targetPodIndex 3(2) w by blast
  ultimately show ?thesis by blast
qed

lemma jobs_no_snapshot: "pcalls (\<lambda>c. \<forall>k p. c \<noteq> CreateVolumeSnapshot k p) (reconcileJobs M cron b m)"
proof -
  have "pcalls (\<lambda>c. plain_call c \<or> (\<exists>k p f. c = CreatePBJob k p f)) (createJob b m now sch)" for b now sch
    unfolding createJob_def createJobAt_def launchJob_def Let_def
    by (auto intro!: pcalls_intros pcalls_onTarget pcalls_mono [OF pcalls_targetPodIndex] pcalls_mono [OF pcalls_PatchStatusPB])
  then have "pcalls (\<lambda>c. \<forall>k p. c \<noteq> CreateVolumeSnapshot k p) (createJob b m now sch)" for b now sch
    by (rule pcalls_mono) (auto simp: plain_call_def)
  then show ?thesis
    unfolding reconcileJobs_def listedJobs_def afterJobs_def
    by (auto intro!: pcalls_intros pcalls_reconcileTemplate pcalls_mono [OF pcalls_status(1)] pcalls_mono [OF pcalls_reconcileStorage]
        pcalls_mono [OF pcalls_cleanupJobs] pcalls_mono [OF pcalls_waitForRunningJobs] simp: plain_call_def split: sum.split)
qed



section \<open>What is removed\<close>

lemma cleanupJobs_event:
  assumes "exec no_group (cleanupJobs b jobs) t x" "(DeletePBJobBackground k, r) \<in> set t"
  shows "\<exists>sorted' j. sortByObjectTime (filter pj_complete jobs) = Inr sorted' \<and>
    j \<in> set (drop (nat (Deref (pb_SuccessfulJobsHistoryLimit b) 5)) sorted') \<and> k = pj_key j"
proof -
  let ?n = "nat (Deref (pb_SuccessfulJobsHistoryLimit b) 5)"
  let ?body = "\<lambda>job. bindP (askU (DeletePBJobBackground (pj_key job))) (\<lambda>x. Ret (case x of
                 Inl e \<Rightarrow> if IsNotFound e then Inr () else Inl (ErrCtx ''error deleting Job'' e)
               | Inr _ \<Rightarrow> Inr ()))"
  obtain sj where sj: "sortByObjectTime (filter pj_complete jobs) = Inr sj" and f: "exec no_group (forP (drop ?n sj) ?body) t x"
    using assms by (auto simp: cleanupJobs_def Let_def split: if_splits sum.splits)
  from exec_forP_event [OF f assms(2)] obtain j t' y where "j \<in> set (drop ?n sj)" "exec no_group (?body j) t' y" "(DeletePBJobBackground k, r) \<in> set t'" by blast
  with sj show ?thesis by (auto simp: exec_bind_Ret)
qed

text \<open>A job of a sorted list is as old as every one before it.\<close>

lemma dropped_older:
  assumes "sortByObjectTime js = Inr sj" "j \<in> set (drop n sj)"
  shows "j \<in> set js \<and> n < length js \<and> length (take n sj) = n \<and> (\<forall>i \<in> set (take n sj). object_time j \<le> object_time i) \<and> set (take n sj) \<subseteq> set js"
proof -
  have sj: "sj = sort_key (\<lambda>j. - object_time j) js" using assms(1) by (auto simp: sortByObjectTime_def split: if_splits)
  have srt: "sorted (map (\<lambda>j. - object_time j) sj)" unfolding sj by simp
  have s: "set sj = set js" "length sj = length js" unfolding sj by simp_all
  have "n < length js" using assms(2) s(2) by (metis drop_eq_Nil empty_iff list.set(1) not_le)
  moreover have "object_time j \<le> object_time i" if "i \<in> set (take n sj)" for i
  proof -
    have "map (\<lambda>j. - object_time j) sj = map (\<lambda>j. - object_time j) (take n sj) @ map (\<lambda>j. - object_time j) (drop n sj)"
      by (metis append_take_drop_id map_append)
    with srt have "\<forall>x \<in> set (take n sj). \<forall>y \<in> set (drop n sj). - object_time x \<le> - object_time y" by (simp add: sorted_append)
    then show ?thesis using that assms(2) by fastforce
  qed
  ultimately show ?thesis using s assms(2) by (auto dest: in_set_dropD in_set_takeD)
qed


lemma exec_forP_sub:
  "exec grp (forP xs body) t x \<Longrightarrow> e \<in> set t \<Longrightarrow> \<exists>z \<in> set xs. \<exists>t' y. exec grp (body z) t' y \<and> e \<in> set t' \<and> set t' \<subseteq> set t"
proof (induction xs arbitrary: t)
  case (Cons z xs)
  from Cons.prems(1) consider "exec grp (body z) t x"
    | t1 t2 a where "t = t1 @ t2" "exec grp (body z) t1 (Inr a)" "exec grp (forP xs body) t2 x"
    by (auto simp: exec_tryP)
  then show ?case
  proof cases
    case 2
    show ?thesis
    proof (cases "e \<in> set t1")
      case False
      with 2 Cons.prems(2) have "e \<in> set t2" by simp
      from Cons.IH [OF 2(3) this] 2(1) show ?thesis by fastforce
    qed (use 2 in force)
  qed (use Cons.prems(2) in force)
qed simp

lemma timedOut_event:
  assumes "exec no_group (timedOut d c) t True"
  shows "\<exists>dd cc rn. d = Some dd \<and> c = Some cc \<and> t = [(POp Now, rn)] \<and> time_Sub (as_time (un_pop rn)) cc > dd"
  using assms by (auto simp: timedOut_def exec_bind split: option.splits prod.splits)

lemma waitForRunningJobs_removes:
  assumes "exec no_group (waitForRunningJobs b jobs) t x" "(c, r) \<in> set t" "removes c"
  shows "\<exists>j d cc rn. j \<in> set jobs \<and> pj_running j \<and> c = DeletePBJobForeground (pj_key j) \<and> pb_Timeout b = Some d \<and>
    pj_CreationTimestamp j = Some cc \<and> (POp Now, rn) \<in> set t \<and> time_Sub (as_time (un_pop rn)) cc > d"
  using assms
proof (induction b jobs arbitrary: t x rule: waitForRunningJobs.induct)
  case (2 b job jobs)
  show ?case
  proof (cases "pj_running job")
    case True
    with "2.prems"(1) obtain t1 t2 ex where t: "t = t1 @ t2" "exec no_group (timedOut (pb_Timeout b) (pj_CreationTimestamp job)) t1 ex"
      and k: "exec no_group (if ex then tryP (ctxP ''error deleting expired Job'' (deleteJobSync job)) (\<lambda>_. Ret (Inr requeue)) else Ret (Inr (requeueAfter (10 * second)))) t2 x"
      by (simp add: exec_bind) (elim exE conjE, rule that)
    have "(c, r) \<notin> set t1" using pcalls_exec [OF pcalls_timedOut t(2)] "2.prems"(3) by (auto simp: plain_call_def)
    with "2.prems"(2) t(1) have c2: "(c, r) \<in> set t2" by simp
    with k have ex: "ex = True" by (cases ex) auto
    have "pcalls (\<lambda>c. removes c \<longrightarrow> c = DeletePBJobForeground (pj_key job)) (deleteJobSync job)"
      by (auto simp: deleteJobSync_def intro!: pcalls_intros all_calls_pollP)
    then have "pcalls (\<lambda>c. removes c \<longrightarrow> c = DeletePBJobForeground (pj_key job)) (tryP (ctxP ''error deleting expired Job'' (deleteJobSync job)) (\<lambda>_. Ret (Inr requeue)))"
      by (intro pcalls_intros) (simp_all add: ctxP_def all_calls_bindP)
    from pcalls_exec [OF this] k ex c2 "2.prems"(3) have "c = DeletePBJobForeground (pj_key job)" by auto
    with timedOut_event [OF t(2) [unfolded ex]] t(1) True show ?thesis by fastforce
  next
    case False
    with "2.prems"(1,2) have "pj_complete job" "exec no_group (waitForRunningJobs b jobs) t x" by (auto split: if_splits)
    with "2.IH"(1) [OF False] "2.prems"(2,3) show ?thesis by fastforce
  qed
qed simp


text \<open>Every removal of a reconciliation of Jobs is one of the cleaning or of the waiting step.\<close>

lemma pcalls_createJob: "pcalls (\<lambda>c. \<not> removes c) (createJob b m now sch)"
  unfolding createJob_def createJobAt_def launchJob_def Let_def
  by (auto intro!: pcalls_intros pcalls_onTarget pcalls_mono [OF pcalls_targetPodIndex] pcalls_mono [OF pcalls_PatchStatusPB] simp: plain_call_def)

lemma pcalls_afterJobs: "pcalls (\<lambda>c. \<not> removes c) (afterJobs cron b m jobs w)"
  unfolding afterJobs_def
  by (auto intro!: pcalls_intros pcalls_reconcileTemplate pcalls_createJob pcalls_mono [OF pcalls_reconcileStorage] simp: plain_call_def split: sum.split)

lemma pcalls_cleanupJobs_background: "pcalls (\<lambda>c. \<exists>k. c = DeletePBJobBackground k) (cleanupJobs b jobs)"
  by (auto simp: cleanupJobs_def Let_def intro!: pcalls_intros all_calls_forP split: sum.split)

lemma listedJobs_removes:
  assumes "exec no_group (listedJobs M cron b0 m jobs) t x" "(c, r) \<in> set t" "removes c"
  obtains (clean) b t1 t2 y where "exec no_group (reconcileJobStatus M b0 jobs) t1 b" "set t1 \<subseteq> set t"
      "exec no_group (cleanupJobs b jobs) t2 y" "(c, r) \<in> set t2"
    | (wait) b t1 t3 z where "exec no_group (reconcileJobStatus M b0 jobs) t1 b" "set t1 \<subseteq> set t"
      "exec no_group (waitForRunningJobs b jobs) t3 z" "(c, r) \<in> set t3" "set t3 \<subseteq> set t"
proof -
  from assms(1) obtain t1 u b where 1: "t = t1 @ u" "exec no_group (reconcileJobStatus M b0 jobs) t1 b" and
    k: "exec no_group (unlessErr b ''error cleaning up Jobs'' (cleanupJobs b jobs) (\<lambda>_. bindP (waitForRunningJobs b jobs) (afterJobs cron b m jobs))) u x"
    unfolding listedJobs_def exec_bind by blast
  from k obtain t2 v y where 2: "u = t2 @ v" "exec no_group (cleanupJobs b jobs) t2 y" and
    k2: "exec no_group (case y of Inl e \<Rightarrow> Ret (b, Inl (ErrCtx ''error cleaning up Jobs'' e)) | Inr _ \<Rightarrow> bindP (waitForRunningJobs b jobs) (afterJobs cron b m jobs)) v x"
    unfolding unlessErr_def exec_bind by blast
  have n1: "(c, r) \<notin> set t1" using pcalls_exec [OF pcalls_status(1) 1(2)] assms(3) by (auto simp: plain_call_def)
  show thesis
  proof (cases "(c, r) \<in> set t2")
    case True
    show thesis by (rule clean [OF 1(2) _ 2(2) True]) (simp add: 1(1))
  next
    case False
    with n1 assms(2) 1(1) 2(1) have cv: "(c, r) \<in> set v" by simp
    with k2 have "exec no_group (bindP (waitForRunningJobs b jobs) (afterJobs cron b m jobs)) v x" by (cases y) auto
    then obtain t3 t4 z where 3: "v = t3 @ t4" "exec no_group (waitForRunningJobs b jobs) t3 z" "exec no_group (afterJobs cron b m jobs z) t4 x"
      unfolding exec_bind by blast
    have "(c, r) \<notin> set t4" using pcalls_exec [OF pcalls_afterJobs 3(3)] assms(3) by auto
    with cv 3(1) have "(c, r) \<in> set t3" by simp
    then show thesis by (intro wait [OF 1(2) _ 3(2)]) (auto simp: 1(1) 2(1) 3(1))
  qed
qed

text \<open>
  Jobs are removed only when they may be. A reconciliation that lists Jobs deletes one in the background only when the
  backup has a schedule, the Job is complete, and at least as many other complete Jobs as the history limit demands are kept that are
  not older; and deletes one in the foreground only when it is still running and its age exceeds the timeout.
\<close>

theorem jobs_removed_when_allowed:
  assumes "exec no_group (listedJobs M cron b0 m jobs) t x" "(c, r) \<in> set t" "removes c"
  shows "\<exists>b t1 j. exec no_group (reconcileJobStatus M b0 jobs) t1 b \<and> set t1 \<subseteq> set t \<and> j \<in> set jobs \<and>
    (c = DeletePBJobBackground (pj_key j) \<and> pb_Schedule b \<noteq> None \<and> pj_complete j \<and>
       (\<exists>kept. length kept = nat (Deref (pb_SuccessfulJobsHistoryLimit b) 5) \<and>
          (\<forall>i \<in> set kept. i \<in> set jobs \<and> pj_complete i \<and> object_time j \<le> object_time i)) \<or>
     c = DeletePBJobForeground (pj_key j) \<and> pj_running j \<and>
       (\<exists>d cc rn. pb_Timeout b = Some d \<and> pj_CreationTimestamp j = Some cc \<and> (POp Now, rn) \<in> set t \<and> time_Sub (as_time (un_pop rn)) cc > d))"
proof -
  show ?thesis
  proof (cases rule: listedJobs_removes [OF assms, case_names clean wait])
    case (clean b t1 t2 y)
    from pcalls_exec [OF pcalls_cleanupJobs_background clean(3,4)] obtain k where c: "c = DeletePBJobBackground k" by blast
    from cleanupJobs_event [OF clean(3) clean(4) [unfolded c]] obtain sj j where
      j: "sortByObjectTime (filter pj_complete jobs) = Inr sj" "j \<in> set (drop (nat (Deref (pb_SuccessfulJobsHistoryLimit b) 5)) sj)" "k = pj_key j" by blast
    have sched: "pb_Schedule b \<noteq> None" using clean(3,4) by (cases "pb_Schedule b") (auto simp: cleanupJobs_def)
    note o = dropped_older [OF j(1,2)]
    let ?kept = "take (nat (Deref (pb_SuccessfulJobsHistoryLimit b) 5)) sj"
    have kept: "\<forall>i \<in> set ?kept. i \<in> set jobs \<and> pj_complete i \<and> object_time j \<le> object_time i" using o by auto
    have jj: "j \<in> set jobs" "pj_complete j" using o by auto
    show ?thesis
      by (intro exI conjI disjI1, rule clean(1), rule clean(2), rule jj(1), simp add: c j(3), rule sched, rule jj(2), use o in blast, rule kept)
  next
    case (wait b t1 t3 z)
    from waitForRunningJobs_removes [OF wait(3,4) assms(3)] obtain j where "j \<in> set jobs" "pj_running j" "c = DeletePBJobForeground (pj_key j)"
      and "\<exists>d cc rn. pb_Timeout b = Some d \<and> pj_CreationTimestamp j = Some cc \<and> (POp Now, rn) \<in> set t3 \<and> time_Sub (as_time (un_pop rn)) cc > d" by blast
    with wait(1,2,5) show ?thesis by blast
  qed
qed

text \<open>
  C37: a failed Job stops the backups. As long as a Job that has failed is listed, the reconciliation creates no
  Job and does not delete that one, however old it is: only complete Jobs are cleaned up, only running ones time out, and a Job
  that is neither is waited for. The schedule goes on only when the Job has been deleted by somebody else.
\<close>

theorem failed_job_blocks:
  assumes "exec no_group (listedJobs M cron b0 m jobs) t x" "(c, r) \<in> set t"
    and "j \<in> set jobs" "pj_failed j" "\<not> pj_complete j" "\<forall>i \<in> set jobs. pj_key i = pj_key j \<longrightarrow> i = j"
  shows "\<not> creates c \<and> c \<noteq> DeletePBJobBackground (pj_key j) \<and> c \<noteq> DeletePBJobForeground (pj_key j)"
proof -
  have nr: "\<not> pj_running j" using assms(4) by (simp add: IsJobRunning_def)
  have "\<not> creates c"
  proof
    assume cr: "creates c"
    from assms(2) obtain pre post where "t = pre @ (c, r) # post" by (meson split_list)
    with listedJobs_event [of M cron b0 m jobs pre "(c, r)" post x] assms(1,3,5) cr show False by auto
  qed
  moreover have False if d: "c \<in> {DeletePBJobBackground (pj_key j), DeletePBJobForeground (pj_key j)}"
  proof -
    have rem: "removes c" using d by auto
    show False
    proof (cases rule: listedJobs_removes [OF assms(1,2) rem, case_names clean wait])
      case (clean b t1 t2 y)
      from pcalls_exec [OF pcalls_cleanupJobs_background clean(3,4)] d have "c = DeletePBJobBackground (pj_key j)" by auto
      with cleanupJobs_event [of b jobs t2 y "pj_key j" r] clean(3,4) obtain sj i n where
        i: "sortByObjectTime (filter pj_complete jobs) = Inr sj" "i \<in> set (drop n sj)" "pj_key j = pj_key i" by blast
      with dropped_older [OF i(1,2)] assms(5,6) show False by auto
    next
      case (wait b t1 t3 z)
      from waitForRunningJobs_removes [OF wait(3,4) rem] d nr assms(6) show False by auto
    qed
  qed
  ultimately show ?thesis by blast
qed


lemma deleteSnapshot_event:
  assumes "exec no_group (deleteSnapshot ns n) t x" "(DeleteVolumeSnapshot k, r) \<in> set t"
  shows "\<exists>s. (GetVolumeSnapshot \<lparr>nn_Name = n, nn_Namespace = ns\<rparr>, ASnapshot (Inr s)) \<in> set t \<and> k = vs_key s"
proof -
  have as: "as_snapshot a = Inr s \<longleftrightarrow> a = ASnapshot (Inr s)" for a s by (cases a) auto
  let ?get = "GetVolumeSnapshot \<lparr>nn_Name = n, nn_Namespace = ns\<rparr>"
  let ?k = "\<lambda>x. case x of
       Inl e \<Rightarrow> Ret (if IsNotFound e then Inr () else Inl (ErrCtx ''error getting VolumeSnapshot'' e))
     | Inr snapshot \<Rightarrow>
         bindP (askU (DeleteVolumeSnapshot (vs_key snapshot))) (\<lambda>y. Ret (case y of
           Inl e \<Rightarrow> if IsNotFound e then Inr () else Inl (ErrCtx ''error deleting VolumeSnapshot'' e)
         | Inr _ \<Rightarrow> Inr ()))"
  from assms(1) obtain a t2 where t: "t = (?get, a) # t2" "exec no_group (?k (as_snapshot a)) t2 x"
    unfolding deleteSnapshot_def exec_bind by auto
  show ?thesis
  proof (cases "as_snapshot a")
    case (Inr s)
    with t(2) obtain r' where "t2 = [(DeleteVolumeSnapshot (vs_key s), r')]" by (auto simp: exec_bind_Ret)
    with assms(2) t(1) Inr show ?thesis by (auto simp: as)
  qed (use t assms(2) in auto)
qed

lemma cleanupSnapshots_event:
  assumes "exec no_group (cleanupSnapshots b ss) t x" "(DeleteVolumeSnapshot k, r) \<in> set t"
  shows "\<exists>rn s s' d. pb_Schedule b \<noteq> None \<and> (POp Now, rn) \<in> set t \<and> s \<in> set ss \<and> IsVolumeSnapshotReady s \<and>
    ParsePhysicalBackupTime (vs_Name s) = Inr d \<and>
    time_Sub (as_time (un_pop rn)) d > (if pb_MaxRetention b = 0 then DefaultPhysicalBackupMaxRetention else pb_MaxRetention b) \<and>
    (GetVolumeSnapshot \<lparr>nn_Name = vs_Name s, nn_Namespace = pb_Namespace b\<rparr>, ASnapshot (Inr s')) \<in> set t \<and> k = vs_key s'"
proof -
  let ?r = "if pb_MaxRetention b = 0 then DefaultPhysicalBackupMaxRetention else pb_MaxRetention b"
  let ?old = "\<lambda>now. GetOldBackupFiles ParsePhysicalBackupTime now (map vs_Name (filter IsVolumeSnapshotReady ss)) ?r"
  have pd: "bp_parseDateInBackupFile snapshotProcessor = ParsePhysicalBackupTime"
    by (simp add: snapshotProcessor_def physical_processor_def Physical_parseDate_def fun_eq_iff)
  have sched: "pb_Schedule b \<noteq> None" using assms by (cases "pb_Schedule b") (auto simp: cleanupSnapshots_def)
  then have "exec no_group (bindP nowP (\<lambda>now. forP (?old now) (deleteSnapshot (pb_Namespace b)))) t x"
    using assms(1) by (simp only: cleanupSnapshots_def Let_def pd if_False)
  then obtain rn t2 where t: "t = (POp Now, rn) # t2" "exec no_group (forP (?old (as_time (un_pop rn))) (deleteSnapshot (pb_Namespace b))) t2 x"
    unfolding exec_bind by auto
  have "(DeleteVolumeSnapshot k, r) \<in> set t2" using assms(2) t(1) by simp
  from exec_forP_sub [OF t(2) this] obtain n t3 y where n: "n \<in> set (?old (as_time (un_pop rn)))" "exec no_group (deleteSnapshot (pb_Namespace b) n) t3 y"
    "(DeleteVolumeSnapshot k, r) \<in> set t3" "set t3 \<subseteq> set t2" by blast
  from n(1) obtain s d where s: "s \<in> set ss" "IsVolumeSnapshotReady s" "n = vs_Name s" "ParsePhysicalBackupTime n = Inr d" "time_Sub (as_time (un_pop rn)) d > ?r"
    by (auto simp: GetOldBackupFiles_def split: sum.splits)
  from deleteSnapshot_event [OF n(2,3)] obtain s' where g: "(GetVolumeSnapshot \<lparr>nn_Name = n, nn_Namespace = pb_Namespace b\<rparr>, ASnapshot (Inr s')) \<in> set t3"
    and k: "k = vs_key s'" by blast
  have "(GetVolumeSnapshot \<lparr>nn_Name = vs_Name s, nn_Namespace = pb_Namespace b\<rparr>, ASnapshot (Inr s')) \<in> set t" "(POp Now, rn) \<in> set t"
    using g n(4) t(1) s(3) by auto
  then show ?thesis using sched s(1,2,5) s(4) [unfolded s(3)] k by blast
qed

lemma waitForProvisionedSnapshots_removes:
  assumes "exec no_group (waitForProvisionedSnapshots b ss) t x" "(c, r) \<in> set t" "removes c"
  shows "\<exists>s d cc rn. s \<in> set ss \<and> \<not> IsVolumeSnapshotProvisioned s \<and> c = DeleteVolumeSnapshot (vs_key s) \<and> pb_Timeout b = Some d \<and>
    vs_CreationTimestamp s = Some cc \<and> (POp Now, rn) \<in> set t \<and> time_Sub (as_time (un_pop rn)) cc > d"
  using assms
proof (induction b ss arbitrary: t x rule: waitForProvisionedSnapshots.induct)
  case (2 b s ss)
  show ?case
  proof (cases "IsVolumeSnapshotProvisioned s")
    case False
    let ?del = "ctxP ''error deleting expired VolumeSnapshot'' (askU (DeleteVolumeSnapshot (vs_key s)))"
    from "2.prems"(1) False obtain t1 t2 ex where t: "t = t1 @ t2" "exec no_group (timedOut (pb_Timeout b) (vs_CreationTimestamp s)) t1 ex"
      and k: "exec no_group (if ex then tryP ?del (\<lambda>_. Ret (Inr requeue)) else Ret (Inr (requeueAfter (10 * second)))) t2 x"
      by (simp add: exec_bind) (elim exE conjE, rule that)
    have "(c, r) \<notin> set t1" using pcalls_exec [OF pcalls_timedOut t(2)] "2.prems"(3) by (auto simp: plain_call_def)
    with "2.prems"(2) t(1) have c2: "(c, r) \<in> set t2" by simp
    with k have ex: "ex = True" by (cases ex) auto
    have "pcalls (\<lambda>c. c = DeleteVolumeSnapshot (vs_key s)) (tryP ?del (\<lambda>_. Ret (Inr requeue)))"
      by (intro pcalls_intros) (simp_all add: ctxP_def all_calls_bindP)
    from pcalls_exec [OF this] k ex c2 have "c = DeleteVolumeSnapshot (vs_key s)" by auto
    with timedOut_event [OF t(2) [unfolded ex]] t(1) False show ?thesis by fastforce
  next
    case True
    with "2.prems"(1) have "exec no_group (waitForProvisionedSnapshots b ss) t x" by simp
    with "2.IH"(1) [OF True] "2.prems"(2,3) show ?thesis by fastforce
  qed
qed simp

lemma pcalls_scheduleSnapshot_removes: "pcalls (\<lambda>c. \<not> removes c) (scheduleSnapshot M b m now sch)"
  unfolding scheduleSnapshot_def createVolumeSnapshot_def snapshotLocked_def takeSnapshot_def ensureSnapshot_def execSql_def
  by (auto intro!: pcalls_intros pcalls_onTarget pcalls_mono [OF pcalls_targetPodIndex] pcalls_mono [OF pcalls_PatchStatusPB]
      pcalls_mono [OF pcalls_waitProvisioned] simp: plain_call_def split: sum.split prod.split)

lemma pcalls_afterSnapshots: "pcalls (\<lambda>c. \<not> removes c) (afterSnapshots M cron b m ss w)"
  unfolding afterSnapshots_def
  by (auto intro!: pcalls_reconcileTemplate pcalls_scheduleSnapshot_removes simp: plain_call_def split: sum.split)

text \<open>
  C22: volume snapshots are removed only when they may be. A reconciliation that lists snapshots deletes one only when
  the backup has a schedule and a snapshot of that name is listed as ready to use and is, by the date in its name, older than the
  retention period at the time read; or when it is listed as not provisioned and its age exceeds the timeout. In particular no
  usable snapshot is removed because of the timeout, and none whose date cannot be read because of the retention.
\<close>

theorem snapshots_removed_when_allowed:
  assumes "exec no_group (listedSnapshots M cron b0 m ss) t x" "(DeleteVolumeSnapshot k, r) \<in> set t"
  shows "\<exists>b t1 s rn. exec no_group (reconcileSnapshotStatus M b0 ss) t1 b \<and> set t1 \<subseteq> set t \<and> s \<in> set ss \<and> (POp Now, rn) \<in> set t \<and>
    (IsVolumeSnapshotReady s \<and> pb_Schedule b \<noteq> None \<and>
       (\<exists>d s'. ParsePhysicalBackupTime (vs_Name s) = Inr d \<and>
         time_Sub (as_time (un_pop rn)) d > (if pb_MaxRetention b = 0 then DefaultPhysicalBackupMaxRetention else pb_MaxRetention b) \<and>
         (GetVolumeSnapshot \<lparr>nn_Name = vs_Name s, nn_Namespace = pb_Namespace b\<rparr>, ASnapshot (Inr s')) \<in> set t \<and> k = vs_key s') \<or>
     \<not> IsVolumeSnapshotProvisioned s \<and> k = vs_key s \<and>
       (\<exists>d cc. pb_Timeout b = Some d \<and> vs_CreationTimestamp s = Some cc \<and> time_Sub (as_time (un_pop rn)) cc > d))"
proof -
  let ?c = "DeleteVolumeSnapshot k"
  from assms(1) obtain t1 u b where 1: "t = t1 @ u" "exec no_group (reconcileSnapshotStatus M b0 ss) t1 b" and
    k1: "exec no_group (unlessErr b ''error cleaning up Jobs'' (cleanupSnapshots b ss) (\<lambda>_. bindP (waitForProvisionedSnapshots b ss) (afterSnapshots M cron b m ss))) u x"
    unfolding listedSnapshots_def exec_bind by blast
  from k1 obtain t2 v y where 2: "u = t2 @ v" "exec no_group (cleanupSnapshots b ss) t2 y" and
    k2: "exec no_group (case y of Inl e \<Rightarrow> Ret (b, Inl (ErrCtx ''error cleaning up Jobs'' e)) | Inr _ \<Rightarrow> bindP (waitForProvisionedSnapshots b ss) (afterSnapshots M cron b m ss)) v x"
    unfolding unlessErr_def exec_bind by blast
  have n1: "(?c, r) \<notin> set t1" using pcalls_exec [OF pcalls_status(2) 1(2)] by (force simp: plain_call_def)
  have sub: "set t1 \<subseteq> set t" "set t2 \<subseteq> set t" by (auto simp: 1(1) 2(1))
  show ?thesis
  proof (cases "(?c, r) \<in> set t2")
    case True
    from cleanupSnapshots_event [OF 2(2) this] 1(2) sub show ?thesis by blast
  next
    case False
    with n1 assms(2) 1(1) 2(1) have cv: "(?c, r) \<in> set v" by simp
    with k2 have "exec no_group (bindP (waitForProvisionedSnapshots b ss) (afterSnapshots M cron b m ss)) v x" by (cases y) auto
    then obtain t3 t4 z where 3: "v = t3 @ t4" "exec no_group (waitForProvisionedSnapshots b ss) t3 z" "exec no_group (afterSnapshots M cron b m ss z) t4 x"
      unfolding exec_bind by blast
    have "(?c, r) \<notin> set t4" using pcalls_exec [OF pcalls_afterSnapshots 3(3)] by force
    with cv 3(1) have c3: "(?c, r) \<in> set t3" by simp
    have "set t3 \<subseteq> set t" by (auto simp: 1(1) 2(1) 3(1))
    moreover from waitForProvisionedSnapshots_removes [OF 3(2) c3] obtain s d cc rn where
      "s \<in> set ss" "\<not> IsVolumeSnapshotProvisioned s" "?c = DeleteVolumeSnapshot (vs_key s)" "pb_Timeout b = Some d"
      "vs_CreationTimestamp s = Some cc" "(POp Now, rn) \<in> set t3" "time_Sub (as_time (un_pop rn)) cc > d" by auto
    ultimately show ?thesis using 1(2) sub(1) by blast
  qed
qed


section \<open>The names of backups\<close>

lemma time_Format_digits: "digit_val c = None \<Longrightarrow> c \<notin> set (time_Format v)"
  by (auto simp: time_Format_def pad4_def pad2_def)

lemma time_Format_plain:
  "CHR ''-'' \<notin> set (time_Format v)" "CHR ''.'' \<notin> set (time_Format v)" "CHR ''/'' \<notin> set (time_Format v)"
  by (rule time_Format_digits; simp add: digit_val_def)+

lemma Parse_civil_of:
  assumes "0 \<le> t" "cv_Year (civil_of t) \<le> 9999"
  shows "time_Parse (time_Format (civil_of t)) = Inr (t div second * second)"
proof -
  have "t div second div 86400 + 719528 \<ge> 0" using assms(1) by (simp add: second_def pos_imp_zdiv_nonneg_iff add_nonneg_nonneg)
  from civil_of_spec [OF this] assms(2) Parse_Format show ?thesis by simp
qed

lemma physical_file_parts:
  assumes "ext \<in> {'''', ''.bz2'', ''.gz''}"
  shows "dots (''physicalbackup-'' @ time_Format v @ ''.xb'' @ ext) =
      (''physicalbackup-'' @ time_Format v) # ''xb'' # (if ext = '''' then [] else [tl ext])"
    "Base (''physicalbackup-'' @ time_Format v @ ''.xb'' @ ext) = ''physicalbackup-'' @ time_Format v @ ''.xb'' @ ext"
proof -
  have "dots ((''physicalbackup-'' @ time_Format v) @ CHR ''.'' # ''xb'' @ ext) =
      (''physicalbackup-'' @ time_Format v) # dots (''xb'' @ ext)"
    by (rule dots_Cons) (use time_Format_plain in auto)
  moreover have "dots (''xb'' @ ext) = ''xb'' # (if ext = '''' then [] else [tl ext])"
    using assms by (auto simp: dots_def)
  ultimately show "dots (''physicalbackup-'' @ time_Format v @ ''.xb'' @ ext) =
      (''physicalbackup-'' @ time_Format v) # ''xb'' # (if ext = '''' then [] else [tl ext])" by simp
  show "Base (''physicalbackup-'' @ time_Format v @ ''.xb'' @ ext) = ''physicalbackup-'' @ time_Format v @ ''.xb'' @ ext"
    by (rule Base_plain) (use assms time_Format_plain in auto)
qed

text \<open>
  C28: the names the operator gives to backups can be read back. A Job or a snapshot named at some time after 1970 and
  before the year 10000 has that time, to the second, as the date in its name; and the file of a backup whose
  compression is valid is accepted by the processor of physical backups, with the same date and with the
  compression of the backup, where no compression counts as none.
\<close>

theorem physical_names_roundtrip:
  assumes "0 \<le> t" "cv_Year (civil_of t) \<le> 9999" "Compress_Validate (pb_Compression b) = Inr ()"
  shows "ParsePhysicalBackupTime (getObjectName n t) = Inr (t div second * second) \<and> IsValidPhysicalBackup (getObjectName n t) \<and>
    (\<exists>f. getBackupFileName b t = Inr f \<and> bp_IsValidBackupFile (physical_processor None None) f \<and>
       bp_parseDateInBackupFile (physical_processor None None) f = Inr (t div second * second) \<and>
       bp_ParseCompressionAlgorithm (physical_processor None None) f = Inr (if pb_Compression b = '''' then CompressNone else pb_Compression b))"
proof -
  let ?F = "time_Format (civil_of t)"
  note p = Parse_civil_of [OF assms(1,2)]
  have o: "ParsePhysicalBackupTime (getObjectName n t) = Inr (t div second * second)"
    using p time_Format_plain(1) by (simp add: ParsePhysicalBackupTime_def getObjectName_def Let_def split_on_append split_on_no_sep)
  define ext where "ext = (if pb_Compression b = CompressBzip2 then ''.bz2'' else if pb_Compression b = CompressGzip then ''.gz'' else '''')"
  have ext: "ext \<in> {'''', ''.bz2'', ''.gz''}" by (simp add: ext_def)
  note parts = physical_file_parts [OF ext, of "civil_of t"]
  let ?f = "''physicalbackup-'' @ ?F @ ''.xb'' @ ext"
  have alg: "pb_Compression b \<in> {'''', CompressNone, CompressBzip2, CompressGzip}" using assms(3) by (simp add: Compress_Validate_def split: if_splits)
  have f: "getBackupFileName b t = Inr ?f"
    using alg by (auto simp: getBackupFileName_def ext_def Compress_Extension_def compress_defs)
  have d: "Physical_parseDate None ?f = Inr (t div second * second)"
    unfolding Physical_parseDate_def parts using p by (simp add: HasPrefix_def TrimPrefix_def)
  have c: "Physical_ParseCompressionAlgorithm ?f = Inr (if pb_Compression b = '''' then CompressNone else pb_Compression b)"
    unfolding Physical_ParseCompressionAlgorithm_def parts
    using alg by (auto simp: ext_def CompressionFromExtension_def Compress_Validate_def compress_defs)
  have "Physical_IsValidBackupFile None None ?f"
    unfolding Physical_IsValidBackupFile_def parts Let_def option.case using d c by (simp add: HasPrefix_def)
  with f d c o show ?thesis by (auto simp: IsValidPhysicalBackup_def physical_processor_def)
qed


section \<open>Examples\<close>

definition backedUp :: MariaDB where
  "backedUp = exampleMariaDB\<lparr>m_Status := exampleStatus\<lparr>ms_CurrentPrimaryPodIndex := Some 0\<rparr>\<rparr>"

definition exampleBackup :: PhysicalBackup where
  "exampleBackup = \<lparr>pb_ObjectMeta = \<lparr>Name = ''nightly'', Namespace = ''ns'', UID = ''1''\<rparr>,
     pb_MariaDBRef = \<lparr>ref_Name = ''mdb'', ref_Namespace = '''', ref_Kind = '''', ref_WaitForIt = False\<rparr>, pb_ServiceAccountName = None,
     pb_Compression = ''gzip'', pb_StagingStorage = None,
     pb_Storage = \<lparr>pst_S3 = Some \<lparr>s3_Bucket = ''backups'', s3_Endpoint = ''minio:9000'', s3_Prefix = ''db''\<rparr>, pst_PersistentVolumeClaim = None,
       pst_Volume = None, pst_VolumeSnapshot = None\<rparr>,
     pb_Schedule = Some \<lparr>ps_Cron = ''@daily'', ps_Suspend = False, ps_Immediate = None\<rparr>, pb_MaxRetention = 3600 * second, pb_Timeout = Some (5 * second),
     pb_BackoffLimit = 0, pb_SuccessfulJobsHistoryLimit = Some 1, pb_Conditions = [], pb_LastScheduleCheckTime = None, pb_LastScheduleTime = None,
     pb_NextScheduleTime = None\<rparr>"

definition exampleSnapshotBackup :: PhysicalBackup where
  "exampleSnapshotBackup = exampleBackup\<lparr>pb_Storage := \<lparr>pst_S3 = None, pst_PersistentVolumeClaim = None, pst_Volume = None, pst_VolumeSnapshot = Some ''csi''\<rparr>\<rparr>"

definition dailyNext :: "int \<Rightarrow> int" where
  "dailyNext t = (t div (86400 * second) + 1) * (86400 * second)"

definition dailyCron :: "string \<Rightarrow> (int \<Rightarrow> int) result" where
  "dailyCron s = (if s = ''@daily'' then Inr dailyNext else Inl (ErrNew ''invalid cron''))"

text \<open>Jobs and snapshots taken earlier, by the date of their names.\<close>

definition doneJob :: "string \<Rightarrow> PBJob" where
  "doneJob n = \<lparr>pj_Name = n, pj_Namespace = ''ns'', pj_Conditions = [(JobComplete, ConditionTrue)], pj_CreationTimestamp = None\<rparr>"

definition failedJob :: PBJob where
  "failedJob = \<lparr>pj_Name = ''nightly-20000101161400'', pj_Namespace = ''ns'', pj_Conditions = [(JobFailed, ConditionTrue)], pj_CreationTimestamp = None\<rparr>"

definition readySnapshot :: "string \<Rightarrow> VolumeSnapshot" where
  "readySnapshot n = \<lparr>vs_Name = n, vs_Namespace = ''ns'', vs_CreationTimestamp = None, vs_Status = Some \<lparr>vss_BoundVolumeSnapshotContentName = Some ''content'',
     vss_CreationTime = Some 0, vss_ReadyToUse = Some True, vss_Error = None\<rparr>\<rparr>"

definition exampleJobs :: "PBJob list" where
  "exampleJobs = [doneJob ''nightly-19991231161400'', doneJob ''nightly-20000101161400'']"

fun backupWorld :: "PhysicalBackup \<Rightarrow> pcall list \<Rightarrow> pcall \<Rightarrow> panswer" where
  "backupWorld b h (GetPhysicalBackup k) = APB (Inr b)"
| "backupWorld b h (PatchPB b') = APB (Inr b')"
| "backupWorld b h (PatchPBStatus b') = APB (Inr b')"
| "backupWorld b h (ListPBJobs k) = APBJobs (Inr exampleJobs)"
| "backupWorld b h VolumeSnapshotExist = POpA (ABool (Inr True))"
| "backupWorld b h (ListVolumeSnapshots k) = ASnapshots (Inr [readySnapshot ''nightly-20000101161400''])"
| "backupWorld b h (GetVolumeSnapshot k) =
     (if nn_Name k = ''nightly-20000101161400'' then ASnapshot (Inr (readySnapshot (nn_Name k)))
      else if list_ex creates h then ASnapshot (Inr (readySnapshot (nn_Name k))) else ASnapshot (Inl (ErrNotFound '''')))"
| "backupWorld b h (POp (GetMariaDB k)) = POpA (AMariaDB (Inr backedUp))"
| "backupWorld b h (POp (GetPod k)) = POpA (APod (Inr (listedPod (nn_Name k))))"
| "backupWorld b h (POp Now) = POpA (ATime 946829640000000000)"
| "backupWorld b h _ = POpA (AUnit (Inr ()))"

lemma run_backup: "run run_no_group (backupWorld b) [] p = Some (t, x) \<Longrightarrow> exec no_group p t x"
  by (erule run_sound [rotated]) (simp add: run_no_group_def)

definition makes :: "(pcall \<Rightarrow> bool) \<Rightarrow> ((pcall, panswer) trace \<times> 'a) option \<Rightarrow> bool" where
  "makes P x = (case x of None \<Rightarrow> False | Some (t, _) \<Rightarrow> list_ex (\<lambda>(c, _). P c) t)"

lemma makes_exec:
  assumes "makes P (run run_no_group (backupWorld b) [] p)"
  obtains pre c r post x where "exec no_group p (pre @ (c, r) # post) x" "P c"
proof -
  from assms obtain t x c r where "run run_no_group (backupWorld b) [] p = Some (t, x)" "(c, r) \<in> set t" "P c"
    by (auto simp: makes_def list_ex_iff split: option.splits)
  moreover from this(2) obtain pre post where "t = pre @ (c, r) # post" by (meson split_list)
  ultimately show thesis using that run_backup [of b p t x] by simp
qed

abbreviation exampleReq :: NamespacedName where "exampleReq \<equiv> \<lparr>nn_Name = ''nightly'', nn_Namespace = ''ns''\<rparr>"

lemma example_time: "time_Format (civil_of 946829640000000000) = ''20000102161400''"
  by code_simp

abbreviation runW :: "PhysicalBackup \<Rightarrow> pcall list \<Rightarrow> 'a pop \<Rightarrow> ((pcall, panswer) trace \<times> 'a) option" where
  "runW b \<equiv> run run_no_group (backupWorld b)"

abbreviation okP :: "pcall \<Rightarrow> pcall \<times> panswer" where "okP c \<equiv> (c, POpA (AUnit (Inr ())))"

lemma example_jobs:
  "pj_complete (doneJob n)" "\<not> pj_running (doneJob n)" "\<not> pj_complete failedJob" "\<not> pj_running failedJob" "pj_failed failedJob"
  "pj_Name (doneJob n) = n" "pj_Namespace (doneJob n) = ''ns''"
  by (simp_all add: doneJob_def failedJob_def IsJobRunning_def IsJobComplete_def IsJobFailed_def Job_IsStatusConditionTrue_iff)

lemma example_sorted: "sortByObjectTime exampleJobs = Inr [doneJob ''nightly-20000101161400'', doneJob ''nightly-19991231161400'']"
  by code_simp

text \<open>The steps one by one; the object is any that has the schedule and the limits of the example.\<close>

definition like :: "PhysicalBackup \<Rightarrow> PhysicalBackup \<Rightarrow> bool" where
  "like b b' \<longleftrightarrow> (\<exists>cs n sa. b' = b\<lparr>pb_Conditions := cs, pb_BackoffLimit := n, pb_ServiceAccountName := sa\<rparr>)"

lemma run_patchComplete: "runW w h (patchComplete M c b) =
    Some ([(PatchPBStatus (setComplete M c b), APB (Inr (setComplete M c b)))], setComplete M c b)"
  by (simp add: patchComplete_def PatchStatusPB_def askP_def run_simps)

lemma run_cleanupJobs:
  "like exampleBackup b \<Longrightarrow> runW w h (cleanupJobs b exampleJobs) = Some ([okP (DeletePBJobBackground \<lparr>nn_Name = ''nightly-19991231161400'', nn_Namespace = ''ns''\<rparr>)], Inr ())"
  "runW w h (cleanupJobs b [failedJob]) = Some ([], Inr ())"
  using example_sorted
  by (auto simp: cleanupJobs_def like_def exampleBackup_def Deref_def exampleJobs_def example_jobs askP_def run_simps Let_def)

lemma run_waitForRunningJobs:
  "runW w h (waitForRunningJobs b exampleJobs) = Some ([], Inr zeroResult)"
  "runW w h (waitForRunningJobs b [failedJob]) = Some ([], Inr (requeueAfter (10 * second)))"
  by (simp_all add: exampleJobs_def example_jobs)

lemma like_refl: "like b b"
  unfolding like_def by (cases b) auto

lemma like_setComplete:
  assumes "like b b'"
  shows "like b (setComplete M c b')"
proof -
  from assms obtain cs n sa where "b' = b\<lparr>pb_Conditions := cs, pb_BackoffLimit := n, pb_ServiceAccountName := sa\<rparr>" unfolding like_def by blast
  then have "setComplete M c b' = b\<lparr>pb_Conditions := list_SetCondition M c cs, pb_BackoffLimit := n, pb_ServiceAccountName := sa\<rparr>"
    by (simp add: setComplete_def)
  then show ?thesis unfolding like_def by blast
qed

lemma like_defaults: "like exampleBackup (PhysicalBackup_SetDefaults exampleBackup)" "like exampleSnapshotBackup (PhysicalBackup_SetDefaults exampleSnapshotBackup)"
  by (simp_all add: like_def PhysicalBackup_SetDefaults_def exampleBackup_def exampleSnapshotBackup_def second_def)

lemma nz: "requeueAfter (10 * second) \<noteq> zeroResult" "requeue \<noteq> zeroResult"
  by (simp_all add: zeroResult_def second_def)

lemma run_afterJobs: "res \<noteq> zeroResult \<Longrightarrow> runW w h (afterJobs cron b m jobs (Inr res)) = Some ([], b, Inr res)"
  by (simp add: afterJobs_def)

lemma run_listedJobs_failed:
  "\<exists>b'. runW w h (listedJobs M cron b m [failedJob]) = Some ([(PatchPBStatus b', APB (Inr b'))], b', Inr (requeueAfter (10 * second)))"
  by (simp add: listedJobs_def unlessErr_def reconcileJobStatus_def run_simps run_patchComplete run_cleanupJobs(2) run_waitForRunningJobs(2) run_afterJobs [OF nz(1)] del: waitForRunningJobs.simps)


lemma backedUp_simps: "\<not> IsHAEnabled backedUp" "ms_CurrentPrimaryPodIndex (m_Status backedUp) = Some 0" "PodName (m_ObjectMeta backedUp) 0 = ''mdb-0''"
  "m_Namespace backedUp = ''ns''" "nn_Name (PVCKey backedUp StorageVolume 0) = ''storage-mdb-0''"
  by code_simp+

lemma run_createJob:
  assumes "like exampleBackup b"
  shows "runW w h (createJob b backedUp 946829640000000000 sch) =
    Some ([(POp (GetPod \<lparr>nn_Name = ''mdb-0'', nn_Namespace = ''ns''\<rparr>), POpA (APod (Inr (listedPod ''mdb-0'')))),
      okP (BuildPBJob \<lparr>nn_Name = ''nightly-20000102161400'', nn_Namespace = ''ns''\<rparr> ''mdb-0'' ''physicalbackup-20000102161400.xb.gz''),
      (PatchPBStatus (recordSchedule 946829640000000000 sch b), APB (Inr (recordSchedule 946829640000000000 sch b)))] @ [okP (CreatePBJob \<lparr>nn_Name = ''nightly-20000102161400'', nn_Namespace = ''ns''\<rparr> ''mdb-0'' ''physicalbackup-20000102161400.xb.gz'')], recordSchedule 946829640000000000 sch b, Inr zeroResult)"
proof -
  have i: "runW w h (physicalBackupTargetPodIndex backedUp) = Some ([], Inr 0)" for w h
    by (simp add: physicalBackupTargetPodIndex_def backedUp_simps)
  have f: "getBackupFileName b 946829640000000000 = Inr ''physicalbackup-20000102161400.xb.gz''"
    using assms by (auto simp: getBackupFileName_def example_time like_def exampleBackup_def Compress_Extension_def compress_defs)
  have o: "getObjectName (pb_Name b) 946829640000000000 = ''nightly-20000102161400''"
    using assms by (auto simp: getObjectName_def example_time like_def exampleBackup_def)
  show ?thesis
    by (simp add: createJob_def run_simps i onTarget_def createJobAt_def backedUp_simps f o unlessErr_def ask_def listedPod_def launchJob_def thenPB_def
        PatchStatusPB_def askP_def Let_def)
qed

lemma run_now: "runW w h nowP = Some ([(POp Now, POpA (ATime 946829640000000000))], 946829640000000000)"
  by (simp add: nowP_def ask_def)

lemma run_template:
  assumes "like exampleBackup b \<or> like exampleSnapshotBackup b"
  shows "runW w h (reconcileTemplate dailyCron b n fn) = run_then (Some ([(POp Now, POpA (ATime 946829640000000000))], ()))
    (\<lambda>t _. runW w (h @ map fst t) (fn 946829640000000000 (Some dailyNext)))"
proof -
  have "pb_Schedule b = Some \<lparr>ps_Cron = ''@daily'', ps_Suspend = False, ps_Immediate = None\<rparr>" "pb_LastScheduleCheckTime b = None"
    using assms by (auto simp: like_def exampleBackup_def exampleSnapshotBackup_def)
  then show ?thesis
    by (simp add: reconcileTemplate_def reconcileTemplateScheduled_def Deref_def dailyCron_def run_simps run_now checkSchedule_def)
qed

lemma run_listedJobs:
  assumes "like exampleBackup b"
  shows "makes (\<lambda>c. case c of DeletePBJobBackground k \<Rightarrow> nn_Name k = ''nightly-19991231161400'' | _ \<Rightarrow> False)
      (runW w h (listedJobs list_meta dailyCron b backedUp exampleJobs))"
    "makes (\<lambda>c. case c of CreatePBJob k p f \<Rightarrow> nn_Name k = ''nightly-20000102161400'' \<and> p = ''mdb-0'' \<and> f = ''physicalbackup-20000102161400.xb.gz'' | _ \<Rightarrow> False)
      (runW w h (listedJobs list_meta dailyCron b backedUp exampleJobs))"
proof -
  let ?b = "setComplete list_meta (jobCompletion b exampleJobs) b"
  have l: "like exampleBackup ?b" by (rule like_setComplete [OF assms])
  have s: "runW w h (reconcileStorage ?b) = Some ([], Inr ())" for h
    using l by (auto simp: reconcileStorage_def like_def exampleBackup_def Deref_def zeroBackupStagingStorage_def run_simps)
  note t = run_template [OF disjI1 [OF l]]
  obtain tj bj where c: "runW w h' (createJob ?b backedUp 946829640000000000 sch) = Some (tj sch @
      [okP (CreatePBJob \<lparr>nn_Name = ''nightly-20000102161400'', nn_Namespace = ''ns''\<rparr> ''mdb-0'' ''physicalbackup-20000102161400.xb.gz'')], bj sch, Inr zeroResult)" for h' sch
    by (rule that, rule run_createJob [OF l])
  show "makes (\<lambda>c. case c of DeletePBJobBackground k \<Rightarrow> nn_Name k = ''nightly-19991231161400'' | _ \<Rightarrow> False)
      (runW w h (listedJobs list_meta dailyCron b backedUp exampleJobs))"
    "makes (\<lambda>c. case c of CreatePBJob k p f \<Rightarrow> nn_Name k = ''nightly-20000102161400'' \<and> p = ''mdb-0'' \<and> f = ''physicalbackup-20000102161400.xb.gz'' | _ \<Rightarrow> False)
      (runW w h (listedJobs list_meta dailyCron b backedUp exampleJobs))"
    by (simp_all add: listedJobs_def unlessErr_def reconcileJobStatus_def run_simps run_patchComplete run_cleanupJobs(1) [OF l] run_waitForRunningJobs(1) afterJobs_def
        askP_def s t c makes_def del: waitForRunningJobs.simps)
qed

lemma makesE:
  assumes "makes P r"
  obtains t x y where "r = Some (t, x, y)" "list_ex (\<lambda>(c, _). P c) t"
  using assms by (auto simp: makes_def split: option.splits)

lemma run_reconcilers:
  "runW w h (reconcileJobs M cron b m) = run_then (Some ([(ListPBJobs (pb_key b), APBJobs (Inr exampleJobs))], ()))
    (\<lambda>t _. runW w (h @ map fst t) (listedJobs M cron b m exampleJobs))"
  "runW w h (reconcileSnapshots M cron b m) = run_then (Some ([(VolumeSnapshotExist, POpA (ABool (Inr True))),
      (ListVolumeSnapshots (pb_key b), ASnapshots (Inr [readySnapshot ''nightly-20000101161400'']))], ()))
    (\<lambda>t _. runW w (h @ map fst t) (listedSnapshots M cron b m [readySnapshot ''nightly-20000101161400'']))"
  by (simp_all add: reconcileJobs_def reconcileSnapshots_def unlessErr_def askP_def run_simps option.map_comp comp_def case_prod_unfold)

lemma run_Reconcile:
  assumes "ref_WaitForIt (pb_MariaDBRef w) = False" "runW w h (PhysicalBackup_reconcile M cron backedUp (PhysicalBackup_SetDefaults w)) = Some (t, b, x)"
    "h = [GetPhysicalBackup k, POp (GetMariaDB (refKey (pb_MariaDBRef w) (pb_Namespace w))), PatchPB (PhysicalBackup_SetDefaults w)]"
  shows "\<exists>t0. runW w [] (PhysicalBackup_Reconcile M cron k) = Some (t0 @ t, x)"
  using assms(1,2) unfolding assms(3) by (simp add: PhysicalBackup_Reconcile_def reconcilePBWith_def askP_def ask_def run_simps)

lemma makes_Reconcile:
  assumes "ref_WaitForIt (pb_MariaDBRef w) = False"
    "makes P (runW w [GetPhysicalBackup k, POp (GetMariaDB (refKey (pb_MariaDBRef w) (pb_Namespace w))), PatchPB (PhysicalBackup_SetDefaults w)]
      (PhysicalBackup_reconcile M cron backedUp (PhysicalBackup_SetDefaults w)))"
  shows "makes P (runW w [] (PhysicalBackup_Reconcile M cron k))"
proof -
  from assms(2) obtain t b x where t: "runW w [GetPhysicalBackup k, POp (GetMariaDB (refKey (pb_MariaDBRef w) (pb_Namespace w))), PatchPB (PhysicalBackup_SetDefaults w)]
      (PhysicalBackup_reconcile M cron backedUp (PhysicalBackup_SetDefaults w)) = Some (t, b, x)" "list_ex (\<lambda>(c, _). P c) t" by (rule makesE)
  from run_Reconcile [OF assms(1) t(1) refl] t(2) show ?thesis by (auto simp: makes_def)
qed

lemma job_run:
  "makes (\<lambda>c. case c of CreatePBJob k p f \<Rightarrow> nn_Name k = ''nightly-20000102161400'' \<and> p = ''mdb-0'' \<and> f = ''physicalbackup-20000102161400.xb.gz'' | _ \<Rightarrow> False)
     (runW exampleBackup [] (PhysicalBackup_Reconcile list_meta dailyCron exampleReq))"
proof -
  have w: "ref_WaitForIt (pb_MariaDBRef exampleBackup) = False" "pst_VolumeSnapshot (pb_Storage (PhysicalBackup_SetDefaults exampleBackup)) = None"
    by (simp_all add: exampleBackup_def PhysicalBackup_SetDefaults_def)
  let ?h = "[GetPhysicalBackup exampleReq, POp (GetMariaDB (refKey (pb_MariaDBRef exampleBackup) (pb_Namespace exampleBackup))),
      PatchPB (PhysicalBackup_SetDefaults exampleBackup), ListPBJobs (pb_key (PhysicalBackup_SetDefaults exampleBackup))]"
  obtain t b y where "runW exampleBackup ?h (listedJobs list_meta dailyCron (PhysicalBackup_SetDefaults exampleBackup) backedUp exampleJobs) = Some (t, b, y)"
    "list_ex (\<lambda>(c, _). case c of CreatePBJob k p f \<Rightarrow> nn_Name k = ''nightly-20000102161400'' \<and> p = ''mdb-0'' \<and> f = ''physicalbackup-20000102161400.xb.gz'' | _ \<Rightarrow> False) t"
    by (rule makesE [OF run_listedJobs(2) [OF like_defaults(1)]])
  with w(2) show ?thesis by (intro makes_Reconcile [OF w(1)]) (simp add: PhysicalBackup_reconcile_def run_reconcilers(1) makes_def)
qed

lemma run_cleanupSnapshots:
  assumes "like exampleSnapshotBackup b"
  shows "runW w h (cleanupSnapshots b [readySnapshot ''nightly-20000101161400'']) =
    Some ([(POp Now, POpA (ATime 946829640000000000)),
      (GetVolumeSnapshot \<lparr>nn_Name = ''nightly-20000101161400'', nn_Namespace = ''ns''\<rparr>, ASnapshot (Inr (readySnapshot ''nightly-20000101161400''))),
      okP (DeleteVolumeSnapshot \<lparr>nn_Name = ''nightly-20000101161400'', nn_Namespace = ''ns''\<rparr>)], Inr ())"
proof -
  have o: "GetOldBackupFiles (bp_parseDateInBackupFile snapshotProcessor) 946829640000000000 [''nightly-20000101161400''] (3600 * second) = [''nightly-20000101161400'']"
    by code_simp
  have r: "IsVolumeSnapshotReady (readySnapshot n)" "vs_Namespace (readySnapshot n) = ''ns''" "vs_Name (readySnapshot n) = n" for n
    by (simp_all add: readySnapshot_def IsVolumeSnapshotReady_def IsVolumeSnapshotProvisioned_def)
  have b: "pb_Schedule b \<noteq> None" "pb_MaxRetention b = 3600 * second" "pb_Namespace b = ''ns''" "second \<noteq> 0"
    using assms by (auto simp: like_def exampleSnapshotBackup_def exampleBackup_def second_def)
  show ?thesis using b(1)
    by (simp add: cleanupSnapshots_def Let_def b(2-4) run_simps run_now r o deleteSnapshot_def askP_def)
qed

lemma run_scheduleSnapshot:
  assumes "like exampleSnapshotBackup b" "\<not> list_ex creates h"
  shows "makes (\<lambda>c. case c of CreateVolumeSnapshot k p \<Rightarrow> nn_Name k = ''nightly-20000102161400'' \<and> nn_Name p = ''storage-mdb-0'' | _ \<Rightarrow> False)
    (runW w h (scheduleSnapshot M b backedUp 946829640000000000 sch))"
proof -
  have i: "runW w h (physicalBackupTargetPodIndex backedUp) = Some ([], Inr 0)" for w h
    by (simp add: physicalBackupTargetPodIndex_def backedUp_simps)
  have o: "getObjectName (pb_Name b) 946829640000000000 = ''nightly-20000102161400''" "pb_Timeout b = Some (5 * second)"
    using assms(1) by (auto simp: getObjectName_def example_time like_def exampleSnapshotBackup_def exampleBackup_def)
  obtain n where n: "poll_fuel (5 * second) = Suc n" by (simp add: poll_fuel_def)
  have r: "IsVolumeSnapshotProvisioned (readySnapshot n)" for n by (simp add: readySnapshot_def IsVolumeSnapshotProvisioned_def)
  show ?thesis using assms(2)
    by (simp add: scheduleSnapshot_def run_simps i createVolumeSnapshot_def onTarget_def backedUp_simps o snapshotLocked_def unlessErr_def ask_def execSql_def
        takeSnapshot_def ensureSnapshot_def askP_def Deref_def n r thenPB_def PatchStatusPB_def makes_def)
qed

lemma run_listedSnapshots:
  assumes "like exampleSnapshotBackup b" "\<not> list_ex creates h"
  shows "makes (\<lambda>c. case c of CreateVolumeSnapshot k p \<Rightarrow> nn_Name k = ''nightly-20000102161400'' \<and> nn_Name p = ''storage-mdb-0'' | _ \<Rightarrow> False)
      (runW w h (listedSnapshots list_meta dailyCron b backedUp [readySnapshot ''nightly-20000101161400'']))"
    "makes (\<lambda>c. case c of DeleteVolumeSnapshot k \<Rightarrow> nn_Name k = ''nightly-20000101161400'' | _ \<Rightarrow> False)
      (runW w h (listedSnapshots list_meta dailyCron b backedUp [readySnapshot ''nightly-20000101161400'']))"
proof -
  let ?ss = "[readySnapshot ''nightly-20000101161400'']"
  let ?b = "setComplete list_meta (snapshotCompletion b ?ss) b"
  have l: "like exampleSnapshotBackup ?b" by (rule like_setComplete [OF assms(1)])
  have w: "waitForProvisionedSnapshots ?b ?ss = Ret (Inr zeroResult)" by (simp add: readySnapshot_def IsVolumeSnapshotProvisioned_def)
  let ?h = "h @ [PatchPBStatus ?b, POp Now, GetVolumeSnapshot \<lparr>nn_Name = ''nightly-20000101161400'', nn_Namespace = ''ns''\<rparr>,
      DeleteVolumeSnapshot \<lparr>nn_Name = ''nightly-20000101161400'', nn_Namespace = ''ns''\<rparr>, POp Now]"
  have "\<not> list_ex creates ?h" using assms(2) by simp
  then obtain t b' y where t: "runW w ?h (scheduleSnapshot list_meta ?b backedUp 946829640000000000 (Some dailyNext)) = Some (t, b', y)"
    "list_ex (\<lambda>(c, _). case c of CreateVolumeSnapshot k p \<Rightarrow> nn_Name k = ''nightly-20000102161400'' \<and> nn_Name p = ''storage-mdb-0'' | _ \<Rightarrow> False) t"
    by (rule makesE [OF run_scheduleSnapshot [OF l]])
  show "makes (\<lambda>c. case c of CreateVolumeSnapshot k p \<Rightarrow> nn_Name k = ''nightly-20000102161400'' \<and> nn_Name p = ''storage-mdb-0'' | _ \<Rightarrow> False)
      (runW w h (listedSnapshots list_meta dailyCron b backedUp ?ss))"
    "makes (\<lambda>c. case c of DeleteVolumeSnapshot k \<Rightarrow> nn_Name k = ''nightly-20000101161400'' | _ \<Rightarrow> False)
      (runW w h (listedSnapshots list_meta dailyCron b backedUp ?ss))"
    using t by (simp_all add: listedSnapshots_def unlessErr_def reconcileSnapshotStatus_def run_simps run_patchComplete run_cleanupSnapshots [OF l] w afterSnapshots_def
        run_template [OF disjI2 [OF l]] makes_def del: waitForProvisionedSnapshots.simps)
qed

lemma snapshot_run:
  "makes (\<lambda>c. case c of CreateVolumeSnapshot k p \<Rightarrow> nn_Name k = ''nightly-20000102161400'' \<and> nn_Name p = ''storage-mdb-0'' | _ \<Rightarrow> False)
     (runW exampleSnapshotBackup [] (PhysicalBackup_Reconcile list_meta dailyCron exampleReq))"
proof -
  have w: "ref_WaitForIt (pb_MariaDBRef exampleSnapshotBackup) = False" "pst_VolumeSnapshot (pb_Storage (PhysicalBackup_SetDefaults exampleSnapshotBackup)) \<noteq> None"
    by (simp_all add: exampleBackup_def exampleSnapshotBackup_def PhysicalBackup_SetDefaults_def)
  let ?h = "[GetPhysicalBackup exampleReq, POp (GetMariaDB (refKey (pb_MariaDBRef exampleSnapshotBackup) (pb_Namespace exampleSnapshotBackup))),
      PatchPB (PhysicalBackup_SetDefaults exampleSnapshotBackup), VolumeSnapshotExist, ListVolumeSnapshots (pb_key (PhysicalBackup_SetDefaults exampleSnapshotBackup))]"
  have "\<not> list_ex creates ?h" by simp
  then obtain t b y where "runW exampleSnapshotBackup ?h (listedSnapshots list_meta dailyCron (PhysicalBackup_SetDefaults exampleSnapshotBackup) backedUp
      [readySnapshot ''nightly-20000101161400'']) = Some (t, b, y)"
    "list_ex (\<lambda>(c, _). case c of CreateVolumeSnapshot k p \<Rightarrow> nn_Name k = ''nightly-20000102161400'' \<and> nn_Name p = ''storage-mdb-0'' | _ \<Rightarrow> False) t"
    by (rule makesE [OF run_listedSnapshots(1) [OF like_defaults(2)]])
  with w(2) show ?thesis by (intro makes_Reconcile [OF w(1)]) (simp add: PhysicalBackup_reconcile_def run_reconcilers(2) makes_def)
qed



theorem jobs_removed_when_allowed_witness:
  "\<exists>t x c r j. exec no_group (listedJobs list_meta dailyCron exampleBackup backedUp exampleJobs) t x \<and> (c, r) \<in> set t \<and>
     removes c \<and> j \<in> set exampleJobs \<and> c = DeletePBJobBackground (pj_key j)"
proof -
  from makes_exec [OF run_listedJobs(1) [OF like_refl]] obtain pre c r post x where e: "exec no_group (listedJobs list_meta dailyCron exampleBackup backedUp exampleJobs) (pre @ (c, r) # post) x"
    and c: "case c of DeletePBJobBackground k \<Rightarrow> nn_Name k = ''nightly-19991231161400'' | _ \<Rightarrow> False" by blast
  have m: "(c, r) \<in> set (pre @ (c, r) # post)" by simp
  from c obtain k where k: "c = DeletePBJobBackground k" by (cases c) auto
  then have rm: "removes c" by simp
  from jobs_removed_when_allowed [OF e m rm] obtain j where "j \<in> set exampleJobs" "c = DeletePBJobBackground (pj_key j)" using k by auto
  with e m rm show ?thesis by blast
qed

theorem failed_job_blocks_witness:
  "\<exists>t x. exec no_group (listedJobs list_meta dailyCron exampleBackup backedUp [failedJob]) t x \<and> t \<noteq> [] \<and> (\<forall>e \<in> set t. \<not> creates (fst e))"
proof -
  from run_listedJobs_failed obtain t x where "runW exampleBackup [] (listedJobs list_meta dailyCron exampleBackup backedUp [failedJob]) = Some (t, x)" "t \<noteq> []"
    by blast
  then have e: "exec no_group (listedJobs list_meta dailyCron exampleBackup backedUp [failedJob]) t x" "t \<noteq> []" by (simp_all add: run_backup)
  have "\<not> creates c" if "(c, r) \<in> set t" for c r
    using failed_job_blocks [OF e(1) that _ example_jobs(5,3)] by simp
  with e show ?thesis by fastforce
qed

lemma no_creates: "\<not> list_ex creates []"
  by simp

theorem snapshots_removed_when_allowed_witness:
  "\<exists>t x k r s. exec no_group (listedSnapshots list_meta dailyCron exampleSnapshotBackup backedUp [readySnapshot ''nightly-20000101161400'']) t x \<and>
     (DeleteVolumeSnapshot k, r) \<in> set t \<and> s \<in> set [readySnapshot ''nightly-20000101161400'']"
proof -
  from makes_exec [OF run_listedSnapshots(2) [OF like_refl no_creates]] obtain pre c r post x where
    e: "exec no_group (listedSnapshots list_meta dailyCron exampleSnapshotBackup backedUp [readySnapshot ''nightly-20000101161400'']) (pre @ (c, r) # post) x"
    and c: "case c of DeleteVolumeSnapshot k \<Rightarrow> nn_Name k = ''nightly-20000101161400'' | _ \<Rightarrow> False" by blast
  from c obtain k where k: "c = DeleteVolumeSnapshot k" by (cases c) auto
  have m: "(DeleteVolumeSnapshot k, r) \<in> set (pre @ (c, r) # post)" by (simp add: k)
  from snapshots_removed_when_allowed [OF e m] obtain s where s: "s \<in> set [readySnapshot ''nightly-20000101161400'']" by (elim exE conjE) (rule that)
  show ?thesis by (intro exI conjI, rule e, rule m, rule s)
qed

theorem physical_names_roundtrip_witness:
  "ParsePhysicalBackupTime (getObjectName ''nightly'' 946829640000000000) = Inr 946829640000000000 \<and>
   getBackupFileName exampleBackup 946829640000000000 = Inr ''physicalbackup-20000102161400.xb.gz''"
proof -
  have "cv_Year (civil_of 946829640000000000) \<le> 9999" "Compress_Validate (pb_Compression exampleBackup) = Inr ()"
    "getBackupFileName exampleBackup 946829640000000000 = Inr ''physicalbackup-20000102161400.xb.gz''" by code_simp+
  with physical_names_roundtrip [of 946829640000000000 exampleBackup "''nightly''"] show ?thesis by (simp add: second_def)
qed

end
